(* ===== verification/CPrelude.thy ===== *)
theory CPrelude
  imports Main "HOL-Library.Word" "HOL-Library.Monad_Syntax"
begin

text \<open>
  The C machine model every component of the development shares.

  \<^item> The fixed-width types of the kernel headers (\<open>__u8\<close> to \<open>__u64\<close>) are machine words;
    \<open>int\<close> is a 32-bit word, because the operands of every expression modelled here are
    promoted from narrower unsigned types and stay non-negative until they are stored.
  \<^item> A C array is a list together with its length. Reading or writing past its end is the
    result \<^term>\<open>None\<close>: a theorem that an operation returns \<open>Some\<close> is a memory-safety theorem.
  \<^item> The expressions the headers repeat (big-endian halves, BCD digits, bit fields) are named
    once, with the lemmas that invert them.
\<close>

unbundle bit_operations_syntax

section \<open>Types\<close>

type_synonym u8 = "8 word"
type_synonym u16 = "16 word"
type_synonym u32 = "32 word"
type_synonym u64 = "64 word"
type_synonym cint = "32 word"

section \<open>Proof collections\<close>

named_theorems c_array \<open>unfolding of array reads and writes\<close>
named_theorems c_expr \<open>unfolding of the named C expressions\<close>

section \<open>Arrays\<close>

definition rd :: "'a list \<Rightarrow> nat \<Rightarrow> 'a option" where
  "rd xs i = (if i < length xs then Some (xs ! i) else None)"

definition wr :: "'a list \<Rightarrow> nat \<Rightarrow> 'a \<Rightarrow> 'a list option" where
  "wr xs i v = (if i < length xs then Some (xs[i := v]) else None)"

text \<open>\<open>memcpy(dst + d, src + s, n)\<close>: every byte read and written has to exist.\<close>

definition memcpy :: "'a list \<Rightarrow> nat \<Rightarrow> 'a list \<Rightarrow> nat \<Rightarrow> nat \<Rightarrow> 'a list option" where
  "memcpy dst d src s n =
     (if d + n \<le> length dst \<and> s + n \<le> length src
      then Some (take d dst @ take n (drop s src) @ drop (d + n) dst) else None)"

text \<open>\<open>strlen\<close> of a buffer: the index of its first NUL byte; running off the end is an error.\<close>

fun strlen :: "u8 list \<Rightarrow> nat option" where
  "strlen [] = None"
| "strlen (c # cs) = (if c = 0 then Some 0 else map_option Suc (strlen cs))"

text \<open>The C string a buffer holds.\<close>

definition cstr :: "u8 list \<Rightarrow> u8 list option" where
  "cstr buf = map_option (\<lambda>n. take n buf) (strlen buf)"

lemma rd_Some [simp]: "i < length xs \<Longrightarrow> rd xs i = Some (xs ! i)"
  by (simp add: rd_def)

lemma rd_None [simp]: "length xs \<le> i \<Longrightarrow> rd xs i = None"
  by (simp add: rd_def)

lemma wr_Some [simp]: "i < length xs \<Longrightarrow> wr xs i v = Some (xs[i := v])"
  by (simp add: wr_def)

lemma wr_length: "wr xs i v = Some ys \<Longrightarrow> length ys = length xs"
  by (auto simp: wr_def split: if_splits)

lemma rd_wr: "wr xs i v = Some ys \<Longrightarrow> rd ys j = (if i = j then Some v else rd xs j)"
  by (auto simp: wr_def rd_def split: if_splits)

lemma memcpy_length: "memcpy dst d src s n = Some r \<Longrightarrow> length r = length dst"
  by (auto simp: memcpy_def split: if_splits)

lemma memcpy_Some [simp]:
  "d + n \<le> length dst \<Longrightarrow> s + n \<le> length src \<Longrightarrow>
   memcpy dst d src s n = Some (take d dst @ take n (drop s src) @ drop (d + n) dst)"
  by (simp add: memcpy_def)

lemma strlen_append_NUL: "0 \<notin> set s \<Longrightarrow> strlen (s @ 0 # t) = Some (length s)"
  by (induction s) auto

lemma cstr_append_NUL: "0 \<notin> set s \<Longrightarrow> cstr (s @ 0 # t) = Some s"
  by (simp add: cstr_def strlen_append_NUL)

lemma cstr_buffer:
  "0 \<notin> set s \<Longrightarrow> length s < length buf \<Longrightarrow> cstr (s @ (drop (length s) buf)[0 := 0]) = Some s"
  by (cases "drop (length s) buf") (auto simp: cstr_append_NUL)

lemma strlen_total: "\<exists>n \<le> length s. strlen (s @ 0 # t) = Some n"
  by (induction s) (auto intro: le_SucI)

lemma strlen_bound: "strlen s = Some n \<Longrightarrow> n < length s"
  by (induction s arbitrary: n) (auto split: if_splits)

text \<open>List updates and reads at numeral positions, so that explicit arrays compute.\<close>

lemma list_update_Cons_numeral [simp]:
  "(x # xs)[numeral k := y] = x # xs[pred_numeral k := y]"
  by (simp add: numeral_eq_Suc)

lemma list_update_Cons_one [simp]: "(x # xs)[1 := y] = x # xs[0 := y]"
  by (simp add: One_nat_def)

lemma nth_Cons_one [simp]: "(x # xs) ! 1 = xs ! 0"
  by (simp add: One_nat_def)

lemma take_Cons_numeral_add [simp]:
  "take (numeral k + n) (x # xs) = x # take (pred_numeral k + n) xs"
  by (simp add: numeral_eq_Suc)

lemma drop_Cons_numeral_add [simp]:
  "drop (numeral k + n) (x # xs) = drop (pred_numeral k + n) xs"
  by (simp add: numeral_eq_Suc)

section \<open>Bit masks\<close>

text \<open>The mask literals of the sources as \<^const>\<open>mask\<close>, whose bits the simplifier knows.\<close>

lemma mask_literals:
  "(3 :: 'a::len word) = mask 2" "(7 :: 'a word) = mask 3" "(0xf :: 'a word) = mask 4"
  "(0x1f :: 'a word) = mask 5" "(0x3f :: 'a word) = mask 6" "(0x7f :: 'a word) = mask 7"
  "(0xff :: 'a word) = mask 8" "(0x3ff :: 'a word) = mask 10" "(0xfff :: 'a word) = mask 12"
  "(0xffff :: 'a word) = mask 16"
  by (simp_all add: mask_eq_exp_minus_1)

lemma word_AND_mask_literals:
  "(w :: 'a::len word) AND 3 = take_bit 2 w" "w AND 7 = take_bit 3 w" "w AND 0xf = take_bit 4 w"
  "w AND 0x1f = take_bit 5 w" "w AND 0x3f = take_bit 6 w" "w AND 0x7f = take_bit 7 w"
  "w AND 0xff = take_bit 8 w" "w AND 0x3ff = take_bit 10 w" "w AND 0xfff = take_bit 12 w"
  "w AND 0xffff = take_bit 16 w"
  by (simp_all add: mask_literals take_bit_eq_mask)

lemma bit_below: "(w :: 'a::len word) < 2 ^ k \<Longrightarrow> bit w n \<Longrightarrow> n < k"
  by (metis bit_and_iff bit_mask_iff less_mask_eq)

lemma bit_below_literals:
  "(w :: 'a::len word) < 2 \<Longrightarrow> bit w n \<Longrightarrow> n < 1" "w < 4 \<Longrightarrow> bit w n \<Longrightarrow> n < 2"
  "w < 8 \<Longrightarrow> bit w n \<Longrightarrow> n < 3" "w < 16 \<Longrightarrow> bit w n \<Longrightarrow> n < 4"
  "w < 32 \<Longrightarrow> bit w n \<Longrightarrow> n < 5" "w < 64 \<Longrightarrow> bit w n \<Longrightarrow> n < 6"
  "w < 128 \<Longrightarrow> bit w n \<Longrightarrow> n < 7" "w < 256 \<Longrightarrow> bit w n \<Longrightarrow> n < 8"
  "w < 1024 \<Longrightarrow> bit w n \<Longrightarrow> n < 10" "w < 4096 \<Longrightarrow> bit w n \<Longrightarrow> n < 12"
  using bit_below [of w 1 n] bit_below [of w 2 n] bit_below [of w 3 n] bit_below [of w 4 n]
    bit_below [of w 5 n] bit_below [of w 6 n] bit_below [of w 7 n] bit_below [of w 8 n]
    bit_below [of w 10 n] bit_below [of w 12 n]
  by simp_all

text \<open>Rounding down to a power of two.\<close>

lemma unat_clear_low: "unat (x AND NOT (mask k) :: 'a::len word) = unat x div 2 ^ k * 2 ^ k"
proof -
  have "x AND NOT (mask k) = push_bit k (drop_bit k x)"
    by (rule bit_word_eqI) (auto simp: bit_simps)
  also have "\<dots> = x - take_bit k x"
    using bits_ident [of k x] by (simp add: algebra_simps)
  finally have eq: "x AND NOT (mask k) = x - take_bit k x" .
  have t: "unat (take_bit k x) = unat x mod 2 ^ k"
    by (metis unsigned_take_bit_eq take_bit_eq_mod)
  then have "unat (x - take_bit k x) = unat x - unat x mod 2 ^ k"
    by (subst unat_sub) (simp_all add: word_le_nat_alt)
  then show ?thesis
    by (simp add: eq minus_mod_eq_div_mult)
qed

lemma unat_clear_low_literals:
  "unat (x AND - 4 :: 'a::len word) = unat x div 4 * 4" "unat (x AND - 8) = unat x div 8 * 8"
  using unat_clear_low [of x 2] unat_clear_low [of x 3]
  by (simp_all add: mask_literals(1,2) [symmetric])

section \<open>Big-endian halves\<close>

definition hi8 :: "u16 \<Rightarrow> u8" where
  [c_expr]: "hi8 x = ucast (drop_bit 8 (ucast x :: cint))"

definition lo8 :: "u16 \<Rightarrow> u8" where
  [c_expr]: "lo8 x = ucast ((ucast x :: cint) AND 0xff)"

definition be16 :: "u8 \<Rightarrow> u8 \<Rightarrow> u16" where
  [c_expr]: "be16 a b = ucast (push_bit 8 (ucast a :: cint) OR ucast b)"

lemma be16_hi_lo [simp]: "be16 (hi8 x) (lo8 x) = x"
  by (rule bit_word_eqI) (auto simp: c_expr word_AND_mask_literals bit_simps)

lemma hi8_be16 [simp]: "hi8 (be16 a b) = a"
  by (rule bit_word_eqI) (auto simp: c_expr bit_simps dest: bit_imp_le_length)

lemma lo8_be16 [simp]: "lo8 (be16 a b) = b"
  by (rule bit_word_eqI) (auto simp: c_expr word_AND_mask_literals bit_simps)

section \<open>Halfwords in the target's memory\<close>

text \<open>
  A \<open>__u16\<close> member of a structure kept as raw bytes (a union, say): RISC-V is little-endian,
  so the low byte comes first.
\<close>

definition get16 :: "u8 list \<Rightarrow> nat \<Rightarrow> u16 option" where
  "get16 xs i = do { l \<leftarrow> rd xs i; h \<leftarrow> rd xs (i + 1); Some (be16 h l) }"

definition put16 :: "nat \<Rightarrow> u16 \<Rightarrow> u8 list \<Rightarrow> u8 list option" where
  "put16 i v xs = do { xs \<leftarrow> wr xs i (lo8 v); wr xs (i + 1) (hi8 v) }"

lemma get16_put16: "put16 i v xs = Some ys \<Longrightarrow> get16 ys i = Some v"
  by (auto simp: put16_def get16_def wr_def rd_def bind_eq_Some_conv split: if_splits)

section \<open>Three-byte big-endian values\<close>

definition byte2 :: "u32 \<Rightarrow> u8" where
  [c_expr]: "byte2 v = ucast (drop_bit 16 v)"

definition byte1 :: "u32 \<Rightarrow> u8" where
  [c_expr]: "byte1 v = ucast (drop_bit 8 v AND 0xff)"

definition byte0 :: "u32 \<Rightarrow> u8" where
  [c_expr]: "byte0 v = ucast (v AND 0xff)"

definition be24 :: "u8 \<Rightarrow> u8 \<Rightarrow> u8 \<Rightarrow> u32" where
  [c_expr]: "be24 a b c = push_bit 16 (ucast a) OR push_bit 8 (ucast b) OR ucast c"

lemma be24_bytes: "be24 (byte2 v) (byte1 v) (byte0 v) = take_bit 24 v"
proof (rule bit_word_eqI)
  fix n
  show "bit (be24 (byte2 v) (byte1 v) (byte0 v)) n = bit (take_bit 24 v) n"
    by (cases "16 \<le> n"; cases "8 \<le> n") (auto simp: c_expr word_AND_mask_literals bit_simps)
qed

lemma be24_bytes_id: "v < 0x1000000 \<Longrightarrow> be24 (byte2 v) (byte1 v) (byte0 v) = v"
  using less_mask_eq [of v 24] by (simp add: be24_bytes take_bit_eq_mask)

section \<open>Packed bit fields of a byte\<close>

text \<open>
  \<open>(a << k) | b\<close> stored into a byte, and its two parts read back. The operands are promoted
  to \<open>int\<close>, so a field that is too wide spills into its neighbour or is cut off by the store.
\<close>

definition pack8 :: "nat \<Rightarrow> u8 \<Rightarrow> u8 \<Rightarrow> u8" where
  [c_expr]: "pack8 k a b = ucast (push_bit k (ucast a :: cint) OR ucast b)"

lemma bit_pack8: "bit (pack8 k a b) n = (n < 8 \<and> (k \<le> n \<and> bit a (n - k) \<or> bit b n))"
  by (auto simp: c_expr bit_simps dest: bit_imp_le_length)

lemma drop_bit_pack8: "b < 2 ^ k \<Longrightarrow> drop_bit k (pack8 k a b) = take_bit (8 - k) a"
  by (rule bit_word_eqI) (auto simp: bit_pack8 bit_simps dest: bit_below bit_imp_le_length)

lemma take_bit_pack8: "b < 2 ^ k \<Longrightarrow> take_bit k (pack8 k a b) = b"
  by (rule bit_word_eqI) (auto simp: bit_pack8 bit_simps dest: bit_below bit_imp_le_length)

section \<open>Binary-coded decimal\<close>

definition bcd :: "u8 \<Rightarrow> u8" where
  [c_expr]: "bcd x = ucast (push_bit 4 ((ucast x :: cint) div 10) OR (ucast x mod 10))"

definition unbcd :: "u8 \<Rightarrow> u8" where
  [c_expr]: "unbcd b = ucast (drop_bit 4 (ucast b :: cint) * 10 + (ucast b AND 0xf))"

lemma bcd_table:
  "list_all (\<lambda>n. unbcd (bcd (word_of_nat n)) = word_of_nat n) [0..<160]"
  by code_simp

text \<open>Two BCD digits hold every value below 160: the high digit may run to 15.\<close>

lemma unbcd_bcd: "x < 160 \<Longrightarrow> unbcd (bcd x) = x"
proof -
  assume "x < 160"
  then have "unat x \<in> set [0..<160]"
    by (simp add: word_less_nat_alt)
  with bcd_table have "unbcd (bcd (word_of_nat (unat x))) = word_of_nat (unat x)"
    unfolding list_all_iff by blast
  then show ?thesis by simp
qed

lemma bcd_digits: "x < 100 \<Longrightarrow> drop_bit 4 (bcd x) < 10 \<and> take_bit 4 (bcd x) < 10"
proof -
  assume "x < 100"
  then have "unat x \<in> set [0..<100]"
    by (simp add: word_less_nat_alt)
  moreover have "list_all (\<lambda>n. drop_bit 4 (bcd (word_of_nat n)) < 10 \<and>
      take_bit 4 (bcd (word_of_nat n)) < 10) [0..<100]"
    by code_simp
  ultimately show ?thesis
    unfolding list_all_iff by fastforce
qed

end
