(* ===== verification/CecConst.thy ===== *)
theory CecConst
  imports CPrelude
begin

text \<open>
  The message opcodes and operand values of \<open>linux-headers/include/linux/cec.h\<close>, in the order
  of the header: every \<open>CEC_MSG_*\<close> opcode, and each \<open>CEC_OP_*\<close> value the message functions
  of \<open>cec-funcs.h\<close> test or store. They are input abbreviations, so terms hold the literals.
\<close>

section \<open>Message opcodes and operands\<close>

abbreviation (input) CEC_MSG_ACTIVE_SOURCE :: u8 where "CEC_MSG_ACTIVE_SOURCE \<equiv> 0x82"
abbreviation (input) CEC_MSG_IMAGE_VIEW_ON :: u8 where "CEC_MSG_IMAGE_VIEW_ON \<equiv> 0x04"
abbreviation (input) CEC_MSG_TEXT_VIEW_ON :: u8 where "CEC_MSG_TEXT_VIEW_ON \<equiv> 0x0d"
abbreviation (input) CEC_MSG_INACTIVE_SOURCE :: u8 where "CEC_MSG_INACTIVE_SOURCE \<equiv> 0x9d"
abbreviation (input) CEC_MSG_REQUEST_ACTIVE_SOURCE :: u8 where "CEC_MSG_REQUEST_ACTIVE_SOURCE \<equiv> 0x85"
abbreviation (input) CEC_MSG_ROUTING_CHANGE :: u8 where "CEC_MSG_ROUTING_CHANGE \<equiv> 0x80"
abbreviation (input) CEC_MSG_ROUTING_INFORMATION :: u8 where "CEC_MSG_ROUTING_INFORMATION \<equiv> 0x81"
abbreviation (input) CEC_MSG_SET_STREAM_PATH :: u8 where "CEC_MSG_SET_STREAM_PATH \<equiv> 0x86"
abbreviation (input) CEC_MSG_STANDBY :: u8 where "CEC_MSG_STANDBY \<equiv> 0x36"
abbreviation (input) CEC_MSG_RECORD_OFF :: u8 where "CEC_MSG_RECORD_OFF \<equiv> 0x0b"
abbreviation (input) CEC_MSG_RECORD_ON :: u8 where "CEC_MSG_RECORD_ON \<equiv> 0x09"
abbreviation (input) CEC_OP_RECORD_SRC_OWN :: u8 where "CEC_OP_RECORD_SRC_OWN \<equiv> 1"
abbreviation (input) CEC_OP_RECORD_SRC_DIGITAL :: u8 where "CEC_OP_RECORD_SRC_DIGITAL \<equiv> 2"
abbreviation (input) CEC_OP_RECORD_SRC_ANALOG :: u8 where "CEC_OP_RECORD_SRC_ANALOG \<equiv> 3"
abbreviation (input) CEC_OP_RECORD_SRC_EXT_PLUG :: u8 where "CEC_OP_RECORD_SRC_EXT_PLUG \<equiv> 4"
abbreviation (input) CEC_OP_RECORD_SRC_EXT_PHYS_ADDR :: u8 where "CEC_OP_RECORD_SRC_EXT_PHYS_ADDR \<equiv> 5"
abbreviation (input) CEC_OP_SERVICE_ID_METHOD_BY_CHANNEL :: u8 where "CEC_OP_SERVICE_ID_METHOD_BY_CHANNEL \<equiv> 1"
abbreviation (input) CEC_OP_DIG_SERVICE_BCAST_SYSTEM_ATSC_GEN :: u8 where "CEC_OP_DIG_SERVICE_BCAST_SYSTEM_ATSC_GEN \<equiv> 0x01"
abbreviation (input) CEC_OP_DIG_SERVICE_BCAST_SYSTEM_ATSC_CABLE :: u8 where "CEC_OP_DIG_SERVICE_BCAST_SYSTEM_ATSC_CABLE \<equiv> 0x10"
abbreviation (input) CEC_OP_DIG_SERVICE_BCAST_SYSTEM_ATSC_SAT :: u8 where "CEC_OP_DIG_SERVICE_BCAST_SYSTEM_ATSC_SAT \<equiv> 0x11"
abbreviation (input) CEC_OP_DIG_SERVICE_BCAST_SYSTEM_ATSC_T :: u8 where "CEC_OP_DIG_SERVICE_BCAST_SYSTEM_ATSC_T \<equiv> 0x12"
abbreviation (input) CEC_MSG_RECORD_STATUS :: u8 where "CEC_MSG_RECORD_STATUS \<equiv> 0x0a"
abbreviation (input) CEC_MSG_RECORD_TV_SCREEN :: u8 where "CEC_MSG_RECORD_TV_SCREEN \<equiv> 0x0f"
abbreviation (input) CEC_MSG_CLEAR_ANALOGUE_TIMER :: u8 where "CEC_MSG_CLEAR_ANALOGUE_TIMER \<equiv> 0x33"
abbreviation (input) CEC_MSG_CLEAR_DIGITAL_TIMER :: u8 where "CEC_MSG_CLEAR_DIGITAL_TIMER \<equiv> 0x99"
abbreviation (input) CEC_MSG_CLEAR_EXT_TIMER :: u8 where "CEC_MSG_CLEAR_EXT_TIMER \<equiv> 0xa1"
abbreviation (input) CEC_MSG_SET_ANALOGUE_TIMER :: u8 where "CEC_MSG_SET_ANALOGUE_TIMER \<equiv> 0x34"
abbreviation (input) CEC_MSG_SET_DIGITAL_TIMER :: u8 where "CEC_MSG_SET_DIGITAL_TIMER \<equiv> 0x97"
abbreviation (input) CEC_MSG_SET_EXT_TIMER :: u8 where "CEC_MSG_SET_EXT_TIMER \<equiv> 0xa2"
abbreviation (input) CEC_MSG_SET_TIMER_PROGRAM_TITLE :: u8 where "CEC_MSG_SET_TIMER_PROGRAM_TITLE \<equiv> 0x67"
abbreviation (input) CEC_MSG_TIMER_CLEARED_STATUS :: u8 where "CEC_MSG_TIMER_CLEARED_STATUS \<equiv> 0x43"
abbreviation (input) CEC_MSG_TIMER_STATUS :: u8 where "CEC_MSG_TIMER_STATUS \<equiv> 0x35"
abbreviation (input) CEC_OP_PROG_INFO_NOT_ENOUGH_SPACE :: u8 where "CEC_OP_PROG_INFO_NOT_ENOUGH_SPACE \<equiv> 0x09"
abbreviation (input) CEC_OP_PROG_INFO_MIGHT_NOT_BE_ENOUGH_SPACE :: u8 where "CEC_OP_PROG_INFO_MIGHT_NOT_BE_ENOUGH_SPACE \<equiv> 0x0b"
abbreviation (input) CEC_OP_PROG_ERROR_DUPLICATE :: u8 where "CEC_OP_PROG_ERROR_DUPLICATE \<equiv> 0x0e"
abbreviation (input) CEC_MSG_CEC_VERSION :: u8 where "CEC_MSG_CEC_VERSION \<equiv> 0x9e"
abbreviation (input) CEC_MSG_GET_CEC_VERSION :: u8 where "CEC_MSG_GET_CEC_VERSION \<equiv> 0x9f"
abbreviation (input) CEC_MSG_GIVE_PHYSICAL_ADDR :: u8 where "CEC_MSG_GIVE_PHYSICAL_ADDR \<equiv> 0x83"
abbreviation (input) CEC_MSG_GET_MENU_LANGUAGE :: u8 where "CEC_MSG_GET_MENU_LANGUAGE \<equiv> 0x91"
abbreviation (input) CEC_MSG_REPORT_PHYSICAL_ADDR :: u8 where "CEC_MSG_REPORT_PHYSICAL_ADDR \<equiv> 0x84"
abbreviation (input) CEC_OP_PRIM_DEVTYPE_TV :: u8 where "CEC_OP_PRIM_DEVTYPE_TV \<equiv> 0"
abbreviation (input) CEC_OP_PRIM_DEVTYPE_SWITCH :: u8 where "CEC_OP_PRIM_DEVTYPE_SWITCH \<equiv> 6"
abbreviation (input) CEC_OP_PRIM_DEVTYPE_PROCESSOR :: u8 where "CEC_OP_PRIM_DEVTYPE_PROCESSOR \<equiv> 7"
abbreviation (input) CEC_MSG_SET_MENU_LANGUAGE :: u8 where "CEC_MSG_SET_MENU_LANGUAGE \<equiv> 0x32"
abbreviation (input) CEC_MSG_REPORT_FEATURES :: u8 where "CEC_MSG_REPORT_FEATURES \<equiv> 0xa6"
abbreviation (input) CEC_OP_FEAT_EXT :: u8 where "CEC_OP_FEAT_EXT \<equiv> 0x80"
abbreviation (input) CEC_MSG_GIVE_FEATURES :: u8 where "CEC_MSG_GIVE_FEATURES \<equiv> 0xa5"
abbreviation (input) CEC_MSG_DECK_CONTROL :: u8 where "CEC_MSG_DECK_CONTROL \<equiv> 0x42"
abbreviation (input) CEC_MSG_DECK_STATUS :: u8 where "CEC_MSG_DECK_STATUS \<equiv> 0x1b"
abbreviation (input) CEC_MSG_GIVE_DECK_STATUS :: u8 where "CEC_MSG_GIVE_DECK_STATUS \<equiv> 0x1a"
abbreviation (input) CEC_OP_STATUS_REQ_OFF :: u8 where "CEC_OP_STATUS_REQ_OFF \<equiv> 2"
abbreviation (input) CEC_MSG_PLAY :: u8 where "CEC_MSG_PLAY \<equiv> 0x41"
abbreviation (input) CEC_MSG_GIVE_TUNER_DEVICE_STATUS :: u8 where "CEC_MSG_GIVE_TUNER_DEVICE_STATUS \<equiv> 0x08"
abbreviation (input) CEC_MSG_SELECT_ANALOGUE_SERVICE :: u8 where "CEC_MSG_SELECT_ANALOGUE_SERVICE \<equiv> 0x92"
abbreviation (input) CEC_MSG_SELECT_DIGITAL_SERVICE :: u8 where "CEC_MSG_SELECT_DIGITAL_SERVICE \<equiv> 0x93"
abbreviation (input) CEC_MSG_TUNER_DEVICE_STATUS :: u8 where "CEC_MSG_TUNER_DEVICE_STATUS \<equiv> 0x07"
abbreviation (input) CEC_MSG_TUNER_STEP_DECREMENT :: u8 where "CEC_MSG_TUNER_STEP_DECREMENT \<equiv> 0x06"
abbreviation (input) CEC_MSG_TUNER_STEP_INCREMENT :: u8 where "CEC_MSG_TUNER_STEP_INCREMENT \<equiv> 0x05"
abbreviation (input) CEC_MSG_DEVICE_VENDOR_ID :: u8 where "CEC_MSG_DEVICE_VENDOR_ID \<equiv> 0x87"
abbreviation (input) CEC_MSG_GIVE_DEVICE_VENDOR_ID :: u8 where "CEC_MSG_GIVE_DEVICE_VENDOR_ID \<equiv> 0x8c"
abbreviation (input) CEC_MSG_VENDOR_COMMAND :: u8 where "CEC_MSG_VENDOR_COMMAND \<equiv> 0x89"
abbreviation (input) CEC_MSG_VENDOR_COMMAND_WITH_ID :: u8 where "CEC_MSG_VENDOR_COMMAND_WITH_ID \<equiv> 0xa0"
abbreviation (input) CEC_MSG_VENDOR_REMOTE_BUTTON_DOWN :: u8 where "CEC_MSG_VENDOR_REMOTE_BUTTON_DOWN \<equiv> 0x8a"
abbreviation (input) CEC_MSG_VENDOR_REMOTE_BUTTON_UP :: u8 where "CEC_MSG_VENDOR_REMOTE_BUTTON_UP \<equiv> 0x8b"
abbreviation (input) CEC_MSG_SET_OSD_STRING :: u8 where "CEC_MSG_SET_OSD_STRING \<equiv> 0x64"
abbreviation (input) CEC_MSG_GIVE_OSD_NAME :: u8 where "CEC_MSG_GIVE_OSD_NAME \<equiv> 0x46"
abbreviation (input) CEC_MSG_SET_OSD_NAME :: u8 where "CEC_MSG_SET_OSD_NAME \<equiv> 0x47"
abbreviation (input) CEC_MSG_MENU_REQUEST :: u8 where "CEC_MSG_MENU_REQUEST \<equiv> 0x8d"
abbreviation (input) CEC_MSG_MENU_STATUS :: u8 where "CEC_MSG_MENU_STATUS \<equiv> 0x8e"
abbreviation (input) CEC_MSG_USER_CONTROL_PRESSED :: u8 where "CEC_MSG_USER_CONTROL_PRESSED \<equiv> 0x44"
abbreviation (input) CEC_OP_UI_CMD_SELECT_BROADCAST_TYPE :: u8 where "CEC_OP_UI_CMD_SELECT_BROADCAST_TYPE \<equiv> 0x56"
abbreviation (input) CEC_OP_UI_CMD_SELECT_SOUND_PRESENTATION :: u8 where "CEC_OP_UI_CMD_SELECT_SOUND_PRESENTATION \<equiv> 0x57"
abbreviation (input) CEC_OP_UI_CMD_PLAY_FUNCTION :: u8 where "CEC_OP_UI_CMD_PLAY_FUNCTION \<equiv> 0x60"
abbreviation (input) CEC_OP_UI_CMD_TUNE_FUNCTION :: u8 where "CEC_OP_UI_CMD_TUNE_FUNCTION \<equiv> 0x67"
abbreviation (input) CEC_OP_UI_CMD_SELECT_MEDIA_FUNCTION :: u8 where "CEC_OP_UI_CMD_SELECT_MEDIA_FUNCTION \<equiv> 0x68"
abbreviation (input) CEC_OP_UI_CMD_SELECT_AV_INPUT_FUNCTION :: u8 where "CEC_OP_UI_CMD_SELECT_AV_INPUT_FUNCTION \<equiv> 0x69"
abbreviation (input) CEC_OP_UI_CMD_SELECT_AUDIO_INPUT_FUNCTION :: u8 where "CEC_OP_UI_CMD_SELECT_AUDIO_INPUT_FUNCTION \<equiv> 0x6a"
abbreviation (input) CEC_MSG_USER_CONTROL_RELEASED :: u8 where "CEC_MSG_USER_CONTROL_RELEASED \<equiv> 0x45"
abbreviation (input) CEC_MSG_GIVE_DEVICE_POWER_STATUS :: u8 where "CEC_MSG_GIVE_DEVICE_POWER_STATUS \<equiv> 0x8f"
abbreviation (input) CEC_MSG_REPORT_POWER_STATUS :: u8 where "CEC_MSG_REPORT_POWER_STATUS \<equiv> 0x90"
abbreviation (input) CEC_MSG_FEATURE_ABORT :: u8 where "CEC_MSG_FEATURE_ABORT \<equiv> 0x00"
abbreviation (input) CEC_MSG_ABORT :: u8 where "CEC_MSG_ABORT \<equiv> 0xff"
abbreviation (input) CEC_MSG_GIVE_AUDIO_STATUS :: u8 where "CEC_MSG_GIVE_AUDIO_STATUS \<equiv> 0x71"
abbreviation (input) CEC_MSG_GIVE_SYSTEM_AUDIO_MODE_STATUS :: u8 where "CEC_MSG_GIVE_SYSTEM_AUDIO_MODE_STATUS \<equiv> 0x7d"
abbreviation (input) CEC_MSG_REPORT_AUDIO_STATUS :: u8 where "CEC_MSG_REPORT_AUDIO_STATUS \<equiv> 0x7a"
abbreviation (input) CEC_MSG_REPORT_SHORT_AUDIO_DESCRIPTOR :: u8 where "CEC_MSG_REPORT_SHORT_AUDIO_DESCRIPTOR \<equiv> 0xa3"
abbreviation (input) CEC_MSG_REQUEST_SHORT_AUDIO_DESCRIPTOR :: u8 where "CEC_MSG_REQUEST_SHORT_AUDIO_DESCRIPTOR \<equiv> 0xa4"
abbreviation (input) CEC_MSG_SET_SYSTEM_AUDIO_MODE :: u8 where "CEC_MSG_SET_SYSTEM_AUDIO_MODE \<equiv> 0x72"
abbreviation (input) CEC_MSG_SYSTEM_AUDIO_MODE_REQUEST :: u8 where "CEC_MSG_SYSTEM_AUDIO_MODE_REQUEST \<equiv> 0x70"
abbreviation (input) CEC_MSG_SYSTEM_AUDIO_MODE_STATUS :: u8 where "CEC_MSG_SYSTEM_AUDIO_MODE_STATUS \<equiv> 0x7e"
abbreviation (input) CEC_MSG_SET_AUDIO_VOLUME_LEVEL :: u8 where "CEC_MSG_SET_AUDIO_VOLUME_LEVEL \<equiv> 0x73"
abbreviation (input) CEC_MSG_SET_AUDIO_RATE :: u8 where "CEC_MSG_SET_AUDIO_RATE \<equiv> 0x9a"
abbreviation (input) CEC_MSG_INITIATE_ARC :: u8 where "CEC_MSG_INITIATE_ARC \<equiv> 0xc0"
abbreviation (input) CEC_MSG_REPORT_ARC_INITIATED :: u8 where "CEC_MSG_REPORT_ARC_INITIATED \<equiv> 0xc1"
abbreviation (input) CEC_MSG_REPORT_ARC_TERMINATED :: u8 where "CEC_MSG_REPORT_ARC_TERMINATED \<equiv> 0xc2"
abbreviation (input) CEC_MSG_REQUEST_ARC_INITIATION :: u8 where "CEC_MSG_REQUEST_ARC_INITIATION \<equiv> 0xc3"
abbreviation (input) CEC_MSG_REQUEST_ARC_TERMINATION :: u8 where "CEC_MSG_REQUEST_ARC_TERMINATION \<equiv> 0xc4"
abbreviation (input) CEC_MSG_TERMINATE_ARC :: u8 where "CEC_MSG_TERMINATE_ARC \<equiv> 0xc5"
abbreviation (input) CEC_MSG_REQUEST_CURRENT_LATENCY :: u8 where "CEC_MSG_REQUEST_CURRENT_LATENCY \<equiv> 0xa7"
abbreviation (input) CEC_MSG_REPORT_CURRENT_LATENCY :: u8 where "CEC_MSG_REPORT_CURRENT_LATENCY \<equiv> 0xa8"
abbreviation (input) CEC_MSG_CDC_MESSAGE :: u8 where "CEC_MSG_CDC_MESSAGE \<equiv> 0xf8"
abbreviation (input) CEC_MSG_CDC_HEC_INQUIRE_STATE :: u8 where "CEC_MSG_CDC_HEC_INQUIRE_STATE \<equiv> 0x00"
abbreviation (input) CEC_MSG_CDC_HEC_REPORT_STATE :: u8 where "CEC_MSG_CDC_HEC_REPORT_STATE \<equiv> 0x01"
abbreviation (input) CEC_MSG_CDC_HEC_SET_STATE_ADJACENT :: u8 where "CEC_MSG_CDC_HEC_SET_STATE_ADJACENT \<equiv> 0x02"
abbreviation (input) CEC_MSG_CDC_HEC_SET_STATE :: u8 where "CEC_MSG_CDC_HEC_SET_STATE \<equiv> 0x03"
abbreviation (input) CEC_MSG_CDC_HEC_REQUEST_DEACTIVATION :: u8 where "CEC_MSG_CDC_HEC_REQUEST_DEACTIVATION \<equiv> 0x04"
abbreviation (input) CEC_MSG_CDC_HEC_NOTIFY_ALIVE :: u8 where "CEC_MSG_CDC_HEC_NOTIFY_ALIVE \<equiv> 0x05"
abbreviation (input) CEC_MSG_CDC_HEC_DISCOVER :: u8 where "CEC_MSG_CDC_HEC_DISCOVER \<equiv> 0x06"
abbreviation (input) CEC_MSG_CDC_HPD_SET_STATE :: u8 where "CEC_MSG_CDC_HPD_SET_STATE \<equiv> 0x10"
abbreviation (input) CEC_MSG_CDC_HPD_REPORT_STATE :: u8 where "CEC_MSG_CDC_HPD_REPORT_STATE \<equiv> 0x11"

section \<open>Logical addresses, flags and statuses\<close>

abbreviation (input) CEC_MAX_MSG_SIZE :: nat where "CEC_MAX_MSG_SIZE \<equiv> 16"
abbreviation (input) CEC_MAX_LOG_ADDRS :: nat where "CEC_MAX_LOG_ADDRS \<equiv> 4"
abbreviation (input) CEC_TX_STATUS_OK :: u8 where "CEC_TX_STATUS_OK \<equiv> 1"
abbreviation (input) CEC_RX_STATUS_OK :: u8 where "CEC_RX_STATUS_OK \<equiv> 1"
abbreviation (input) CEC_RX_STATUS_FEATURE_ABORT :: u8 where "CEC_RX_STATUS_FEATURE_ABORT \<equiv> 4"
abbreviation (input) CEC_PHYS_ADDR_INVALID :: u16 where "CEC_PHYS_ADDR_INVALID \<equiv> 0xffff"
abbreviation (input) CEC_LOG_ADDR_BACKUP_1 :: u8 where "CEC_LOG_ADDR_BACKUP_1 \<equiv> 12"
abbreviation (input) CEC_LOG_ADDR_SPECIFIC :: u8 where "CEC_LOG_ADDR_SPECIFIC \<equiv> 14"
abbreviation (input) CEC_LOG_ADDR_UNREGISTERED :: u8 where "CEC_LOG_ADDR_UNREGISTERED \<equiv> 15"
abbreviation (input) CEC_LOG_ADDR_BROADCAST :: u8 where "CEC_LOG_ADDR_BROADCAST \<equiv> 15"
abbreviation (input) CEC_LOG_ADDRS_FL_CDC_ONLY :: u32 where "CEC_LOG_ADDRS_FL_CDC_ONLY \<equiv> 4"

text \<open>The masks of logical addresses, one bit per address (\<open>1 << CEC_LOG_ADDR_...\<close>).\<close>

definition addr_bit :: "nat \<Rightarrow> u16" where
  "addr_bit a = push_bit a 1"

definition CEC_LOG_ADDR_MASK_TV :: u16 where
  "CEC_LOG_ADDR_MASK_TV = addr_bit 0"

definition CEC_LOG_ADDR_MASK_RECORD :: u16 where
  "CEC_LOG_ADDR_MASK_RECORD = addr_bit 1 OR addr_bit 2 OR addr_bit 9"

definition CEC_LOG_ADDR_MASK_TUNER :: u16 where
  "CEC_LOG_ADDR_MASK_TUNER = addr_bit 3 OR addr_bit 6 OR addr_bit 7 OR addr_bit 10"

definition CEC_LOG_ADDR_MASK_PLAYBACK :: u16 where
  "CEC_LOG_ADDR_MASK_PLAYBACK = addr_bit 4 OR addr_bit 8 OR addr_bit 11"

definition CEC_LOG_ADDR_MASK_AUDIOSYSTEM :: u16 where
  "CEC_LOG_ADDR_MASK_AUDIOSYSTEM = addr_bit 5"

definition CEC_LOG_ADDR_MASK_BACKUP :: u16 where
  "CEC_LOG_ADDR_MASK_BACKUP = addr_bit 12 OR addr_bit 13"

definition CEC_LOG_ADDR_MASK_SPECIFIC :: u16 where
  "CEC_LOG_ADDR_MASK_SPECIFIC = addr_bit 14"

definition CEC_LOG_ADDR_MASK_UNREGISTERED :: u16 where
  "CEC_LOG_ADDR_MASK_UNREGISTERED = addr_bit 15"

lemmas cec_mask_defs =
  CEC_LOG_ADDR_MASK_TV_def CEC_LOG_ADDR_MASK_RECORD_def CEC_LOG_ADDR_MASK_TUNER_def
  CEC_LOG_ADDR_MASK_PLAYBACK_def CEC_LOG_ADDR_MASK_AUDIOSYSTEM_def CEC_LOG_ADDR_MASK_BACKUP_def
  CEC_LOG_ADDR_MASK_SPECIFIC_def CEC_LOG_ADDR_MASK_UNREGISTERED_def addr_bit_def

end
