(* ===== verification/CecMsg.thy ===== *)
theory CecMsg
  imports CecConst
begin

text \<open>
  The CEC message structure and its accessors, from \<open>linux-headers/include/linux/cec.h\<close>.

  A \<open>struct cec_msg\<close> is a record whose payload \<open>m_msg\<close> is the 16-byte array of the source;
  \<open>cec_wf\<close> says that the array has that size. The functions take and return the structure,
  and a read or write outside the payload makes the result \<^term>\<open>None\<close>.
\<close>

section \<open>The structures\<close>

record cec_msg =
  m_tx_ts :: u64
  m_rx_ts :: u64
  m_len :: u32
  m_timeout :: u32
  m_sequence :: u32
  m_flags :: u32
  m_msg :: "u8 list"
  m_reply :: u8
  m_rx_status :: u8
  m_tx_status :: u8
  m_tx_arb_lost_cnt :: u8
  m_tx_nack_cnt :: u8
  m_tx_low_drive_cnt :: u8
  m_tx_error_cnt :: u8

record cec_log_addrs =
  la_log_addr :: "u8 list"
  la_log_addr_mask :: u16
  la_cec_version :: u8
  la_num_log_addrs :: u8
  la_vendor_id :: u32
  la_flags :: u32
  la_osd_name :: "u8 list"
  la_primary_device_type :: "u8 list"
  la_log_addr_type :: "u8 list"
  la_all_device_types :: "u8 list"
  la_features :: "u8 list list"

definition cec_wf :: "cec_msg \<Rightarrow> bool" where
  "cec_wf m \<longleftrightarrow> length (m_msg m) = CEC_MAX_MSG_SIZE"

definition cec_log_addrs_wf :: "cec_log_addrs \<Rightarrow> bool" where
  "cec_log_addrs_wf las \<longleftrightarrow>
     length (la_log_addr las) = CEC_MAX_LOG_ADDRS \<and> length (la_osd_name las) = 15 \<and>
     length (la_primary_device_type las) = CEC_MAX_LOG_ADDRS \<and>
     length (la_log_addr_type las) = CEC_MAX_LOG_ADDRS \<and>
     length (la_all_device_types las) = CEC_MAX_LOG_ADDRS \<and>
     map length (la_features las) = [12, 12, 12, 12]"

section \<open>Payload access\<close>

definition get :: "cec_msg \<Rightarrow> nat \<Rightarrow> u8 option" where
  "get m i = rd (m_msg m) i"

definition put :: "nat \<Rightarrow> u8 \<Rightarrow> cec_msg \<Rightarrow> cec_msg option" where
  "put i v m = map_option (\<lambda>b. m\<lparr>m_msg := b\<rparr>) (wr (m_msg m) i v)"

definition set_len :: "u32 \<Rightarrow> cec_msg \<Rightarrow> cec_msg option" where
  "set_len n m = Some (m\<lparr>m_len := n\<rparr>)"

definition set_reply :: "u8 \<Rightarrow> cec_msg \<Rightarrow> cec_msg option" where
  "set_reply r m = Some (m\<lparr>m_reply := r\<rparr>)"

text \<open>\<open>msg->msg[0] |= CEC_LOG_ADDR_BROADCAST\<close>, the statement that addresses a broadcast.\<close>

definition or_broadcast :: "cec_msg \<Rightarrow> cec_msg option" where
  "or_broadcast m = do { b \<leftarrow> get m 0; put 0 (b OR CEC_LOG_ADDR_BROADCAST) m }"

text \<open>\<open>msg->msg[msg->len++] = v\<close>, the statement that appends an operand.\<close>

definition append_byte :: "u8 \<Rightarrow> cec_msg \<Rightarrow> cec_msg option" where
  "append_byte v m = do { m' \<leftarrow> put (unat (m_len m)) v m; set_len (m_len m + 1) m' }"

text \<open>\<open>memcpy(msg->msg + d, src, n)\<close>.\<close>

definition put_bytes :: "nat \<Rightarrow> u8 list \<Rightarrow> nat \<Rightarrow> cec_msg \<Rightarrow> cec_msg option" where
  "put_bytes d src n m = map_option (\<lambda>b. m\<lparr>m_msg := b\<rparr>) (memcpy (m_msg m) d src 0 n)"

section \<open>Accessors and initialisation\<close>

definition cec_msg_initiator :: "cec_msg \<Rightarrow> u8 option" where
  "cec_msg_initiator m = do { b \<leftarrow> get m 0; Some (drop_bit 4 b) }"

definition cec_msg_destination :: "cec_msg \<Rightarrow> u8 option" where
  "cec_msg_destination m = do { b \<leftarrow> get m 0; Some (b AND 0xf) }"

definition cec_msg_opcode :: "cec_msg \<Rightarrow> cint option" where
  "cec_msg_opcode m = (if m_len m > 1 then map_option ucast (get m 1) else Some (- 1))"

definition cec_msg_is_broadcast :: "cec_msg \<Rightarrow> bool option" where
  "cec_msg_is_broadcast m = do { b \<leftarrow> get m 0; Some (b AND 0xf = 0xf) }"

definition cec_msg_zero :: cec_msg where
  "cec_msg_zero = \<lparr>m_tx_ts = 0, m_rx_ts = 0, m_len = 0, m_timeout = 0, m_sequence = 0,
     m_flags = 0, m_msg = replicate CEC_MAX_MSG_SIZE 0, m_reply = 0, m_rx_status = 0,
     m_tx_status = 0, m_tx_arb_lost_cnt = 0, m_tx_nack_cnt = 0, m_tx_low_drive_cnt = 0,
     m_tx_error_cnt = 0\<rparr>"

definition cec_msg_init :: "cec_msg \<Rightarrow> u8 \<Rightarrow> u8 \<Rightarrow> cec_msg option" where
  "cec_msg_init m initiator destination = do {
     m \<leftarrow> Some cec_msg_zero;
     m \<leftarrow> put 0 (pack8 4 initiator destination) m;
     set_len 1 m }"

text \<open>\<open>msg\<close> and \<open>orig\<close> may be the same structure: both reads of \<open>orig\<close> happen before the write.\<close>

definition cec_msg_set_reply_to :: "cec_msg \<Rightarrow> cec_msg \<Rightarrow> cec_msg option" where
  "cec_msg_set_reply_to m orig = do {
     d \<leftarrow> cec_msg_destination orig;
     i \<leftarrow> cec_msg_initiator orig;
     m \<leftarrow> put 0 (pack8 4 d i) m;
     Some (m\<lparr>m_reply := 0, m_timeout := 0, m_flags := 0\<rparr>) }"

definition cec_msg_recv_is_tx_result :: "cec_msg \<Rightarrow> bool" where
  "cec_msg_recv_is_tx_result m \<longleftrightarrow> m_sequence m \<noteq> 0 \<and> m_tx_status m \<noteq> 0 \<and> \<not> m_rx_status m \<noteq> 0"

definition cec_msg_recv_is_rx_result :: "cec_msg \<Rightarrow> bool" where
  "cec_msg_recv_is_rx_result m \<longleftrightarrow> m_sequence m \<noteq> 0 \<and> \<not> m_tx_status m \<noteq> 0 \<and> m_rx_status m \<noteq> 0"

definition cec_msg_status_is_ok :: "cec_msg \<Rightarrow> bool" where
  "cec_msg_status_is_ok m =
     (if m_tx_status m \<noteq> 0 \<and> \<not> (m_tx_status m AND CEC_TX_STATUS_OK) \<noteq> 0 then False
      else if m_rx_status m \<noteq> 0 \<and> \<not> (m_rx_status m AND CEC_RX_STATUS_OK) \<noteq> 0 then False
      else if \<not> m_tx_status m \<noteq> 0 \<and> \<not> m_rx_status m \<noteq> 0 then False
      else \<not> (m_rx_status m AND CEC_RX_STATUS_FEATURE_ABORT) \<noteq> 0)"

section \<open>Logical address predicates\<close>

definition cec_has_tv :: "u16 \<Rightarrow> cint" where
  "cec_has_tv log_addr_mask = ucast (log_addr_mask AND CEC_LOG_ADDR_MASK_TV)"

definition cec_has_record :: "u16 \<Rightarrow> cint" where
  "cec_has_record log_addr_mask = ucast (log_addr_mask AND CEC_LOG_ADDR_MASK_RECORD)"

definition cec_has_tuner :: "u16 \<Rightarrow> cint" where
  "cec_has_tuner log_addr_mask = ucast (log_addr_mask AND CEC_LOG_ADDR_MASK_TUNER)"

definition cec_has_playback :: "u16 \<Rightarrow> cint" where
  "cec_has_playback log_addr_mask = ucast (log_addr_mask AND CEC_LOG_ADDR_MASK_PLAYBACK)"

definition cec_has_audiosystem :: "u16 \<Rightarrow> cint" where
  "cec_has_audiosystem log_addr_mask = ucast (log_addr_mask AND CEC_LOG_ADDR_MASK_AUDIOSYSTEM)"

definition cec_has_backup :: "u16 \<Rightarrow> cint" where
  "cec_has_backup log_addr_mask = ucast (log_addr_mask AND CEC_LOG_ADDR_MASK_BACKUP)"

definition cec_has_specific :: "u16 \<Rightarrow> cint" where
  "cec_has_specific log_addr_mask = ucast (log_addr_mask AND CEC_LOG_ADDR_MASK_SPECIFIC)"

definition cec_is_unregistered :: "u16 \<Rightarrow> cint" where
  "cec_is_unregistered log_addr_mask = ucast (log_addr_mask AND CEC_LOG_ADDR_MASK_UNREGISTERED)"

definition cec_is_unconfigured :: "u16 \<Rightarrow> bool" where
  "cec_is_unconfigured log_addr_mask \<longleftrightarrow> log_addr_mask = 0"

definition cec_is_2nd_tv :: "cec_log_addrs \<Rightarrow> bool option" where
  "cec_is_2nd_tv las = (if la_num_log_addrs las \<noteq> 0 then do {
     a \<leftarrow> rd (la_log_addr las) 0;
     if a \<ge> CEC_LOG_ADDR_SPECIFIC then do {
       t \<leftarrow> rd (la_primary_device_type las) 0;
       Some (t = CEC_OP_PRIM_DEVTYPE_TV) } else Some False } else Some False)"

definition cec_is_processor :: "cec_log_addrs \<Rightarrow> bool option" where
  "cec_is_processor las = (if la_num_log_addrs las \<noteq> 0 then do {
     a \<leftarrow> rd (la_log_addr las) 0;
     if a \<ge> CEC_LOG_ADDR_BACKUP_1 then do {
       t \<leftarrow> rd (la_primary_device_type las) 0;
       Some (t = CEC_OP_PRIM_DEVTYPE_PROCESSOR) } else Some False } else Some False)"

definition cec_is_switch :: "cec_log_addrs \<Rightarrow> bool option" where
  "cec_is_switch las = (if la_num_log_addrs las = 1 then do {
     a \<leftarrow> rd (la_log_addr las) 0;
     if a = CEC_LOG_ADDR_UNREGISTERED then do {
       t \<leftarrow> rd (la_primary_device_type las) 0;
       Some (t = CEC_OP_PRIM_DEVTYPE_SWITCH \<and> (la_flags las AND CEC_LOG_ADDRS_FL_CDC_ONLY) = 0)
     } else Some False } else Some False)"

definition cec_is_cdc_only :: "cec_log_addrs \<Rightarrow> bool option" where
  "cec_is_cdc_only las = (if la_num_log_addrs las = 1 then do {
     a \<leftarrow> rd (la_log_addr las) 0;
     if a = CEC_LOG_ADDR_UNREGISTERED then do {
       t \<leftarrow> rd (la_primary_device_type las) 0;
       Some (t = CEC_OP_PRIM_DEVTYPE_SWITCH \<and> (la_flags las AND CEC_LOG_ADDRS_FL_CDC_ONLY) \<noteq> 0)
     } else Some False } else Some False)"

end
