(* ===== verification/CecCodec.thy ===== *)
theory CecCodec
  imports CecMsg
begin

text \<open>
  What a family of CEC message functions promises, and what a client of it may rely on.

  \<open>cec-funcs.h\<close> gives each message an encoder \<open>cec_msg_x\<close>, and one with operands a decoder
  \<open>cec_ops_x\<close>. The locale \<open>cec_codec\<close> states the contract of one feature's functions: every
  encoder stays inside the payload and writes only the length, the payload and the reply
  opcode, and the decoder of a received frame returns the operands. A received frame agrees
  with the sent one on its length and its first \<open>len\<close> bytes only; the other bytes of the
  receiver's buffer are arbitrary, so a decoder that looked past the length would break the
  contract. Each feature's theory interprets the locale on its own functions.
\<close>

section \<open>Frames\<close>

definition cec_frame :: "cec_msg \<Rightarrow> u8 list" where
  "cec_frame m = take (unat (m_len m)) (m_msg m)"

definition cec_received :: "cec_msg \<Rightarrow> cec_msg \<Rightarrow> bool" where
  "cec_received sent w \<longleftrightarrow> cec_wf w \<and> m_len w = m_len sent \<and> cec_frame w = cec_frame sent"

datatype reply_rule = Keep | Expect u8

definition reply_after :: "reply_rule \<Rightarrow> cint \<Rightarrow> u8 \<Rightarrow> u8" where
  "reply_after rule reply old =
     (case rule of Keep \<Rightarrow> old | Expect opc \<Rightarrow> if reply \<noteq> 0 then opc else 0)"

text \<open>The whole effect of an encoder on the structure, operands apart.\<close>

definition cec_encoded :: "u8 \<Rightarrow> bool \<Rightarrow> reply_rule \<Rightarrow> cint \<Rightarrow> cec_msg \<Rightarrow> cec_msg \<Rightarrow> bool" where
  "cec_encoded opc bc rule reply m m' \<longleftrightarrow>
     cec_wf m' \<and> 2 \<le> unat (m_len m') \<and> unat (m_len m') \<le> CEC_MAX_MSG_SIZE \<and>
     m_msg m' ! 1 = opc \<and>
     m_msg m' ! 0 = (if bc then m_msg m ! 0 OR CEC_LOG_ADDR_BROADCAST else m_msg m ! 0) \<and>
     m_reply m' = reply_after rule reply (m_reply m) \<and>
     m' = m\<lparr>m_len := m_len m', m_msg := m_msg m', m_reply := m_reply m'\<rparr>"

lemmas cec_access = get_def put_def set_len_def set_reply_def or_broadcast_def append_byte_def
  put_bytes_def

lemma cec_received_refl [simp]: "cec_wf m \<Longrightarrow> cec_received m m"
  by (simp add: cec_received_def)

lemma cec_wf_explicit:
  assumes "cec_wf m"
  obtains b0 b1 b2 b3 b4 b5 b6 b7 b8 b9 b10 b11 b12 b13 b14 b15 where
    "m_msg m = [b0, b1, b2, b3, b4, b5, b6, b7, b8, b9, b10, b11, b12, b13, b14, b15]"
proof -
  have "map ((!) (m_msg m)) [0..<16] = m_msg m"
    using assms map_nth [of "m_msg m"] by (simp only: cec_wf_def)
  moreover have "[0..<16] = [0, 1, 2, 3, 4, 5, 6, 7, 8, 9, 10, 11, 12, 13, 14, 15]"
    by code_simp
  ultimately have "m_msg m = map ((!) (m_msg m)) [0, 1, 2, 3, 4, 5, 6, 7, 8, 9, 10, 11, 12, 13, 14, 15]"
    by simp
  then show thesis
    unfolding list.map by (rule that)
qed

lemma cec_received_bytes:
  assumes "cec_received sent w" and "unat (m_len sent) \<le> 16" and "cec_wf sent"
  obtains junk where "m_msg w = cec_frame sent @ junk" and "m_len w = m_len sent"
    and "length junk + unat (m_len sent) = 16"
proof
  have "cec_frame sent = take (unat (m_len sent)) (m_msg w)"
    using assms(1) by (auto simp: cec_received_def cec_frame_def)
  then show "m_msg w = cec_frame sent @ drop (unat (m_len sent)) (m_msg w)"
    by simp
  show "m_len w = m_len sent"
    using assms(1) by (simp add: cec_received_def)
  show "length (drop (unat (m_len sent)) (m_msg w)) + unat (m_len sent) = 16"
    using assms by (simp add: cec_received_def cec_wf_def)
qed

text \<open>A size clamped to the space left never exceeds the buffer it describes.\<close>

lemma clamp_u8:
  "unat (if word_of_nat n > (k :: u8) then k else word_of_nat n) \<le> unat k"
  "unat (if word_of_nat n > (k :: u8) then k else word_of_nat n) \<le> n"
  by (auto simp: word_less_nat_alt not_less unat_of_nat)

lemma clamp_u32:
  "unat (if word_of_nat n > (k :: u32) then k else word_of_nat n) \<le> unat k"
  "unat (if word_of_nat n > (k :: u32) then k else word_of_nat n) \<le> n"
  by (auto simp: word_less_nat_alt not_less unat_of_nat)

lemma unat_ucast_u8 [simp]: "unat (ucast (k :: u8) :: u32) = unat k"
proof -
  have "unat k < 2 ^ LENGTH(8)"
    by (rule unsigned_less)
  then show ?thesis
    by (simp add: unsigned_ucast_eq take_bit_nat_eq_self)
qed

lemma ucast_ucast_u8 [simp]: "ucast (ucast (k :: u8) :: u32) = k"
  by (rule bit_word_eqI) (auto simp: bit_simps)

lemma unat_len_add:
  "unat k \<le> 14 \<Longrightarrow> unat (2 + k :: u32) = 2 + unat k"
  "unat k \<le> 13 \<Longrightarrow> unat (3 + k :: u32) = 3 + unat k"
  "unat k \<le> 11 \<Longrightarrow> unat (5 + k :: u32) = 5 + unat k"
  by (simp_all add: unat_word_ariths)

section \<open>Sessions\<close>

text \<open>One message structure reused for a whole session: each command is encoded into what the
  command before it left behind.\<close>

fun session :: "('c \<Rightarrow> cint \<Rightarrow> cec_msg \<Rightarrow> cec_msg option) \<Rightarrow> 'c list \<Rightarrow> cint \<Rightarrow> cec_msg \<Rightarrow>
    cec_msg list option" where
  "session enc [] r m = Some []"
| "session enc (c # cs) r m =
     do { m' \<leftarrow> enc c r m; fs \<leftarrow> session enc cs r m'; Some (m' # fs) }"

section \<open>The contract of a feature\<close>

locale cec_codec =
  fixes enc :: "'c \<Rightarrow> cint \<Rightarrow> cec_msg \<Rightarrow> cec_msg option"
    and dec :: "cec_msg \<Rightarrow> 'c option"
    and valid :: "'c \<Rightarrow> bool"
    and opc :: "'c \<Rightarrow> u8"
    and bc :: "'c \<Rightarrow> bool"
    and rule :: "'c \<Rightarrow> reply_rule"
  assumes enc_spec: "cec_wf m \<Longrightarrow>
      \<exists>m'. enc c r m = Some m' \<and> cec_encoded (opc c) (bc c) (rule c) r m m'"
    and dec_enc: "cec_wf m \<Longrightarrow> valid c \<Longrightarrow> enc c r m = Some m' \<Longrightarrow> cec_received m' w \<Longrightarrow>
      dec w = Some c"
begin

text \<open>The encoder never leaves the payload, whatever the command and the buffer held before.\<close>

lemma enc_total: "cec_wf m \<Longrightarrow> \<exists>m'. enc c r m = Some m' \<and> cec_wf m'"
  using enc_spec by (fastforce simp: cec_encoded_def)

lemma enc_encoded:
  "cec_wf m \<Longrightarrow> enc c r m = Some m' \<Longrightarrow> cec_encoded (opc c) (bc c) (rule c) r m m'"
  using enc_spec [of m c r] by auto

text \<open>The frame determines the command: two commands with the same frame are the same.\<close>

lemma frame_inj:
  assumes "cec_wf m" and "valid c" and "enc c r m = Some f"
    and "cec_wf n" and "valid d" and "enc d s n = Some g"
    and "m_len f = m_len g" and "cec_frame f = cec_frame g"
  shows "c = d"
proof -
  have g: "cec_wf g"
    using enc_encoded [OF assms(4,6)] by (simp add: cec_encoded_def)
  have "cec_received f g"
    using g assms(7,8) by (simp add: cec_received_def)
  then have "dec g = Some c"
    using assms(1,2,3) dec_enc by blast
  moreover have "dec g = Some d"
    using assms(4,5,6) g dec_enc by (blast intro: cec_received_refl)
  ultimately show ?thesis by simp
qed

text \<open>Each frame of a session is decoded by the peer as its command.\<close>

lemma session_decodes:
  "cec_wf m \<Longrightarrow> list_all valid cs \<Longrightarrow>
   \<exists>fs. session enc cs r m = Some fs \<and> length fs = length cs \<and>
     (\<forall>ws. list_all2 cec_received fs ws \<longrightarrow> map dec ws = map Some cs)"
proof (induction cs arbitrary: m)
  case Nil
  then show ?case by simp
next
  case (Cons c cs)
  obtain m' where m': "enc c r m = Some m'" "cec_wf m'"
    using Cons.prems(1) enc_total by blast
  obtain fs where fs: "session enc cs r m' = Some fs" "length fs = length cs"
    "\<forall>ws. list_all2 cec_received fs ws \<longrightarrow> map dec ws = map Some cs"
    using Cons.IH [OF m'(2)] Cons.prems(2) by auto
  have "map dec ws = map Some (c # cs)" if "list_all2 cec_received (m' # fs) ws" for ws
    using that fs(3) m'(1) Cons.prems dec_enc by (auto simp: list_all2_Cons1)
  then show ?case
    using m' fs by simp
qed

end

text \<open>
  The two laws over explicit payloads: the proof obligations a feature discharges by
  computation. \<open>junk\<close> is what the receiver's buffer holds past the frame.
\<close>

lemma cec_codecI:
  assumes spec: "\<And>c r m b0 b1 b2 b3 b4 b5 b6 b7 b8 b9 b10 b11 b12 b13 b14 b15.
      m_msg m = [b0, b1, b2, b3, b4, b5, b6, b7, b8, b9, b10, b11, b12, b13, b14, b15] \<Longrightarrow>
      \<exists>m'. enc c r m = Some m' \<and> cec_encoded (opc c) (bc c) (rule c) r m m'"
    and rt: "\<And>c r m w junk b0 b1 b2 b3 b4 b5 b6 b7 b8 b9 b10 b11 b12 b13 b14 b15 m'.
      m_msg m = [b0, b1, b2, b3, b4, b5, b6, b7, b8, b9, b10, b11, b12, b13, b14, b15] \<Longrightarrow>
      valid c \<Longrightarrow> enc c r m = Some m' \<Longrightarrow> m_msg w = cec_frame m' @ junk \<Longrightarrow>
      m_len w = m_len m' \<Longrightarrow> length junk + unat (m_len m') = 16 \<Longrightarrow> dec w = Some c"
  shows "cec_codec enc dec valid opc bc rule"
proof
  show ex: "\<exists>m'. enc c r m = Some m' \<and> cec_encoded (opc c) (bc c) (rule c) r m m'"
    if "cec_wf m" for c r m
    using that by (rule cec_wf_explicit) (rule spec)
  show "dec w = Some c"
    if wf: "cec_wf m" and ok: "valid c" and enc: "enc c r m = Some m'"
      and rcv: "cec_received m' w" for m c r m' w
  proof -
    have "cec_wf m'" and "unat (m_len m') \<le> 16"
      using ex [OF wf, of c r] enc by (auto simp: cec_encoded_def)
    then obtain junk where "m_msg w = cec_frame m' @ junk" "m_len w = m_len m'"
      "length junk + unat (m_len m') = 16"
      using rcv by (rule_tac cec_received_bytes)
    then show ?thesis
      using wf by (elim cec_wf_explicit) (rule rt [OF _ ok enc])
  qed
qed

end
