(* ===== verification/CecRouting.thy ===== *)
theory CecRouting
  imports CecCodec
begin

text \<open>
  The One Touch Play, Routing Control and Standby features of \<open>cec-funcs.h\<close>: one definition
  per function, statement by statement, then the commands of the three features as one codec.
\<close>

section \<open>One Touch Play\<close>

definition cec_msg_active_source :: "cec_msg \<Rightarrow> u16 \<Rightarrow> cec_msg option" where
  "cec_msg_active_source m phys_addr = do {
     m \<leftarrow> set_len 4 m;
     m \<leftarrow> or_broadcast m;
     m \<leftarrow> put 1 CEC_MSG_ACTIVE_SOURCE m;
     m \<leftarrow> put 2 (hi8 phys_addr) m;
     put 3 (lo8 phys_addr) m }"

definition cec_ops_active_source :: "cec_msg \<Rightarrow> u16 option" where
  "cec_ops_active_source m = do { a \<leftarrow> get m 2; b \<leftarrow> get m 3; Some (be16 a b) }"

definition cec_msg_image_view_on :: "cec_msg \<Rightarrow> cec_msg option" where
  "cec_msg_image_view_on m = do { m \<leftarrow> set_len 2 m; put 1 CEC_MSG_IMAGE_VIEW_ON m }"

definition cec_msg_text_view_on :: "cec_msg \<Rightarrow> cec_msg option" where
  "cec_msg_text_view_on m = do { m \<leftarrow> set_len 2 m; put 1 CEC_MSG_TEXT_VIEW_ON m }"

section \<open>Routing Control\<close>

definition cec_msg_inactive_source :: "cec_msg \<Rightarrow> u16 \<Rightarrow> cec_msg option" where
  "cec_msg_inactive_source m phys_addr = do {
     m \<leftarrow> set_len 4 m;
     m \<leftarrow> put 1 CEC_MSG_INACTIVE_SOURCE m;
     m \<leftarrow> put 2 (hi8 phys_addr) m;
     put 3 (lo8 phys_addr) m }"

definition cec_ops_inactive_source :: "cec_msg \<Rightarrow> u16 option" where
  "cec_ops_inactive_source m = do { a \<leftarrow> get m 2; b \<leftarrow> get m 3; Some (be16 a b) }"

definition cec_msg_request_active_source :: "cec_msg \<Rightarrow> cint \<Rightarrow> cec_msg option" where
  "cec_msg_request_active_source m reply = do {
     m \<leftarrow> set_len 2 m;
     m \<leftarrow> or_broadcast m;
     m \<leftarrow> put 1 CEC_MSG_REQUEST_ACTIVE_SOURCE m;
     set_reply (if reply \<noteq> 0 then CEC_MSG_ACTIVE_SOURCE else 0) m }"

definition cec_msg_routing_information :: "cec_msg \<Rightarrow> u16 \<Rightarrow> cec_msg option" where
  "cec_msg_routing_information m phys_addr = do {
     m \<leftarrow> set_len 4 m;
     m \<leftarrow> or_broadcast m;
     m \<leftarrow> put 1 CEC_MSG_ROUTING_INFORMATION m;
     m \<leftarrow> put 2 (hi8 phys_addr) m;
     put 3 (lo8 phys_addr) m }"

definition cec_ops_routing_information :: "cec_msg \<Rightarrow> u16 option" where
  "cec_ops_routing_information m = do { a \<leftarrow> get m 2; b \<leftarrow> get m 3; Some (be16 a b) }"

definition cec_msg_routing_change :: "cec_msg \<Rightarrow> cint \<Rightarrow> u16 \<Rightarrow> u16 \<Rightarrow> cec_msg option" where
  "cec_msg_routing_change m reply orig_phys_addr new_phys_addr = do {
     m \<leftarrow> set_len 6 m;
     m \<leftarrow> or_broadcast m;
     m \<leftarrow> put 1 CEC_MSG_ROUTING_CHANGE m;
     m \<leftarrow> put 2 (hi8 orig_phys_addr) m;
     m \<leftarrow> put 3 (lo8 orig_phys_addr) m;
     m \<leftarrow> put 4 (hi8 new_phys_addr) m;
     m \<leftarrow> put 5 (lo8 new_phys_addr) m;
     set_reply (if reply \<noteq> 0 then CEC_MSG_ROUTING_INFORMATION else 0) m }"

definition cec_ops_routing_change :: "cec_msg \<Rightarrow> (u16 \<times> u16) option" where
  "cec_ops_routing_change m = do {
     a \<leftarrow> get m 2; b \<leftarrow> get m 3;
     c \<leftarrow> get m 4; d \<leftarrow> get m 5;
     Some (be16 a b, be16 c d) }"

definition cec_msg_set_stream_path :: "cec_msg \<Rightarrow> u16 \<Rightarrow> cec_msg option" where
  "cec_msg_set_stream_path m phys_addr = do {
     m \<leftarrow> set_len 4 m;
     m \<leftarrow> or_broadcast m;
     m \<leftarrow> put 1 CEC_MSG_SET_STREAM_PATH m;
     m \<leftarrow> put 2 (hi8 phys_addr) m;
     put 3 (lo8 phys_addr) m }"

definition cec_ops_set_stream_path :: "cec_msg \<Rightarrow> u16 option" where
  "cec_ops_set_stream_path m = do { a \<leftarrow> get m 2; b \<leftarrow> get m 3; Some (be16 a b) }"

section \<open>Standby\<close>

definition cec_msg_standby :: "cec_msg \<Rightarrow> cec_msg option" where
  "cec_msg_standby m = do { m \<leftarrow> set_len 2 m; put 1 CEC_MSG_STANDBY m }"

lemmas routing_defs =
  cec_msg_active_source_def cec_ops_active_source_def cec_msg_image_view_on_def
  cec_msg_text_view_on_def cec_msg_inactive_source_def cec_ops_inactive_source_def
  cec_msg_request_active_source_def cec_msg_routing_information_def
  cec_ops_routing_information_def cec_msg_routing_change_def cec_ops_routing_change_def
  cec_msg_set_stream_path_def cec_ops_set_stream_path_def cec_msg_standby_def

section \<open>The commands as a codec\<close>

datatype routing_cmd =
    Active_Source u16 | Image_View_On | Text_View_On | Inactive_Source u16
  | Request_Active_Source | Routing_Information u16 | Routing_Change u16 u16
  | Set_Stream_Path u16 | Standby

fun routing_enc :: "routing_cmd \<Rightarrow> cint \<Rightarrow> cec_msg \<Rightarrow> cec_msg option" where
  "routing_enc (Active_Source a) r m = cec_msg_active_source m a"
| "routing_enc Image_View_On r m = cec_msg_image_view_on m"
| "routing_enc Text_View_On r m = cec_msg_text_view_on m"
| "routing_enc (Inactive_Source a) r m = cec_msg_inactive_source m a"
| "routing_enc Request_Active_Source r m = cec_msg_request_active_source m r"
| "routing_enc (Routing_Information a) r m = cec_msg_routing_information m a"
| "routing_enc (Routing_Change a b) r m = cec_msg_routing_change m r a b"
| "routing_enc (Set_Stream_Path a) r m = cec_msg_set_stream_path m a"
| "routing_enc Standby r m = cec_msg_standby m"

fun routing_opc :: "routing_cmd \<Rightarrow> u8" where
  "routing_opc (Active_Source a) = CEC_MSG_ACTIVE_SOURCE"
| "routing_opc Image_View_On = CEC_MSG_IMAGE_VIEW_ON"
| "routing_opc Text_View_On = CEC_MSG_TEXT_VIEW_ON"
| "routing_opc (Inactive_Source a) = CEC_MSG_INACTIVE_SOURCE"
| "routing_opc Request_Active_Source = CEC_MSG_REQUEST_ACTIVE_SOURCE"
| "routing_opc (Routing_Information a) = CEC_MSG_ROUTING_INFORMATION"
| "routing_opc (Routing_Change a b) = CEC_MSG_ROUTING_CHANGE"
| "routing_opc (Set_Stream_Path a) = CEC_MSG_SET_STREAM_PATH"
| "routing_opc Standby = CEC_MSG_STANDBY"

definition routing_dec :: "cec_msg \<Rightarrow> routing_cmd option" where
  "routing_dec m = do { opcode \<leftarrow> get m 1;
     if opcode = CEC_MSG_ACTIVE_SOURCE then map_option Active_Source (cec_ops_active_source m)
     else if opcode = CEC_MSG_IMAGE_VIEW_ON then Some Image_View_On
     else if opcode = CEC_MSG_TEXT_VIEW_ON then Some Text_View_On
     else if opcode = CEC_MSG_INACTIVE_SOURCE then
       map_option Inactive_Source (cec_ops_inactive_source m)
     else if opcode = CEC_MSG_REQUEST_ACTIVE_SOURCE then Some Request_Active_Source
     else if opcode = CEC_MSG_ROUTING_INFORMATION then
       map_option Routing_Information (cec_ops_routing_information m)
     else if opcode = CEC_MSG_ROUTING_CHANGE then
       map_option (\<lambda>(a, b). Routing_Change a b) (cec_ops_routing_change m)
     else if opcode = CEC_MSG_SET_STREAM_PATH then
       map_option Set_Stream_Path (cec_ops_set_stream_path m)
     else if opcode = CEC_MSG_STANDBY then Some Standby
     else None }"

fun routing_bc :: "routing_cmd \<Rightarrow> bool" where
  "routing_bc Image_View_On = False"
| "routing_bc Text_View_On = False"
| "routing_bc (Inactive_Source a) = False"
| "routing_bc Standby = False"
| "routing_bc _ = True"

fun routing_rule :: "routing_cmd \<Rightarrow> reply_rule" where
  "routing_rule Request_Active_Source = Expect CEC_MSG_ACTIVE_SOURCE"
| "routing_rule (Routing_Change a b) = Expect CEC_MSG_ROUTING_INFORMATION"
| "routing_rule _ = Keep"

interpretation routing: cec_codec routing_enc routing_dec "\<lambda>_. True" routing_opc routing_bc
  routing_rule
proof (rule cec_codecI, goal_cases)
  case (1 c r m)
  then show ?case
    by (cases c) (auto simp: routing_defs cec_access cec_encoded_def cec_wf_def reply_after_def)
next
  case (2 c r m w junk)
  then show ?case
    by (cases c) (auto simp: routing_defs routing_dec_def cec_access cec_frame_def)
qed

end
