(* ===== verification/CecService.thy ===== *)
theory CecService
  imports CecCodec
begin

text \<open>
  The operand structures of \<open>cec-funcs.h\<close> that hold a C union, and the two functions that move
  a digital service identification between such a structure and a message.

  A \<open>struct cec_op_digital_service_id\<close> is kept as its eight bytes of storage, so that the
  members of its union alias each other as they do in memory: byte 0 is \<open>service_id_method\<close>,
  byte 1 \<open>dig_bcast_system\<close>, and the union starts at byte 2 (\<open>transport_id\<close> at 2, \<open>service_id\<close>
  or \<open>program_number\<close> at 4, \<open>orig_network_id\<close> at 6; for a channel, \<open>channel_number_fmt\<close> at 2,
  \<open>major\<close> at 4, \<open>minor\<close> at 6).
\<close>

section \<open>Storage\<close>

type_synonym cec_op_digital_service_id = "u8 list"

definition service_id_method :: "cec_op_digital_service_id \<Rightarrow> u8 option" where
  "service_id_method d = rd d 0"

definition dig_bcast_system :: "cec_op_digital_service_id \<Rightarrow> u8 option" where
  "dig_bcast_system d = rd d 1"

definition dvb_transport_id :: "cec_op_digital_service_id \<Rightarrow> u16 option" where
  "dvb_transport_id d = get16 d 2"

definition dvb_service_id :: "cec_op_digital_service_id \<Rightarrow> u16 option" where
  "dvb_service_id d = get16 d 4"

definition dvb_orig_network_id :: "cec_op_digital_service_id \<Rightarrow> u16 option" where
  "dvb_orig_network_id d = get16 d 6"

definition atsc_transport_id :: "cec_op_digital_service_id \<Rightarrow> u16 option" where
  "atsc_transport_id d = get16 d 2"

definition atsc_program_number :: "cec_op_digital_service_id \<Rightarrow> u16 option" where
  "atsc_program_number d = get16 d 4"

definition channel_number_fmt :: "cec_op_digital_service_id \<Rightarrow> u8 option" where
  "channel_number_fmt d = rd d 2"

definition channel_major :: "cec_op_digital_service_id \<Rightarrow> u16 option" where
  "channel_major d = get16 d 4"

definition channel_minor :: "cec_op_digital_service_id \<Rightarrow> u16 option" where
  "channel_minor d = get16 d 6"

lemmas service_fields = service_id_method_def dig_bcast_system_def dvb_transport_id_def
  dvb_service_id_def dvb_orig_network_id_def atsc_transport_id_def atsc_program_number_def
  channel_number_fmt_def channel_major_def channel_minor_def get16_def put16_def

section \<open>Writing and reading a service identification\<close>

definition is_atsc :: "u8 \<Rightarrow> bool" where
  "is_atsc s \<longleftrightarrow> s = CEC_OP_DIG_SERVICE_BCAST_SYSTEM_ATSC_GEN \<or>
     s = CEC_OP_DIG_SERVICE_BCAST_SYSTEM_ATSC_CABLE \<or>
     s = CEC_OP_DIG_SERVICE_BCAST_SYSTEM_ATSC_SAT \<or> s = CEC_OP_DIG_SERVICE_BCAST_SYSTEM_ATSC_T"

text \<open>\<open>p\<close> is the index of \<open>*msg\<close> in the payload; \<open>*msg++ = v\<close> writes at \<open>p\<close>, \<open>p + 1\<close>, ...\<close>

definition cec_set_digital_service_id ::
    "nat \<Rightarrow> cec_op_digital_service_id \<Rightarrow> cec_msg \<Rightarrow> cec_msg option" where
  "cec_set_digital_service_id p digital m = do {
     meth \<leftarrow> service_id_method digital;
     sys \<leftarrow> dig_bcast_system digital;
     m \<leftarrow> put p (pack8 7 meth sys) m;
     if meth = CEC_OP_SERVICE_ID_METHOD_BY_CHANNEL then do {
       fmt \<leftarrow> channel_number_fmt digital;
       major \<leftarrow> channel_major digital;
       minor \<leftarrow> channel_minor digital;
       m \<leftarrow> put (p + 1) (pack8 2 fmt (hi8 major)) m;
       m \<leftarrow> put (p + 2) (lo8 major) m;
       m \<leftarrow> put (p + 3) (hi8 minor) m;
       m \<leftarrow> put (p + 4) (lo8 minor) m;
       m \<leftarrow> put (p + 5) 0 m;
       put (p + 6) 0 m }
     else if is_atsc sys then do {
       tid \<leftarrow> atsc_transport_id digital;
       prog \<leftarrow> atsc_program_number digital;
       m \<leftarrow> put (p + 1) (hi8 tid) m;
       m \<leftarrow> put (p + 2) (lo8 tid) m;
       m \<leftarrow> put (p + 3) (hi8 prog) m;
       m \<leftarrow> put (p + 4) (lo8 prog) m;
       m \<leftarrow> put (p + 5) 0 m;
       put (p + 6) 0 m }
     else do {
       tid \<leftarrow> dvb_transport_id digital;
       sid \<leftarrow> dvb_service_id digital;
       nid \<leftarrow> dvb_orig_network_id digital;
       m \<leftarrow> put (p + 1) (hi8 tid) m;
       m \<leftarrow> put (p + 2) (lo8 tid) m;
       m \<leftarrow> put (p + 3) (hi8 sid) m;
       m \<leftarrow> put (p + 4) (lo8 sid) m;
       m \<leftarrow> put (p + 5) (hi8 nid) m;
       put (p + 6) (lo8 nid) m } }"

text \<open>\<open>((msg[1] & 3) << 6) | msg[2]\<close>: the channel's major number as the code reads it back.\<close>

definition get_major :: "u8 \<Rightarrow> u8 \<Rightarrow> u16" where
  "get_major a b = ucast (push_bit 6 ((ucast a :: cint) AND 3) OR ucast b)"

definition cec_get_digital_service_id ::
    "nat \<Rightarrow> cec_msg \<Rightarrow> cec_op_digital_service_id \<Rightarrow> cec_op_digital_service_id option" where
  "cec_get_digital_service_id p m digital = do {
     m0 \<leftarrow> get m p;
     digital \<leftarrow> wr digital 0 (drop_bit 7 m0);
     digital \<leftarrow> wr digital 1 (m0 AND 0x7f);
     meth \<leftarrow> service_id_method digital;
     if meth = CEC_OP_SERVICE_ID_METHOD_BY_CHANNEL then do {
       m1 \<leftarrow> get m (p + 1); m2 \<leftarrow> get m (p + 2); m3 \<leftarrow> get m (p + 3); m4 \<leftarrow> get m (p + 4);
       digital \<leftarrow> wr digital 2 (drop_bit 2 m1);
       digital \<leftarrow> put16 4 (get_major m1 m2) digital;
       put16 6 (be16 m3 m4) digital }
     else do {
       m1 \<leftarrow> get m (p + 1); m2 \<leftarrow> get m (p + 2); m3 \<leftarrow> get m (p + 3); m4 \<leftarrow> get m (p + 4);
       m5 \<leftarrow> get m (p + 5); m6 \<leftarrow> get m (p + 6);
       digital \<leftarrow> put16 2 (be16 m1 m2) digital;
       digital \<leftarrow> put16 4 (be16 m3 m4) digital;
       put16 6 (be16 m5 m6) digital } }"

section \<open>The service a structure names\<close>

text \<open>
  The abstract view: which service the bytes identify. \<open>digital_store\<close> fills a structure the
  way a caller does, \<open>digital_load\<close> reads the members the discriminating fields select.
\<close>

datatype digital_service =
    Channel u8 u8 u16 u16 \<comment> \<open>system, number format, major, minor\<close>
  | Atsc u8 u16 u16       \<comment> \<open>system, transport id, program number\<close>
  | Dvb u8 u16 u16 u16    \<comment> \<open>system, transport id, service id, original network id\<close>

fun digital_store :: "digital_service \<Rightarrow> cec_op_digital_service_id" where
  "digital_store (Channel s fmt major minor) =
     [1, s, fmt, 0, lo8 major, hi8 major, lo8 minor, hi8 minor]"
| "digital_store (Atsc s t p) = [0, s, lo8 t, hi8 t, lo8 p, hi8 p, 0, 0]"
| "digital_store (Dvb s t i n) = [0, s, lo8 t, hi8 t, lo8 i, hi8 i, lo8 n, hi8 n]"

definition digital_load :: "cec_op_digital_service_id \<Rightarrow> digital_service option" where
  "digital_load d = do {
     meth \<leftarrow> service_id_method d;
     sys \<leftarrow> dig_bcast_system d;
     if meth = CEC_OP_SERVICE_ID_METHOD_BY_CHANNEL then do {
       fmt \<leftarrow> channel_number_fmt d; major \<leftarrow> channel_major d; minor \<leftarrow> channel_minor d;
       Some (Channel sys fmt major minor) }
     else if is_atsc sys then do {
       t \<leftarrow> atsc_transport_id d; p \<leftarrow> atsc_program_number d; Some (Atsc sys t p) }
     else do {
       t \<leftarrow> dvb_transport_id d; i \<leftarrow> dvb_service_id d; n \<leftarrow> dvb_orig_network_id d;
       Some (Dvb sys t i n) } }"

text \<open>
  The services that survive a round trip. A channel's major number has ten bits on the wire,
  but the reader shifts the two high ones into bits 6 and 7 of the low byte, so only numbers
  below 256 do.
\<close>

fun digital_valid :: "digital_service \<Rightarrow> bool" where
  "digital_valid (Channel s fmt major minor) \<longleftrightarrow> s < 128 \<and> fmt < 64 \<and> major < 256"
| "digital_valid (Atsc s t p) \<longleftrightarrow> is_atsc s"
| "digital_valid (Dvb s t i n) \<longleftrightarrow> s < 128 \<and> \<not> is_atsc s"

lemma digital_load_store: "digital_valid d \<Longrightarrow> digital_load (digital_store d) = Some d"
  by (cases d) (auto simp: digital_load_def service_fields)

lemma is_atsc_less: "is_atsc s \<Longrightarrow> s < 128"
  by (auto simp: is_atsc_def)

lemma hi8_small: "x < 256 \<Longrightarrow> hi8 x = 0"
  by (rule bit_word_eqI) (auto simp: c_expr bit_simps dest: bit_below_literals)

lemma be16_0_lo8: "x < 256 \<Longrightarrow> be16 0 (lo8 x) = x"
  using be16_hi_lo [of x] by (simp add: hi8_small del: be16_hi_lo)

lemma hi8_less: "x < 1024 \<Longrightarrow> hi8 x < 4"
proof -
  assume "x < 1024"
  then have "hi8 x = hi8 x AND mask 2"
    by (intro bit_word_eqI) (auto simp: c_expr bit_simps dest: bit_below_literals)
  also have "\<dots> < 2 ^ 2"
    by (rule and_mask_less') simp
  finally show ?thesis by simp
qed

lemma get_major_small: "x < 256 \<Longrightarrow> get_major (pack8 2 f 0) (lo8 x) = x"
proof -
  assume x: "x < 256"
  have "get_major (pack8 2 f 0) (lo8 x) = ucast (lo8 x)"
    by (rule bit_word_eqI)
      (auto simp: get_major_def bit_pack8 c_expr word_AND_mask_literals bit_simps)
  also have "\<dots> = x"
    using x by (intro bit_word_eqI)
      (auto simp: c_expr word_AND_mask_literals bit_simps dest: bit_below_literals)
  finally show ?thesis .
qed

lemma digital_pack:
  "s < 128 \<Longrightarrow> drop_bit 7 (pack8 7 1 s) = 1" "s < 128 \<Longrightarrow> drop_bit 7 (pack8 7 0 s) = 0"
  "s < 128 \<Longrightarrow> pack8 7 a s AND 0x7f = s"
  by (simp_all add: drop_bit_pack8 take_bit_pack8 word_AND_mask_literals)

lemma fmt_pack: "f < 64 \<Longrightarrow> drop_bit 2 (pack8 2 f 0) = f"
  by (rule bit_word_eqI) (auto simp: bit_pack8 bit_simps dest: bit_below_literals)

lemmas digital_simps = digital_pack fmt_pack get_major_small hi8_small be16_0_lo8 is_atsc_less

end
