(* ===== verification/CecRecord.thy ===== *)
theory CecRecord
  imports CecService
begin

text \<open>
  The One Touch Record feature of \<open>cec-funcs.h\<close>. A \<open>struct cec_op_record_src\<close> is its type byte
  and the eight bytes of its union: a digital service identification, an analogue tuner
  setting (\<open>ana_bcast_type\<close> at byte 0, \<open>ana_freq\<close> at 2, \<open>bcast_system\<close> at 4), a plug number at
  byte 0, or a physical address at bytes 0 and 1.
\<close>

section \<open>Operations\<close>

record cec_op_record_src =
  rs_type :: u8
  rs_union :: "u8 list"

definition cec_msg_record_off :: "cec_msg \<Rightarrow> cint \<Rightarrow> cec_msg option" where
  "cec_msg_record_off m reply = do {
     m \<leftarrow> set_len 2 m;
     m \<leftarrow> put 1 CEC_MSG_RECORD_OFF m;
     set_reply (if reply \<noteq> 0 then CEC_MSG_RECORD_STATUS else 0) m }"

definition cec_msg_record_on_own :: "cec_msg \<Rightarrow> cec_msg option" where
  "cec_msg_record_on_own m = do {
     m \<leftarrow> set_len 3 m;
     m \<leftarrow> put 1 CEC_MSG_RECORD_ON m;
     put 2 CEC_OP_RECORD_SRC_OWN m }"

definition cec_msg_record_on_digital ::
    "cec_msg \<Rightarrow> cec_op_digital_service_id \<Rightarrow> cec_msg option" where
  "cec_msg_record_on_digital m digital = do {
     m \<leftarrow> set_len 10 m;
     m \<leftarrow> put 1 CEC_MSG_RECORD_ON m;
     m \<leftarrow> put 2 CEC_OP_RECORD_SRC_DIGITAL m;
     cec_set_digital_service_id 3 digital m }"

definition cec_msg_record_on_analog :: "cec_msg \<Rightarrow> u8 \<Rightarrow> u16 \<Rightarrow> u8 \<Rightarrow> cec_msg option" where
  "cec_msg_record_on_analog m ana_bcast_type ana_freq bcast_system = do {
     m \<leftarrow> set_len 7 m;
     m \<leftarrow> put 1 CEC_MSG_RECORD_ON m;
     m \<leftarrow> put 2 CEC_OP_RECORD_SRC_ANALOG m;
     m \<leftarrow> put 3 ana_bcast_type m;
     m \<leftarrow> put 4 (hi8 ana_freq) m;
     m \<leftarrow> put 5 (lo8 ana_freq) m;
     put 6 bcast_system m }"

definition cec_msg_record_on_plug :: "cec_msg \<Rightarrow> u8 \<Rightarrow> cec_msg option" where
  "cec_msg_record_on_plug m plug = do {
     m \<leftarrow> set_len 4 m;
     m \<leftarrow> put 1 CEC_MSG_RECORD_ON m;
     m \<leftarrow> put 2 CEC_OP_RECORD_SRC_EXT_PLUG m;
     put 3 plug m }"

definition cec_msg_record_on_phys_addr :: "cec_msg \<Rightarrow> u16 \<Rightarrow> cec_msg option" where
  "cec_msg_record_on_phys_addr m phys_addr = do {
     m \<leftarrow> set_len 5 m;
     m \<leftarrow> put 1 CEC_MSG_RECORD_ON m;
     m \<leftarrow> put 2 CEC_OP_RECORD_SRC_EXT_PHYS_ADDR m;
     m \<leftarrow> put 3 (hi8 phys_addr) m;
     put 4 (lo8 phys_addr) m }"

definition cec_msg_record_on :: "cec_msg \<Rightarrow> cint \<Rightarrow> cec_op_record_src \<Rightarrow> cec_msg option" where
  "cec_msg_record_on m reply rec_src = do {
     m \<leftarrow> (if rs_type rec_src = CEC_OP_RECORD_SRC_OWN then cec_msg_record_on_own m
          else if rs_type rec_src = CEC_OP_RECORD_SRC_DIGITAL then
            cec_msg_record_on_digital m (rs_union rec_src)
          else if rs_type rec_src = CEC_OP_RECORD_SRC_ANALOG then do {
            t \<leftarrow> rd (rs_union rec_src) 0;
            f \<leftarrow> get16 (rs_union rec_src) 2;
            s \<leftarrow> rd (rs_union rec_src) 4;
            cec_msg_record_on_analog m t f s }
          else if rs_type rec_src = CEC_OP_RECORD_SRC_EXT_PLUG then do {
            p \<leftarrow> rd (rs_union rec_src) 0;
            cec_msg_record_on_plug m p }
          else if rs_type rec_src = CEC_OP_RECORD_SRC_EXT_PHYS_ADDR then do {
            a \<leftarrow> get16 (rs_union rec_src) 0;
            cec_msg_record_on_phys_addr m a }
          else Some m);
     set_reply (if reply \<noteq> 0 then CEC_MSG_RECORD_STATUS else 0) m }"

definition cec_ops_record_on :: "cec_msg \<Rightarrow> cec_op_record_src \<Rightarrow> cec_op_record_src option" where
  "cec_ops_record_on m rec_src = do {
     t \<leftarrow> get m 2;
     rec_src \<leftarrow> Some (rec_src\<lparr>rs_type := t\<rparr>);
     u \<leftarrow> (if rs_type rec_src = CEC_OP_RECORD_SRC_OWN then Some (rs_union rec_src)
          else if rs_type rec_src = CEC_OP_RECORD_SRC_DIGITAL then
            cec_get_digital_service_id 3 m (rs_union rec_src)
          else if rs_type rec_src = CEC_OP_RECORD_SRC_ANALOG then do {
            b3 \<leftarrow> get m 3; b4 \<leftarrow> get m 4; b5 \<leftarrow> get m 5; b6 \<leftarrow> get m 6;
            u \<leftarrow> wr (rs_union rec_src) 0 b3;
            u \<leftarrow> put16 2 (be16 b4 b5) u;
            wr u 4 b6 }
          else if rs_type rec_src = CEC_OP_RECORD_SRC_EXT_PLUG then do {
            b3 \<leftarrow> get m 3;
            wr (rs_union rec_src) 0 b3 }
          else if rs_type rec_src = CEC_OP_RECORD_SRC_EXT_PHYS_ADDR then do {
            b3 \<leftarrow> get m 3; b4 \<leftarrow> get m 4;
            put16 0 (be16 b3 b4) (rs_union rec_src) }
          else Some (rs_union rec_src));
     Some (rec_src\<lparr>rs_union := u\<rparr>) }"

definition cec_msg_record_status :: "cec_msg \<Rightarrow> u8 \<Rightarrow> cec_msg option" where
  "cec_msg_record_status m rec_status = do {
     m \<leftarrow> set_len 3 m;
     m \<leftarrow> put 1 CEC_MSG_RECORD_STATUS m;
     put 2 rec_status m }"

definition cec_ops_record_status :: "cec_msg \<Rightarrow> u8 option" where
  "cec_ops_record_status m = get m 2"

definition cec_msg_record_tv_screen :: "cec_msg \<Rightarrow> cint \<Rightarrow> cec_msg option" where
  "cec_msg_record_tv_screen m reply = do {
     m \<leftarrow> set_len 2 m;
     m \<leftarrow> put 1 CEC_MSG_RECORD_TV_SCREEN m;
     set_reply (if reply \<noteq> 0 then CEC_MSG_RECORD_ON else 0) m }"

lemmas record_defs =
  cec_msg_record_off_def cec_msg_record_on_own_def cec_msg_record_on_digital_def
  cec_msg_record_on_analog_def cec_msg_record_on_plug_def cec_msg_record_on_phys_addr_def
  cec_msg_record_on_def cec_ops_record_on_def cec_msg_record_status_def
  cec_ops_record_status_def cec_msg_record_tv_screen_def

section \<open>The commands as a codec\<close>

datatype record_source = Own | Digital digital_service | Analog u8 u16 u8 | Ext_Plug u8
  | Ext_Phys_Addr u16

fun source_store :: "record_source \<Rightarrow> cec_op_record_src" where
  "source_store Own = \<lparr>rs_type = 1, rs_union = replicate 8 0\<rparr>"
| "source_store (Digital d) = \<lparr>rs_type = 2, rs_union = digital_store d\<rparr>"
| "source_store (Analog t f s) = \<lparr>rs_type = 3, rs_union = [t, 0, lo8 f, hi8 f, s, 0, 0, 0]\<rparr>"
| "source_store (Ext_Plug p) = \<lparr>rs_type = 4, rs_union = [p, 0, 0, 0, 0, 0, 0, 0]\<rparr>"
| "source_store (Ext_Phys_Addr a) =
     \<lparr>rs_type = 5, rs_union = [lo8 a, hi8 a, 0, 0, 0, 0, 0, 0]\<rparr>"

definition source_load :: "cec_op_record_src \<Rightarrow> record_source option" where
  "source_load s =
     (if rs_type s = 1 then Some Own
      else if rs_type s = 2 then map_option Digital (digital_load (rs_union s))
      else if rs_type s = 3 then do {
        t \<leftarrow> rd (rs_union s) 0; f \<leftarrow> get16 (rs_union s) 2; b \<leftarrow> rd (rs_union s) 4;
        Some (Analog t f b) }
      else if rs_type s = 4 then map_option Ext_Plug (rd (rs_union s) 0)
      else if rs_type s = 5 then map_option Ext_Phys_Addr (get16 (rs_union s) 0)
      else None)"

datatype record_cmd = Record_Off | Record_On record_source | Record_Status u8 | Record_TV_Screen

fun record_enc :: "record_cmd \<Rightarrow> cint \<Rightarrow> cec_msg \<Rightarrow> cec_msg option" where
  "record_enc Record_Off r m = cec_msg_record_off m r"
| "record_enc (Record_On s) r m = cec_msg_record_on m r (source_store s)"
| "record_enc (Record_Status s) r m = cec_msg_record_status m s"
| "record_enc Record_TV_Screen r m = cec_msg_record_tv_screen m r"

definition record_dec :: "cec_op_record_src \<Rightarrow> cec_msg \<Rightarrow> record_cmd option" where
  "record_dec out m = do { opcode \<leftarrow> get m 1;
     if opcode = CEC_MSG_RECORD_OFF then Some Record_Off
     else if opcode = CEC_MSG_RECORD_ON then do {
       s \<leftarrow> cec_ops_record_on m out; map_option Record_On (source_load s) }
     else if opcode = CEC_MSG_RECORD_STATUS then
       map_option Record_Status (cec_ops_record_status m)
     else if opcode = CEC_MSG_RECORD_TV_SCREEN then Some Record_TV_Screen
     else None }"

fun record_valid :: "record_cmd \<Rightarrow> bool" where
  "record_valid (Record_On (Digital d)) \<longleftrightarrow> digital_valid d"
| "record_valid _ \<longleftrightarrow> True"

fun record_opc :: "record_cmd \<Rightarrow> u8" where
  "record_opc Record_Off = CEC_MSG_RECORD_OFF"
| "record_opc (Record_On s) = CEC_MSG_RECORD_ON"
| "record_opc (Record_Status s) = CEC_MSG_RECORD_STATUS"
| "record_opc Record_TV_Screen = CEC_MSG_RECORD_TV_SCREEN"

fun record_rule :: "record_cmd \<Rightarrow> reply_rule" where
  "record_rule Record_Off = Expect CEC_MSG_RECORD_STATUS"
| "record_rule (Record_On s) = Expect CEC_MSG_RECORD_STATUS"
| "record_rule (Record_Status s) = Keep"
| "record_rule Record_TV_Screen = Expect CEC_MSG_RECORD_ON"

text \<open>The decoder fills a structure of the caller's, whose old contents do not matter.\<close>

lemma record_codec:
  assumes "length u = 8"
  shows "cec_codec record_enc (record_dec \<lparr>rs_type = t, rs_union = u\<rparr>) record_valid record_opc
    (\<lambda>_. False) record_rule"
proof (rule cec_codecI, goal_cases)
  case (1 c r m)
  then show ?case
  proof (cases c)
    case (Record_On s)
    then show ?thesis
    proof (cases s)
      case (Digital d)
      with 1 Record_On show ?thesis
        by (cases d) (auto simp: record_defs cec_set_digital_service_id_def service_fields
            cec_access cec_encoded_def cec_wf_def reply_after_def)
    qed (use 1 Record_On in \<open>auto simp: record_defs cec_access cec_encoded_def cec_wf_def
        reply_after_def get16_def\<close>)
  qed (auto simp: record_defs cec_access cec_encoded_def cec_wf_def reply_after_def)
next
  case (2 c r m w junk)
  obtain u0 u1 u2 u3 u4 u5 u6 u7 where u: "u = [u0, u1, u2, u3, u4, u5, u6, u7]"
    using assms by (auto simp: numeral_eq_Suc length_Suc_conv)
  from 2 show ?case
  proof (cases c)
    case (Record_On s)
    then show ?thesis
    proof (cases s)
      case (Digital d)
      with 2 Record_On u show ?thesis
        by (cases d) (auto simp: record_defs record_dec_def source_load_def digital_load_def
            cec_set_digital_service_id_def cec_get_digital_service_id_def service_fields
            cec_access cec_frame_def digital_simps)
    qed (use 2 Record_On u in \<open>auto simp: record_defs record_dec_def source_load_def
        cec_access cec_frame_def get16_def put16_def\<close>)
  qed (auto simp: record_defs record_dec_def cec_access cec_frame_def)
qed

interpretation recording: cec_codec record_enc
  "record_dec \<lparr>rs_type = 0, rs_union = replicate 8 0\<rparr>" record_valid record_opc "\<lambda>_. False"
  record_rule
  by (rule record_codec) simp

text \<open>A source type outside the five defined ones leaves the message as it was.\<close>

lemma record_on_unknown_type:
  assumes "rs_type s \<notin> {1, 2, 3, 4, 5}"
  shows "cec_msg_record_on m r s =
    Some (m\<lparr>m_reply := if r \<noteq> 0 then CEC_MSG_RECORD_STATUS else 0\<rparr>)"
  using assms by (simp add: cec_msg_record_on_def set_reply_def)

end
