(* ===== verification/CecTimer.thy ===== *)
theory CecTimer
  imports CecService
begin

text \<open>
  The Timer Programming feature of \<open>cec-funcs.h\<close>. Times of day and durations travel as two BCD
  digits; \<open>timer_slot\<close> groups the seven operands the six timer messages start with. A program
  title is a C string: the sender passes a NUL-terminated buffer, the receiver fills a buffer
  of fifteen bytes.
\<close>

section \<open>Timer status\<close>

text \<open>The status byte: warning, media, and either a program info or a program error.\<close>

definition timer_status_byte :: "u8 \<Rightarrow> u8 \<Rightarrow> u8 \<Rightarrow> u8 \<Rightarrow> u8" where
  "timer_status_byte timer_overlap_warning media_info prog_info prog_error =
     ucast (push_bit 7 (ucast timer_overlap_warning :: cint) OR push_bit 5 (ucast media_info) OR
       (if prog_info \<noteq> 0 then 0x10 else 0) OR
       (if prog_info \<noteq> 0 then ucast prog_info else ucast prog_error))"

text \<open>The condition under which the message carries a duration.\<close>

definition has_duration :: "u8 \<Rightarrow> u8 \<Rightarrow> bool" where
  "has_duration prog_info prog_error \<longleftrightarrow>
     prog_info = CEC_OP_PROG_INFO_NOT_ENOUGH_SPACE \<or>
     prog_info = CEC_OP_PROG_INFO_MIGHT_NOT_BE_ENOUGH_SPACE \<or>
     prog_error = CEC_OP_PROG_ERROR_DUPLICATE"

definition cec_msg_timer_status ::
    "cec_msg \<Rightarrow> u8 \<Rightarrow> u8 \<Rightarrow> u8 \<Rightarrow> u8 \<Rightarrow> u8 \<Rightarrow> u8 \<Rightarrow> cec_msg option" where
  "cec_msg_timer_status m timer_overlap_warning media_info prog_info prog_error duration_hr
     duration_min = do {
     m \<leftarrow> set_len 3 m;
     m \<leftarrow> put 1 CEC_MSG_TIMER_STATUS m;
     m \<leftarrow> put 2 (timer_status_byte timer_overlap_warning media_info prog_info prog_error) m;
     if has_duration prog_info prog_error then do {
       m \<leftarrow> set_len (m_len m + 2) m;
       m \<leftarrow> put 3 (bcd duration_hr) m;
       put 4 (bcd duration_min) m }
     else Some m }"

definition cec_ops_timer_status ::
    "cec_msg \<Rightarrow> (u8 \<times> u8 \<times> u8 \<times> u8 \<times> u8 \<times> u8) option" where
  "cec_ops_timer_status m = do {
     b2 \<leftarrow> get m 2;
     (prog_info, prog_error) \<leftarrow>
       (if b2 AND 0x10 \<noteq> 0 then Some (b2 AND 0xf, 0) else Some (0, b2 AND 0xf));
     (duration_hr, duration_min) \<leftarrow>
       (if has_duration prog_info prog_error then do {
          b3 \<leftarrow> get m 3; b4 \<leftarrow> get m 4;
          Some (unbcd b3, unbcd b4) }
        else Some (0, 0));
     Some (drop_bit 7 b2, drop_bit 5 b2 AND 3, prog_info, prog_error, duration_hr, duration_min) }"

definition cec_msg_timer_cleared_status ::
    "cec_msg \<Rightarrow> u8 \<Rightarrow> cec_msg option" where
  "cec_msg_timer_cleared_status m timer_cleared_status = do {
     m \<leftarrow> set_len 3 m;
     m \<leftarrow> put 1 CEC_MSG_TIMER_CLEARED_STATUS m;
     put 2 timer_cleared_status m }"

definition cec_ops_timer_cleared_status :: "cec_msg \<Rightarrow> u8 option" where
  "cec_ops_timer_cleared_status m = get m 2"

section \<open>Clearing timers\<close>

definition cec_msg_clear_analogue_timer ::
    "cec_msg \<Rightarrow> cint \<Rightarrow> u8 \<Rightarrow> u8 \<Rightarrow> u8 \<Rightarrow> u8 \<Rightarrow> u8 \<Rightarrow> u8 \<Rightarrow> u8 \<Rightarrow> u8 \<Rightarrow> u16 \<Rightarrow> u8 \<Rightarrow> cec_msg
     option" where
  "cec_msg_clear_analogue_timer m reply day month start_hr start_min duration_hr duration_min
     recording_seq ana_bcast_type ana_freq bcast_system = do {
     m \<leftarrow> set_len 13 m;
     m \<leftarrow> put 1 CEC_MSG_CLEAR_ANALOGUE_TIMER m;
     m \<leftarrow> put 2 day m;
     m \<leftarrow> put 3 month m;
     m \<leftarrow> put 4 (bcd start_hr) m;
     m \<leftarrow> put 5 (bcd start_min) m;
     m \<leftarrow> put 6 (bcd duration_hr) m;
     m \<leftarrow> put 7 (bcd duration_min) m;
     m \<leftarrow> put 8 recording_seq m;
     m \<leftarrow> put 9 ana_bcast_type m;
     m \<leftarrow> put 10 (hi8 ana_freq) m;
     m \<leftarrow> put 11 (lo8 ana_freq) m;
     m \<leftarrow> put 12 bcast_system m;
     set_reply (if reply \<noteq> 0 then CEC_MSG_TIMER_CLEARED_STATUS else 0) m }"

definition cec_ops_clear_analogue_timer ::
    "cec_msg \<Rightarrow> (u8 \<times> u8 \<times> u8 \<times> u8 \<times> u8 \<times> u8 \<times> u8 \<times> u8 \<times> u16 \<times> u8) option" where
  "cec_ops_clear_analogue_timer m = do {
     b2 \<leftarrow> get m 2; b3 \<leftarrow> get m 3; b4 \<leftarrow> get m 4; b5 \<leftarrow> get m 5; b6 \<leftarrow> get m 6;
     b7 \<leftarrow> get m 7; b8 \<leftarrow> get m 8; b9 \<leftarrow> get m 9; b10 \<leftarrow> get m 10; b11 \<leftarrow> get m 11;
     b12 \<leftarrow> get m 12;
     Some (b2, b3, unbcd b4, unbcd b5, unbcd b6, unbcd b7, b8, b9, be16 b10 b11, b12) }"

definition cec_msg_clear_digital_timer ::
    "cec_msg \<Rightarrow> cint \<Rightarrow> u8 \<Rightarrow> u8 \<Rightarrow> u8 \<Rightarrow> u8 \<Rightarrow> u8 \<Rightarrow> u8 \<Rightarrow> u8 \<Rightarrow> cec_op_digital_service_id
     \<Rightarrow> cec_msg option" where
  "cec_msg_clear_digital_timer m reply day month start_hr start_min duration_hr duration_min
     recording_seq digital = do {
     m \<leftarrow> set_len 16 m;
     m \<leftarrow> set_reply (if reply \<noteq> 0 then CEC_MSG_TIMER_CLEARED_STATUS else 0) m;
     m \<leftarrow> put 1 CEC_MSG_CLEAR_DIGITAL_TIMER m;
     m \<leftarrow> put 2 day m;
     m \<leftarrow> put 3 month m;
     m \<leftarrow> put 4 (bcd start_hr) m;
     m \<leftarrow> put 5 (bcd start_min) m;
     m \<leftarrow> put 6 (bcd duration_hr) m;
     m \<leftarrow> put 7 (bcd duration_min) m;
     m \<leftarrow> put 8 recording_seq m;
     cec_set_digital_service_id 9 digital m }"

definition cec_ops_clear_digital_timer ::
    "cec_msg \<Rightarrow> cec_op_digital_service_id \<Rightarrow>
     (u8 \<times> u8 \<times> u8 \<times> u8 \<times> u8 \<times> u8 \<times> u8 \<times> cec_op_digital_service_id) option" where
  "cec_ops_clear_digital_timer m digital = do {
     b2 \<leftarrow> get m 2; b3 \<leftarrow> get m 3; b4 \<leftarrow> get m 4; b5 \<leftarrow> get m 5; b6 \<leftarrow> get m 6;
     b7 \<leftarrow> get m 7; b8 \<leftarrow> get m 8;
     digital \<leftarrow> cec_get_digital_service_id 9 m digital;
     Some (b2, b3, unbcd b4, unbcd b5, unbcd b6, unbcd b7, b8, digital) }"

definition cec_msg_clear_ext_timer ::
    "cec_msg \<Rightarrow> cint \<Rightarrow> u8 \<Rightarrow> u8 \<Rightarrow> u8 \<Rightarrow> u8 \<Rightarrow> u8 \<Rightarrow> u8 \<Rightarrow> u8 \<Rightarrow> u8 \<Rightarrow> u8 \<Rightarrow> u16 \<Rightarrow> cec_msg
     option" where
  "cec_msg_clear_ext_timer m reply day month start_hr start_min duration_hr duration_min
     recording_seq ext_src_spec plug phys_addr = do {
     m \<leftarrow> set_len 13 m;
     m \<leftarrow> put 1 CEC_MSG_CLEAR_EXT_TIMER m;
     m \<leftarrow> put 2 day m;
     m \<leftarrow> put 3 month m;
     m \<leftarrow> put 4 (bcd start_hr) m;
     m \<leftarrow> put 5 (bcd start_min) m;
     m \<leftarrow> put 6 (bcd duration_hr) m;
     m \<leftarrow> put 7 (bcd duration_min) m;
     m \<leftarrow> put 8 recording_seq m;
     m \<leftarrow> put 9 ext_src_spec m;
     m \<leftarrow> put 10 plug m;
     m \<leftarrow> put 11 (hi8 phys_addr) m;
     m \<leftarrow> put 12 (lo8 phys_addr) m;
     set_reply (if reply \<noteq> 0 then CEC_MSG_TIMER_CLEARED_STATUS else 0) m }"

definition cec_ops_clear_ext_timer ::
    "cec_msg \<Rightarrow> (u8 \<times> u8 \<times> u8 \<times> u8 \<times> u8 \<times> u8 \<times> u8 \<times> u8 \<times> u8 \<times> u16) option" where
  "cec_ops_clear_ext_timer m = do {
     b2 \<leftarrow> get m 2; b3 \<leftarrow> get m 3; b4 \<leftarrow> get m 4; b5 \<leftarrow> get m 5; b6 \<leftarrow> get m 6;
     b7 \<leftarrow> get m 7; b8 \<leftarrow> get m 8; b9 \<leftarrow> get m 9; b10 \<leftarrow> get m 10; b11 \<leftarrow> get m 11;
     b12 \<leftarrow> get m 12;
     Some (b2, b3, unbcd b4, unbcd b5, unbcd b6, unbcd b7, b8, b9, b10, be16 b11 b12) }"

section \<open>Setting timers\<close>

definition cec_msg_set_analogue_timer ::
    "cec_msg \<Rightarrow> cint \<Rightarrow> u8 \<Rightarrow> u8 \<Rightarrow> u8 \<Rightarrow> u8 \<Rightarrow> u8 \<Rightarrow> u8 \<Rightarrow> u8 \<Rightarrow> u8 \<Rightarrow> u16 \<Rightarrow> u8 \<Rightarrow> cec_msg
     option" where
  "cec_msg_set_analogue_timer m reply day month start_hr start_min duration_hr duration_min
     recording_seq ana_bcast_type ana_freq bcast_system = do {
     m \<leftarrow> set_len 13 m;
     m \<leftarrow> put 1 CEC_MSG_SET_ANALOGUE_TIMER m;
     m \<leftarrow> put 2 day m;
     m \<leftarrow> put 3 month m;
     m \<leftarrow> put 4 (bcd start_hr) m;
     m \<leftarrow> put 5 (bcd start_min) m;
     m \<leftarrow> put 6 (bcd duration_hr) m;
     m \<leftarrow> put 7 (bcd duration_min) m;
     m \<leftarrow> put 8 recording_seq m;
     m \<leftarrow> put 9 ana_bcast_type m;
     m \<leftarrow> put 10 (hi8 ana_freq) m;
     m \<leftarrow> put 11 (lo8 ana_freq) m;
     m \<leftarrow> put 12 bcast_system m;
     set_reply (if reply \<noteq> 0 then CEC_MSG_TIMER_STATUS else 0) m }"

definition cec_ops_set_analogue_timer ::
    "cec_msg \<Rightarrow> (u8 \<times> u8 \<times> u8 \<times> u8 \<times> u8 \<times> u8 \<times> u8 \<times> u8 \<times> u16 \<times> u8) option" where
  "cec_ops_set_analogue_timer m = do {
     b2 \<leftarrow> get m 2; b3 \<leftarrow> get m 3; b4 \<leftarrow> get m 4; b5 \<leftarrow> get m 5; b6 \<leftarrow> get m 6;
     b7 \<leftarrow> get m 7; b8 \<leftarrow> get m 8; b9 \<leftarrow> get m 9; b10 \<leftarrow> get m 10; b11 \<leftarrow> get m 11;
     b12 \<leftarrow> get m 12;
     Some (b2, b3, unbcd b4, unbcd b5, unbcd b6, unbcd b7, b8, b9, be16 b10 b11, b12) }"

definition cec_msg_set_digital_timer ::
    "cec_msg \<Rightarrow> cint \<Rightarrow> u8 \<Rightarrow> u8 \<Rightarrow> u8 \<Rightarrow> u8 \<Rightarrow> u8 \<Rightarrow> u8 \<Rightarrow> u8 \<Rightarrow> cec_op_digital_service_id
     \<Rightarrow> cec_msg option" where
  "cec_msg_set_digital_timer m reply day month start_hr start_min duration_hr duration_min
     recording_seq digital = do {
     m \<leftarrow> set_len 16 m;
     m \<leftarrow> set_reply (if reply \<noteq> 0 then CEC_MSG_TIMER_STATUS else 0) m;
     m \<leftarrow> put 1 CEC_MSG_SET_DIGITAL_TIMER m;
     m \<leftarrow> put 2 day m;
     m \<leftarrow> put 3 month m;
     m \<leftarrow> put 4 (bcd start_hr) m;
     m \<leftarrow> put 5 (bcd start_min) m;
     m \<leftarrow> put 6 (bcd duration_hr) m;
     m \<leftarrow> put 7 (bcd duration_min) m;
     m \<leftarrow> put 8 recording_seq m;
     cec_set_digital_service_id 9 digital m }"

definition cec_ops_set_digital_timer ::
    "cec_msg \<Rightarrow> cec_op_digital_service_id \<Rightarrow>
     (u8 \<times> u8 \<times> u8 \<times> u8 \<times> u8 \<times> u8 \<times> u8 \<times> cec_op_digital_service_id) option" where
  "cec_ops_set_digital_timer m digital = do {
     b2 \<leftarrow> get m 2; b3 \<leftarrow> get m 3; b4 \<leftarrow> get m 4; b5 \<leftarrow> get m 5; b6 \<leftarrow> get m 6;
     b7 \<leftarrow> get m 7; b8 \<leftarrow> get m 8;
     digital \<leftarrow> cec_get_digital_service_id 9 m digital;
     Some (b2, b3, unbcd b4, unbcd b5, unbcd b6, unbcd b7, b8, digital) }"

definition cec_msg_set_ext_timer ::
    "cec_msg \<Rightarrow> cint \<Rightarrow> u8 \<Rightarrow> u8 \<Rightarrow> u8 \<Rightarrow> u8 \<Rightarrow> u8 \<Rightarrow> u8 \<Rightarrow> u8 \<Rightarrow> u8 \<Rightarrow> u8 \<Rightarrow> u16 \<Rightarrow> cec_msg
     option" where
  "cec_msg_set_ext_timer m reply day month start_hr start_min duration_hr duration_min
     recording_seq ext_src_spec plug phys_addr = do {
     m \<leftarrow> set_len 13 m;
     m \<leftarrow> put 1 CEC_MSG_SET_EXT_TIMER m;
     m \<leftarrow> put 2 day m;
     m \<leftarrow> put 3 month m;
     m \<leftarrow> put 4 (bcd start_hr) m;
     m \<leftarrow> put 5 (bcd start_min) m;
     m \<leftarrow> put 6 (bcd duration_hr) m;
     m \<leftarrow> put 7 (bcd duration_min) m;
     m \<leftarrow> put 8 recording_seq m;
     m \<leftarrow> put 9 ext_src_spec m;
     m \<leftarrow> put 10 plug m;
     m \<leftarrow> put 11 (hi8 phys_addr) m;
     m \<leftarrow> put 12 (lo8 phys_addr) m;
     set_reply (if reply \<noteq> 0 then CEC_MSG_TIMER_STATUS else 0) m }"

definition cec_ops_set_ext_timer ::
    "cec_msg \<Rightarrow> (u8 \<times> u8 \<times> u8 \<times> u8 \<times> u8 \<times> u8 \<times> u8 \<times> u8 \<times> u8 \<times> u16) option" where
  "cec_ops_set_ext_timer m = do {
     b2 \<leftarrow> get m 2; b3 \<leftarrow> get m 3; b4 \<leftarrow> get m 4; b5 \<leftarrow> get m 5; b6 \<leftarrow> get m 6;
     b7 \<leftarrow> get m 7; b8 \<leftarrow> get m 8; b9 \<leftarrow> get m 9; b10 \<leftarrow> get m 10; b11 \<leftarrow> get m 11;
     b12 \<leftarrow> get m 12;
     Some (b2, b3, unbcd b4, unbcd b5, unbcd b6, unbcd b7, b8, b9, b10, be16 b11 b12) }"

section \<open>The program title\<close>

definition cec_msg_set_timer_program_title :: "cec_msg \<Rightarrow> u8 list \<Rightarrow> cec_msg option" where
  "cec_msg_set_timer_program_title m prog_title = do {
     n \<leftarrow> strlen prog_title;
     len \<leftarrow> Some (word_of_nat n :: u32);
     len \<leftarrow> Some (if len > 14 then 14 else len);
     m \<leftarrow> set_len (2 + len) m;
     m \<leftarrow> put 1 CEC_MSG_SET_TIMER_PROGRAM_TITLE m;
     put_bytes 2 prog_title (unat len) m }"

definition cec_ops_set_timer_program_title :: "cec_msg \<Rightarrow> u8 list \<Rightarrow> u8 list option" where
  "cec_ops_set_timer_program_title m prog_title = do {
     len \<leftarrow> Some (if m_len m > 2 then m_len m - 2 else 0);
     len \<leftarrow> Some (if len > 14 then 14 else len);
     prog_title \<leftarrow> memcpy prog_title 0 (m_msg m) 2 (unat len);
     wr prog_title (unat len) 0 }"

lemmas timer_defs =
  cec_msg_timer_status_def cec_ops_timer_status_def cec_msg_timer_cleared_status_def
  cec_ops_timer_cleared_status_def cec_msg_clear_analogue_timer_def
  cec_ops_clear_analogue_timer_def cec_msg_clear_digital_timer_def
  cec_ops_clear_digital_timer_def cec_msg_clear_ext_timer_def cec_ops_clear_ext_timer_def
  cec_msg_set_analogue_timer_def cec_ops_set_analogue_timer_def cec_msg_set_digital_timer_def
  cec_ops_set_digital_timer_def cec_msg_set_ext_timer_def cec_ops_set_ext_timer_def

section \<open>Lemmas\<close>

text \<open>The status byte taken apart.\<close>

lemma bit_16: "bit (16 :: int) n \<longleftrightarrow> n = 4" "bit (16 :: u8) n \<longleftrightarrow> n = 4" "bit (16 :: cint) n \<longleftrightarrow> n = 4"
  using bit_exp_iff [where 'a = int, of 4 n] bit_exp_iff [where 'a = u8, of 4 n]
    bit_exp_iff [where 'a = cint, of 4 n] by auto

lemma timer_status_byte_fields:
  assumes "tow < 2" and "mi < 4" and "pinfo < 16" and "perr < 16"
  shows "drop_bit 7 (timer_status_byte tow mi pinfo perr) = tow"
    and "drop_bit 5 (timer_status_byte tow mi pinfo perr) AND 3 = mi"
    and "timer_status_byte tow mi pinfo perr AND 0xf = (if pinfo \<noteq> 0 then pinfo else perr)"
    and "(timer_status_byte tow mi pinfo perr AND 0x10 = 0) = (pinfo = 0)"
proof -
  have n: "bit tow n \<Longrightarrow> n < 1" "bit mi n \<Longrightarrow> n < 2" "bit pinfo n \<Longrightarrow> n < 4" "bit perr n \<Longrightarrow> n < 4" for n
    using assms bit_below_literals by blast+
  have bit: "bit (timer_status_byte tow mi pinfo perr) n \<longleftrightarrow>
      n < 8 \<and> (7 \<le> n \<and> bit tow (n - 7) \<or> 5 \<le> n \<and> bit mi (n - 5) \<or> n = 4 \<and> pinfo \<noteq> 0 \<or>
        bit (if pinfo \<noteq> 0 then pinfo else perr) n)" for n
    by (auto simp: timer_status_byte_def bit_simps bit_16 dest: bit_imp_le_length)
  show "drop_bit 7 (timer_status_byte tow mi pinfo perr) = tow"
    by (rule bit_word_eqI) (auto simp: bit bit_drop_bit_eq dest: n split: if_splits)
  show "drop_bit 5 (timer_status_byte tow mi pinfo perr) AND 3 = mi"
    by (rule bit_word_eqI) (auto simp: bit word_AND_mask_literals bit_simps dest: n split: if_splits)
  show "timer_status_byte tow mi pinfo perr AND 0xf = (if pinfo \<noteq> 0 then pinfo else perr)"
    by (rule bit_word_eqI) (auto simp: bit word_AND_mask_literals bit_simps dest: n)
  show "(timer_status_byte tow mi pinfo perr AND 0x10 = 0) = (pinfo = 0)"
    using and_exp_eq_0_iff_not_bit [of "timer_status_byte tow mi pinfo perr" 4]
    by (auto simp: bit dest: n)
qed

section \<open>The commands as a codec\<close>

record timer_slot =
  day :: u8
  month :: u8
  start_hr :: u8
  start_min :: u8
  duration_hr :: u8
  duration_min :: u8
  recording_seq :: u8

datatype timer_cmd =
    Timer_Status u8 u8 u8 u8 u8 u8
  | Timer_Cleared_Status u8
  | Clear_Analogue_Timer timer_slot u8 u16 u8
  | Clear_Digital_Timer timer_slot digital_service
  | Clear_Ext_Timer timer_slot u8 u8 u16
  | Set_Analogue_Timer timer_slot u8 u16 u8
  | Set_Digital_Timer timer_slot digital_service
  | Set_Ext_Timer timer_slot u8 u8 u16
  | Set_Timer_Program_Title "u8 list"

definition with_slot :: "(u8 \<Rightarrow> u8 \<Rightarrow> u8 \<Rightarrow> u8 \<Rightarrow> u8 \<Rightarrow> u8 \<Rightarrow> u8 \<Rightarrow> 'a) \<Rightarrow> timer_slot \<Rightarrow> 'a" where
  "with_slot f t = f (day t) (month t) (start_hr t) (start_min t) (duration_hr t)
     (duration_min t) (recording_seq t)"

fun timer_enc :: "timer_cmd \<Rightarrow> cint \<Rightarrow> cec_msg \<Rightarrow> cec_msg option" where
  "timer_enc (Timer_Status w i p e h n) r m = cec_msg_timer_status m w i p e h n"
| "timer_enc (Timer_Cleared_Status s) r m = cec_msg_timer_cleared_status m s"
| "timer_enc (Clear_Analogue_Timer t b f s) r m =
     with_slot (cec_msg_clear_analogue_timer m r) t b f s"
| "timer_enc (Clear_Digital_Timer t d) r m =
     with_slot (cec_msg_clear_digital_timer m r) t (digital_store d)"
| "timer_enc (Clear_Ext_Timer t e p a) r m = with_slot (cec_msg_clear_ext_timer m r) t e p a"
| "timer_enc (Set_Analogue_Timer t b f s) r m =
     with_slot (cec_msg_set_analogue_timer m r) t b f s"
| "timer_enc (Set_Digital_Timer t d) r m =
     with_slot (cec_msg_set_digital_timer m r) t (digital_store d)"
| "timer_enc (Set_Ext_Timer t e p a) r m = with_slot (cec_msg_set_ext_timer m r) t e p a"
| "timer_enc (Set_Timer_Program_Title s) r m = cec_msg_set_timer_program_title m (s @ [0])"

definition analogue_cmd ::
    "(timer_slot \<Rightarrow> 'b \<Rightarrow> 'c \<Rightarrow> 'd \<Rightarrow> timer_cmd) \<Rightarrow>
     u8 \<times> u8 \<times> u8 \<times> u8 \<times> u8 \<times> u8 \<times> u8 \<times> 'b \<times> 'c \<times> 'd \<Rightarrow> timer_cmd" where
  "analogue_cmd C = (\<lambda>(d, mo, sh, sm, dh, dm, q, x, y, z). C \<lparr>day = d, month = mo, start_hr = sh,
     start_min = sm, duration_hr = dh, duration_min = dm, recording_seq = q\<rparr> x y z)"

definition digital_cmd ::
    "(timer_slot \<Rightarrow> digital_service \<Rightarrow> timer_cmd) \<Rightarrow>
     u8 \<times> u8 \<times> u8 \<times> u8 \<times> u8 \<times> u8 \<times> u8 \<times> cec_op_digital_service_id \<Rightarrow> timer_cmd option" where
  "digital_cmd C = (\<lambda>(d, mo, sh, sm, dh, dm, q, x). map_option (C \<lparr>day = d, month = mo,
     start_hr = sh, start_min = sm, duration_hr = dh, duration_min = dm, recording_seq = q\<rparr>)
     (digital_load x))"

text \<open>\<open>out\<close> and \<open>title\<close> are the caller's structure and buffer the decoders fill.\<close>

definition timer_dec ::
    "cec_op_digital_service_id \<Rightarrow> u8 list \<Rightarrow> cec_msg \<Rightarrow> timer_cmd option" where
  "timer_dec out title m = do { opcode \<leftarrow> get m 1;
     if opcode = CEC_MSG_TIMER_STATUS then
       map_option (\<lambda>(w, i, p, e, h, n). Timer_Status w i p e h n) (cec_ops_timer_status m)
     else if opcode = CEC_MSG_TIMER_CLEARED_STATUS then
       map_option Timer_Cleared_Status (cec_ops_timer_cleared_status m)
     else if opcode = CEC_MSG_CLEAR_ANALOGUE_TIMER then
       map_option (analogue_cmd Clear_Analogue_Timer) (cec_ops_clear_analogue_timer m)
     else if opcode = CEC_MSG_CLEAR_DIGITAL_TIMER then
       cec_ops_clear_digital_timer m out \<bind> digital_cmd Clear_Digital_Timer
     else if opcode = CEC_MSG_CLEAR_EXT_TIMER then
       map_option (analogue_cmd Clear_Ext_Timer) (cec_ops_clear_ext_timer m)
     else if opcode = CEC_MSG_SET_ANALOGUE_TIMER then
       map_option (analogue_cmd Set_Analogue_Timer) (cec_ops_set_analogue_timer m)
     else if opcode = CEC_MSG_SET_DIGITAL_TIMER then
       cec_ops_set_digital_timer m out \<bind> digital_cmd Set_Digital_Timer
     else if opcode = CEC_MSG_SET_EXT_TIMER then
       map_option (analogue_cmd Set_Ext_Timer) (cec_ops_set_ext_timer m)
     else if opcode = CEC_MSG_SET_TIMER_PROGRAM_TITLE then
       cec_ops_set_timer_program_title m title \<bind> (\<lambda>t. map_option Set_Timer_Program_Title (cstr t))
     else None }"

definition slot_valid :: "timer_slot \<Rightarrow> bool" where
  "slot_valid t \<longleftrightarrow> start_hr t < 160 \<and> start_min t < 160 \<and> duration_hr t < 160 \<and> duration_min t < 160"

fun timer_valid :: "timer_cmd \<Rightarrow> bool" where
  "timer_valid (Timer_Status w i p e h n) \<longleftrightarrow> w < 2 \<and> i < 4 \<and> p < 16 \<and> e < 16 \<and>
     (p = 0 \<or> e = 0) \<and> (if has_duration p e then h < 160 \<and> n < 160 else h = 0 \<and> n = 0)"
| "timer_valid (Timer_Cleared_Status s) \<longleftrightarrow> True"
| "timer_valid (Clear_Analogue_Timer t b f s) \<longleftrightarrow> slot_valid t"
| "timer_valid (Clear_Digital_Timer t d) \<longleftrightarrow> slot_valid t \<and> digital_valid d"
| "timer_valid (Clear_Ext_Timer t e p a) \<longleftrightarrow> slot_valid t"
| "timer_valid (Set_Analogue_Timer t b f s) \<longleftrightarrow> slot_valid t"
| "timer_valid (Set_Digital_Timer t d) \<longleftrightarrow> slot_valid t \<and> digital_valid d"
| "timer_valid (Set_Ext_Timer t e p a) \<longleftrightarrow> slot_valid t"
| "timer_valid (Set_Timer_Program_Title s) \<longleftrightarrow> length s \<le> 14 \<and> 0 \<notin> set s"

fun timer_opc :: "timer_cmd \<Rightarrow> u8" where
  "timer_opc (Timer_Status w i p e h n) = CEC_MSG_TIMER_STATUS"
| "timer_opc (Timer_Cleared_Status s) = CEC_MSG_TIMER_CLEARED_STATUS"
| "timer_opc (Clear_Analogue_Timer t b f s) = CEC_MSG_CLEAR_ANALOGUE_TIMER"
| "timer_opc (Clear_Digital_Timer t d) = CEC_MSG_CLEAR_DIGITAL_TIMER"
| "timer_opc (Clear_Ext_Timer t e p a) = CEC_MSG_CLEAR_EXT_TIMER"
| "timer_opc (Set_Analogue_Timer t b f s) = CEC_MSG_SET_ANALOGUE_TIMER"
| "timer_opc (Set_Digital_Timer t d) = CEC_MSG_SET_DIGITAL_TIMER"
| "timer_opc (Set_Ext_Timer t e p a) = CEC_MSG_SET_EXT_TIMER"
| "timer_opc (Set_Timer_Program_Title s) = CEC_MSG_SET_TIMER_PROGRAM_TITLE"

fun timer_rule :: "timer_cmd \<Rightarrow> reply_rule" where
  "timer_rule (Clear_Analogue_Timer t b f s) = Expect CEC_MSG_TIMER_CLEARED_STATUS"
| "timer_rule (Clear_Digital_Timer t d) = Expect CEC_MSG_TIMER_CLEARED_STATUS"
| "timer_rule (Clear_Ext_Timer t e p a) = Expect CEC_MSG_TIMER_CLEARED_STATUS"
| "timer_rule (Set_Analogue_Timer t b f s) = Expect CEC_MSG_TIMER_STATUS"
| "timer_rule (Set_Digital_Timer t d) = Expect CEC_MSG_TIMER_STATUS"
| "timer_rule (Set_Ext_Timer t e p a) = Expect CEC_MSG_TIMER_STATUS"
| "timer_rule _ = Keep"

text \<open>The title: at most fourteen characters are sent, and the receiver's buffer gets them back.\<close>

lemma program_title_encoded:
  assumes "m_msg m = [b0, b1, b2, b3, b4, b5, b6, b7, b8, b9, b10, b11, b12, b13, b14, b15]"
  shows "\<exists>m'. cec_msg_set_timer_program_title m (s @ [0]) = Some m' \<and>
    cec_encoded CEC_MSG_SET_TIMER_PROGRAM_TITLE False Keep r m m'"
proof -
  obtain n where n: "strlen (s @ [0]) = Some n" "n \<le> length s"
    using strlen_total [of s "[]"] by auto
  obtain k :: u32 where k: "k = (if word_of_nat n > (14 :: u32) then 14 else word_of_nat n)"
    by simp
  have "unat k \<le> 14" "unat k \<le> n"
    unfolding k by (auto simp: word_less_nat_alt not_less unat_of_nat)
  then show ?thesis
    using assms n by (auto simp: cec_msg_set_timer_program_title_def k [symmetric] cec_access
        cec_encoded_def cec_wf_def reply_after_def unat_len_add)
qed

lemma program_title_decoded:
  assumes "length s \<le> 14" and "0 \<notin> set s" and "length title = 15"
    and "m_msg m = [b0, b1, b2, b3, b4, b5, b6, b7, b8, b9, b10, b11, b12, b13, b14, b15]"
    and "cec_msg_set_timer_program_title m (s @ [0]) = Some m'"
    and "m_msg w = cec_frame m' @ junk" and "m_len w = m_len m'"
  shows "timer_dec out title w = Some (Set_Timer_Program_Title s)"
proof -
  have s: "strlen (s @ [0]) = Some (length s)"
    using strlen_append_NUL [of s "[]"] assms(2) by simp
  obtain k :: u32 where k: "k = word_of_nat (length s)" "unat k = length s" "\<not> k > 14"
    using assms(1) by (auto simp: unat_of_nat word_less_nat_alt)
  have len: "2 < 2 + k \<longleftrightarrow> s \<noteq> []"
    using k(2) assms(1) by (auto simp: word_less_nat_alt unat_len_add)
  have "m' = m\<lparr>m_len := 2 + k, m_msg := b0 # 0x67 # s @ drop (2 + length s) (m_msg m)\<rparr>"
    using assms(1,4,5) s k by (auto simp: cec_msg_set_timer_program_title_def cec_access)
  then have w: "m_msg w = b0 # 0x67 # s @ junk" "m_len w = 2 + k"
    using assms(1,6,7) k(2) by (auto simp: cec_frame_def unat_len_add)
  show ?thesis
    using assms(1,2,3) w k(2,3) cstr_buffer [of "[]" title] by (simp add: timer_dec_def cec_access
        cec_ops_set_timer_program_title_def len list_update_append cstr_buffer)
qed

lemma timer_spec:
  assumes "m_msg m = [b0, b1, b2, b3, b4, b5, b6, b7, b8, b9, b10, b11, b12, b13, b14, b15]"
  shows "\<exists>m'. timer_enc c r m = Some m' \<and>
    cec_encoded (timer_opc c) False (timer_rule c) r m m'"
proof (cases c)
  case (Clear_Digital_Timer t d)
  with assms show ?thesis
    by (cases d) (auto simp: timer_defs with_slot_def cec_set_digital_service_id_def
        service_fields cec_access cec_encoded_def cec_wf_def reply_after_def)
next
  case (Set_Digital_Timer t d)
  with assms show ?thesis
    by (cases d) (auto simp: timer_defs with_slot_def cec_set_digital_service_id_def
        service_fields cec_access cec_encoded_def cec_wf_def reply_after_def)
next
  case (Set_Timer_Program_Title s)
  with program_title_encoded [OF assms] show ?thesis by simp
qed (use assms in \<open>auto simp: timer_defs with_slot_def cec_access cec_encoded_def cec_wf_def
    reply_after_def\<close>)

lemma timer_rt:
  assumes "length out = 8" and "length title = 15"
    and "m_msg m = [b0, b1, b2, b3, b4, b5, b6, b7, b8, b9, b10, b11, b12, b13, b14, b15]"
    and "timer_valid c" and "timer_enc c r m = Some m'"
    and "m_msg w = cec_frame m' @ junk" and "m_len w = m_len m'"
  shows "timer_dec out title w = Some c"
proof -
  obtain u0 u1 u2 u3 u4 u5 u6 u7 where u: "out = [u0, u1, u2, u3, u4, u5, u6, u7]"
    using assms(1) by (auto simp: numeral_eq_Suc length_Suc_conv)
  note digital = timer_defs timer_dec_def digital_cmd_def with_slot_def slot_valid_def unbcd_bcd
    digital_load_def cec_set_digital_service_id_def cec_get_digital_service_id_def
    service_fields cec_access cec_frame_def digital_simps
  show ?thesis
  proof (cases c)
    case (Clear_Digital_Timer t d)
    with assms(3-) u show ?thesis
      by (cases d) (auto simp: digital)
  next
    case (Set_Digital_Timer t d)
    with assms(3-) u show ?thesis
      by (cases d) (auto simp: digital)
  next
    case (Set_Timer_Program_Title s)
    with program_title_decoded assms(2-) show ?thesis by auto
  next
    case (Timer_Status x1 x2 x3 x4 x5 x6)
    with assms(3-) show ?thesis
      by (auto simp: timer_defs timer_dec_def unbcd_bcd cec_access cec_frame_def has_duration_def
          timer_status_byte_fields split: if_splits)
  qed (use assms(3-) in \<open>auto simp: timer_defs timer_dec_def analogue_cmd_def with_slot_def
      slot_valid_def unbcd_bcd cec_access cec_frame_def\<close>)
qed

interpretation timer: cec_codec timer_enc "timer_dec (replicate 8 0) (replicate 15 0)"
  timer_valid timer_opc "\<lambda>_. False" timer_rule
  by (rule cec_codecI) (blast intro: timer_spec, rule timer_rt, simp_all)

end
