(* ===== verification/CecSystem.thy ===== *)
theory CecSystem
  imports CecService
begin

text \<open>
  The System Information, Deck Control and Tuner Control features of \<open>cec-funcs.h\<close>.

  \<open>cec_ops_report_features\<close> returns pointers into the payload; a pointer is the payload index it
  points to, and \<open>NULL\<close> is \<^term>\<open>None\<close>. A \<open>struct cec_op_tuner_device_info\<close> is a record whose
  union is kept as its eight bytes of storage.
\<close>

section \<open>System Information\<close>

definition cec_msg_cec_version :: "cec_msg \<Rightarrow> u8 \<Rightarrow> cec_msg option" where
  "cec_msg_cec_version m cec_version = do {
     m \<leftarrow> set_len 3 m;
     m \<leftarrow> put 1 CEC_MSG_CEC_VERSION m;
     put 2 cec_version m }"

definition cec_ops_cec_version :: "cec_msg \<Rightarrow> u8 option" where
  "cec_ops_cec_version m = get m 2"

definition cec_msg_get_cec_version ::
    "cec_msg \<Rightarrow> cint \<Rightarrow> cec_msg option" where
  "cec_msg_get_cec_version m reply = do {
     m \<leftarrow> set_len 2 m;
     m \<leftarrow> put 1 CEC_MSG_GET_CEC_VERSION m;
     set_reply (if reply \<noteq> 0 then CEC_MSG_CEC_VERSION else 0) m }"

definition cec_msg_report_physical_addr ::
    "cec_msg \<Rightarrow> u16 \<Rightarrow> u8 \<Rightarrow> cec_msg option" where
  "cec_msg_report_physical_addr m phys_addr prim_devtype = do {
     m \<leftarrow> set_len 5 m;
     m \<leftarrow> or_broadcast m;
     m \<leftarrow> put 1 CEC_MSG_REPORT_PHYSICAL_ADDR m;
     m \<leftarrow> put 2 (hi8 phys_addr) m;
     m \<leftarrow> put 3 (lo8 phys_addr) m;
     put 4 prim_devtype m }"

definition cec_ops_report_physical_addr :: "cec_msg \<Rightarrow> (u16 \<times> u8) option" where
  "cec_ops_report_physical_addr m = do {
     b2 \<leftarrow> get m 2; b3 \<leftarrow> get m 3; b4 \<leftarrow> get m 4;
     Some (be16 b2 b3, b4) }"

definition cec_msg_give_physical_addr ::
    "cec_msg \<Rightarrow> cint \<Rightarrow> cec_msg option" where
  "cec_msg_give_physical_addr m reply = do {
     m \<leftarrow> set_len 2 m;
     m \<leftarrow> put 1 CEC_MSG_GIVE_PHYSICAL_ADDR m;
     set_reply (if reply \<noteq> 0 then CEC_MSG_REPORT_PHYSICAL_ADDR else 0) m }"

definition cec_msg_set_menu_language :: "cec_msg \<Rightarrow> u8 list \<Rightarrow> cec_msg option" where
  "cec_msg_set_menu_language m language = do {
     m \<leftarrow> set_len 5 m;
     m \<leftarrow> or_broadcast m;
     m \<leftarrow> put 1 CEC_MSG_SET_MENU_LANGUAGE m;
     put_bytes 2 language 3 m }"

definition cec_ops_set_menu_language :: "cec_msg \<Rightarrow> u8 list \<Rightarrow> u8 list option" where
  "cec_ops_set_menu_language m language = do {
     language \<leftarrow> memcpy language 0 (m_msg m) 2 3;
     wr language 3 0 }"

definition cec_msg_get_menu_language ::
    "cec_msg \<Rightarrow> cint \<Rightarrow> cec_msg option" where
  "cec_msg_get_menu_language m reply = do {
     m \<leftarrow> set_len 2 m;
     m \<leftarrow> put 1 CEC_MSG_GET_MENU_LANGUAGE m;
     set_reply (if reply \<noteq> 0 then CEC_MSG_SET_MENU_LANGUAGE else 0) m }"

definition cec_msg_report_features ::
    "cec_msg \<Rightarrow> u8 \<Rightarrow> u8 \<Rightarrow> u8 \<Rightarrow> u8 \<Rightarrow> cec_msg option" where
  "cec_msg_report_features m cec_version all_device_types rc_profile dev_features = do {
     m \<leftarrow> set_len 6 m;
     m \<leftarrow> or_broadcast m;
     m \<leftarrow> put 1 CEC_MSG_REPORT_FEATURES m;
     m \<leftarrow> put 2 cec_version m;
     m \<leftarrow> put 3 all_device_types m;
     m \<leftarrow> put 4 rc_profile m;
     put 5 dev_features m }"

text \<open>\<open>while (p < &msg->msg[lim] && (*p & CEC_OP_FEAT_EXT)) p++;\<close>\<close>

function feat_scan :: "nat \<Rightarrow> cec_msg \<Rightarrow> nat \<Rightarrow> nat option" where
  "feat_scan lim m p =
     (if p < lim then do {
        b \<leftarrow> get m p;
        if b AND CEC_OP_FEAT_EXT \<noteq> 0 then feat_scan lim m (p + 1) else Some p }
      else Some p)"
  by auto
termination
  by (relation "measure (\<lambda>(lim, m, p). lim - p)") auto

declare feat_scan.simps [simp del]

definition cec_ops_report_features ::
    "cec_msg \<Rightarrow> (u8 \<times> u8 \<times> nat option \<times> nat option) option" where
  "cec_ops_report_features m = do {
     cec_version \<leftarrow> get m 2;
     all_device_types \<leftarrow> get m 3;
     p \<leftarrow> feat_scan 14 m 4;
     b \<leftarrow> get m p;
     (p, dev_features) \<leftarrow>
       (if b AND CEC_OP_FEAT_EXT = 0 then do {
          q \<leftarrow> feat_scan 15 m p;
          Some (q, Some (p + 1)) }
        else Some (p, None));
     b \<leftarrow> get m p;
     if b AND CEC_OP_FEAT_EXT \<noteq> 0 then Some (cec_version, all_device_types, None, None)
     else Some (cec_version, all_device_types, Some 4, dev_features) }"

definition cec_msg_give_features ::
    "cec_msg \<Rightarrow> cint \<Rightarrow> cec_msg option" where
  "cec_msg_give_features m reply = do {
     m \<leftarrow> set_len 2 m;
     m \<leftarrow> put 1 CEC_MSG_GIVE_FEATURES m;
     set_reply (if reply \<noteq> 0 then CEC_MSG_REPORT_FEATURES else 0) m }"

section \<open>Deck Control\<close>

definition cec_msg_deck_control :: "cec_msg \<Rightarrow> u8 \<Rightarrow> cec_msg option" where
  "cec_msg_deck_control m deck_control_mode = do {
     m \<leftarrow> set_len 3 m;
     m \<leftarrow> put 1 CEC_MSG_DECK_CONTROL m;
     put 2 deck_control_mode m }"

definition cec_ops_deck_control :: "cec_msg \<Rightarrow> u8 option" where
  "cec_ops_deck_control m = get m 2"

definition cec_msg_deck_status :: "cec_msg \<Rightarrow> u8 \<Rightarrow> cec_msg option" where
  "cec_msg_deck_status m deck_info = do {
     m \<leftarrow> set_len 3 m;
     m \<leftarrow> put 1 CEC_MSG_DECK_STATUS m;
     put 2 deck_info m }"

definition cec_ops_deck_status :: "cec_msg \<Rightarrow> u8 option" where
  "cec_ops_deck_status m = get m 2"

definition cec_msg_give_deck_status :: "cec_msg \<Rightarrow> cint \<Rightarrow> u8 \<Rightarrow> cec_msg option" where
  "cec_msg_give_deck_status m reply status_req = do {
     m \<leftarrow> set_len 3 m;
     m \<leftarrow> put 1 CEC_MSG_GIVE_DECK_STATUS m;
     m \<leftarrow> put 2 status_req m;
     set_reply (if reply \<noteq> 0 \<and> status_req \<noteq> CEC_OP_STATUS_REQ_OFF then CEC_MSG_DECK_STATUS
       else 0) m }"

definition cec_ops_give_deck_status :: "cec_msg \<Rightarrow> u8 option" where
  "cec_ops_give_deck_status m = get m 2"

definition cec_msg_play :: "cec_msg \<Rightarrow> u8 \<Rightarrow> cec_msg option" where
  "cec_msg_play m play_mode = do {
     m \<leftarrow> set_len 3 m;
     m \<leftarrow> put 1 CEC_MSG_PLAY m;
     put 2 play_mode m }"

definition cec_ops_play :: "cec_msg \<Rightarrow> u8 option" where
  "cec_ops_play m = get m 2"

section \<open>Tuner Control\<close>

record cec_op_tuner_device_info =
  td_rec_flag :: u8
  td_tuner_display_info :: u8
  td_is_analog :: u8
  td_union :: "u8 list"

definition cec_msg_tuner_device_status_analog ::
    "cec_msg \<Rightarrow> u8 \<Rightarrow> u8 \<Rightarrow> u8 \<Rightarrow> u16 \<Rightarrow> u8 \<Rightarrow> cec_msg option" where
  "cec_msg_tuner_device_status_analog m rec_flag tuner_display_info ana_bcast_type ana_freq
     bcast_system = do {
     m \<leftarrow> set_len 7 m;
     m \<leftarrow> put 1 CEC_MSG_TUNER_DEVICE_STATUS m;
     m \<leftarrow> put 2 (pack8 7 rec_flag tuner_display_info) m;
     m \<leftarrow> put 3 ana_bcast_type m;
     m \<leftarrow> put 4 (hi8 ana_freq) m;
     m \<leftarrow> put 5 (lo8 ana_freq) m;
     put 6 bcast_system m }"

definition cec_msg_tuner_device_status_digital ::
    "cec_msg \<Rightarrow> u8 \<Rightarrow> u8 \<Rightarrow> cec_op_digital_service_id \<Rightarrow> cec_msg option" where
  "cec_msg_tuner_device_status_digital m rec_flag tuner_display_info digital = do {
     m \<leftarrow> set_len 10 m;
     m \<leftarrow> put 1 CEC_MSG_TUNER_DEVICE_STATUS m;
     m \<leftarrow> put 2 (pack8 7 rec_flag tuner_display_info) m;
     cec_set_digital_service_id 3 digital m }"

definition cec_msg_tuner_device_status ::
    "cec_msg \<Rightarrow> cec_op_tuner_device_info \<Rightarrow> cec_msg option" where
  "cec_msg_tuner_device_status m tuner_dev_info =
     (if td_is_analog tuner_dev_info \<noteq> 0 then do {
        t \<leftarrow> rd (td_union tuner_dev_info) 0;
        f \<leftarrow> get16 (td_union tuner_dev_info) 2;
        s \<leftarrow> rd (td_union tuner_dev_info) 4;
        cec_msg_tuner_device_status_analog m (td_rec_flag tuner_dev_info)
          (td_tuner_display_info tuner_dev_info) t f s }
      else cec_msg_tuner_device_status_digital m (td_rec_flag tuner_dev_info)
        (td_tuner_display_info tuner_dev_info) (td_union tuner_dev_info))"

definition cec_ops_tuner_device_status ::
    "cec_msg \<Rightarrow> cec_op_tuner_device_info \<Rightarrow> cec_op_tuner_device_info option" where
  "cec_ops_tuner_device_status m tuner_dev_info = do {
     b2 \<leftarrow> get m 2;
     tuner_dev_info \<leftarrow> Some (tuner_dev_info\<lparr>td_is_analog := if m_len m < 10 then 1 else 0,
       td_rec_flag := drop_bit 7 b2, td_tuner_display_info := b2 AND 0x7f\<rparr>);
     u \<leftarrow> (if td_is_analog tuner_dev_info \<noteq> 0 then do {
            b3 \<leftarrow> get m 3; b4 \<leftarrow> get m 4; b5 \<leftarrow> get m 5; b6 \<leftarrow> get m 6;
            u \<leftarrow> wr (td_union tuner_dev_info) 0 b3;
            u \<leftarrow> put16 2 (be16 b4 b5) u;
            wr u 4 b6 }
          else cec_get_digital_service_id 3 m (td_union tuner_dev_info));
     Some (tuner_dev_info\<lparr>td_union := u\<rparr>) }"

definition cec_msg_give_tuner_device_status :: "cec_msg \<Rightarrow> cint \<Rightarrow> u8 \<Rightarrow> cec_msg option" where
  "cec_msg_give_tuner_device_status m reply status_req = do {
     m \<leftarrow> set_len 3 m;
     m \<leftarrow> put 1 CEC_MSG_GIVE_TUNER_DEVICE_STATUS m;
     m \<leftarrow> put 2 status_req m;
     set_reply (if reply \<noteq> 0 \<and> status_req \<noteq> CEC_OP_STATUS_REQ_OFF
       then CEC_MSG_TUNER_DEVICE_STATUS else 0) m }"

definition cec_ops_give_tuner_device_status :: "cec_msg \<Rightarrow> u8 option" where
  "cec_ops_give_tuner_device_status m = get m 2"

definition cec_msg_select_analogue_service ::
    "cec_msg \<Rightarrow> u8 \<Rightarrow> u16 \<Rightarrow> u8 \<Rightarrow> cec_msg option" where
  "cec_msg_select_analogue_service m ana_bcast_type ana_freq bcast_system = do {
     m \<leftarrow> set_len 6 m;
     m \<leftarrow> put 1 CEC_MSG_SELECT_ANALOGUE_SERVICE m;
     m \<leftarrow> put 2 ana_bcast_type m;
     m \<leftarrow> put 3 (hi8 ana_freq) m;
     m \<leftarrow> put 4 (lo8 ana_freq) m;
     put 5 bcast_system m }"

definition cec_ops_select_analogue_service ::
    "cec_msg \<Rightarrow> (u8 \<times> u16 \<times> u8) option" where
  "cec_ops_select_analogue_service m = do {
     b2 \<leftarrow> get m 2; b3 \<leftarrow> get m 3; b4 \<leftarrow> get m 4; b5 \<leftarrow> get m 5;
     Some (b2, be16 b3 b4, b5) }"

definition cec_msg_select_digital_service ::
    "cec_msg \<Rightarrow> cec_op_digital_service_id \<Rightarrow> cec_msg option" where
  "cec_msg_select_digital_service m digital = do {
     m \<leftarrow> set_len 9 m;
     m \<leftarrow> put 1 CEC_MSG_SELECT_DIGITAL_SERVICE m;
     cec_set_digital_service_id 2 digital m }"

definition cec_ops_select_digital_service ::
    "cec_msg \<Rightarrow> cec_op_digital_service_id \<Rightarrow> cec_op_digital_service_id option" where
  "cec_ops_select_digital_service m digital = cec_get_digital_service_id 2 m digital"

definition cec_msg_tuner_step_decrement :: "cec_msg \<Rightarrow> cec_msg option" where
  "cec_msg_tuner_step_decrement m = do {
     m \<leftarrow> set_len 2 m;
     put 1 CEC_MSG_TUNER_STEP_DECREMENT m }"

definition cec_msg_tuner_step_increment :: "cec_msg \<Rightarrow> cec_msg option" where
  "cec_msg_tuner_step_increment m = do {
     m \<leftarrow> set_len 2 m;
     put 1 CEC_MSG_TUNER_STEP_INCREMENT m }"

lemmas system_defs =
  cec_msg_cec_version_def cec_ops_cec_version_def cec_msg_get_cec_version_def
  cec_msg_report_physical_addr_def cec_ops_report_physical_addr_def
  cec_msg_give_physical_addr_def cec_msg_set_menu_language_def cec_ops_set_menu_language_def
  cec_msg_get_menu_language_def cec_msg_report_features_def cec_msg_give_features_def
  cec_msg_deck_control_def cec_ops_deck_control_def cec_msg_deck_status_def
  cec_ops_deck_status_def cec_msg_give_deck_status_def cec_ops_give_deck_status_def
  cec_msg_play_def cec_ops_play_def cec_msg_tuner_device_status_analog_def
  cec_msg_tuner_device_status_digital_def cec_msg_tuner_device_status_def
  cec_ops_tuner_device_status_def cec_msg_give_tuner_device_status_def
  cec_ops_give_tuner_device_status_def cec_msg_select_analogue_service_def
  cec_ops_select_analogue_service_def cec_msg_select_digital_service_def
  cec_ops_select_digital_service_def cec_msg_tuner_step_decrement_def
  cec_msg_tuner_step_increment_def

section \<open>The feature scan\<close>

text \<open>Bit 7 of a feature byte says that another one follows.\<close>

definition feat_ext :: "cec_msg \<Rightarrow> nat \<Rightarrow> bool" where
  "feat_ext m i \<longleftrightarrow> m_msg m ! i AND CEC_OP_FEAT_EXT \<noteq> 0"

lemma feat_scan_spec:
  assumes "cec_wf m" and "p \<le> lim" and "lim < 16"
  shows "\<exists>q. feat_scan lim m p = Some q \<and> p \<le> q \<and> q \<le> lim \<and>
    (\<forall>i. p \<le> i \<and> i < q \<longrightarrow> feat_ext m i) \<and> (q < lim \<longrightarrow> \<not> feat_ext m q)"
  using assms
proof (induction "lim - p" arbitrary: p)
  case 0
  then show ?case
    by (intro exI [of _ p]) (auto simp: feat_scan.simps [of _ m p])
next
  case (Suc n)
  then have p: "p < lim" "p < length (m_msg m)" "lim - (p + 1) = n" "p + 1 \<le> lim"
    by (auto simp: cec_wf_def)
  show ?case
  proof (cases "feat_ext m p")
    case True
    obtain q where q: "feat_scan lim m (p + 1) = Some q" "p + 1 \<le> q" "q \<le> lim"
      "\<forall>i. p + 1 \<le> i \<and> i < q \<longrightarrow> feat_ext m i" "q < lim \<longrightarrow> \<not> feat_ext m q"
      using Suc.hyps(1) [of "p + 1"] p(3,4) Suc.prems by auto
    have "feat_scan lim m p = Some q"
      using True p(1,2) q(1) by (simp add: feat_scan.simps [of lim m p] feat_ext_def get_def)
    moreover have "feat_ext m i" if "p \<le> i" "i < q" for i
      using that q(4) True by (cases "i = p") auto
    ultimately show ?thesis
      using q by auto
  next
    case False
    then show ?thesis
      using p by (auto simp: feat_scan.simps [of lim m p] feat_ext_def get_def)
  qed
qed

text \<open>A byte without the extension bit ends the scan at once, whatever the limit.\<close>

lemma feat_scan_stop:
  "p < length (m_msg m) \<Longrightarrow> \<not> feat_ext m p \<Longrightarrow> feat_scan lim m p = Some p"
  by (simp add: feat_scan.simps [of lim m p] feat_ext_def get_def)

lemma report_features_cases:
  assumes "cec_wf m"
  obtains (found) p where "4 \<le> p" "p \<le> 14" "\<not> feat_ext m p" "\<forall>i. 4 \<le> i \<and> i < p \<longrightarrow> feat_ext m i"
      "cec_ops_report_features m = Some (m_msg m ! 2, m_msg m ! 3, Some 4, Some (p + 1))"
    | (none) "\<forall>i. 4 \<le> i \<and> i \<le> 14 \<longrightarrow> feat_ext m i"
      "cec_ops_report_features m = Some (m_msg m ! 2, m_msg m ! 3, None, None)"
proof -
  have len: "length (m_msg m) = 16"
    using assms by (simp add: cec_wf_def)
  obtain q where q: "feat_scan 14 m 4 = Some q" "4 \<le> q" "q \<le> 14"
    "\<forall>i. 4 \<le> i \<and> i < q \<longrightarrow> feat_ext m i" "q < 14 \<longrightarrow> \<not> feat_ext m q"
    using feat_scan_spec [OF assms, of 4 14] by auto
  show thesis
  proof (cases "feat_ext m q")
    case True
    with q have "q = 14" by auto
    with True q len show thesis
      by (intro none) (auto simp: cec_ops_report_features_def feat_ext_def get_def le_less)
  next
    case False
    moreover from this have "feat_scan 15 m q = Some q"
      using q(3) len by (intro feat_scan_stop) auto
    ultimately show thesis
      using q len by (intro found [of q]) (auto simp: cec_ops_report_features_def feat_ext_def get_def)
  qed
qed

section \<open>The commands as a codec\<close>

datatype tuner_service = Tuned_Analog u8 u16 u8 | Tuned_Digital digital_service

datatype system_cmd =
    Cec_Version u8 | Get_Cec_Version | Report_Physical_Addr u16 u8 | Give_Physical_Addr
  | Set_Menu_Language u8 u8 u8 | Get_Menu_Language | Report_Features u8 u8 u8 u8 | Give_Features
  | Deck_Control u8 | Deck_Status u8 | Give_Deck_Status u8 | Play u8
  | Tuner_Device_Status u8 u8 tuner_service | Give_Tuner_Device_Status u8
  | Select_Analogue_Service u8 u16 u8 | Select_Digital_Service digital_service
  | Tuner_Step_Decrement | Tuner_Step_Increment

fun tuner_store :: "u8 \<Rightarrow> u8 \<Rightarrow> tuner_service \<Rightarrow> cec_op_tuner_device_info" where
  "tuner_store f i (Tuned_Analog t q s) = \<lparr>td_rec_flag = f, td_tuner_display_info = i,
     td_is_analog = 1, td_union = [t, 0, lo8 q, hi8 q, s, 0, 0, 0]\<rparr>"
| "tuner_store f i (Tuned_Digital d) = \<lparr>td_rec_flag = f, td_tuner_display_info = i,
     td_is_analog = 0, td_union = digital_store d\<rparr>"

definition tuner_load :: "cec_op_tuner_device_info \<Rightarrow> system_cmd option" where
  "tuner_load t = do {
     s \<leftarrow> (if td_is_analog t \<noteq> 0 then do {
            y \<leftarrow> rd (td_union t) 0; q \<leftarrow> get16 (td_union t) 2; b \<leftarrow> rd (td_union t) 4;
            Some (Tuned_Analog y q b) }
          else map_option Tuned_Digital (digital_load (td_union t)));
     Some (Tuner_Device_Status (td_rec_flag t) (td_tuner_display_info t) s) }"

fun system_enc :: "system_cmd \<Rightarrow> cint \<Rightarrow> cec_msg \<Rightarrow> cec_msg option" where
  "system_enc (Cec_Version v) r m = cec_msg_cec_version m v"
| "system_enc Get_Cec_Version r m = cec_msg_get_cec_version m r"
| "system_enc (Report_Physical_Addr a t) r m = cec_msg_report_physical_addr m a t"
| "system_enc Give_Physical_Addr r m = cec_msg_give_physical_addr m r"
| "system_enc (Set_Menu_Language a b c) r m = cec_msg_set_menu_language m [a, b, c]"
| "system_enc Get_Menu_Language r m = cec_msg_get_menu_language m r"
| "system_enc (Report_Features v t p f) r m = cec_msg_report_features m v t p f"
| "system_enc Give_Features r m = cec_msg_give_features m r"
| "system_enc (Deck_Control x) r m = cec_msg_deck_control m x"
| "system_enc (Deck_Status x) r m = cec_msg_deck_status m x"
| "system_enc (Give_Deck_Status x) r m = cec_msg_give_deck_status m r x"
| "system_enc (Play x) r m = cec_msg_play m x"
| "system_enc (Tuner_Device_Status f i s) r m = cec_msg_tuner_device_status m (tuner_store f i s)"
| "system_enc (Give_Tuner_Device_Status x) r m = cec_msg_give_tuner_device_status m r x"
| "system_enc (Select_Analogue_Service t f s) r m = cec_msg_select_analogue_service m t f s"
| "system_enc (Select_Digital_Service d) r m = cec_msg_select_digital_service m (digital_store d)"
| "system_enc Tuner_Step_Decrement r m = cec_msg_tuner_step_decrement m"
| "system_enc Tuner_Step_Increment r m = cec_msg_tuner_step_increment m"

fun system_opc :: "system_cmd \<Rightarrow> u8" where
  "system_opc (Cec_Version v) = CEC_MSG_CEC_VERSION"
| "system_opc Get_Cec_Version = CEC_MSG_GET_CEC_VERSION"
| "system_opc (Report_Physical_Addr a t) = CEC_MSG_REPORT_PHYSICAL_ADDR"
| "system_opc Give_Physical_Addr = CEC_MSG_GIVE_PHYSICAL_ADDR"
| "system_opc (Set_Menu_Language a b c) = CEC_MSG_SET_MENU_LANGUAGE"
| "system_opc Get_Menu_Language = CEC_MSG_GET_MENU_LANGUAGE"
| "system_opc (Report_Features v t p f) = CEC_MSG_REPORT_FEATURES"
| "system_opc Give_Features = CEC_MSG_GIVE_FEATURES"
| "system_opc (Deck_Control x) = CEC_MSG_DECK_CONTROL"
| "system_opc (Deck_Status x) = CEC_MSG_DECK_STATUS"
| "system_opc (Give_Deck_Status x) = CEC_MSG_GIVE_DECK_STATUS"
| "system_opc (Play x) = CEC_MSG_PLAY"
| "system_opc (Tuner_Device_Status f i s) = CEC_MSG_TUNER_DEVICE_STATUS"
| "system_opc (Give_Tuner_Device_Status x) = CEC_MSG_GIVE_TUNER_DEVICE_STATUS"
| "system_opc (Select_Analogue_Service t f s) = CEC_MSG_SELECT_ANALOGUE_SERVICE"
| "system_opc (Select_Digital_Service d) = CEC_MSG_SELECT_DIGITAL_SERVICE"
| "system_opc Tuner_Step_Decrement = CEC_MSG_TUNER_STEP_DECREMENT"
| "system_opc Tuner_Step_Increment = CEC_MSG_TUNER_STEP_INCREMENT"

text \<open>\<open>lang\<close>, \<open>tun\<close> and \<open>dig\<close> are the buffers and structures the caller passes to be filled.\<close>

definition system_dec ::
    "u8 list \<Rightarrow> cec_op_tuner_device_info \<Rightarrow> cec_op_digital_service_id \<Rightarrow> cec_msg \<Rightarrow>
     system_cmd option" where
  "system_dec lang tun dig m = do { opcode \<leftarrow> get m 1;
     if opcode = CEC_MSG_CEC_VERSION then map_option Cec_Version (cec_ops_cec_version m)
     else if opcode = CEC_MSG_GET_CEC_VERSION then Some Get_Cec_Version
     else if opcode = CEC_MSG_REPORT_PHYSICAL_ADDR then
       map_option (\<lambda>(a, t). Report_Physical_Addr a t) (cec_ops_report_physical_addr m)
     else if opcode = CEC_MSG_GIVE_PHYSICAL_ADDR then Some Give_Physical_Addr
     else if opcode = CEC_MSG_SET_MENU_LANGUAGE then do {
       l \<leftarrow> cec_ops_set_menu_language m lang;
       a \<leftarrow> rd l 0; b \<leftarrow> rd l 1; c \<leftarrow> rd l 2;
       Some (Set_Menu_Language a b c) }
     else if opcode = CEC_MSG_GET_MENU_LANGUAGE then Some Get_Menu_Language
     else if opcode = CEC_MSG_REPORT_FEATURES then do {
       (v, t, rc_profile, dev_features) \<leftarrow> cec_ops_report_features m;
       rc_profile \<leftarrow> rc_profile; dev_features \<leftarrow> dev_features;
       p \<leftarrow> get m rc_profile; f \<leftarrow> get m dev_features;
       Some (Report_Features v t p f) }
     else if opcode = CEC_MSG_GIVE_FEATURES then Some Give_Features
     else if opcode = CEC_MSG_DECK_CONTROL then map_option Deck_Control (cec_ops_deck_control m)
     else if opcode = CEC_MSG_DECK_STATUS then map_option Deck_Status (cec_ops_deck_status m)
     else if opcode = CEC_MSG_GIVE_DECK_STATUS then
       map_option Give_Deck_Status (cec_ops_give_deck_status m)
     else if opcode = CEC_MSG_PLAY then map_option Play (cec_ops_play m)
     else if opcode = CEC_MSG_TUNER_DEVICE_STATUS then
       cec_ops_tuner_device_status m tun \<bind> tuner_load
     else if opcode = CEC_MSG_GIVE_TUNER_DEVICE_STATUS then
       map_option Give_Tuner_Device_Status (cec_ops_give_tuner_device_status m)
     else if opcode = CEC_MSG_SELECT_ANALOGUE_SERVICE then
       map_option (\<lambda>(t, f, s). Select_Analogue_Service t f s) (cec_ops_select_analogue_service m)
     else if opcode = CEC_MSG_SELECT_DIGITAL_SERVICE then
       cec_ops_select_digital_service m dig \<bind>
         (\<lambda>d. map_option Select_Digital_Service (digital_load d))
     else if opcode = CEC_MSG_TUNER_STEP_DECREMENT then Some Tuner_Step_Decrement
     else if opcode = CEC_MSG_TUNER_STEP_INCREMENT then Some Tuner_Step_Increment
     else None }"

fun system_valid :: "system_cmd \<Rightarrow> bool" where
  "system_valid (Report_Features v t p f) \<longleftrightarrow> p AND CEC_OP_FEAT_EXT = 0"
| "system_valid (Tuner_Device_Status f i (Tuned_Analog t q s)) \<longleftrightarrow> f < 2 \<and> i < 128"
| "system_valid (Tuner_Device_Status f i (Tuned_Digital d)) \<longleftrightarrow> f < 2 \<and> i < 128 \<and> digital_valid d"
| "system_valid (Select_Digital_Service d) \<longleftrightarrow> digital_valid d"
| "system_valid _ \<longleftrightarrow> True"

fun system_bc :: "system_cmd \<Rightarrow> bool" where
  "system_bc (Report_Physical_Addr a t) = True"
| "system_bc (Set_Menu_Language a b c) = True"
| "system_bc (Report_Features v t p f) = True"
| "system_bc _ = False"

fun system_rule :: "system_cmd \<Rightarrow> reply_rule" where
  "system_rule Get_Cec_Version = Expect CEC_MSG_CEC_VERSION"
| "system_rule Give_Physical_Addr = Expect CEC_MSG_REPORT_PHYSICAL_ADDR"
| "system_rule Get_Menu_Language = Expect CEC_MSG_SET_MENU_LANGUAGE"
| "system_rule Give_Features = Expect CEC_MSG_REPORT_FEATURES"
| "system_rule (Give_Deck_Status x) =
     Expect (if x = CEC_OP_STATUS_REQ_OFF then 0 else CEC_MSG_DECK_STATUS)"
| "system_rule (Give_Tuner_Device_Status x) =
     Expect (if x = CEC_OP_STATUS_REQ_OFF then 0 else CEC_MSG_TUNER_DEVICE_STATUS)"
| "system_rule _ = Keep"

lemma system_spec:
  assumes "m_msg m = [b0, b1, b2, b3, b4, b5, b6, b7, b8, b9, b10, b11, b12, b13, b14, b15]"
  shows "\<exists>m'. system_enc c r m = Some m' \<and>
    cec_encoded (system_opc c) (system_bc c) (system_rule c) r m m'"
proof (cases c)
  case (Select_Digital_Service d)
  with assms show ?thesis
    by (cases d) (auto simp: system_defs cec_set_digital_service_id_def
        service_fields cec_access cec_encoded_def cec_wf_def reply_after_def)
next
  case (Tuner_Device_Status f i s)
  show ?thesis
  proof (cases s)
    case (Tuned_Digital d)
    with assms Tuner_Device_Status show ?thesis
      by (cases d) (auto simp: system_defs cec_set_digital_service_id_def
          service_fields cec_access cec_encoded_def cec_wf_def reply_after_def)
  qed (use assms Tuner_Device_Status in \<open>auto simp: system_defs get16_def cec_access
      cec_encoded_def cec_wf_def reply_after_def\<close>)
qed (use assms in \<open>auto simp: system_defs cec_access cec_encoded_def cec_wf_def reply_after_def\<close>)

lemma report_features_single:
  "m_msg m = b0 # b1 # b2 # b3 # p # f # junk \<Longrightarrow> p AND CEC_OP_FEAT_EXT = 0 \<Longrightarrow>
   cec_ops_report_features m = Some (b2, b3, Some 4, Some 5)"
  by (simp add: cec_ops_report_features_def feat_scan_stop feat_ext_def get_def)

lemma flag_pack:
  "f < 2 \<Longrightarrow> i < 128 \<Longrightarrow> drop_bit 7 (pack8 7 f i) = f"
  "i < 128 \<Longrightarrow> pack8 7 f i AND 0x7f = i"
proof -
  show "drop_bit 7 (pack8 7 f i) = f" if "f < 2" "i < 128"
    using that by (intro bit_word_eqI)
      (auto simp: bit_pack8 bit_simps dest: bit_below_literals)
  show "pack8 7 f i AND 0x7f = i" if "i < 128"
    using that by (simp add: take_bit_pack8 word_AND_mask_literals)
qed

lemma system_rt:
  assumes "length lang = 4" and "length (td_union tun) = 8" and "length dig = 8"
    and "m_msg m = [b0, b1, b2, b3, b4, b5, b6, b7, b8, b9, b10, b11, b12, b13, b14, b15]"
    and "system_valid c" and "system_enc c r m = Some m'"
    and "m_msg w = cec_frame m' @ junk" and "m_len w = m_len m'"
  shows "system_dec lang tun dig w = Some c"
proof -
  obtain u0 u1 u2 u3 u4 u5 u6 u7 where u: "td_union tun = [u0, u1, u2, u3, u4, u5, u6, u7]"
    using assms(2) by (auto simp: numeral_eq_Suc length_Suc_conv)
  obtain v0 v1 v2 v3 v4 v5 v6 v7 where v: "dig = [v0, v1, v2, v3, v4, v5, v6, v7]"
    using assms(3) by (auto simp: numeral_eq_Suc length_Suc_conv)
  obtain l0 l1 l2 l3 where l: "lang = [l0, l1, l2, l3]"
    using assms(1) by (auto simp: numeral_eq_Suc length_Suc_conv)
  note digital = system_defs system_dec_def tuner_load_def flag_pack
    digital_load_def cec_set_digital_service_id_def cec_get_digital_service_id_def
    service_fields cec_access cec_frame_def digital_simps
  show ?thesis
  proof (cases c)
    case (Select_Digital_Service d)
    with assms(4-) v show ?thesis
      by (cases d) (auto simp: digital)
  next
    case (Tuner_Device_Status f i s)
    show ?thesis
    proof (cases s)
      case (Tuned_Digital d)
      with assms(4-) u Tuner_Device_Status show ?thesis
        by (cases d) (auto simp: digital)
    next
      case (Tuned_Analog t q x)
      with assms(4-) u Tuner_Device_Status show ?thesis
        by (auto simp: digital)
    qed
  qed (use assms(4-) l in \<open>auto simp: system_defs system_dec_def cec_access cec_frame_def
      report_features_single\<close>)
qed

interpretation system: cec_codec system_enc
  "system_dec (replicate 4 0) \<lparr>td_rec_flag = 0, td_tuner_display_info = 0, td_is_analog = 0,
     td_union = replicate 8 0\<rparr> (replicate 8 0)"
  system_valid system_opc system_bc system_rule
  by (rule cec_codecI) (blast intro: system_spec, rule system_rt, simp_all)

end
