(* ===== verification/CecVendor.thy ===== *)
theory CecVendor
  imports CecService
begin

text \<open>
  The Vendor Specific Commands, OSD, Device Menu Control, Power Status and General Protocol
  features of \<open>cec-funcs.h\<close>.

  A vendor command is a byte buffer with its size; the decoders return the size and a pointer
  into the payload, here the payload index. A \<open>struct cec_op_ui_command\<close> is a record whose
  union is kept as its six bytes of storage: a channel's \<open>channel_number_fmt\<close> is at 0, its
  \<open>major\<close> at 2 and its \<open>minor\<close> at 4, and every one-byte operand is at 0.
\<close>

section \<open>Vendor Specific Commands\<close>

definition cec_msg_device_vendor_id :: "cec_msg \<Rightarrow> u32 \<Rightarrow> cec_msg option" where
  "cec_msg_device_vendor_id m vendor_id = do {
     m \<leftarrow> set_len 5 m;
     m \<leftarrow> or_broadcast m;
     m \<leftarrow> put 1 CEC_MSG_DEVICE_VENDOR_ID m;
     m \<leftarrow> put 2 (byte2 vendor_id) m;
     m \<leftarrow> put 3 (byte1 vendor_id) m;
     put 4 (byte0 vendor_id) m }"

definition cec_ops_device_vendor_id :: "cec_msg \<Rightarrow> u32 option" where
  "cec_ops_device_vendor_id m = do {
     b2 \<leftarrow> get m 2; b3 \<leftarrow> get m 3; b4 \<leftarrow> get m 4;
     Some (be24 b2 b3 b4) }"

definition cec_msg_give_device_vendor_id ::
    "cec_msg \<Rightarrow> cint \<Rightarrow> cec_msg option" where
  "cec_msg_give_device_vendor_id m reply = do {
     m \<leftarrow> set_len 2 m;
     m \<leftarrow> put 1 CEC_MSG_GIVE_DEVICE_VENDOR_ID m;
     set_reply (if reply \<noteq> 0 then CEC_MSG_DEVICE_VENDOR_ID else 0) m }"

definition cec_msg_vendor_command :: "cec_msg \<Rightarrow> u8 \<Rightarrow> u8 list \<Rightarrow> cec_msg option" where
  "cec_msg_vendor_command m sz vendor_cmd = do {
     sz \<leftarrow> Some (if sz > 14 then 14 else sz);
     m \<leftarrow> set_len (2 + ucast sz) m;
     m \<leftarrow> put 1 CEC_MSG_VENDOR_COMMAND m;
     put_bytes 2 vendor_cmd (unat sz) m }"

definition cec_ops_vendor_command :: "cec_msg \<Rightarrow> (u8 \<times> nat) option" where
  "cec_ops_vendor_command m = do {
     sz \<leftarrow> Some (ucast (m_len m - 2));
     sz \<leftarrow> Some (if sz > 14 then 14 else sz);
     Some (sz, 2) }"

definition cec_msg_vendor_command_with_id ::
    "cec_msg \<Rightarrow> u32 \<Rightarrow> u8 \<Rightarrow> u8 list \<Rightarrow> cec_msg option" where
  "cec_msg_vendor_command_with_id m vendor_id sz vendor_cmd = do {
     sz \<leftarrow> Some (if sz > 11 then 11 else sz);
     m \<leftarrow> set_len (5 + ucast sz) m;
     m \<leftarrow> put 1 CEC_MSG_VENDOR_COMMAND_WITH_ID m;
     m \<leftarrow> put 2 (byte2 vendor_id) m;
     m \<leftarrow> put 3 (byte1 vendor_id) m;
     m \<leftarrow> put 4 (byte0 vendor_id) m;
     put_bytes 5 vendor_cmd (unat sz) m }"

definition cec_ops_vendor_command_with_id :: "cec_msg \<Rightarrow> (u32 \<times> u8 \<times> nat) option" where
  "cec_ops_vendor_command_with_id m = do {
     sz \<leftarrow> Some (ucast (m_len m - 5));
     sz \<leftarrow> Some (if sz > 11 then 11 else sz);
     b2 \<leftarrow> get m 2; b3 \<leftarrow> get m 3; b4 \<leftarrow> get m 4;
     Some (be24 b2 b3 b4, sz, 5) }"

definition cec_msg_vendor_remote_button_down :: "cec_msg \<Rightarrow> u8 \<Rightarrow> u8 list \<Rightarrow> cec_msg option" where
  "cec_msg_vendor_remote_button_down m sz rc_code = do {
     sz \<leftarrow> Some (if sz > 14 then 14 else sz);
     m \<leftarrow> set_len (2 + ucast sz) m;
     m \<leftarrow> put 1 CEC_MSG_VENDOR_REMOTE_BUTTON_DOWN m;
     put_bytes 2 rc_code (unat sz) m }"

definition cec_ops_vendor_remote_button_down :: "cec_msg \<Rightarrow> (u8 \<times> nat) option" where
  "cec_ops_vendor_remote_button_down m = do {
     sz \<leftarrow> Some (ucast (m_len m - 2));
     sz \<leftarrow> Some (if sz > 14 then 14 else sz);
     Some (sz, 2) }"

definition cec_msg_vendor_remote_button_up :: "cec_msg \<Rightarrow> cec_msg option" where
  "cec_msg_vendor_remote_button_up m = do {
     m \<leftarrow> set_len 2 m;
     put 1 CEC_MSG_VENDOR_REMOTE_BUTTON_UP m }"

section \<open>OSD Display and Device OSD Transfer\<close>

definition cec_msg_set_osd_string :: "cec_msg \<Rightarrow> u8 \<Rightarrow> u8 list \<Rightarrow> cec_msg option" where
  "cec_msg_set_osd_string m disp_ctl osd = do {
     n \<leftarrow> strlen osd;
     len \<leftarrow> Some (word_of_nat n :: u32);
     len \<leftarrow> Some (if len > 13 then 13 else len);
     m \<leftarrow> set_len (3 + len) m;
     m \<leftarrow> put 1 CEC_MSG_SET_OSD_STRING m;
     m \<leftarrow> put 2 disp_ctl m;
     put_bytes 3 osd (unat len) m }"

definition cec_ops_set_osd_string :: "cec_msg \<Rightarrow> u8 list \<Rightarrow> (u8 \<times> u8 list) option" where
  "cec_ops_set_osd_string m osd = do {
     len \<leftarrow> Some (if m_len m > 3 then m_len m - 3 else 0);
     disp_ctl \<leftarrow> get m 2;
     len \<leftarrow> Some (if len > 13 then 13 else len);
     osd \<leftarrow> memcpy osd 0 (m_msg m) 3 (unat len);
     osd \<leftarrow> wr osd (unat len) 0;
     Some (disp_ctl, osd) }"

definition cec_msg_set_osd_name :: "cec_msg \<Rightarrow> u8 list \<Rightarrow> cec_msg option" where
  "cec_msg_set_osd_name m name = do {
     n \<leftarrow> strlen name;
     len \<leftarrow> Some (word_of_nat n :: u32);
     len \<leftarrow> Some (if len > 14 then 14 else len);
     m \<leftarrow> set_len (2 + len) m;
     m \<leftarrow> put 1 CEC_MSG_SET_OSD_NAME m;
     put_bytes 2 name (unat len) m }"

definition cec_ops_set_osd_name :: "cec_msg \<Rightarrow> u8 list \<Rightarrow> u8 list option" where
  "cec_ops_set_osd_name m name = do {
     len \<leftarrow> Some (if m_len m > 2 then m_len m - 2 else 0);
     len \<leftarrow> Some (if len > 14 then 14 else len);
     name \<leftarrow> memcpy name 0 (m_msg m) 2 (unat len);
     wr name (unat len) 0 }"

definition cec_msg_give_osd_name ::
    "cec_msg \<Rightarrow> cint \<Rightarrow> cec_msg option" where
  "cec_msg_give_osd_name m reply = do {
     m \<leftarrow> set_len 2 m;
     m \<leftarrow> put 1 CEC_MSG_GIVE_OSD_NAME m;
     set_reply (if reply \<noteq> 0 then CEC_MSG_SET_OSD_NAME else 0) m }"

section \<open>Device Menu Control\<close>

definition cec_msg_menu_status :: "cec_msg \<Rightarrow> u8 \<Rightarrow> cec_msg option" where
  "cec_msg_menu_status m menu_state = do {
     m \<leftarrow> set_len 3 m;
     m \<leftarrow> put 1 CEC_MSG_MENU_STATUS m;
     put 2 menu_state m }"

definition cec_ops_menu_status :: "cec_msg \<Rightarrow> u8 option" where
  "cec_ops_menu_status m = get m 2"

definition cec_msg_menu_request ::
    "cec_msg \<Rightarrow> cint \<Rightarrow> u8 \<Rightarrow> cec_msg option" where
  "cec_msg_menu_request m reply menu_req = do {
     m \<leftarrow> set_len 3 m;
     m \<leftarrow> put 1 CEC_MSG_MENU_REQUEST m;
     m \<leftarrow> put 2 menu_req m;
     set_reply (if reply \<noteq> 0 then CEC_MSG_MENU_STATUS else 0) m }"

definition cec_ops_menu_request :: "cec_msg \<Rightarrow> u8 option" where
  "cec_ops_menu_request m = get m 2"

record cec_op_ui_command =
  ui_cmd :: u8
  has_opt_arg :: u8
  ui_union :: "u8 list"

text \<open>The six commands whose optional operand is one byte.\<close>

definition ui_byte_arg :: "u8 \<Rightarrow> bool" where
  "ui_byte_arg c \<longleftrightarrow> c = CEC_OP_UI_CMD_SELECT_BROADCAST_TYPE \<or>
     c = CEC_OP_UI_CMD_SELECT_SOUND_PRESENTATION \<or> c = CEC_OP_UI_CMD_PLAY_FUNCTION \<or>
     c = CEC_OP_UI_CMD_SELECT_MEDIA_FUNCTION \<or> c = CEC_OP_UI_CMD_SELECT_AV_INPUT_FUNCTION \<or>
     c = CEC_OP_UI_CMD_SELECT_AUDIO_INPUT_FUNCTION"

definition cec_msg_user_control_pressed :: "cec_msg \<Rightarrow> cec_op_ui_command \<Rightarrow> cec_msg option" where
  "cec_msg_user_control_pressed m ui = do {
     m \<leftarrow> set_len 3 m;
     m \<leftarrow> put 1 CEC_MSG_USER_CONTROL_PRESSED m;
     m \<leftarrow> put 2 (ui_cmd ui) m;
     if has_opt_arg ui = 0 then Some m
     else if ui_byte_arg (ui_cmd ui) then do {
       m \<leftarrow> set_len (m_len m + 1) m;
       x \<leftarrow> rd (ui_union ui) 0;
       put 3 x m }
     else if ui_cmd ui = CEC_OP_UI_CMD_TUNE_FUNCTION then do {
       m \<leftarrow> set_len (m_len m + 4) m;
       fmt \<leftarrow> rd (ui_union ui) 0;
       major \<leftarrow> get16 (ui_union ui) 2;
       minor \<leftarrow> get16 (ui_union ui) 4;
       m \<leftarrow> put 3 (pack8 2 fmt (hi8 major)) m;
       m \<leftarrow> put 4 (lo8 major) m;
       m \<leftarrow> put 5 (hi8 minor) m;
       put 6 (lo8 minor) m }
     else Some m }"

definition cec_ops_user_control_pressed ::
    "cec_msg \<Rightarrow> cec_op_ui_command \<Rightarrow> cec_op_ui_command option" where
  "cec_ops_user_control_pressed m ui = do {
     b2 \<leftarrow> get m 2;
     ui \<leftarrow> Some (ui\<lparr>ui_cmd := b2, has_opt_arg := 0\<rparr>);
     if m_len m = 3 then Some ui
     else if ui_byte_arg (ui_cmd ui) then do {
       b3 \<leftarrow> get m 3;
       u \<leftarrow> wr (ui_union ui) 0 b3;
       Some (ui\<lparr>ui_union := u, has_opt_arg := 1\<rparr>) }
     else if ui_cmd ui = CEC_OP_UI_CMD_TUNE_FUNCTION then
       if m_len m < 7 then Some ui
       else do {
         b3 \<leftarrow> get m 3; b4 \<leftarrow> get m 4; b5 \<leftarrow> get m 5; b6 \<leftarrow> get m 6;
         u \<leftarrow> wr (ui_union ui) 0 (drop_bit 2 b3);
         u \<leftarrow> put16 2 (get_major b3 b4) u;
         u \<leftarrow> put16 4 (be16 b5 b6) u;
         Some (ui\<lparr>has_opt_arg := 1, ui_union := u\<rparr>) }
     else Some ui }"

definition cec_msg_user_control_released :: "cec_msg \<Rightarrow> cec_msg option" where
  "cec_msg_user_control_released m = do {
     m \<leftarrow> set_len 2 m;
     put 1 CEC_MSG_USER_CONTROL_RELEASED m }"

section \<open>Power Status\<close>

definition cec_msg_report_power_status ::
    "cec_msg \<Rightarrow> u8 \<Rightarrow> cec_msg option" where
  "cec_msg_report_power_status m pwr_state = do {
     m \<leftarrow> set_len 3 m;
     m \<leftarrow> put 1 CEC_MSG_REPORT_POWER_STATUS m;
     put 2 pwr_state m }"

definition cec_ops_report_power_status :: "cec_msg \<Rightarrow> u8 option" where
  "cec_ops_report_power_status m = get m 2"

definition cec_msg_give_device_power_status ::
    "cec_msg \<Rightarrow> cint \<Rightarrow> cec_msg option" where
  "cec_msg_give_device_power_status m reply = do {
     m \<leftarrow> set_len 2 m;
     m \<leftarrow> put 1 CEC_MSG_GIVE_DEVICE_POWER_STATUS m;
     set_reply (if reply \<noteq> 0 then CEC_MSG_REPORT_POWER_STATUS else 0) m }"

section \<open>General Protocol Messages\<close>

definition cec_msg_feature_abort ::
    "cec_msg \<Rightarrow> u8 \<Rightarrow> u8 \<Rightarrow> cec_msg option" where
  "cec_msg_feature_abort m abort_msg reason = do {
     m \<leftarrow> set_len 4 m;
     m \<leftarrow> put 1 CEC_MSG_FEATURE_ABORT m;
     m \<leftarrow> put 2 abort_msg m;
     put 3 reason m }"

definition cec_ops_feature_abort :: "cec_msg \<Rightarrow> (u8 \<times> u8) option" where
  "cec_ops_feature_abort m = do {
     b2 \<leftarrow> get m 2; b3 \<leftarrow> get m 3;
     Some (b2, b3) }"

text \<open>\<open>cec_msg_set_reply_to(msg, msg)\<close>: the original and the reply are one structure.\<close>

definition cec_msg_reply_feature_abort :: "cec_msg \<Rightarrow> u8 \<Rightarrow> cec_msg option" where
  "cec_msg_reply_feature_abort m reason = do {
     m \<leftarrow> cec_msg_set_reply_to m m;
     m \<leftarrow> set_len 4 m;
     b1 \<leftarrow> get m 1;
     m \<leftarrow> put 2 b1 m;
     m \<leftarrow> put 3 reason m;
     put 1 CEC_MSG_FEATURE_ABORT m }"

definition cec_msg_abort :: "cec_msg \<Rightarrow> cec_msg option" where
  "cec_msg_abort m = do {
     m \<leftarrow> set_len 2 m;
     put 1 CEC_MSG_ABORT m }"

lemmas vendor_defs =
  cec_msg_device_vendor_id_def cec_ops_device_vendor_id_def cec_msg_give_device_vendor_id_def
  cec_msg_vendor_remote_button_up_def cec_msg_give_osd_name_def cec_msg_menu_status_def
  cec_ops_menu_status_def cec_msg_menu_request_def cec_ops_menu_request_def
  cec_msg_user_control_pressed_def cec_ops_user_control_pressed_def
  cec_msg_user_control_released_def cec_msg_report_power_status_def
  cec_ops_report_power_status_def cec_msg_give_device_power_status_def
  cec_msg_feature_abort_def cec_ops_feature_abort_def cec_msg_abort_def

lemmas vendor_bytes_defs =
  cec_msg_vendor_command_def cec_ops_vendor_command_def cec_msg_vendor_command_with_id_def
  cec_ops_vendor_command_with_id_def cec_msg_vendor_remote_button_down_def
  cec_ops_vendor_remote_button_down_def

lemmas osd_defs =
  cec_msg_set_osd_string_def cec_ops_set_osd_string_def cec_msg_set_osd_name_def
  cec_ops_set_osd_name_def

section \<open>The commands as a codec\<close>

datatype ui_arg = No_Arg | Byte_Arg u8 | Channel_Arg u8 u16 u16

datatype vendor_cmd =
    Device_Vendor_Id u32 | Give_Device_Vendor_Id | Vendor_Command "u8 list"
  | Vendor_Command_With_Id u32 "u8 list" | Vendor_Remote_Button_Down "u8 list"
  | Vendor_Remote_Button_Up | Set_Osd_String u8 "u8 list" | Set_Osd_Name "u8 list"
  | Give_Osd_Name | Menu_Status u8 | Menu_Request u8 | User_Control_Pressed u8 ui_arg
  | User_Control_Released | Report_Power_Status u8 | Give_Device_Power_Status
  | Feature_Abort u8 u8 | Abort

fun ui_store :: "u8 \<Rightarrow> ui_arg \<Rightarrow> cec_op_ui_command" where
  "ui_store c No_Arg = \<lparr>ui_cmd = c, has_opt_arg = 0, ui_union = replicate 6 0\<rparr>"
| "ui_store c (Byte_Arg x) = \<lparr>ui_cmd = c, has_opt_arg = 1, ui_union = [x, 0, 0, 0, 0, 0]\<rparr>"
| "ui_store c (Channel_Arg f a b) =
     \<lparr>ui_cmd = c, has_opt_arg = 1, ui_union = [f, 0, lo8 a, hi8 a, lo8 b, hi8 b]\<rparr>"

definition ui_load :: "cec_op_ui_command \<Rightarrow> vendor_cmd option" where
  "ui_load u =
     (if has_opt_arg u = 0 then Some (User_Control_Pressed (ui_cmd u) No_Arg)
      else if ui_byte_arg (ui_cmd u) then do {
        x \<leftarrow> rd (ui_union u) 0; Some (User_Control_Pressed (ui_cmd u) (Byte_Arg x)) }
      else do {
        f \<leftarrow> rd (ui_union u) 0; a \<leftarrow> get16 (ui_union u) 2; b \<leftarrow> get16 (ui_union u) 4;
        Some (User_Control_Pressed (ui_cmd u) (Channel_Arg f a b)) })"

text \<open>The bytes a returned size and pointer denote.\<close>

definition payload_span :: "cec_msg \<Rightarrow> u8 \<Rightarrow> nat \<Rightarrow> u8 list" where
  "payload_span m sz p = take (unat sz) (drop p (m_msg m))"

fun vendor_enc :: "vendor_cmd \<Rightarrow> cint \<Rightarrow> cec_msg \<Rightarrow> cec_msg option" where
  "vendor_enc (Device_Vendor_Id v) r m = cec_msg_device_vendor_id m v"
| "vendor_enc Give_Device_Vendor_Id r m = cec_msg_give_device_vendor_id m r"
| "vendor_enc (Vendor_Command bs) r m = cec_msg_vendor_command m (word_of_nat (length bs)) bs"
| "vendor_enc (Vendor_Command_With_Id v bs) r m =
     cec_msg_vendor_command_with_id m v (word_of_nat (length bs)) bs"
| "vendor_enc (Vendor_Remote_Button_Down bs) r m =
     cec_msg_vendor_remote_button_down m (word_of_nat (length bs)) bs"
| "vendor_enc Vendor_Remote_Button_Up r m = cec_msg_vendor_remote_button_up m"
| "vendor_enc (Set_Osd_String d s) r m = cec_msg_set_osd_string m d (s @ [0])"
| "vendor_enc (Set_Osd_Name s) r m = cec_msg_set_osd_name m (s @ [0])"
| "vendor_enc Give_Osd_Name r m = cec_msg_give_osd_name m r"
| "vendor_enc (Menu_Status x) r m = cec_msg_menu_status m x"
| "vendor_enc (Menu_Request x) r m = cec_msg_menu_request m r x"
| "vendor_enc (User_Control_Pressed c a) r m = cec_msg_user_control_pressed m (ui_store c a)"
| "vendor_enc User_Control_Released r m = cec_msg_user_control_released m"
| "vendor_enc (Report_Power_Status x) r m = cec_msg_report_power_status m x"
| "vendor_enc Give_Device_Power_Status r m = cec_msg_give_device_power_status m r"
| "vendor_enc (Feature_Abort a x) r m = cec_msg_feature_abort m a x"
| "vendor_enc Abort r m = cec_msg_abort m"

fun vendor_opc :: "vendor_cmd \<Rightarrow> u8" where
  "vendor_opc (Device_Vendor_Id v) = CEC_MSG_DEVICE_VENDOR_ID"
| "vendor_opc Give_Device_Vendor_Id = CEC_MSG_GIVE_DEVICE_VENDOR_ID"
| "vendor_opc (Vendor_Command bs) = CEC_MSG_VENDOR_COMMAND"
| "vendor_opc (Vendor_Command_With_Id v bs) = CEC_MSG_VENDOR_COMMAND_WITH_ID"
| "vendor_opc (Vendor_Remote_Button_Down bs) = CEC_MSG_VENDOR_REMOTE_BUTTON_DOWN"
| "vendor_opc Vendor_Remote_Button_Up = CEC_MSG_VENDOR_REMOTE_BUTTON_UP"
| "vendor_opc (Set_Osd_String d s) = CEC_MSG_SET_OSD_STRING"
| "vendor_opc (Set_Osd_Name s) = CEC_MSG_SET_OSD_NAME"
| "vendor_opc Give_Osd_Name = CEC_MSG_GIVE_OSD_NAME"
| "vendor_opc (Menu_Status x) = CEC_MSG_MENU_STATUS"
| "vendor_opc (Menu_Request x) = CEC_MSG_MENU_REQUEST"
| "vendor_opc (User_Control_Pressed c a) = CEC_MSG_USER_CONTROL_PRESSED"
| "vendor_opc User_Control_Released = CEC_MSG_USER_CONTROL_RELEASED"
| "vendor_opc (Report_Power_Status x) = CEC_MSG_REPORT_POWER_STATUS"
| "vendor_opc Give_Device_Power_Status = CEC_MSG_GIVE_DEVICE_POWER_STATUS"
| "vendor_opc (Feature_Abort a x) = CEC_MSG_FEATURE_ABORT"
| "vendor_opc Abort = CEC_MSG_ABORT"

definition vendor_dec ::
    "u8 list \<Rightarrow> u8 list \<Rightarrow> cec_op_ui_command \<Rightarrow> cec_msg \<Rightarrow> vendor_cmd option" where
  "vendor_dec osd name ui m = do { opcode \<leftarrow> get m 1;
     if opcode = CEC_MSG_DEVICE_VENDOR_ID then
       map_option Device_Vendor_Id (cec_ops_device_vendor_id m)
     else if opcode = CEC_MSG_GIVE_DEVICE_VENDOR_ID then Some Give_Device_Vendor_Id
     else if opcode = CEC_MSG_VENDOR_COMMAND then
       map_option (\<lambda>(n, p). Vendor_Command (payload_span m n p)) (cec_ops_vendor_command m)
     else if opcode = CEC_MSG_VENDOR_COMMAND_WITH_ID then
       map_option (\<lambda>(v, n, p). Vendor_Command_With_Id v (payload_span m n p))
         (cec_ops_vendor_command_with_id m)
     else if opcode = CEC_MSG_VENDOR_REMOTE_BUTTON_DOWN then
       map_option (\<lambda>(n, p). Vendor_Remote_Button_Down (payload_span m n p))
         (cec_ops_vendor_remote_button_down m)
     else if opcode = CEC_MSG_VENDOR_REMOTE_BUTTON_UP then Some Vendor_Remote_Button_Up
     else if opcode = CEC_MSG_SET_OSD_STRING then
       cec_ops_set_osd_string m osd \<bind> (\<lambda>(d, s). map_option (Set_Osd_String d) (cstr s))
     else if opcode = CEC_MSG_SET_OSD_NAME then
       cec_ops_set_osd_name m name \<bind> (\<lambda>s. map_option Set_Osd_Name (cstr s))
     else if opcode = CEC_MSG_GIVE_OSD_NAME then Some Give_Osd_Name
     else if opcode = CEC_MSG_MENU_STATUS then map_option Menu_Status (cec_ops_menu_status m)
     else if opcode = CEC_MSG_MENU_REQUEST then map_option Menu_Request (cec_ops_menu_request m)
     else if opcode = CEC_MSG_USER_CONTROL_PRESSED then
       cec_ops_user_control_pressed m ui \<bind> ui_load
     else if opcode = CEC_MSG_USER_CONTROL_RELEASED then Some User_Control_Released
     else if opcode = CEC_MSG_REPORT_POWER_STATUS then
       map_option Report_Power_Status (cec_ops_report_power_status m)
     else if opcode = CEC_MSG_GIVE_DEVICE_POWER_STATUS then Some Give_Device_Power_Status
     else if opcode = CEC_MSG_FEATURE_ABORT then
       map_option (\<lambda>(a, x). Feature_Abort a x) (cec_ops_feature_abort m)
     else if opcode = CEC_MSG_ABORT then Some Abort
     else None }"

fun vendor_valid :: "vendor_cmd \<Rightarrow> bool" where
  "vendor_valid (Device_Vendor_Id v) \<longleftrightarrow> v < 0x1000000"
| "vendor_valid (Vendor_Command bs) \<longleftrightarrow> length bs \<le> 14"
| "vendor_valid (Vendor_Command_With_Id v bs) \<longleftrightarrow> v < 0x1000000 \<and> length bs \<le> 11"
| "vendor_valid (Vendor_Remote_Button_Down bs) \<longleftrightarrow> length bs \<le> 14"
| "vendor_valid (Set_Osd_String d s) \<longleftrightarrow> length s \<le> 13 \<and> 0 \<notin> set s"
| "vendor_valid (Set_Osd_Name s) \<longleftrightarrow> length s \<le> 14 \<and> 0 \<notin> set s"
| "vendor_valid (User_Control_Pressed c (Byte_Arg x)) \<longleftrightarrow> ui_byte_arg c"
| "vendor_valid (User_Control_Pressed c (Channel_Arg f a b)) \<longleftrightarrow>
     c = CEC_OP_UI_CMD_TUNE_FUNCTION \<and> f < 64 \<and> a < 256"
| "vendor_valid _ \<longleftrightarrow> True"

fun vendor_bc :: "vendor_cmd \<Rightarrow> bool" where
  "vendor_bc (Device_Vendor_Id v) = True"
| "vendor_bc _ = False"

fun vendor_rule :: "vendor_cmd \<Rightarrow> reply_rule" where
  "vendor_rule Give_Device_Vendor_Id = Expect CEC_MSG_DEVICE_VENDOR_ID"
| "vendor_rule Give_Osd_Name = Expect CEC_MSG_SET_OSD_NAME"
| "vendor_rule (Menu_Request x) = Expect CEC_MSG_MENU_STATUS"
| "vendor_rule Give_Device_Power_Status = Expect CEC_MSG_REPORT_POWER_STATUS"
| "vendor_rule _ = Keep"

section \<open>Byte strings\<close>

lemma vendor_bytes_spec:
  assumes "m_msg m = [b0, b1, b2, b3, b4, b5, b6, b7, b8, b9, b10, b11, b12, b13, b14, b15]"
  shows "\<exists>m'. cec_msg_vendor_command m (word_of_nat (length bs)) bs = Some m' \<and>
      cec_encoded CEC_MSG_VENDOR_COMMAND False Keep r m m'"
    and "\<exists>m'. cec_msg_vendor_remote_button_down m (word_of_nat (length bs)) bs = Some m' \<and>
      cec_encoded CEC_MSG_VENDOR_REMOTE_BUTTON_DOWN False Keep r m m'"
    and "\<exists>m'. cec_msg_vendor_command_with_id m v (word_of_nat (length bs)) bs = Some m' \<and>
      cec_encoded CEC_MSG_VENDOR_COMMAND_WITH_ID False Keep r m m'"
proof -
  obtain k :: u8 where k: "k = (if word_of_nat (length bs) > (14 :: u8) then 14
    else word_of_nat (length bs))" "unat k \<le> 14" "unat k \<le> length bs"
    using clamp_u8 [of 14 "length bs"] by auto
  obtain j :: u8 where j: "j = (if word_of_nat (length bs) > (11 :: u8) then 11
    else word_of_nat (length bs))" "unat j \<le> 11" "unat j \<le> length bs"
    using clamp_u8 [of 11 "length bs"] by auto
  note d = vendor_bytes_defs cec_access cec_encoded_def cec_wf_def reply_after_def unat_len_add
  show "\<exists>m'. cec_msg_vendor_command m (word_of_nat (length bs)) bs = Some m' \<and>
      cec_encoded CEC_MSG_VENDOR_COMMAND False Keep r m m'"
    using assms k(2,3) by (auto simp: d k(1) [symmetric])
  show "\<exists>m'. cec_msg_vendor_remote_button_down m (word_of_nat (length bs)) bs = Some m' \<and>
      cec_encoded CEC_MSG_VENDOR_REMOTE_BUTTON_DOWN False Keep r m m'"
    using assms k(2,3) by (auto simp: d k(1) [symmetric])
  show "\<exists>m'. cec_msg_vendor_command_with_id m v (word_of_nat (length bs)) bs = Some m' \<and>
      cec_encoded CEC_MSG_VENDOR_COMMAND_WITH_ID False Keep r m m'"
    using assms j(2,3) by (auto simp: d j(1) [symmetric])
qed

lemma osd_spec:
  assumes "m_msg m = [b0, b1, b2, b3, b4, b5, b6, b7, b8, b9, b10, b11, b12, b13, b14, b15]"
  shows "\<exists>m'. cec_msg_set_osd_string m d (s @ [0]) = Some m' \<and>
      cec_encoded CEC_MSG_SET_OSD_STRING False Keep r m m'"
    and "\<exists>m'. cec_msg_set_osd_name m (s @ [0]) = Some m' \<and>
      cec_encoded CEC_MSG_SET_OSD_NAME False Keep r m m'"
proof -
  obtain n where n: "strlen (s @ [0]) = Some n" "n \<le> length s"
    using strlen_total [of s "[]"] by auto
  obtain k :: u32 where k: "k = (if word_of_nat n > (14 :: u32) then 14 else word_of_nat n)"
    "unat k \<le> 14" "unat k \<le> n"
    using clamp_u32 [of 14 n] by auto
  obtain j :: u32 where j: "j = (if word_of_nat n > (13 :: u32) then 13 else word_of_nat n)"
    "unat j \<le> 13" "unat j \<le> n"
    using clamp_u32 [of 13 n] by auto
  note d = osd_defs cec_access cec_encoded_def cec_wf_def reply_after_def unat_len_add
  show "\<exists>m'. cec_msg_set_osd_string m d (s @ [0]) = Some m' \<and>
      cec_encoded CEC_MSG_SET_OSD_STRING False Keep r m m'"
    using assms n j(2,3) by (auto simp: d j(1) [symmetric])
  show "\<exists>m'. cec_msg_set_osd_name m (s @ [0]) = Some m' \<and>
      cec_encoded CEC_MSG_SET_OSD_NAME False Keep r m m'"
    using assms n k(2,3) by (auto simp: d k(1) [symmetric])
qed

lemma vendor_spec:
  assumes "m_msg m = [b0, b1, b2, b3, b4, b5, b6, b7, b8, b9, b10, b11, b12, b13, b14, b15]"
  shows "\<exists>m'. vendor_enc c r m = Some m' \<and>
    cec_encoded (vendor_opc c) (vendor_bc c) (vendor_rule c) r m m'"
proof (cases c)
  case (User_Control_Pressed c a)
  with assms show ?thesis
    by (cases a) (auto simp: vendor_defs get16_def cec_access cec_encoded_def cec_wf_def
        reply_after_def)
qed (use assms vendor_bytes_spec [OF assms] osd_spec [OF assms] in
    \<open>auto simp: vendor_defs cec_access cec_encoded_def cec_wf_def reply_after_def\<close>)

text \<open>The decoders of byte strings on what the encoders produced.\<close>

lemma small_u8:
  assumes "n \<le> 14"
  obtains k :: u8 where "k = word_of_nat n" "unat k = n" "\<not> k > 14"
  using assms by (auto simp: unat_of_nat word_less_nat_alt)

lemma vendor_command_rt:
  assumes "length bs \<le> 14"
    and "m_msg m = [b0, b1, b2, b3, b4, b5, b6, b7, b8, b9, b10, b11, b12, b13, b14, b15]"
    and "cec_msg_vendor_command m (word_of_nat (length bs)) bs = Some m'"
    and "m_msg w = cec_frame m' @ junk" and "m_len w = m_len m'"
  shows "vendor_dec osd name ui w = Some (Vendor_Command bs)"
proof -
  obtain k :: u8 where k: "k = word_of_nat (length bs)" "unat k = length bs" "\<not> k > 14"
    using assms(1) by (rule small_u8)
  have m': "cec_frame m' = b0 # 0x89 # bs" "m_len m' = 2 + ucast k"
    using assms(1-3) k(2,3)
    by (auto simp: cec_msg_vendor_command_def cec_access cec_frame_def unat_len_add k(1) [symmetric])
  have w: "m_msg w = b0 # 0x89 # bs @ junk" "m_len w = 2 + ucast k"
    using assms(4,5) m' by simp_all
  then show ?thesis
    using k(2,3) by (simp add: vendor_dec_def cec_access cec_ops_vendor_command_def payload_span_def)
qed

lemma vendor_button_rt:
  assumes "length bs \<le> 14"
    and "m_msg m = [b0, b1, b2, b3, b4, b5, b6, b7, b8, b9, b10, b11, b12, b13, b14, b15]"
    and "cec_msg_vendor_remote_button_down m (word_of_nat (length bs)) bs = Some m'"
    and "m_msg w = cec_frame m' @ junk" and "m_len w = m_len m'"
  shows "vendor_dec osd name ui w = Some (Vendor_Remote_Button_Down bs)"
proof -
  obtain k :: u8 where k: "k = word_of_nat (length bs)" "unat k = length bs" "\<not> k > 14"
    using assms(1) by (rule small_u8)
  have m': "cec_frame m' = b0 # 0x8a # bs" "m_len m' = 2 + ucast k"
    using assms(1-3) k(2,3)
    by (auto simp: cec_msg_vendor_remote_button_down_def cec_access cec_frame_def unat_len_add k(1) [symmetric])
  have w: "m_msg w = b0 # 0x8a # bs @ junk" "m_len w = 2 + ucast k"
    using assms(4,5) m' by simp_all
  then show ?thesis
    using k(2,3) by (simp add: vendor_dec_def cec_access cec_ops_vendor_remote_button_down_def
        payload_span_def)
qed

lemma vendor_with_id_rt:
  assumes "length bs \<le> 11" and "v < 0x1000000"
    and "m_msg m = [b0, b1, b2, b3, b4, b5, b6, b7, b8, b9, b10, b11, b12, b13, b14, b15]"
    and "cec_msg_vendor_command_with_id m v (word_of_nat (length bs)) bs = Some m'"
    and "m_msg w = cec_frame m' @ junk" and "m_len w = m_len m'"
  shows "vendor_dec osd name ui w = Some (Vendor_Command_With_Id v bs)"
proof -
  obtain k :: u8 where k: "k = word_of_nat (length bs)" "unat k = length bs"
    using assms(1) by (elim small_u8 [OF order_trans [OF _ _]]) simp_all
  have k11: "\<not> k > 11"
    using assms(1) k(2) by (simp add: word_less_nat_alt)
  have m': "cec_frame m' = b0 # 0xa0 # byte2 v # byte1 v # byte0 v # bs" "m_len m' = 5 + ucast k"
    using assms(1-4) k(2) k11
    by (auto simp: cec_msg_vendor_command_with_id_def cec_access cec_frame_def unat_len_add k(1) [symmetric])
  have w: "m_msg w = b0 # 0xa0 # byte2 v # byte1 v # byte0 v # bs @ junk" "m_len w = 5 + ucast k"
    using assms(5,6) m' by simp_all
  then show ?thesis
    using k(2) k11 assms(2) by (simp add: vendor_dec_def cec_access
        cec_ops_vendor_command_with_id_def payload_span_def be24_bytes_id)
qed

lemma osd_name_rt:
  assumes "length s \<le> 14" and "0 \<notin> set s" and "length name = 15"
    and "m_msg m = [b0, b1, b2, b3, b4, b5, b6, b7, b8, b9, b10, b11, b12, b13, b14, b15]"
    and "cec_msg_set_osd_name m (s @ [0]) = Some m'"
    and "m_msg w = cec_frame m' @ junk" and "m_len w = m_len m'"
  shows "vendor_dec osd name ui w = Some (Set_Osd_Name s)"
proof -
  have s: "strlen (s @ [0]) = Some (length s)"
    using strlen_append_NUL [of s "[]"] assms(2) by simp
  obtain k :: u32 where k: "k = word_of_nat (length s)" "unat k = length s" "\<not> k > 14"
    using assms(1) by (auto simp: unat_of_nat word_less_nat_alt)
  have len: "2 < 2 + k \<longleftrightarrow> s \<noteq> []"
    using k(2) assms(1) by (auto simp: word_less_nat_alt unat_len_add)
  have m': "cec_frame m' = b0 # 0x47 # s" "m_len m' = 2 + k"
    using assms(1,4,5) s k(2,3)
    by (auto simp: cec_msg_set_osd_name_def cec_access cec_frame_def unat_len_add k(1) [symmetric])
  have w: "m_msg w = b0 # 0x47 # s @ junk" "m_len w = 2 + k"
    using assms(6,7) m' by simp_all
  show ?thesis
    using assms(1,2,3) w k(2,3) cstr_buffer [of "[]" name] by (simp add: vendor_dec_def cec_access
        cec_ops_set_osd_name_def len list_update_append cstr_buffer)
qed

lemma osd_string_rt:
  assumes "length s \<le> 13" and "0 \<notin> set s" and "length osd = 14"
    and "m_msg m = [b0, b1, b2, b3, b4, b5, b6, b7, b8, b9, b10, b11, b12, b13, b14, b15]"
    and "cec_msg_set_osd_string m d (s @ [0]) = Some m'"
    and "m_msg w = cec_frame m' @ junk" and "m_len w = m_len m'"
  shows "vendor_dec osd name ui w = Some (Set_Osd_String d s)"
proof -
  have s: "strlen (s @ [0]) = Some (length s)"
    using strlen_append_NUL [of s "[]"] assms(2) by simp
  obtain k :: u32 where k: "k = word_of_nat (length s)" "unat k = length s" "\<not> k > 13"
    using assms(1) by (auto simp: unat_of_nat word_less_nat_alt)
  have len: "3 < 3 + k \<longleftrightarrow> s \<noteq> []"
    using k(2) assms(1) by (auto simp: word_less_nat_alt unat_len_add)
  have m': "cec_frame m' = b0 # 0x64 # d # s" "m_len m' = 3 + k"
    using assms(1,4,5) s k(2,3)
    by (auto simp: cec_msg_set_osd_string_def cec_access cec_frame_def unat_len_add k(1) [symmetric])
  have w: "m_msg w = b0 # 0x64 # d # s @ junk" "m_len w = 3 + k"
    using assms(6,7) m' by simp_all
  show ?thesis
    using assms(1,2,3) w k(2,3) cstr_buffer [of "[]" osd] by (simp add: vendor_dec_def cec_access
        cec_ops_set_osd_string_def len list_update_append cstr_buffer)
qed

lemma vendor_rt:
  assumes "length osd = 14" and "length name = 15" and "length (ui_union ui) = 6"
    and "m_msg m = [b0, b1, b2, b3, b4, b5, b6, b7, b8, b9, b10, b11, b12, b13, b14, b15]"
    and "vendor_valid c" and "vendor_enc c r m = Some m'"
    and "m_msg w = cec_frame m' @ junk" and "m_len w = m_len m'"
  shows "vendor_dec osd name ui w = Some c"
proof -
  obtain u0 u1 u2 u3 u4 u5 where u: "ui_union ui = [u0, u1, u2, u3, u4, u5]"
    using assms(3) by (auto simp: numeral_eq_Suc length_Suc_conv)
  show ?thesis
  proof (cases c)
    case (User_Control_Pressed x a)
    with assms(4-) u show ?thesis
      by (cases a) (auto simp: vendor_defs vendor_dec_def ui_load_def ui_byte_arg_def get16_def
          put16_def cec_access cec_frame_def fmt_pack get_major_small hi8_small be16_0_lo8)
  next
    case (Vendor_Command bs)
    with assms(4-) vendor_command_rt show ?thesis by simp
  next
    case (Vendor_Remote_Button_Down bs)
    with assms(4-) vendor_button_rt show ?thesis by simp
  next
    case (Vendor_Command_With_Id v bs)
    with assms(4-) vendor_with_id_rt show ?thesis by simp
  next
    case (Set_Osd_Name s)
    with assms(2,4-) osd_name_rt show ?thesis by simp
  next
    case (Set_Osd_String d s)
    with assms(1,4-) osd_string_rt show ?thesis by simp
  qed (use assms(4-) in \<open>auto simp: vendor_defs vendor_dec_def cec_access cec_frame_def
      be24_bytes_id\<close>)
qed

interpretation vendor: cec_codec vendor_enc
  "vendor_dec (replicate 14 0) (replicate 15 0)
     \<lparr>ui_cmd = 0, has_opt_arg = 0, ui_union = replicate 6 0\<rparr>"
  vendor_valid vendor_opc vendor_bc vendor_rule
  by (rule cec_codecI) (blast intro: vendor_spec, rule vendor_rt, simp_all)

end
