(* ===== verification/CecAudio.thy ===== *)
theory CecAudio
  imports CecService
begin

text \<open>
  The System Audio Control, Audio Rate Control, Audio Return Channel Control and Dynamic Audio
  Lipsync features of \<open>cec-funcs.h\<close>. The loops over audio descriptors are recursions on the
  number of iterations left; \<open>i\<close> is the loop counter of the source.
\<close>

section \<open>System Audio Control\<close>

definition cec_msg_report_audio_status :: "cec_msg \<Rightarrow> u8 \<Rightarrow> u8 \<Rightarrow> cec_msg option" where
  "cec_msg_report_audio_status m aud_mute_status aud_vol_status = do {
     m \<leftarrow> set_len 3 m;
     m \<leftarrow> put 1 CEC_MSG_REPORT_AUDIO_STATUS m;
     put 2 (pack8 7 aud_mute_status (aud_vol_status AND 0x7f)) m }"

definition cec_ops_report_audio_status :: "cec_msg \<Rightarrow> (u8 \<times> u8) option" where
  "cec_ops_report_audio_status m = do {
     b2 \<leftarrow> get m 2;
     Some (drop_bit 7 b2, b2 AND 0x7f) }"

definition cec_msg_give_audio_status ::
    "cec_msg \<Rightarrow> cint \<Rightarrow> cec_msg option" where
  "cec_msg_give_audio_status m reply = do {
     m \<leftarrow> set_len 2 m;
     m \<leftarrow> put 1 CEC_MSG_GIVE_AUDIO_STATUS m;
     set_reply (if reply \<noteq> 0 then CEC_MSG_REPORT_AUDIO_STATUS else 0) m }"

definition cec_msg_set_system_audio_mode ::
    "cec_msg \<Rightarrow> u8 \<Rightarrow> cec_msg option" where
  "cec_msg_set_system_audio_mode m sys_aud_status = do {
     m \<leftarrow> set_len 3 m;
     m \<leftarrow> put 1 CEC_MSG_SET_SYSTEM_AUDIO_MODE m;
     put 2 sys_aud_status m }"

definition cec_ops_set_system_audio_mode :: "cec_msg \<Rightarrow> u8 option" where
  "cec_ops_set_system_audio_mode m = get m 2"

definition cec_msg_system_audio_mode_request :: "cec_msg \<Rightarrow> cint \<Rightarrow> u16 \<Rightarrow> cec_msg option" where
  "cec_msg_system_audio_mode_request m reply phys_addr = do {
     m \<leftarrow> set_len (if phys_addr = 0xffff then 2 else 4) m;
     m \<leftarrow> put 1 CEC_MSG_SYSTEM_AUDIO_MODE_REQUEST m;
     m \<leftarrow> put 2 (hi8 phys_addr) m;
     m \<leftarrow> put 3 (lo8 phys_addr) m;
     set_reply (if reply \<noteq> 0 then CEC_MSG_SET_SYSTEM_AUDIO_MODE else 0) m }"

definition cec_ops_system_audio_mode_request :: "cec_msg \<Rightarrow> u16 option" where
  "cec_ops_system_audio_mode_request m =
     (if m_len m < 4 then Some 0xffff
      else do { b2 \<leftarrow> get m 2; b3 \<leftarrow> get m 3; Some (be16 b2 b3) })"

definition cec_msg_system_audio_mode_status ::
    "cec_msg \<Rightarrow> u8 \<Rightarrow> cec_msg option" where
  "cec_msg_system_audio_mode_status m sys_aud_status = do {
     m \<leftarrow> set_len 3 m;
     m \<leftarrow> put 1 CEC_MSG_SYSTEM_AUDIO_MODE_STATUS m;
     put 2 sys_aud_status m }"

definition cec_ops_system_audio_mode_status :: "cec_msg \<Rightarrow> u8 option" where
  "cec_ops_system_audio_mode_status m = get m 2"

definition cec_msg_give_system_audio_mode_status ::
    "cec_msg \<Rightarrow> cint \<Rightarrow> cec_msg option" where
  "cec_msg_give_system_audio_mode_status m reply = do {
     m \<leftarrow> set_len 2 m;
     m \<leftarrow> put 1 CEC_MSG_GIVE_SYSTEM_AUDIO_MODE_STATUS m;
     set_reply (if reply \<noteq> 0 then CEC_MSG_SYSTEM_AUDIO_MODE_STATUS else 0) m }"

fun sad_write :: "nat \<Rightarrow> u32 list \<Rightarrow> nat \<Rightarrow> cec_msg \<Rightarrow> cec_msg option" where
  "sad_write 0 descriptors i m = Some m"
| "sad_write (Suc n) descriptors i m = do {
     d \<leftarrow> rd descriptors i;
     m \<leftarrow> put (2 + i * 3) (ucast (drop_bit 16 d AND 0xff)) m;
     m \<leftarrow> put (3 + i * 3) (ucast (drop_bit 8 d AND 0xff)) m;
     m \<leftarrow> put (4 + i * 3) (ucast (d AND 0xff)) m;
     sad_write n descriptors (i + 1) m }"

definition cec_msg_report_short_audio_descriptor ::
    "cec_msg \<Rightarrow> u8 \<Rightarrow> u32 list \<Rightarrow> cec_msg option" where
  "cec_msg_report_short_audio_descriptor m num_descriptors descriptors = do {
     num_descriptors \<leftarrow> Some (if num_descriptors > 4 then 4 else num_descriptors);
     m \<leftarrow> set_len (2 + ucast num_descriptors * 3) m;
     m \<leftarrow> put 1 CEC_MSG_REPORT_SHORT_AUDIO_DESCRIPTOR m;
     sad_write (unat num_descriptors) descriptors 0 m }"

fun sad_read :: "nat \<Rightarrow> cec_msg \<Rightarrow> nat \<Rightarrow> u32 list \<Rightarrow> u32 list option" where
  "sad_read 0 m i descriptors = Some descriptors"
| "sad_read (Suc n) m i descriptors = do {
     a \<leftarrow> get m (2 + i * 3); b \<leftarrow> get m (3 + i * 3); c \<leftarrow> get m (4 + i * 3);
     descriptors \<leftarrow> wr descriptors i (be24 a b c);
     sad_read n m (i + 1) descriptors }"

definition cec_ops_report_short_audio_descriptor ::
    "cec_msg \<Rightarrow> u32 list \<Rightarrow> (u8 \<times> u32 list) option" where
  "cec_ops_report_short_audio_descriptor m descriptors = do {
     num_descriptors \<leftarrow> Some (ucast ((m_len m - 2) div 3));
     num_descriptors \<leftarrow> Some (if num_descriptors > 4 then 4 else num_descriptors);
     descriptors \<leftarrow> sad_read (unat num_descriptors) m 0 descriptors;
     Some (num_descriptors, descriptors) }"

fun format_write :: "nat \<Rightarrow> u8 list \<Rightarrow> u8 list \<Rightarrow> nat \<Rightarrow> cec_msg \<Rightarrow> cec_msg option" where
  "format_write 0 audio_format_id audio_format_code i m = Some m"
| "format_write (Suc n) audio_format_id audio_format_code i m = do {
     f \<leftarrow> rd audio_format_id i;
     c \<leftarrow> rd audio_format_code i;
     m \<leftarrow> put (2 + i) (pack8 6 f (c AND 0x3f)) m;
     format_write n audio_format_id audio_format_code (i + 1) m }"

definition cec_msg_request_short_audio_descriptor ::
    "cec_msg \<Rightarrow> cint \<Rightarrow> u8 \<Rightarrow> u8 list \<Rightarrow> u8 list \<Rightarrow> cec_msg option" where
  "cec_msg_request_short_audio_descriptor m reply num_descriptors audio_format_id
     audio_format_code = do {
     num_descriptors \<leftarrow> Some (if num_descriptors > 4 then 4 else num_descriptors);
     m \<leftarrow> set_len (2 + ucast num_descriptors) m;
     m \<leftarrow> put 1 CEC_MSG_REQUEST_SHORT_AUDIO_DESCRIPTOR m;
     m \<leftarrow> set_reply (if reply \<noteq> 0 then CEC_MSG_REPORT_SHORT_AUDIO_DESCRIPTOR else 0) m;
     format_write (unat num_descriptors) audio_format_id audio_format_code 0 m }"

fun format_read :: "nat \<Rightarrow> cec_msg \<Rightarrow> nat \<Rightarrow> u8 list \<Rightarrow> u8 list \<Rightarrow> (u8 list \<times> u8 list) option" where
  "format_read 0 m i audio_format_id audio_format_code = Some (audio_format_id, audio_format_code)"
| "format_read (Suc n) m i audio_format_id audio_format_code = do {
     b \<leftarrow> get m (2 + i);
     audio_format_id \<leftarrow> wr audio_format_id i (drop_bit 6 b);
     audio_format_code \<leftarrow> wr audio_format_code i (b AND 0x3f);
     format_read n m (i + 1) audio_format_id audio_format_code }"

definition cec_ops_request_short_audio_descriptor ::
    "cec_msg \<Rightarrow> u8 list \<Rightarrow> u8 list \<Rightarrow> (u8 \<times> u8 list \<times> u8 list) option" where
  "cec_ops_request_short_audio_descriptor m audio_format_id audio_format_code = do {
     num_descriptors \<leftarrow> Some (ucast (m_len m - 2));
     num_descriptors \<leftarrow> Some (if num_descriptors > 4 then 4 else num_descriptors);
     (audio_format_id, audio_format_code) \<leftarrow>
       format_read (unat num_descriptors) m 0 audio_format_id audio_format_code;
     Some (num_descriptors, audio_format_id, audio_format_code) }"

definition cec_msg_set_audio_volume_level ::
    "cec_msg \<Rightarrow> u8 \<Rightarrow> cec_msg option" where
  "cec_msg_set_audio_volume_level m audio_volume_level = do {
     m \<leftarrow> set_len 3 m;
     m \<leftarrow> put 1 CEC_MSG_SET_AUDIO_VOLUME_LEVEL m;
     put 2 audio_volume_level m }"

definition cec_ops_set_audio_volume_level :: "cec_msg \<Rightarrow> u8 option" where
  "cec_ops_set_audio_volume_level m = get m 2"

section \<open>Audio Rate Control\<close>

definition cec_msg_set_audio_rate :: "cec_msg \<Rightarrow> u8 \<Rightarrow> cec_msg option" where
  "cec_msg_set_audio_rate m audio_rate = do {
     m \<leftarrow> set_len 3 m;
     m \<leftarrow> put 1 CEC_MSG_SET_AUDIO_RATE m;
     put 2 audio_rate m }"

definition cec_ops_set_audio_rate :: "cec_msg \<Rightarrow> u8 option" where
  "cec_ops_set_audio_rate m = get m 2"

section \<open>Audio Return Channel Control\<close>

definition cec_msg_report_arc_initiated :: "cec_msg \<Rightarrow> cec_msg option" where
  "cec_msg_report_arc_initiated m = do {
     m \<leftarrow> set_len 2 m;
     put 1 CEC_MSG_REPORT_ARC_INITIATED m }"

definition cec_msg_initiate_arc :: "cec_msg \<Rightarrow> cint \<Rightarrow> cec_msg option" where
  "cec_msg_initiate_arc m reply = do {
     m \<leftarrow> set_len 2 m;
     m \<leftarrow> put 1 CEC_MSG_INITIATE_ARC m;
     set_reply (if reply \<noteq> 0 then CEC_MSG_REPORT_ARC_INITIATED else 0) m }"

definition cec_msg_request_arc_initiation ::
    "cec_msg \<Rightarrow> cint \<Rightarrow> cec_msg option" where
  "cec_msg_request_arc_initiation m reply = do {
     m \<leftarrow> set_len 2 m;
     m \<leftarrow> put 1 CEC_MSG_REQUEST_ARC_INITIATION m;
     set_reply (if reply \<noteq> 0 then CEC_MSG_INITIATE_ARC else 0) m }"

definition cec_msg_report_arc_terminated :: "cec_msg \<Rightarrow> cec_msg option" where
  "cec_msg_report_arc_terminated m = do {
     m \<leftarrow> set_len 2 m;
     put 1 CEC_MSG_REPORT_ARC_TERMINATED m }"

definition cec_msg_terminate_arc ::
    "cec_msg \<Rightarrow> cint \<Rightarrow> cec_msg option" where
  "cec_msg_terminate_arc m reply = do {
     m \<leftarrow> set_len 2 m;
     m \<leftarrow> put 1 CEC_MSG_TERMINATE_ARC m;
     set_reply (if reply \<noteq> 0 then CEC_MSG_REPORT_ARC_TERMINATED else 0) m }"

definition cec_msg_request_arc_termination ::
    "cec_msg \<Rightarrow> cint \<Rightarrow> cec_msg option" where
  "cec_msg_request_arc_termination m reply = do {
     m \<leftarrow> set_len 2 m;
     m \<leftarrow> put 1 CEC_MSG_REQUEST_ARC_TERMINATION m;
     set_reply (if reply \<noteq> 0 then CEC_MSG_TERMINATE_ARC else 0) m }"

section \<open>Dynamic Audio Lipsync\<close>

definition cec_msg_report_current_latency ::
    "cec_msg \<Rightarrow> u16 \<Rightarrow> u8 \<Rightarrow> u8 \<Rightarrow> u8 \<Rightarrow> u8 \<Rightarrow> cec_msg option" where
  "cec_msg_report_current_latency m phys_addr video_latency low_latency_mode
     audio_out_compensated audio_out_delay = do {
     m \<leftarrow> set_len 6 m;
     m \<leftarrow> or_broadcast m;
     m \<leftarrow> put 1 CEC_MSG_REPORT_CURRENT_LATENCY m;
     m \<leftarrow> put 2 (hi8 phys_addr) m;
     m \<leftarrow> put 3 (lo8 phys_addr) m;
     m \<leftarrow> put 4 video_latency m;
     m \<leftarrow> put 5 (pack8 2 low_latency_mode audio_out_compensated) m;
     if audio_out_compensated = 3 then append_byte audio_out_delay m else Some m }"

definition cec_ops_report_current_latency ::
    "cec_msg \<Rightarrow> (u16 \<times> u8 \<times> u8 \<times> u8 \<times> u8) option" where
  "cec_ops_report_current_latency m = do {
     b2 \<leftarrow> get m 2; b3 \<leftarrow> get m 3; b4 \<leftarrow> get m 4; b5 \<leftarrow> get m 5;
     audio_out_compensated \<leftarrow> Some (b5 AND 3);
     audio_out_delay \<leftarrow> (if audio_out_compensated = 3 \<and> m_len m \<ge> 7 then get m 6 else Some 1);
     Some (be16 b2 b3, b4, drop_bit 2 b5 AND 1, audio_out_compensated, audio_out_delay) }"

definition cec_msg_request_current_latency ::
    "cec_msg \<Rightarrow> cint \<Rightarrow> u16 \<Rightarrow> cec_msg option" where
  "cec_msg_request_current_latency m reply phys_addr = do {
     m \<leftarrow> set_len 4 m;
     m \<leftarrow> or_broadcast m;
     m \<leftarrow> put 1 CEC_MSG_REQUEST_CURRENT_LATENCY m;
     m \<leftarrow> put 2 (hi8 phys_addr) m;
     m \<leftarrow> put 3 (lo8 phys_addr) m;
     set_reply (if reply \<noteq> 0 then CEC_MSG_REPORT_CURRENT_LATENCY else 0) m }"

definition cec_ops_request_current_latency :: "cec_msg \<Rightarrow> u16 option" where
  "cec_ops_request_current_latency m = do {
     b2 \<leftarrow> get m 2; b3 \<leftarrow> get m 3;
     Some (be16 b2 b3) }"

lemmas audio_defs =
  cec_msg_report_audio_status_def cec_ops_report_audio_status_def cec_msg_give_audio_status_def
  cec_msg_set_system_audio_mode_def cec_ops_set_system_audio_mode_def
  cec_msg_system_audio_mode_request_def cec_ops_system_audio_mode_request_def
  cec_msg_system_audio_mode_status_def cec_ops_system_audio_mode_status_def
  cec_msg_give_system_audio_mode_status_def cec_msg_set_audio_volume_level_def
  cec_ops_set_audio_volume_level_def cec_msg_set_audio_rate_def cec_ops_set_audio_rate_def
  cec_msg_report_arc_initiated_def cec_msg_initiate_arc_def cec_msg_request_arc_initiation_def
  cec_msg_report_arc_terminated_def cec_msg_terminate_arc_def
  cec_msg_request_arc_termination_def cec_msg_report_current_latency_def
  cec_ops_report_current_latency_def cec_msg_request_current_latency_def
  cec_ops_request_current_latency_def

lemmas sad_defs =
  cec_msg_report_short_audio_descriptor_def cec_ops_report_short_audio_descriptor_def
  cec_msg_request_short_audio_descriptor_def cec_ops_request_short_audio_descriptor_def

section \<open>The commands as a codec\<close>

datatype audio_cmd =
    Report_Audio_Status u8 u8 | Give_Audio_Status | Set_System_Audio_Mode u8
  | System_Audio_Mode_Request u16 | System_Audio_Mode_Status u8 | Give_System_Audio_Mode_Status
  | Report_Short_Audio_Descriptor "u32 list" | Request_Short_Audio_Descriptor "(u8 \<times> u8) list"
  | Set_Audio_Volume_Level u8 | Set_Audio_Rate u8 | Report_Arc_Initiated | Initiate_Arc
  | Request_Arc_Initiation | Report_Arc_Terminated | Terminate_Arc | Request_Arc_Termination
  | Report_Current_Latency u16 u8 u8 u8 u8 | Request_Current_Latency u16

fun audio_enc :: "audio_cmd \<Rightarrow> cint \<Rightarrow> cec_msg \<Rightarrow> cec_msg option" where
  "audio_enc (Report_Audio_Status x y) r m = cec_msg_report_audio_status m x y"
| "audio_enc Give_Audio_Status r m = cec_msg_give_audio_status m r"
| "audio_enc (Set_System_Audio_Mode x) r m = cec_msg_set_system_audio_mode m x"
| "audio_enc (System_Audio_Mode_Request a) r m = cec_msg_system_audio_mode_request m r a"
| "audio_enc (System_Audio_Mode_Status x) r m = cec_msg_system_audio_mode_status m x"
| "audio_enc Give_System_Audio_Mode_Status r m = cec_msg_give_system_audio_mode_status m r"
| "audio_enc (Report_Short_Audio_Descriptor ds) r m =
     cec_msg_report_short_audio_descriptor m (word_of_nat (length ds)) ds"
| "audio_enc (Request_Short_Audio_Descriptor fs) r m =
     cec_msg_request_short_audio_descriptor m r (word_of_nat (length fs)) (map fst fs) (map snd fs)"
| "audio_enc (Set_Audio_Volume_Level x) r m = cec_msg_set_audio_volume_level m x"
| "audio_enc (Set_Audio_Rate x) r m = cec_msg_set_audio_rate m x"
| "audio_enc Report_Arc_Initiated r m = cec_msg_report_arc_initiated m"
| "audio_enc Initiate_Arc r m = cec_msg_initiate_arc m r"
| "audio_enc Request_Arc_Initiation r m = cec_msg_request_arc_initiation m r"
| "audio_enc Report_Arc_Terminated r m = cec_msg_report_arc_terminated m"
| "audio_enc Terminate_Arc r m = cec_msg_terminate_arc m r"
| "audio_enc Request_Arc_Termination r m = cec_msg_request_arc_termination m r"
| "audio_enc (Report_Current_Latency a v l c d) r m = cec_msg_report_current_latency m a v l c d"
| "audio_enc (Request_Current_Latency a) r m = cec_msg_request_current_latency m r a"

fun audio_opc :: "audio_cmd \<Rightarrow> u8" where
  "audio_opc (Report_Audio_Status x y) = CEC_MSG_REPORT_AUDIO_STATUS"
| "audio_opc Give_Audio_Status = CEC_MSG_GIVE_AUDIO_STATUS"
| "audio_opc (Set_System_Audio_Mode x) = CEC_MSG_SET_SYSTEM_AUDIO_MODE"
| "audio_opc (System_Audio_Mode_Request a) = CEC_MSG_SYSTEM_AUDIO_MODE_REQUEST"
| "audio_opc (System_Audio_Mode_Status x) = CEC_MSG_SYSTEM_AUDIO_MODE_STATUS"
| "audio_opc Give_System_Audio_Mode_Status = CEC_MSG_GIVE_SYSTEM_AUDIO_MODE_STATUS"
| "audio_opc (Report_Short_Audio_Descriptor ds) = CEC_MSG_REPORT_SHORT_AUDIO_DESCRIPTOR"
| "audio_opc (Request_Short_Audio_Descriptor fs) = CEC_MSG_REQUEST_SHORT_AUDIO_DESCRIPTOR"
| "audio_opc (Set_Audio_Volume_Level x) = CEC_MSG_SET_AUDIO_VOLUME_LEVEL"
| "audio_opc (Set_Audio_Rate x) = CEC_MSG_SET_AUDIO_RATE"
| "audio_opc Report_Arc_Initiated = CEC_MSG_REPORT_ARC_INITIATED"
| "audio_opc Initiate_Arc = CEC_MSG_INITIATE_ARC"
| "audio_opc Request_Arc_Initiation = CEC_MSG_REQUEST_ARC_INITIATION"
| "audio_opc Report_Arc_Terminated = CEC_MSG_REPORT_ARC_TERMINATED"
| "audio_opc Terminate_Arc = CEC_MSG_TERMINATE_ARC"
| "audio_opc Request_Arc_Termination = CEC_MSG_REQUEST_ARC_TERMINATION"
| "audio_opc (Report_Current_Latency a v l c d) = CEC_MSG_REPORT_CURRENT_LATENCY"
| "audio_opc (Request_Current_Latency a) = CEC_MSG_REQUEST_CURRENT_LATENCY"

text \<open>\<open>sads\<close>, \<open>ids\<close> and \<open>codes\<close> are the arrays the caller passes to be filled.\<close>

definition audio_dec :: "u32 list \<Rightarrow> u8 list \<Rightarrow> u8 list \<Rightarrow> cec_msg \<Rightarrow> audio_cmd option" where
  "audio_dec sads ids codes m = do { opcode \<leftarrow> get m 1;
     if opcode = CEC_MSG_REPORT_AUDIO_STATUS then
       map_option (\<lambda>(x, y). Report_Audio_Status x y) (cec_ops_report_audio_status m)
     else if opcode = CEC_MSG_GIVE_AUDIO_STATUS then Some Give_Audio_Status
     else if opcode = CEC_MSG_SET_SYSTEM_AUDIO_MODE then
       map_option Set_System_Audio_Mode (cec_ops_set_system_audio_mode m)
     else if opcode = CEC_MSG_SYSTEM_AUDIO_MODE_REQUEST then
       map_option System_Audio_Mode_Request (cec_ops_system_audio_mode_request m)
     else if opcode = CEC_MSG_SYSTEM_AUDIO_MODE_STATUS then
       map_option System_Audio_Mode_Status (cec_ops_system_audio_mode_status m)
     else if opcode = CEC_MSG_GIVE_SYSTEM_AUDIO_MODE_STATUS then Some Give_System_Audio_Mode_Status
     else if opcode = CEC_MSG_REPORT_SHORT_AUDIO_DESCRIPTOR then
       map_option (\<lambda>(n, ds). Report_Short_Audio_Descriptor (take (unat n) ds))
         (cec_ops_report_short_audio_descriptor m sads)
     else if opcode = CEC_MSG_REQUEST_SHORT_AUDIO_DESCRIPTOR then
       map_option (\<lambda>(n, is, cs). Request_Short_Audio_Descriptor (take (unat n) (zip is cs)))
         (cec_ops_request_short_audio_descriptor m ids codes)
     else if opcode = CEC_MSG_SET_AUDIO_VOLUME_LEVEL then
       map_option Set_Audio_Volume_Level (cec_ops_set_audio_volume_level m)
     else if opcode = CEC_MSG_SET_AUDIO_RATE then
       map_option Set_Audio_Rate (cec_ops_set_audio_rate m)
     else if opcode = CEC_MSG_REPORT_ARC_INITIATED then Some Report_Arc_Initiated
     else if opcode = CEC_MSG_INITIATE_ARC then Some Initiate_Arc
     else if opcode = CEC_MSG_REQUEST_ARC_INITIATION then Some Request_Arc_Initiation
     else if opcode = CEC_MSG_REPORT_ARC_TERMINATED then Some Report_Arc_Terminated
     else if opcode = CEC_MSG_TERMINATE_ARC then Some Terminate_Arc
     else if opcode = CEC_MSG_REQUEST_ARC_TERMINATION then Some Request_Arc_Termination
     else if opcode = CEC_MSG_REPORT_CURRENT_LATENCY then
       map_option (\<lambda>(a, v, l, c, d). Report_Current_Latency a v l c d)
         (cec_ops_report_current_latency m)
     else if opcode = CEC_MSG_REQUEST_CURRENT_LATENCY then
       map_option Request_Current_Latency (cec_ops_request_current_latency m)
     else None }"

fun audio_valid :: "audio_cmd \<Rightarrow> bool" where
  "audio_valid (Report_Audio_Status x y) \<longleftrightarrow> x < 2 \<and> y < 128"
| "audio_valid (Report_Short_Audio_Descriptor ds) \<longleftrightarrow>
     length ds \<le> 4 \<and> list_all (\<lambda>d. d < 0x1000000) ds"
| "audio_valid (Request_Short_Audio_Descriptor fs) \<longleftrightarrow>
     length fs \<le> 4 \<and> list_all (\<lambda>(f, c). f < 4 \<and> c < 64) fs"
| "audio_valid (Report_Current_Latency a v l c d) \<longleftrightarrow> l < 2 \<and> c < 4 \<and> (c = 3 \<or> d = 1)"
| "audio_valid _ \<longleftrightarrow> True"

fun audio_bc :: "audio_cmd \<Rightarrow> bool" where
  "audio_bc (Report_Current_Latency a v l c d) = True"
| "audio_bc (Request_Current_Latency a) = True"
| "audio_bc _ = False"

fun audio_rule :: "audio_cmd \<Rightarrow> reply_rule" where
  "audio_rule Give_Audio_Status = Expect CEC_MSG_REPORT_AUDIO_STATUS"
| "audio_rule (System_Audio_Mode_Request a) = Expect CEC_MSG_SET_SYSTEM_AUDIO_MODE"
| "audio_rule Give_System_Audio_Mode_Status = Expect CEC_MSG_SYSTEM_AUDIO_MODE_STATUS"
| "audio_rule (Request_Short_Audio_Descriptor fs) = Expect CEC_MSG_REPORT_SHORT_AUDIO_DESCRIPTOR"
| "audio_rule Initiate_Arc = Expect CEC_MSG_REPORT_ARC_INITIATED"
| "audio_rule Request_Arc_Initiation = Expect CEC_MSG_INITIATE_ARC"
| "audio_rule Terminate_Arc = Expect CEC_MSG_REPORT_ARC_TERMINATED"
| "audio_rule Request_Arc_Termination = Expect CEC_MSG_TERMINATE_ARC"
| "audio_rule (Request_Current_Latency a) = Expect CEC_MSG_REPORT_CURRENT_LATENCY"
| "audio_rule _ = Keep"

section \<open>Descriptor loops\<close>

lemma sad_write_ok:
  "length (m_msg m) = 16 \<Longrightarrow> i + n \<le> 4 \<Longrightarrow> i + n \<le> length ds \<Longrightarrow>
   \<exists>b. sad_write n ds i m = Some (m\<lparr>m_msg := b\<rparr>) \<and> length b = 16 \<and>
     b ! 0 = m_msg m ! 0 \<and> b ! 1 = m_msg m ! 1"
proof (induction n arbitrary: i m)
  case 0
  then show ?case by (intro exI [of _ "m_msg m"]) simp
next
  case (Suc n)
  obtain b where b: "b = (m_msg m)[2 + i * 3 := ucast (drop_bit 16 (ds ! i) AND 0xff),
    3 + i * 3 := ucast (drop_bit 8 (ds ! i) AND 0xff), 4 + i * 3 := ucast (ds ! i AND 0xff)]"
    by simp
  have "sad_write (Suc n) ds i m = sad_write n ds (i + 1) (m\<lparr>m_msg := b\<rparr>)"
    using Suc.prems by (simp add: b cec_access)
  moreover have "length b = 16" "b ! 0 = m_msg m ! 0" "b ! 1 = m_msg m ! 1"
    using Suc.prems by (simp_all add: b)
  ultimately show ?case
    using Suc.IH [of "m\<lparr>m_msg := b\<rparr>" "i + 1"] Suc.prems by auto
qed

lemma format_write_ok:
  "length (m_msg m) = 16 \<Longrightarrow> i + n \<le> 4 \<Longrightarrow> i + n \<le> length fs \<Longrightarrow> i + n \<le> length cs \<Longrightarrow>
   \<exists>b. format_write n fs cs i m = Some (m\<lparr>m_msg := b\<rparr>) \<and> length b = 16 \<and>
     b ! 0 = m_msg m ! 0 \<and> b ! 1 = m_msg m ! 1"
proof (induction n arbitrary: i m)
  case 0
  then show ?case by (intro exI [of _ "m_msg m"]) simp
next
  case (Suc n)
  obtain b where b: "b = (m_msg m)[2 + i := pack8 6 (fs ! i) (cs ! i AND 0x3f)]"
    by simp
  have "format_write (Suc n) fs cs i m = format_write n fs cs (i + 1) (m\<lparr>m_msg := b\<rparr>)"
    using Suc.prems by (simp add: b cec_access)
  moreover have "length b = 16" "b ! 0 = m_msg m ! 0" "b ! 1 = m_msg m ! 1"
    using Suc.prems by (simp_all add: b)
  ultimately show ?case
    using Suc.IH [of "m\<lparr>m_msg := b\<rparr>" "i + 1"] Suc.prems by auto
qed

lemma unat_sad_len: "unat k \<le> 4 \<Longrightarrow> unat (2 + ucast (k :: u8) * 3 :: u32) = 2 + unat k * 3"
  by (simp add: unat_word_ariths)

lemma sad_spec:
  assumes "m_msg m = [b0, b1, b2, b3, b4, b5, b6, b7, b8, b9, b10, b11, b12, b13, b14, b15]"
  shows "\<exists>m'. cec_msg_report_short_audio_descriptor m (word_of_nat (length ds)) ds = Some m' \<and>
      cec_encoded CEC_MSG_REPORT_SHORT_AUDIO_DESCRIPTOR False Keep r m m'"
proof -
  obtain k :: u8 where k: "k = (if word_of_nat (length ds) > (4 :: u8) then 4
    else word_of_nat (length ds))" "unat k \<le> 4" "unat k \<le> length ds"
    using clamp_u8 [of 4 "length ds"] by auto
  let ?m = "m\<lparr>m_len := 2 + ucast k * 3, m_msg := (m_msg m)[1 := 0xa3]\<rparr>"
  obtain b where "sad_write (unat k) ds 0 ?m = Some (?m\<lparr>m_msg := b\<rparr>)" "length b = 16"
    "b ! 0 = b0" "b ! 1 = 0xa3"
    using sad_write_ok [of ?m 0 "unat k" ds] assms k by auto
  then show ?thesis
    using assms k(2) unat_sad_len [OF k(2)] by (auto simp: sad_defs cec_access cec_encoded_def
        cec_wf_def reply_after_def k(1) [symmetric])
qed

lemma format_spec:
  assumes "m_msg m = [b0, b1, b2, b3, b4, b5, b6, b7, b8, b9, b10, b11, b12, b13, b14, b15]"
  shows "\<exists>m'. cec_msg_request_short_audio_descriptor m r (word_of_nat (length fs)) (map fst fs)
      (map snd fs) = Some m' \<and>
    cec_encoded CEC_MSG_REQUEST_SHORT_AUDIO_DESCRIPTOR False
      (Expect CEC_MSG_REPORT_SHORT_AUDIO_DESCRIPTOR) r m m'"
proof -
  obtain k :: u8 where k: "k = (if word_of_nat (length fs) > (4 :: u8) then 4
    else word_of_nat (length fs))" "unat k \<le> 4" "unat k \<le> length fs"
    using clamp_u8 [of 4 "length fs"] by auto
  let ?m = "m\<lparr>m_len := 2 + ucast k, m_msg := (m_msg m)[1 := 0xa4],
    m_reply := if r \<noteq> 0 then 0xa3 else 0\<rparr>"
  obtain b where "format_write (unat k) (map fst fs) (map snd fs) 0 ?m = Some (?m\<lparr>m_msg := b\<rparr>)"
    "length b = 16" "b ! 0 = b0" "b ! 1 = 0xa4"
    using format_write_ok [of ?m 0 "unat k" "map fst fs" "map snd fs"] assms k by auto
  then show ?thesis
    using assms k(2) by (auto simp: sad_defs cec_access cec_encoded_def unat_len_add
        cec_wf_def reply_after_def k(1) [symmetric])
qed

lemma audio_spec:
  assumes "m_msg m = [b0, b1, b2, b3, b4, b5, b6, b7, b8, b9, b10, b11, b12, b13, b14, b15]"
  shows "\<exists>m'. audio_enc c r m = Some m' \<and>
    cec_encoded (audio_opc c) (audio_bc c) (audio_rule c) r m m'"
proof (cases c)
  case (Report_Short_Audio_Descriptor ds)
  with sad_spec [OF assms] show ?thesis by simp
next
  case (Request_Short_Audio_Descriptor fs)
  with format_spec [OF assms] show ?thesis by simp
qed (use assms in \<open>auto simp: audio_defs cec_access cec_encoded_def cec_wf_def reply_after_def\<close>)

lemma be24_masked:
  "v < 0x1000000 \<Longrightarrow>
   be24 (ucast (drop_bit 16 v AND 0xff)) (ucast (drop_bit 8 v AND 0xff)) (ucast (v AND 0xff)) = v"
proof -
  assume "v < 0x1000000"
  moreover have "ucast (drop_bit 16 v AND 0xff) = byte2 v"
    by (rule bit_word_eqI) (auto simp: c_expr word_AND_mask_literals bit_simps)
  ultimately show ?thesis
    using be24_bytes_id [of v] by (simp add: byte1_def byte0_def)
qed

lemma format_pack:
  "f < 4 \<Longrightarrow> c < 64 \<Longrightarrow> drop_bit 6 (pack8 6 f (c AND 0x3f)) = f"
  "c < 64 \<Longrightarrow> pack8 6 f (c AND 0x3f) AND 0x3f = c"
proof -
  show "drop_bit 6 (pack8 6 f (c AND 0x3f)) = f" if "f < 4" "c < 64"
    using that by (intro bit_word_eqI)
      (auto simp: bit_pack8 word_AND_mask_literals bit_simps dest: bit_below_literals)
  show "pack8 6 f (c AND 0x3f) AND 0x3f = c" if "c < 64"
    using that by (intro bit_word_eqI)
      (auto simp: bit_pack8 word_AND_mask_literals bit_simps dest: bit_below_literals)
qed

lemma status_pack:
  "f < 2 \<Longrightarrow> c < 128 \<Longrightarrow> drop_bit 7 (pack8 7 f (c AND 0x7f)) = f"
  "c < 128 \<Longrightarrow> pack8 7 f (c AND 0x7f) AND 0x7f = c"
proof -
  show "drop_bit 7 (pack8 7 f (c AND 0x7f)) = f" if "f < 2" "c < 128"
    using that by (intro bit_word_eqI)
      (auto simp: bit_pack8 word_AND_mask_literals bit_simps dest: bit_below_literals)
  show "pack8 7 f (c AND 0x7f) AND 0x7f = c" if "c < 128"
    using that by (intro bit_word_eqI)
      (auto simp: bit_pack8 word_AND_mask_literals bit_simps dest: bit_below_literals)
qed

lemma latency_pack:
  "l < 2 \<Longrightarrow> c < 4 \<Longrightarrow> drop_bit 2 (pack8 2 l c) AND 1 = l"
  "c < 4 \<Longrightarrow> pack8 2 l c AND 3 = c"
proof -
  show "drop_bit 2 (pack8 2 l c) AND 1 = l" if "l < 2" "c < 4"
    using that by (intro bit_word_eqI) (auto simp del: and_one_eq simp add: bit_pack8 bit_and_iff
        bit_1_iff bit_drop_bit_eq dest: bit_below_literals)
  show "pack8 2 l c AND 3 = c" if "c < 4"
    using that by (simp add: take_bit_pack8 word_AND_mask_literals)
qed

lemma list_upto_4:
  assumes "length xs \<le> 4"
  obtains "xs = []" | a where "xs = [a]" | a b where "xs = [a, b]" | a b c where "xs = [a, b, c]"
    | a b c d where "xs = [a, b, c, d]"
  using assms by (cases xs; cases "tl xs"; cases "tl (tl xs)"; cases "tl (tl (tl xs))") auto

text \<open>The loops at a literal number of iterations.\<close>

lemmas loop_numeral =
  sad_write.simps(2) [where n = "pred_numeral k" for k, folded numeral_eq_Suc]
  sad_read.simps(2) [where n = "pred_numeral k" for k, folded numeral_eq_Suc]
  format_write.simps(2) [where n = "pred_numeral k" for k, folded numeral_eq_Suc]
  format_read.simps(2) [where n = "pred_numeral k" for k, folded numeral_eq_Suc]

lemma sad_rt:
  assumes "length sads = 4" and "length ds \<le> 4" and "list_all (\<lambda>d. d < 0x1000000) ds"
    and "m_msg m = [b0, b1, b2, b3, b4, b5, b6, b7, b8, b9, b10, b11, b12, b13, b14, b15]"
    and "cec_msg_report_short_audio_descriptor m (word_of_nat (length ds)) ds = Some m'"
    and "m_msg w = cec_frame m' @ junk" and "m_len w = m_len m'"
  shows "audio_dec sads ids codes w = Some (Report_Short_Audio_Descriptor ds)"
proof -
  obtain s0 s1 s2 s3 where s: "sads = [s0, s1, s2, s3]"
    using assms(1) by (auto simp: numeral_eq_Suc length_Suc_conv)
  show ?thesis
    using assms(2) by (rule list_upto_4)
      (use assms(3-) s in \<open>auto simp: sad_defs audio_dec_def cec_access cec_frame_def
          be24_masked loop_numeral\<close>)
qed

lemma format_rt:
  assumes "length ids = 4" and "length codes = 4" and "length fs \<le> 4"
    and "list_all (\<lambda>(f, c). f < 4 \<and> c < 64) fs"
    and "m_msg m = [b0, b1, b2, b3, b4, b5, b6, b7, b8, b9, b10, b11, b12, b13, b14, b15]"
    and "cec_msg_request_short_audio_descriptor m r (word_of_nat (length fs)) (map fst fs)
      (map snd fs) = Some m'"
    and "m_msg w = cec_frame m' @ junk" and "m_len w = m_len m'"
  shows "audio_dec sads ids codes w = Some (Request_Short_Audio_Descriptor fs)"
proof -
  obtain s0 s1 s2 s3 where s: "ids = [s0, s1, s2, s3]"
    using assms(1) by (auto simp: numeral_eq_Suc length_Suc_conv)
  obtain t0 t1 t2 t3 where t: "codes = [t0, t1, t2, t3]"
    using assms(2) by (auto simp: numeral_eq_Suc length_Suc_conv)
  show ?thesis
    using assms(3) by (rule list_upto_4)
      (use assms(4-) s t in \<open>auto simp: sad_defs audio_dec_def cec_access cec_frame_def
          format_pack loop_numeral\<close>)
qed

lemma audio_rt:
  assumes "length sads = 4" and "length ids = 4" and "length codes = 4"
    and "m_msg m = [b0, b1, b2, b3, b4, b5, b6, b7, b8, b9, b10, b11, b12, b13, b14, b15]"
    and "audio_valid c" and "audio_enc c r m = Some m'"
    and "m_msg w = cec_frame m' @ junk" and "m_len w = m_len m'"
  shows "audio_dec sads ids codes w = Some c"
proof (cases c)
  case (Report_Short_Audio_Descriptor ds)
  with assms(1,4-) sad_rt show ?thesis by simp
next
  case (Request_Short_Audio_Descriptor fs)
  with assms(2-) format_rt show ?thesis by simp
qed (use assms(4-) be16_hi_lo [of "0xffff"] in \<open>auto simp: audio_defs audio_dec_def cec_access
    cec_frame_def status_pack latency_pack split: if_splits\<close>)

interpretation audio: cec_codec audio_enc
  "audio_dec (replicate 4 0) (replicate 4 0) (replicate 4 0)"
  audio_valid audio_opc audio_bc audio_rule
  by (rule cec_codecI) (blast intro: audio_spec, rule audio_rt, simp_all)

end
