(* ===== verification/CecCdc.thy ===== *)
theory CecCdc
  imports CecCodec
begin

text \<open>
  The Capability Discovery and Control feature of \<open>cec-funcs.h\<close>: HEC and HPD messages, all
  broadcast under one opcode with a second opcode in byte 4. Bytes 2 and 3, the sender's
  physical address, are filled in by the CEC framework and not by these functions, so they keep
  what the structure held.
\<close>

section \<open>HDMI Ethernet Channel\<close>

definition cec_msg_cdc_hec_inquire_state ::
    "cec_msg \<Rightarrow> u16 \<Rightarrow> u16 \<Rightarrow> cec_msg option" where
  "cec_msg_cdc_hec_inquire_state m phys_addr1 phys_addr2 = do {
     m \<leftarrow> set_len 9 m;
     m \<leftarrow> or_broadcast m;
     m \<leftarrow> put 1 CEC_MSG_CDC_MESSAGE m;
     m \<leftarrow> put 4 CEC_MSG_CDC_HEC_INQUIRE_STATE m;
     m \<leftarrow> put 5 (hi8 phys_addr1) m;
     m \<leftarrow> put 6 (lo8 phys_addr1) m;
     m \<leftarrow> put 7 (hi8 phys_addr2) m;
     put 8 (lo8 phys_addr2) m }"

definition cec_ops_cdc_hec_inquire_state ::
    "cec_msg \<Rightarrow> (u16 \<times> u16 \<times> u16) option" where
  "cec_ops_cdc_hec_inquire_state m = do {
     b2 \<leftarrow> get m 2; b3 \<leftarrow> get m 3; b5 \<leftarrow> get m 5; b6 \<leftarrow> get m 6; b7 \<leftarrow> get m 7;
     b8 \<leftarrow> get m 8;
     Some (be16 b2 b3, be16 b5 b6, be16 b7 b8) }"

text \<open>\<open>(hec << 6) | (host << 4) | (enc << 2) | err\<close> stored into a byte.\<close>

definition hec_state_byte :: "u8 \<Rightarrow> u8 \<Rightarrow> u8 \<Rightarrow> u8 \<Rightarrow> u8" where
  "hec_state_byte hec_func_state host_func_state enc_func_state cdc_errcode =
     ucast (push_bit 6 (ucast hec_func_state :: cint) OR push_bit 4 (ucast host_func_state) OR
       push_bit 2 (ucast enc_func_state) OR ucast cdc_errcode)"

definition cec_msg_cdc_hec_report_state ::
    "cec_msg \<Rightarrow> u16 \<Rightarrow> u8 \<Rightarrow> u8 \<Rightarrow> u8 \<Rightarrow> u8 \<Rightarrow> u8 \<Rightarrow> u16 \<Rightarrow> cec_msg option" where
  "cec_msg_cdc_hec_report_state m target_phys_addr hec_func_state host_func_state
     enc_func_state cdc_errcode has_field hec_field = do {
     m \<leftarrow> set_len (if has_field \<noteq> 0 then 10 else 8) m;
     m \<leftarrow> or_broadcast m;
     m \<leftarrow> put 1 CEC_MSG_CDC_MESSAGE m;
     m \<leftarrow> put 4 CEC_MSG_CDC_HEC_REPORT_STATE m;
     m \<leftarrow> put 5 (hi8 target_phys_addr) m;
     m \<leftarrow> put 6 (lo8 target_phys_addr) m;
     m \<leftarrow> put 7 (hec_state_byte hec_func_state host_func_state enc_func_state cdc_errcode) m;
     if has_field \<noteq> 0 then do {
       m \<leftarrow> put 8 (hi8 hec_field) m;
       put 9 (lo8 hec_field) m }
     else Some m }"

definition cec_ops_cdc_hec_report_state ::
    "cec_msg \<Rightarrow> (u16 \<times> u16 \<times> u8 \<times> u8 \<times> u8 \<times> u8 \<times> u8 \<times> u16) option" where
  "cec_ops_cdc_hec_report_state m = do {
     b2 \<leftarrow> get m 2; b3 \<leftarrow> get m 3; b5 \<leftarrow> get m 5; b6 \<leftarrow> get m 6; b7 \<leftarrow> get m 7;
     has_field \<leftarrow> Some (if m_len m \<ge> 10 then 1 else 0);
     hec_field \<leftarrow> (if has_field \<noteq> 0 then do { b8 \<leftarrow> get m 8; b9 \<leftarrow> get m 9; Some (be16 b8 b9) }
                  else Some 0);
     Some (be16 b2 b3, be16 b5 b6, drop_bit 6 b7, drop_bit 4 b7 AND 3, drop_bit 4 b7 AND 3,
       b7 AND 3, has_field, hec_field) }"

definition cec_msg_cdc_hec_set_state ::
    "cec_msg \<Rightarrow> u16 \<Rightarrow> u16 \<Rightarrow> u8 \<Rightarrow> u16 \<Rightarrow> u16 \<Rightarrow> u16 \<Rightarrow> cec_msg option" where
  "cec_msg_cdc_hec_set_state m phys_addr1 phys_addr2 hec_set_state phys_addr3 phys_addr4
     phys_addr5 = do {
     m \<leftarrow> set_len 10 m;
     m \<leftarrow> or_broadcast m;
     m \<leftarrow> put 1 CEC_MSG_CDC_MESSAGE m;
     m \<leftarrow> put 4 CEC_MSG_CDC_HEC_INQUIRE_STATE m;
     m \<leftarrow> put 5 (hi8 phys_addr1) m;
     m \<leftarrow> put 6 (lo8 phys_addr1) m;
     m \<leftarrow> put 7 (hi8 phys_addr2) m;
     m \<leftarrow> put 8 (lo8 phys_addr2) m;
     m \<leftarrow> put 9 hec_set_state m;
     if phys_addr3 \<noteq> CEC_PHYS_ADDR_INVALID then do {
       m \<leftarrow> append_byte (hi8 phys_addr3) m;
       m \<leftarrow> append_byte (lo8 phys_addr3) m;
       if phys_addr4 \<noteq> CEC_PHYS_ADDR_INVALID then do {
         m \<leftarrow> append_byte (hi8 phys_addr4) m;
         m \<leftarrow> append_byte (lo8 phys_addr4) m;
         if phys_addr5 \<noteq> CEC_PHYS_ADDR_INVALID then do {
           m \<leftarrow> append_byte (hi8 phys_addr5) m;
           append_byte (lo8 phys_addr5) m }
         else Some m }
       else Some m }
     else Some m }"

definition cec_ops_cdc_hec_set_state ::
    "cec_msg \<Rightarrow> (u16 \<times> u16 \<times> u16 \<times> u8 \<times> u16 \<times> u16 \<times> u16) option" where
  "cec_ops_cdc_hec_set_state m = do {
     b2 \<leftarrow> get m 2; b3 \<leftarrow> get m 3; b5 \<leftarrow> get m 5; b6 \<leftarrow> get m 6; b7 \<leftarrow> get m 7; b8 \<leftarrow> get m 8;
     b9 \<leftarrow> get m 9;
     phys_addr3 \<leftarrow> (if m_len m \<ge> 12 then do { a \<leftarrow> get m 10; b \<leftarrow> get m 11; Some (be16 a b) }
                   else Some CEC_PHYS_ADDR_INVALID);
     phys_addr4 \<leftarrow> (if m_len m \<ge> 14 then do { a \<leftarrow> get m 12; b \<leftarrow> get m 13; Some (be16 a b) }
                   else Some CEC_PHYS_ADDR_INVALID);
     phys_addr5 \<leftarrow> (if m_len m \<ge> 16 then do { a \<leftarrow> get m 14; b \<leftarrow> get m 15; Some (be16 a b) }
                   else Some CEC_PHYS_ADDR_INVALID);
     Some (be16 b2 b3, be16 b5 b6, be16 b7 b8, b9, phys_addr3, phys_addr4, phys_addr5) }"

definition cec_msg_cdc_hec_set_state_adjacent ::
    "cec_msg \<Rightarrow> u16 \<Rightarrow> u8 \<Rightarrow> cec_msg option" where
  "cec_msg_cdc_hec_set_state_adjacent m phys_addr1 hec_set_state = do {
     m \<leftarrow> set_len 8 m;
     m \<leftarrow> or_broadcast m;
     m \<leftarrow> put 1 CEC_MSG_CDC_MESSAGE m;
     m \<leftarrow> put 4 CEC_MSG_CDC_HEC_SET_STATE_ADJACENT m;
     m \<leftarrow> put 5 (hi8 phys_addr1) m;
     m \<leftarrow> put 6 (lo8 phys_addr1) m;
     put 7 hec_set_state m }"

definition cec_ops_cdc_hec_set_state_adjacent ::
    "cec_msg \<Rightarrow> (u16 \<times> u16 \<times> u8) option" where
  "cec_ops_cdc_hec_set_state_adjacent m = do {
     b2 \<leftarrow> get m 2; b3 \<leftarrow> get m 3; b5 \<leftarrow> get m 5; b6 \<leftarrow> get m 6; b7 \<leftarrow> get m 7;
     Some (be16 b2 b3, be16 b5 b6, b7) }"

definition cec_msg_cdc_hec_request_deactivation ::
    "cec_msg \<Rightarrow> u16 \<Rightarrow> u16 \<Rightarrow> u16 \<Rightarrow> cec_msg option" where
  "cec_msg_cdc_hec_request_deactivation m phys_addr1 phys_addr2 phys_addr3 = do {
     m \<leftarrow> set_len 11 m;
     m \<leftarrow> or_broadcast m;
     m \<leftarrow> put 1 CEC_MSG_CDC_MESSAGE m;
     m \<leftarrow> put 4 CEC_MSG_CDC_HEC_REQUEST_DEACTIVATION m;
     m \<leftarrow> put 5 (hi8 phys_addr1) m;
     m \<leftarrow> put 6 (lo8 phys_addr1) m;
     m \<leftarrow> put 7 (hi8 phys_addr2) m;
     m \<leftarrow> put 8 (lo8 phys_addr2) m;
     m \<leftarrow> put 9 (hi8 phys_addr3) m;
     put 10 (lo8 phys_addr3) m }"

definition cec_ops_cdc_hec_request_deactivation ::
    "cec_msg \<Rightarrow> (u16 \<times> u16 \<times> u16 \<times> u16) option" where
  "cec_ops_cdc_hec_request_deactivation m = do {
     b2 \<leftarrow> get m 2; b3 \<leftarrow> get m 3; b5 \<leftarrow> get m 5; b6 \<leftarrow> get m 6; b7 \<leftarrow> get m 7;
     b8 \<leftarrow> get m 8; b9 \<leftarrow> get m 9; b10 \<leftarrow> get m 10;
     Some (be16 b2 b3, be16 b5 b6, be16 b7 b8, be16 b9 b10) }"

definition cec_msg_cdc_hec_notify_alive :: "cec_msg \<Rightarrow> cec_msg option" where
  "cec_msg_cdc_hec_notify_alive m = do {
     m \<leftarrow> set_len 5 m;
     m \<leftarrow> or_broadcast m;
     m \<leftarrow> put 1 CEC_MSG_CDC_MESSAGE m;
     put 4 CEC_MSG_CDC_HEC_NOTIFY_ALIVE m }"

definition cec_ops_cdc_hec_notify_alive :: "cec_msg \<Rightarrow> u16 option" where
  "cec_ops_cdc_hec_notify_alive m = do {
     b2 \<leftarrow> get m 2; b3 \<leftarrow> get m 3;
     Some (be16 b2 b3) }"

definition cec_msg_cdc_hec_discover :: "cec_msg \<Rightarrow> cec_msg option" where
  "cec_msg_cdc_hec_discover m = do {
     m \<leftarrow> set_len 5 m;
     m \<leftarrow> or_broadcast m;
     m \<leftarrow> put 1 CEC_MSG_CDC_MESSAGE m;
     put 4 CEC_MSG_CDC_HEC_DISCOVER m }"

definition cec_ops_cdc_hec_discover :: "cec_msg \<Rightarrow> u16 option" where
  "cec_ops_cdc_hec_discover m = do {
     b2 \<leftarrow> get m 2; b3 \<leftarrow> get m 3;
     Some (be16 b2 b3) }"

section \<open>Hot plug detection\<close>

definition cec_msg_cdc_hpd_set_state ::
    "cec_msg \<Rightarrow> u8 \<Rightarrow> u8 \<Rightarrow> cec_msg option" where
  "cec_msg_cdc_hpd_set_state m input_port hpd_state = do {
     m \<leftarrow> set_len 6 m;
     m \<leftarrow> or_broadcast m;
     m \<leftarrow> put 1 CEC_MSG_CDC_MESSAGE m;
     m \<leftarrow> put 4 CEC_MSG_CDC_HPD_SET_STATE m;
     put 5 (pack8 4 input_port hpd_state) m }"

definition cec_ops_cdc_hpd_set_state ::
    "cec_msg \<Rightarrow> (u16 \<times> u8 \<times> u8) option" where
  "cec_ops_cdc_hpd_set_state m = do {
     b2 \<leftarrow> get m 2; b3 \<leftarrow> get m 3; b5 \<leftarrow> get m 5;
     Some (be16 b2 b3, drop_bit 4 b5, b5 AND 0xf) }"

definition cec_msg_cdc_hpd_report_state ::
    "cec_msg \<Rightarrow> u8 \<Rightarrow> u8 \<Rightarrow> cec_msg option" where
  "cec_msg_cdc_hpd_report_state m hpd_state hpd_error = do {
     m \<leftarrow> set_len 6 m;
     m \<leftarrow> or_broadcast m;
     m \<leftarrow> put 1 CEC_MSG_CDC_MESSAGE m;
     m \<leftarrow> put 4 CEC_MSG_CDC_HPD_REPORT_STATE m;
     put 5 (pack8 4 hpd_state hpd_error) m }"

definition cec_ops_cdc_hpd_report_state ::
    "cec_msg \<Rightarrow> (u16 \<times> u8 \<times> u8) option" where
  "cec_ops_cdc_hpd_report_state m = do {
     b2 \<leftarrow> get m 2; b3 \<leftarrow> get m 3; b5 \<leftarrow> get m 5;
     Some (be16 b2 b3, drop_bit 4 b5, b5 AND 0xf) }"

lemmas cdc_defs =
  cec_msg_cdc_hec_inquire_state_def cec_ops_cdc_hec_inquire_state_def
  cec_msg_cdc_hec_report_state_def cec_ops_cdc_hec_report_state_def
  cec_msg_cdc_hec_set_state_def cec_ops_cdc_hec_set_state_def
  cec_msg_cdc_hec_set_state_adjacent_def cec_ops_cdc_hec_set_state_adjacent_def
  cec_msg_cdc_hec_request_deactivation_def cec_ops_cdc_hec_request_deactivation_def
  cec_msg_cdc_hec_notify_alive_def cec_ops_cdc_hec_notify_alive_def
  cec_msg_cdc_hec_discover_def cec_ops_cdc_hec_discover_def
  cec_msg_cdc_hpd_set_state_def cec_ops_cdc_hpd_set_state_def
  cec_msg_cdc_hpd_report_state_def cec_ops_cdc_hpd_report_state_def

section \<open>The commands as a codec\<close>

datatype cdc_cmd =
    Hec_Inquire_State u16 u16
  | Hec_Report_State u16 u8 u8 u8 u8 "u16 option"
  | Hec_Set_State u16 u16 u8 u16 u16 u16
  | Hec_Set_State_Adjacent u16 u8
  | Hec_Request_Deactivation u16 u16 u16
  | Hec_Notify_Alive
  | Hec_Discover
  | Hpd_Set_State u8 u8
  | Hpd_Report_State u8 u8

fun cdc_enc :: "cdc_cmd \<Rightarrow> cint \<Rightarrow> cec_msg \<Rightarrow> cec_msg option" where
  "cdc_enc (Hec_Inquire_State a b) r m = cec_msg_cdc_hec_inquire_state m a b"
| "cdc_enc (Hec_Report_State t c h e x None) r m = cec_msg_cdc_hec_report_state m t c h e x 0 0"
| "cdc_enc (Hec_Report_State t c h e x (Some f)) r m =
     cec_msg_cdc_hec_report_state m t c h e x 1 f"
| "cdc_enc (Hec_Set_State a b s c d e) r m = cec_msg_cdc_hec_set_state m a b s c d e"
| "cdc_enc (Hec_Set_State_Adjacent a s) r m = cec_msg_cdc_hec_set_state_adjacent m a s"
| "cdc_enc (Hec_Request_Deactivation a b c) r m = cec_msg_cdc_hec_request_deactivation m a b c"
| "cdc_enc Hec_Notify_Alive r m = cec_msg_cdc_hec_notify_alive m"
| "cdc_enc Hec_Discover r m = cec_msg_cdc_hec_discover m"
| "cdc_enc (Hpd_Set_State p s) r m = cec_msg_cdc_hpd_set_state m p s"
| "cdc_enc (Hpd_Report_State s e) r m = cec_msg_cdc_hpd_report_state m s e"

text \<open>The receiver's dispatch, and the sender's address the decoders return beside the command.\<close>

definition cdc_dec_from :: "cec_msg \<Rightarrow> (u16 \<times> cdc_cmd) option" where
  "cdc_dec_from m = do { opcode \<leftarrow> get m 1; cdc_opcode \<leftarrow> get m 4;
     if opcode \<noteq> CEC_MSG_CDC_MESSAGE then None
     else if cdc_opcode = CEC_MSG_CDC_HEC_INQUIRE_STATE then
       map_option (\<lambda>(p, a, b). (p, Hec_Inquire_State a b)) (cec_ops_cdc_hec_inquire_state m)
     else if cdc_opcode = CEC_MSG_CDC_HEC_REPORT_STATE then
       map_option (\<lambda>(p, t, c, h, e, x, y, f).
           (p, Hec_Report_State t c h e x (if y \<noteq> 0 then Some f else None)))
         (cec_ops_cdc_hec_report_state m)
     else if cdc_opcode = CEC_MSG_CDC_HEC_SET_STATE then
       map_option (\<lambda>(p, a, b, s, c, d, e). (p, Hec_Set_State a b s c d e))
         (cec_ops_cdc_hec_set_state m)
     else if cdc_opcode = CEC_MSG_CDC_HEC_SET_STATE_ADJACENT then
       map_option (\<lambda>(p, a, s). (p, Hec_Set_State_Adjacent a s))
         (cec_ops_cdc_hec_set_state_adjacent m)
     else if cdc_opcode = CEC_MSG_CDC_HEC_REQUEST_DEACTIVATION then
       map_option (\<lambda>(p, a, b, c). (p, Hec_Request_Deactivation a b c))
         (cec_ops_cdc_hec_request_deactivation m)
     else if cdc_opcode = CEC_MSG_CDC_HEC_NOTIFY_ALIVE then
       map_option (\<lambda>p. (p, Hec_Notify_Alive)) (cec_ops_cdc_hec_notify_alive m)
     else if cdc_opcode = CEC_MSG_CDC_HEC_DISCOVER then
       map_option (\<lambda>p. (p, Hec_Discover)) (cec_ops_cdc_hec_discover m)
     else if cdc_opcode = CEC_MSG_CDC_HPD_SET_STATE then
       map_option (\<lambda>(p, i, s). (p, Hpd_Set_State i s)) (cec_ops_cdc_hpd_set_state m)
     else if cdc_opcode = CEC_MSG_CDC_HPD_REPORT_STATE then
       map_option (\<lambda>(p, s, e). (p, Hpd_Report_State s e)) (cec_ops_cdc_hpd_report_state m)
     else None }"

definition cdc_dec :: "cec_msg \<Rightarrow> cdc_cmd option" where
  "cdc_dec m = map_option snd (cdc_dec_from m)"

text \<open>
  \<open>Hec_Set_State\<close> is sent under the opcode of \<open>Hec_Inquire_State\<close>, and the encoder state of
  \<open>Hec_Report_State\<close> is read from the bits of the host state.
\<close>

fun cdc_valid :: "cdc_cmd \<Rightarrow> bool" where
  "cdc_valid (Hec_Report_State t c h e x f) \<longleftrightarrow> c < 4 \<and> h < 4 \<and> x < 4 \<and> e = h"
| "cdc_valid (Hec_Set_State a b s c d e) \<longleftrightarrow> False"
| "cdc_valid (Hpd_Set_State p s) \<longleftrightarrow> p < 16 \<and> s < 16"
| "cdc_valid (Hpd_Report_State s e) \<longleftrightarrow> s < 16 \<and> e < 16"
| "cdc_valid _ \<longleftrightarrow> True"

lemma hec_state_byte_fields:
  assumes "c < 4" and "h < 4" and "e < 4" and "x < 4"
  shows "drop_bit 6 (hec_state_byte c h e x) = c"
    and "drop_bit 4 (hec_state_byte c h e x) AND 3 = h"
    and "drop_bit 2 (hec_state_byte c h e x) AND 3 = e"
    and "hec_state_byte c h e x AND 3 = x"
proof -
  have n: "bit c n \<Longrightarrow> n < 2" "bit h n \<Longrightarrow> n < 2" "bit e n \<Longrightarrow> n < 2" "bit x n \<Longrightarrow> n < 2" for n
    using assms bit_below_literals by blast+
  have bit: "bit (hec_state_byte c h e x) n \<longleftrightarrow> n < 8 \<and> (6 \<le> n \<and> bit c (n - 6) \<or>
      4 \<le> n \<and> bit h (n - 4) \<or> 2 \<le> n \<and> bit e (n - 2) \<or> bit x n)" for n
    by (auto simp: hec_state_byte_def bit_simps dest: bit_imp_le_length)
  show "drop_bit 6 (hec_state_byte c h e x) = c"
    by (rule bit_word_eqI) (auto simp: bit bit_drop_bit_eq dest: n)
  show "drop_bit 4 (hec_state_byte c h e x) AND 3 = h"
    by (rule bit_word_eqI) (auto simp: bit word_AND_mask_literals bit_simps dest: n)
  show "drop_bit 2 (hec_state_byte c h e x) AND 3 = e"
    by (rule bit_word_eqI) (auto simp: bit word_AND_mask_literals bit_simps dest: n)
  show "hec_state_byte c h e x AND 3 = x"
    by (rule bit_word_eqI) (auto simp: bit word_AND_mask_literals bit_simps dest: n)
qed

lemma nibble_pack:
  "a < 16 \<Longrightarrow> b < 16 \<Longrightarrow> drop_bit 4 (pack8 4 a b) = a" "b < 16 \<Longrightarrow> pack8 4 a b AND 0xf = b"
proof -
  show "drop_bit 4 (pack8 4 a b) = a" if "a < 16" "b < 16"
    using that by (intro bit_word_eqI)
      (auto simp: bit_pack8 bit_simps dest: bit_below_literals)
  show "pack8 4 a b AND 0xf = b" if "b < 16"
    using that by (simp add: take_bit_pack8 word_AND_mask_literals)
qed

lemma cdc_spec:
  assumes "m_msg m = [b0, b1, b2, b3, b4, b5, b6, b7, b8, b9, b10, b11, b12, b13, b14, b15]"
  shows "\<exists>m'. cdc_enc c r m = Some m' \<and> cec_encoded CEC_MSG_CDC_MESSAGE True Keep r m m'"
proof (cases c)
  case (Hec_Report_State t c h e x f)
  with assms show ?thesis
    by (cases f) (auto simp: cdc_defs cec_access cec_encoded_def cec_wf_def reply_after_def)
qed (use assms in \<open>auto simp: cdc_defs cec_access cec_encoded_def cec_wf_def reply_after_def\<close>)

text \<open>The command comes back, with the address the framework left in bytes 2 and 3.\<close>

lemma cdc_rt:
  assumes "m_msg m = [b0, b1, b2, b3, b4, b5, b6, b7, b8, b9, b10, b11, b12, b13, b14, b15]"
    and "cdc_valid c" and "cdc_enc c r m = Some m'"
    and "m_msg w = cec_frame m' @ junk" and "m_len w = m_len m'"
  shows "cdc_dec_from w = Some (be16 b2 b3, c)"
proof (cases c)
  case (Hec_Report_State t c h e x f)
  with assms show ?thesis
    by (cases f) (auto simp: cdc_defs cdc_dec_from_def cec_access cec_frame_def
        hec_state_byte_fields)
qed (use assms in \<open>auto simp: cdc_defs cdc_dec_from_def cec_access cec_frame_def nibble_pack\<close>)

interpretation cdc: cec_codec cdc_enc cdc_dec cdc_valid "\<lambda>_. CEC_MSG_CDC_MESSAGE" "\<lambda>_. True"
  "\<lambda>_. Keep"
proof (rule cec_codecI)
  show "cdc_dec w = Some c"
    if "m_msg m = [b0, b1, b2, b3, b4, b5, b6, b7, b8, b9, b10, b11, b12, b13, b14, b15]"
      and "cdc_valid c" and "cdc_enc c r m = Some m'" and "m_msg w = cec_frame m' @ junk"
      and "m_len w = m_len m'"
    for c r m w junk b0 b1 b2 b3 b4 b5 b6 b7 b8 b9 b10 b11 b12 b13 b14 b15 m'
    using cdc_rt [OF that] by (simp add: cdc_dec_def)
qed (rule cdc_spec)

end
