(* ===== verification/CecProtocol.thy ===== *)
theory CecProtocol
  imports CecRouting CecRecord CecTimer CecSystem CecVendor CecAudio CecCdc
begin

text \<open>
  All features of \<open>cec-funcs.h\<close> as one protocol: a command of any feature, the function that
  encodes it, the dispatch on the opcode a receiver does, and the interpretation of the codec
  contract for the whole message set. The contract needs the opcodes of the features to be
  disjoint, which the opcode tables show by evaluation.
\<close>

section \<open>The message set\<close>

datatype cec_cmd =
    Routing routing_cmd
  | Recording record_cmd
  | Timer timer_cmd
  | System system_cmd
  | Vendor vendor_cmd
  | Audio audio_cmd
  | Cdc cdc_cmd

fun cec_enc :: "cec_cmd \<Rightarrow> cint \<Rightarrow> cec_msg \<Rightarrow> cec_msg option" where
  "cec_enc (Routing c) = routing_enc c"
| "cec_enc (Recording c) = record_enc c"
| "cec_enc (Timer c) = timer_enc c"
| "cec_enc (System c) = system_enc c"
| "cec_enc (Vendor c) = vendor_enc c"
| "cec_enc (Audio c) = audio_enc c"
| "cec_enc (Cdc c) = cdc_enc c"

fun cec_opc :: "cec_cmd \<Rightarrow> u8" where
  "cec_opc (Routing c) = routing_opc c"
| "cec_opc (Recording c) = record_opc c"
| "cec_opc (Timer c) = timer_opc c"
| "cec_opc (System c) = system_opc c"
| "cec_opc (Vendor c) = vendor_opc c"
| "cec_opc (Audio c) = audio_opc c"
| "cec_opc (Cdc c) = CEC_MSG_CDC_MESSAGE"

fun cec_bc :: "cec_cmd \<Rightarrow> bool" where
  "cec_bc (Routing c) = routing_bc c"
| "cec_bc (Recording c) = False"
| "cec_bc (Timer c) = False"
| "cec_bc (System c) = system_bc c"
| "cec_bc (Vendor c) = vendor_bc c"
| "cec_bc (Audio c) = audio_bc c"
| "cec_bc (Cdc c) = True"

fun cec_rule :: "cec_cmd \<Rightarrow> reply_rule" where
  "cec_rule (Routing c) = routing_rule c"
| "cec_rule (Recording c) = record_rule c"
| "cec_rule (Timer c) = timer_rule c"
| "cec_rule (System c) = system_rule c"
| "cec_rule (Vendor c) = vendor_rule c"
| "cec_rule (Audio c) = audio_rule c"
| "cec_rule (Cdc c) = Keep"

fun cec_valid :: "cec_cmd \<Rightarrow> bool" where
  "cec_valid (Routing c) = True"
| "cec_valid (Recording c) = record_valid c"
| "cec_valid (Timer c) = timer_valid c"
| "cec_valid (System c) = system_valid c"
| "cec_valid (Vendor c) = vendor_valid c"
| "cec_valid (Audio c) = audio_valid c"
| "cec_valid (Cdc c) = cdc_valid c"

section \<open>Dispatch\<close>

definition routing_opcodes :: "u8 list" where
  "routing_opcodes = [CEC_MSG_ACTIVE_SOURCE, CEC_MSG_IMAGE_VIEW_ON, CEC_MSG_TEXT_VIEW_ON,
     CEC_MSG_INACTIVE_SOURCE, CEC_MSG_REQUEST_ACTIVE_SOURCE, CEC_MSG_ROUTING_INFORMATION,
     CEC_MSG_ROUTING_CHANGE, CEC_MSG_SET_STREAM_PATH, CEC_MSG_STANDBY]"

definition record_opcodes :: "u8 list" where
  "record_opcodes = [CEC_MSG_RECORD_OFF, CEC_MSG_RECORD_ON, CEC_MSG_RECORD_STATUS,
     CEC_MSG_RECORD_TV_SCREEN]"

definition timer_opcodes :: "u8 list" where
  "timer_opcodes = [CEC_MSG_TIMER_STATUS, CEC_MSG_TIMER_CLEARED_STATUS,
     CEC_MSG_CLEAR_ANALOGUE_TIMER, CEC_MSG_CLEAR_DIGITAL_TIMER, CEC_MSG_CLEAR_EXT_TIMER,
     CEC_MSG_SET_ANALOGUE_TIMER, CEC_MSG_SET_DIGITAL_TIMER, CEC_MSG_SET_EXT_TIMER,
     CEC_MSG_SET_TIMER_PROGRAM_TITLE]"

definition system_opcodes :: "u8 list" where
  "system_opcodes = [CEC_MSG_CEC_VERSION, CEC_MSG_GET_CEC_VERSION, CEC_MSG_REPORT_PHYSICAL_ADDR,
     CEC_MSG_GIVE_PHYSICAL_ADDR, CEC_MSG_SET_MENU_LANGUAGE, CEC_MSG_GET_MENU_LANGUAGE,
     CEC_MSG_REPORT_FEATURES, CEC_MSG_GIVE_FEATURES, CEC_MSG_DECK_CONTROL, CEC_MSG_DECK_STATUS,
     CEC_MSG_GIVE_DECK_STATUS, CEC_MSG_PLAY, CEC_MSG_TUNER_DEVICE_STATUS,
     CEC_MSG_GIVE_TUNER_DEVICE_STATUS, CEC_MSG_SELECT_ANALOGUE_SERVICE,
     CEC_MSG_SELECT_DIGITAL_SERVICE, CEC_MSG_TUNER_STEP_DECREMENT, CEC_MSG_TUNER_STEP_INCREMENT]"

definition vendor_opcodes :: "u8 list" where
  "vendor_opcodes = [CEC_MSG_DEVICE_VENDOR_ID, CEC_MSG_GIVE_DEVICE_VENDOR_ID,
     CEC_MSG_VENDOR_COMMAND, CEC_MSG_VENDOR_COMMAND_WITH_ID, CEC_MSG_VENDOR_REMOTE_BUTTON_DOWN,
     CEC_MSG_VENDOR_REMOTE_BUTTON_UP, CEC_MSG_SET_OSD_STRING, CEC_MSG_SET_OSD_NAME,
     CEC_MSG_GIVE_OSD_NAME, CEC_MSG_MENU_STATUS, CEC_MSG_MENU_REQUEST,
     CEC_MSG_USER_CONTROL_PRESSED, CEC_MSG_USER_CONTROL_RELEASED, CEC_MSG_REPORT_POWER_STATUS,
     CEC_MSG_GIVE_DEVICE_POWER_STATUS, CEC_MSG_FEATURE_ABORT, CEC_MSG_ABORT]"

definition audio_opcodes :: "u8 list" where
  "audio_opcodes = [CEC_MSG_REPORT_AUDIO_STATUS, CEC_MSG_GIVE_AUDIO_STATUS,
     CEC_MSG_SET_SYSTEM_AUDIO_MODE, CEC_MSG_SYSTEM_AUDIO_MODE_REQUEST,
     CEC_MSG_SYSTEM_AUDIO_MODE_STATUS, CEC_MSG_GIVE_SYSTEM_AUDIO_MODE_STATUS,
     CEC_MSG_REPORT_SHORT_AUDIO_DESCRIPTOR, CEC_MSG_REQUEST_SHORT_AUDIO_DESCRIPTOR,
     CEC_MSG_SET_AUDIO_VOLUME_LEVEL, CEC_MSG_SET_AUDIO_RATE, CEC_MSG_REPORT_ARC_INITIATED,
     CEC_MSG_INITIATE_ARC, CEC_MSG_REQUEST_ARC_INITIATION, CEC_MSG_REPORT_ARC_TERMINATED,
     CEC_MSG_TERMINATE_ARC, CEC_MSG_REQUEST_ARC_TERMINATION, CEC_MSG_REPORT_CURRENT_LATENCY,
     CEC_MSG_REQUEST_CURRENT_LATENCY]"

lemmas opcode_tables = routing_opcodes_def record_opcodes_def timer_opcodes_def
  system_opcodes_def vendor_opcodes_def audio_opcodes_def

text \<open>The structures and buffers a receiver hands to the decoders, before they are filled.\<close>

definition cec_dec :: "cec_msg \<Rightarrow> cec_cmd option" where
  "cec_dec m = do { opcode \<leftarrow> get m 1;
     if opcode \<in> set routing_opcodes then map_option Routing (routing_dec m)
     else if opcode \<in> set record_opcodes then
       map_option Recording (record_dec \<lparr>rs_type = 0, rs_union = replicate 8 0\<rparr> m)
     else if opcode \<in> set timer_opcodes then
       map_option Timer (timer_dec (replicate 8 0) (replicate 15 0) m)
     else if opcode \<in> set system_opcodes then
       map_option System (system_dec (replicate 4 0) \<lparr>td_rec_flag = 0,
         td_tuner_display_info = 0, td_is_analog = 0, td_union = replicate 8 0\<rparr>
         (replicate 8 0) m)
     else if opcode \<in> set vendor_opcodes then
       map_option Vendor (vendor_dec (replicate 14 0) (replicate 15 0)
         \<lparr>ui_cmd = 0, has_opt_arg = 0, ui_union = replicate 6 0\<rparr> m)
     else if opcode \<in> set audio_opcodes then
       map_option Audio (audio_dec (replicate 4 0) (replicate 4 0) (replicate 4 0) m)
     else if opcode = CEC_MSG_CDC_MESSAGE then map_option Cdc (cdc_dec m)
     else None }"

lemma opcodes_distinct:
  "distinct (routing_opcodes @ record_opcodes @ timer_opcodes @ system_opcodes @ vendor_opcodes @
     audio_opcodes @ [CEC_MSG_CDC_MESSAGE])"
  unfolding opcode_tables by code_simp

lemma opc_in_table:
  "routing_opc a \<in> set routing_opcodes" "record_opc b \<in> set record_opcodes"
  "timer_opc c \<in> set timer_opcodes" "system_opc d \<in> set system_opcodes"
  "vendor_opc e \<in> set vendor_opcodes" "audio_opc f \<in> set audio_opcodes"
  subgoal by (cases a) (simp_all add: routing_opcodes_def)
  subgoal by (cases b) (simp_all add: record_opcodes_def)
  subgoal by (cases c) (simp_all add: timer_opcodes_def)
  subgoal by (cases d) (simp_all add: system_opcodes_def)
  subgoal by (cases e) (simp_all add: vendor_opcodes_def)
  subgoal by (cases f) (simp_all add: audio_opcodes_def)
  done

text \<open>The encoded opcode is where the receiver looks for it.\<close>

lemma encoded_opcode:
  assumes "cec_encoded opc bc rule r m m'" and "cec_received m' w"
  shows "get w 1 = Some opc"
proof -
  have "length (m_msg m') = 16" "2 \<le> unat (m_len m')" "m_msg m' ! 1 = opc"
    using assms(1) by (auto simp: cec_encoded_def cec_wf_def)
  moreover have "length (m_msg w) = 16" "m_len w = m_len m'"
    "take (unat (m_len m')) (m_msg w) = take (unat (m_len m')) (m_msg m')"
    using assms(2) by (auto simp: cec_received_def cec_frame_def cec_wf_def)
  ultimately have "m_msg w ! 1 = opc"
    by (metis Suc_1 Suc_le_lessD nth_take)
  with \<open>length (m_msg w) = 16\<close> show ?thesis
    by (simp add: get_def)
qed

lemma cec_enc_spec:
  "cec_wf m \<Longrightarrow> \<exists>m'. cec_enc c r m = Some m' \<and>
     cec_encoded (cec_opc c) (cec_bc c) (cec_rule c) r m m'"
  by (cases c) (auto dest: routing.enc_spec recording.enc_spec timer.enc_spec system.enc_spec
      vendor.enc_spec audio.enc_spec cdc.enc_spec)

lemma cec_dec_enc:
  assumes "cec_wf m" and "cec_valid c" and "cec_enc c r m = Some m'" and "cec_received m' w"
  shows "cec_dec w = Some c"
proof -
  have opc: "get w 1 = Some (cec_opc c)"
    using cec_enc_spec [OF assms(1), of c r] assms(3,4) encoded_opcode by auto
  have disj: "x \<in> set record_opcodes \<Longrightarrow> x \<notin> set routing_opcodes"
    "x \<in> set timer_opcodes \<Longrightarrow> x \<notin> set routing_opcodes \<union> set record_opcodes"
    "x \<in> set system_opcodes \<Longrightarrow> x \<notin> set routing_opcodes \<union> set record_opcodes \<union> set timer_opcodes"
    "x \<in> set vendor_opcodes \<Longrightarrow> x \<notin> set routing_opcodes \<union> set record_opcodes \<union> set timer_opcodes \<union>
       set system_opcodes"
    "x \<in> set audio_opcodes \<Longrightarrow> x \<notin> set routing_opcodes \<union> set record_opcodes \<union> set timer_opcodes \<union>
       set system_opcodes \<union> set vendor_opcodes" for x
    using opcodes_distinct by auto
  have cdc: "CEC_MSG_CDC_MESSAGE \<notin> set routing_opcodes \<union> set record_opcodes \<union> set timer_opcodes \<union>
      set system_opcodes \<union> set vendor_opcodes \<union> set audio_opcodes"
    using opcodes_distinct by auto
  show ?thesis
  proof (cases c)
    case (Routing c)
    with assms opc routing.dec_enc show ?thesis
      by (simp add: cec_dec_def opc_in_table)
  next
    case (Recording c)
    with assms opc recording.dec_enc disj(1) [OF opc_in_table(2)] show ?thesis
      by (simp add: cec_dec_def opc_in_table)
  next
    case (Timer c)
    with assms opc timer.dec_enc disj(2) [OF opc_in_table(3)] show ?thesis
      by (simp add: cec_dec_def opc_in_table)
  next
    case (System c)
    with assms opc system.dec_enc disj(3) [OF opc_in_table(4)] show ?thesis
      by (simp add: cec_dec_def opc_in_table)
  next
    case (Vendor c)
    with assms opc vendor.dec_enc disj(4) [OF opc_in_table(5)] show ?thesis
      by (simp add: cec_dec_def opc_in_table)
  next
    case (Audio c)
    with assms opc audio.dec_enc disj(5) [OF opc_in_table(6)] show ?thesis
      by (simp add: cec_dec_def opc_in_table)
  next
    case (Cdc c)
    with assms opc cdc.dec_enc cdc show ?thesis
      by (simp add: cec_dec_def)
  qed
qed

interpretation cec: cec_codec cec_enc cec_dec cec_valid cec_opc cec_bc cec_rule
  by unfold_locales (fact cec_enc_spec, fact cec_dec_enc)

end
