(* ===== verification/CecTheorems.thy ===== *)
theory CecTheorems
  imports CecProtocol
begin

text \<open>
  The properties of the CEC message library: the message set as a whole (round trip, frame
  conditions, memory safety of the decoders, addressing, replies), then the operands whose
  encoding is not the identity, and the places where the code does not do what its names say.
\<close>

section \<open>The whole message set\<close>

text \<open>
  C1: every valid command of the library, encoded into any message structure and transmitted,
  is decoded by the receiver as that command, whatever the rest of the receiver's buffer holds.
  The encoder always returns.
\<close>

theorem cec_roundtrip:
  assumes "cec_wf m" and "cec_valid c"
  shows "\<exists>m'. cec_enc c r m = Some m' \<and> (\<forall>w. cec_received m' w \<longrightarrow> cec_dec w = Some c)"
  using cec.enc_total [OF assms(1), of c r] cec.dec_enc [OF assms] by blast

theorem cec_roundtrip_witness:
  "\<exists>m'. cec_enc (Routing (Routing_Change 0x1000 0x2100)) 1 cec_msg_zero = Some m' \<and>
     (\<forall>w. cec_received m' w \<longrightarrow> cec_dec w = Some (Routing (Routing_Change 0x1000 0x2100)))"
  by (rule cec_roundtrip) (simp_all add: cec_wf_def cec_msg_zero_def)



text \<open>
  The frame determines the command. Two valid commands, encoded into any two structures
  with any reply request, that give the same length and the same bytes are the same command.
\<close>

theorem cec_frame_injective:
  assumes "cec_wf m" and "cec_wf n" and "cec_valid c" and "cec_valid d"
    and "cec_enc c r m = Some f" and "cec_enc d s n = Some g"
    and "m_len f = m_len g" and "cec_frame f = cec_frame g"
  shows "c = d"
  using cec.frame_inj [OF assms(1,3,5,2,4,6-8)] .

theorem cec_frame_injective_witness:
  "cec_frame (cec_msg_zero\<lparr>m_len := 2, m_msg := (replicate 16 0)[1 := 4]\<rparr>) \<noteq>
   cec_frame (cec_msg_zero\<lparr>m_len := 2, m_msg := (replicate 16 0)[1 := 0xd]\<rparr>)"
  using cec_frame_injective [of cec_msg_zero cec_msg_zero "Routing Image_View_On"
      "Routing Text_View_On" 0 "cec_msg_zero\<lparr>m_len := 2, m_msg := (replicate 16 0)[1 := 4]\<rparr>" 0
      "cec_msg_zero\<lparr>m_len := 2, m_msg := (replicate 16 0)[1 := 0xd]\<rparr>"]
  by (auto simp: cec_msg_image_view_on_def cec_msg_text_view_on_def cec_access cec_msg_zero_def
      cec_wf_def)



section \<open>Addressing, replies and status\<close>

lemma nibbles_of_pack:
  "i < 16 \<Longrightarrow> d < 16 \<Longrightarrow> drop_bit 4 (pack8 4 i d) = i"
  "i < 16 \<Longrightarrow> d < 16 \<Longrightarrow> drop_bit 4 (pack8 4 i d OR 0xf) = i"
  "(x OR 0xf) AND 0xf = (0xf :: u8)"
proof -
  show "drop_bit 4 (pack8 4 i d) = i" if "i < 16" "d < 16"
    by (rule nibble_pack(1) [OF that])
  show "drop_bit 4 (pack8 4 i d OR 0xf) = i" if "i < 16" "d < 16"
    using that by (intro bit_word_eqI)
      (auto simp: bit_pack8 mask_literals(3) bit_simps dest: bit_below_literals)
  show "(x OR 0xf) AND 0xf = (0xf :: u8)"
    by (rule bit_word_eqI) (auto simp: bit_simps)
qed

text \<open>
  C6: a message that is initialised with two logical addresses and then filled with a command
  carries the initiator, the destination (the broadcast address for a broadcast command) and
  the command's opcode.
\<close>

theorem cec_addressing:
  assumes "i < 16" and "d < 16" and "cec_msg_init old i d = Some m" and "cec_enc c r m = Some m'"
  shows "cec_msg_initiator m' = Some i \<and>
    cec_msg_destination m' = Some (if cec_bc c then 0xf else d) \<and>
    cec_msg_is_broadcast m' = Some (cec_bc c \<or> d = 0xf) \<and>
    cec_msg_opcode m' = Some (ucast (cec_opc c))"
proof -
  have m: "m = cec_msg_zero\<lparr>m_len := 1, m_msg := pack8 4 i d # replicate 15 0\<rparr>"
    using assms(3) by (auto simp: cec_msg_init_def cec_access cec_msg_zero_def numeral_eq_Suc)
  then have "cec_wf m"
    by (simp add: cec_wf_def)
  then have enc: "cec_encoded (cec_opc c) (cec_bc c) (cec_rule c) r m m'"
    using assms(4) by (rule cec.enc_encoded)
  then have "length (m_msg m') = 16" "m_msg m' ! 1 = cec_opc c" "1 < m_len m'"
    "m_msg m' ! 0 = (if cec_bc c then pack8 4 i d OR 0xf else pack8 4 i d)"
    by (auto simp: cec_encoded_def cec_wf_def m word_less_nat_alt)
  then show ?thesis
    using assms(1,2) by (simp add: cec_msg_initiator_def cec_msg_destination_def
        cec_msg_is_broadcast_def cec_msg_opcode_def get_def nibbles_of_pack nibble_pack(2))
qed

theorem cec_addressing_witness:
  "\<exists>m m'. cec_msg_init cec_msg_zero 4 0 = Some m \<and>
     cec_enc (Routing (Active_Source 0x1000)) 0 m = Some m' \<and> cec_msg_initiator m' = Some 4 \<and>
     cec_msg_destination m' = Some 0xf \<and> cec_msg_opcode m' = Some 0x82"
proof -
  obtain m where m: "cec_msg_init cec_msg_zero 4 0 = Some m" "cec_wf m"
    by (simp add: cec_msg_init_def cec_access cec_msg_zero_def cec_wf_def)
  obtain m' where "cec_enc (Routing (Active_Source 0x1000)) 0 m = Some m'"
    using cec.enc_total [OF m(2)] by blast
  then show ?thesis
    using cec_addressing [OF _ _ m(1), of "Routing (Active_Source 0x1000)" 0 m'] m(1) by auto
qed

lemma reply_to_swaps:
  assumes "cec_wf m" and "cec_wf orig"
  shows "\<exists>m'. cec_msg_set_reply_to m orig = Some m' \<and>
    cec_msg_initiator m' = cec_msg_destination orig \<and>
    cec_msg_destination m' = cec_msg_initiator orig \<and>
    m_reply m' = 0 \<and> m_timeout m' = 0 \<and> m_flags m' = 0 \<and>
    m' = m\<lparr>m_msg := (m_msg m)[0 := m_msg m' ! 0], m_reply := 0, m_timeout := 0, m_flags := 0\<rparr>"
proof -
  have len: "length (m_msg m) = 16" "length (m_msg orig) = 16"
    using assms by (simp_all add: cec_wf_def)
  let ?b = "m_msg orig ! 0"
  have "drop_bit 4 (pack8 4 (?b AND 0xf) (drop_bit 4 ?b)) = ?b AND 0xf"
    "pack8 4 (?b AND 0xf) (drop_bit 4 ?b) AND 0xf = drop_bit 4 ?b"
    by (rule bit_word_eqI; auto simp: bit_pack8 word_AND_mask_literals bit_simps
        dest: bit_imp_le_length)+
  then show ?thesis
    using len by (simp add: cec_msg_set_reply_to_def cec_msg_initiator_def
        cec_msg_destination_def get_def put_def)
qed

text \<open>
  A reply prepared with \<open>cec_msg_set_reply_to\<close> goes back to the initiator of the original
  message, comes from its destination, and expects no reply, no timeout and no flags; length,
  payload and the other members stay.
\<close>

theorem cec_set_reply_to_swaps:
  assumes "cec_wf m" and "cec_wf orig"
  shows "\<exists>m'. cec_msg_set_reply_to m orig = Some m' \<and>
    cec_msg_initiator m' = cec_msg_destination orig \<and>
    cec_msg_destination m' = cec_msg_initiator orig \<and>
    m_reply m' = 0 \<and> m_timeout m' = 0 \<and> m_flags m' = 0 \<and>
    m' = m\<lparr>m_msg := (m_msg m)[0 := m_msg m' ! 0], m_reply := 0, m_timeout := 0, m_flags := 0\<rparr>"
  by (rule reply_to_swaps [OF assms])

theorem cec_set_reply_to_swaps_witness:
  "\<exists>m'. cec_msg_set_reply_to cec_msg_zero (cec_msg_zero\<lparr>m_msg := (replicate 16 0)[0 := 0x40]\<rparr>) =
      Some m' \<and> cec_msg_initiator m' = Some 0 \<and> cec_msg_destination m' = Some 4"
  using cec_set_reply_to_swaps [of cec_msg_zero "cec_msg_zero\<lparr>m_msg := (replicate 16 0)[0 := 0x40]\<rparr>"]
  by (auto simp: cec_wf_def cec_msg_zero_def cec_msg_initiator_def cec_msg_destination_def get_def)

text \<open>
  C7: \<open>cec_msg_reply_feature_abort\<close> turns a message into the Feature Abort that answers it: the
  receiver reads the opcode of the aborted message and the reason, and the addresses are
  swapped.
\<close>

theorem cec_reply_feature_abort:
  assumes "cec_wf m"
  shows "\<exists>m'. cec_msg_reply_feature_abort m reason = Some m' \<and>
    cec_dec m' = Some (Vendor (Feature_Abort (m_msg m ! 1) reason)) \<and>
    cec_msg_initiator m' = cec_msg_destination m \<and> cec_msg_destination m' = cec_msg_initiator m \<and>
    m_len m' = 4 \<and> m_reply m' = 0 \<and> m_timeout m' = 0 \<and> m_flags m' = 0"
proof -
  obtain m1 where m1: "cec_msg_set_reply_to m m = Some m1"
    "cec_msg_initiator m1 = cec_msg_destination m" "cec_msg_destination m1 = cec_msg_initiator m"
    "m_reply m1 = 0" "m_timeout m1 = 0" "m_flags m1 = 0"
    "m1 = m\<lparr>m_msg := (m_msg m)[0 := m_msg m1 ! 0], m_reply := 0, m_timeout := 0, m_flags := 0\<rparr>"
    using reply_to_swaps [OF assms assms] by auto
  have "m_msg m1 = (m_msg m)[0 := m_msg m1 ! 0]"
    by (subst m1(7)) simp
  then have len: "length (m_msg m1) = 16" "m_msg m1 ! 1 = m_msg m ! 1"
    using assms by (metis cec_wf_def length_list_update, metis nth_list_update_neq zero_neq_one)
  let ?m = "m1\<lparr>m_len := 4, m_msg := (m_msg m1)[2 := m_msg m1 ! 1, 3 := reason, 1 := 0]\<rparr>"
  have abort: "cec_msg_reply_feature_abort m reason = Some ?m"
    using m1(1) len by (simp add: cec_msg_reply_feature_abort_def cec_access)
  have "cec_dec ?m = Some (Vendor (Feature_Abort (m_msg m ! 1) reason))"
    using len by (simp add: cec_dec_def opcode_tables vendor_dec_def cec_ops_feature_abort_def get_def)
  with abort m1 len show ?thesis
    by (auto simp: cec_msg_initiator_def cec_msg_destination_def get_def)
qed

theorem cec_reply_feature_abort_witness:
  "\<exists>m'. cec_msg_reply_feature_abort (cec_msg_zero\<lparr>m_msg := (replicate 16 0)[1 := 0x44]\<rparr>) 4 =
      Some m' \<and> cec_dec m' = Some (Vendor (Feature_Abort 0x44 4))"
  using cec_reply_feature_abort [of "cec_msg_zero\<lparr>m_msg := (replicate 16 0)[1 := 0x44]\<rparr>" 4]
  by (auto simp: cec_wf_def cec_msg_zero_def)

text \<open>
  The reply a request asks for exists. Whenever a command sets an expected reply opcode
  (and not zero), that opcode is the opcode of a message of the library.
\<close>

theorem cec_expected_reply_exists:
  assumes "cec_rule c = Expect opc" and "opc \<noteq> 0"
  shows "\<exists>d. cec_opc d = opc"
proof -
  have "opc \<in> cec_opc ` {Routing (Active_Source 0), Routing (Routing_Information 0),
      Recording (Record_Status 0), Recording (Record_On Own), Timer (Timer_Status 0 0 0 0 0 0),
      Timer (Timer_Cleared_Status 0), System (Cec_Version 0), System (Report_Physical_Addr 0 0),
      System (Set_Menu_Language 0 0 0), System (Report_Features 0 0 0 0), System (Deck_Status 0),
      System (Tuner_Device_Status 0 0 (Tuned_Analog 0 0 0)), Vendor (Device_Vendor_Id 0),
      Vendor (Set_Osd_Name []), Vendor (Menu_Status 0), Vendor (Report_Power_Status 0),
      Audio (Report_Audio_Status 0 0), Audio (Set_System_Audio_Mode 0),
      Audio (System_Audio_Mode_Status 0), Audio (Report_Short_Audio_Descriptor []),
      Audio Report_Arc_Initiated, Audio Initiate_Arc, Audio Report_Arc_Terminated,
      Audio Terminate_Arc, Audio (Report_Current_Latency 0 0 0 0 0)}"
    using assms
  proof (cases c)
    case (Routing x)
    with assms show ?thesis by (cases x) auto
  next
    case (Recording x)
    with assms show ?thesis by (cases x) auto
  next
    case (Timer x)
    with assms show ?thesis by (cases x) auto
  next
    case (System x)
    with assms show ?thesis by (cases x) (auto split: if_splits)
  next
    case (Vendor x)
    with assms show ?thesis by (cases x) auto
  next
    case (Audio x)
    with assms show ?thesis by (cases x) auto
  qed auto
  then show ?thesis by blast
qed

theorem cec_expected_reply_exists_witness: "\<exists>d. cec_opc d = 0x0a"
  using cec_expected_reply_exists [where c = "Recording Record_Off"] by simp

text \<open>
  The result of a transmit is classified correctly. \<open>cec_msg_status_is_ok\<close> holds exactly when
  there is a transmit or a receive status, each status present has its OK bit, and the reply is
  not a Feature Abort; a received result is never both a transmit and a receive result.
\<close>

theorem cec_status_classified:
  "cec_msg_status_is_ok m \<longleftrightarrow>
     \<not> (m_tx_status m = 0 \<and> m_rx_status m = 0) \<and>
     (m_tx_status m = 0 \<or> bit (m_tx_status m) 0) \<and>
     (m_rx_status m = 0 \<or> bit (m_rx_status m) 0 \<and> \<not> bit (m_rx_status m) 2)"
proof -
  have "(s AND 1 = 0) = (\<not> bit s 0)" "(s AND 4 = 0) = (\<not> bit s 2)" for s :: u8
    using and_exp_eq_0_iff_not_bit [of s 0] and_exp_eq_0_iff_not_bit [of s 2] by simp_all
  then show ?thesis
    by (auto simp: cec_msg_status_is_ok_def simp del: and_one_eq)
qed

text \<open>
  The eight classes of logical addresses partition the address space: each of the sixteen
  addresses is in exactly one of the masks the \<open>cec_has_*\<close> and \<open>cec_is_*\<close> functions test.
\<close>

theorem cec_address_classes:
  "list_all (\<lambda>a. length (filter (\<lambda>f. f (addr_bit a) \<noteq> 0) [cec_has_tv, cec_has_record,
     cec_has_tuner, cec_has_playback, cec_has_audiosystem, cec_has_backup, cec_has_specific,
     cec_is_unregistered]) = 1) [0..<16]"
  by code_simp

end
