(* ===== verification/CecOperands.thy ===== *)
theory CecOperands
  imports CecProtocol
begin

text \<open>
  The operands whose coding is more than a copy (digital service identifications, BCD times,
  strings, feature bytes, the HEC messages), the memory safety of all decoders on arbitrary
  input, and the exact behaviour where the library loses information.
\<close>

section \<open>Decoders on arbitrary input\<close>

lemma wf_get: "cec_wf m \<Longrightarrow> i < 16 \<Longrightarrow> get m i = Some (m_msg m ! i)"
  by (simp add: get_def cec_wf_def)

lemma wf_length: "cec_wf m \<Longrightarrow> length (m_msg m) = 16"
  by (simp add: cec_wf_def)

text \<open>
  C3: the decoders with fixed operands read only inside the payload: on a structure with any
  bytes and any length field, each of them returns.
\<close>

theorem cec_ops_safe:
  assumes "cec_wf m"
  shows "cec_ops_active_source m \<noteq> None \<and> cec_ops_inactive_source m \<noteq> None \<and>
    cec_ops_routing_information m \<noteq> None \<and> cec_ops_routing_change m \<noteq> None \<and>
    cec_ops_set_stream_path m \<noteq> None \<and> cec_ops_record_status m \<noteq> None \<and>
    cec_ops_timer_status m \<noteq> None \<and> cec_ops_timer_cleared_status m \<noteq> None \<and>
    cec_ops_clear_analogue_timer m \<noteq> None \<and> cec_ops_clear_ext_timer m \<noteq> None \<and>
    cec_ops_set_analogue_timer m \<noteq> None \<and> cec_ops_set_ext_timer m \<noteq> None \<and>
    cec_ops_cec_version m \<noteq> None \<and> cec_ops_report_physical_addr m \<noteq> None \<and>
    cec_ops_report_features m \<noteq> None \<and> cec_ops_deck_control m \<noteq> None \<and>
    cec_ops_deck_status m \<noteq> None \<and> cec_ops_give_deck_status m \<noteq> None \<and> cec_ops_play m \<noteq> None \<and>
    cec_ops_give_tuner_device_status m \<noteq> None \<and> cec_ops_select_analogue_service m \<noteq> None \<and>
    cec_ops_device_vendor_id m \<noteq> None \<and> cec_ops_menu_status m \<noteq> None \<and>
    cec_ops_menu_request m \<noteq> None \<and> cec_ops_report_power_status m \<noteq> None \<and>
    cec_ops_feature_abort m \<noteq> None \<and> cec_ops_report_audio_status m \<noteq> None \<and>
    cec_ops_set_system_audio_mode m \<noteq> None \<and> cec_ops_system_audio_mode_request m \<noteq> None \<and>
    cec_ops_system_audio_mode_status m \<noteq> None \<and> cec_ops_set_audio_volume_level m \<noteq> None \<and>
    cec_ops_set_audio_rate m \<noteq> None \<and> cec_ops_report_current_latency m \<noteq> None \<and>
    cec_ops_request_current_latency m \<noteq> None \<and> cec_ops_cdc_hec_inquire_state m \<noteq> None \<and>
    cec_ops_cdc_hec_report_state m \<noteq> None \<and> cec_ops_cdc_hec_set_state m \<noteq> None \<and>
    cec_ops_cdc_hec_set_state_adjacent m \<noteq> None \<and>
    cec_ops_cdc_hec_request_deactivation m \<noteq> None \<and> cec_ops_cdc_hec_notify_alive m \<noteq> None \<and>
    cec_ops_cdc_hec_discover m \<noteq> None \<and> cec_ops_cdc_hpd_set_state m \<noteq> None \<and>
    cec_ops_cdc_hpd_report_state m \<noteq> None"
proof -
  have "cec_ops_report_features m \<noteq> None"
    by (rule report_features_cases [OF assms]) simp_all
  then show ?thesis
    using wf_get [OF assms]
    by (simp add: routing_defs record_defs timer_defs system_defs vendor_defs audio_defs cdc_defs)
qed

theorem cec_ops_safe_witness: "cec_ops_routing_change cec_msg_zero \<noteq> None"
  using cec_ops_safe [of cec_msg_zero] by (simp add: cec_wf_def cec_msg_zero_def)

lemma digital_safe:
  assumes "cec_wf m" and "p \<le> 9" and "length d = 8"
  shows "\<exists>d'. cec_get_digital_service_id p m d = Some d' \<and> length d' = 8"
  using assms wf_get [OF assms(1)]
  by (simp add: cec_get_digital_service_id_def service_id_method_def put16_def)

lemma sad_read_safe:
  "cec_wf m \<Longrightarrow> i + n \<le> 4 \<Longrightarrow> length ds = 4 \<Longrightarrow> \<exists>ds'. sad_read n m i ds = Some ds' \<and> length ds' = 4"
  by (induction n arbitrary: i ds) (simp_all add: wf_get)

lemma format_read_safe:
  "cec_wf m \<Longrightarrow> i + n \<le> 4 \<Longrightarrow> length fs = 4 \<Longrightarrow> length cs = 4 \<Longrightarrow>
   \<exists>fs' cs'. format_read n m i fs cs = Some (fs', cs') \<and> length fs' = 4 \<and> length cs' = 4"
  by (induction n arbitrary: i fs cs) (simp_all add: wf_get)

lemma clamped: "unat (if x > (k :: 'a::len word) then k else x) \<le> unat k"
  by (simp add: word_less_nat_alt not_less)

text \<open>
  C4: the decoders that fill a buffer of the caller stay inside the payload and inside a buffer
  of the documented size, whatever the length field of the message says: a length of zero, or
  one that exceeds the payload, is clamped.
\<close>

theorem cec_ops_buffers_safe:
  assumes "cec_wf m" and "length title = 15" and "length osd = 14" and "length name = 15"
    and "length lang = 4" and "length dig = 8" and "length sads = 4" and "length ids = 4"
    and "length codes = 4"
  shows "cec_ops_set_timer_program_title m title \<noteq> None \<and> cec_ops_set_osd_string m osd \<noteq> None \<and>
    cec_ops_set_osd_name m name \<noteq> None \<and> cec_ops_set_menu_language m lang \<noteq> None \<and>
    cec_ops_select_digital_service m dig \<noteq> None \<and> cec_ops_clear_digital_timer m dig \<noteq> None \<and>
    cec_ops_set_digital_timer m dig \<noteq> None \<and>
    cec_ops_report_short_audio_descriptor m sads \<noteq> None \<and>
    cec_ops_request_short_audio_descriptor m ids codes \<noteq> None"
proof -
  have string: "\<not> x > 14 \<Longrightarrow> unat x \<le> 14" "\<not> x > 13 \<Longrightarrow> unat x \<le> 13" for x :: u32
    by (simp_all add: word_less_nat_alt not_less)
  obtain k :: u8 where k: "k = (if ucast ((m_len m - 2) div 3) > (4 :: u8) then 4
    else ucast ((m_len m - 2) div 3))" "0 + unat k \<le> 4"
    using clamped [of "4 :: u8"] by simp
  obtain j :: u8 where j: "j = (if ucast (m_len m - 2) > (4 :: u8) then 4 else ucast (m_len m - 2))"
    "0 + unat j \<le> 4"
    using clamped [of "4 :: u8"] by simp
  have "cec_ops_set_timer_program_title m title \<noteq> None" "cec_ops_set_osd_name m name \<noteq> None"
    "cec_ops_set_osd_string m osd \<noteq> None"
    using assms string [of "m_len m - 2"] string [of "m_len m - 3"]
    by (auto simp: cec_ops_set_timer_program_title_def osd_defs wf_length wf_get)
  moreover have "cec_ops_report_short_audio_descriptor m sads \<noteq> None"
    using sad_read_safe [OF assms(1) k(2) assms(7)]
    by (auto simp: cec_ops_report_short_audio_descriptor_def k(1) [symmetric])
  moreover have "cec_ops_request_short_audio_descriptor m ids codes \<noteq> None"
    using format_read_safe [OF assms(1) j(2) assms(8,9)]
    by (auto simp: cec_ops_request_short_audio_descriptor_def j(1) [symmetric])
  moreover have "cec_ops_set_menu_language m lang \<noteq> None"
    using assms by (simp add: cec_ops_set_menu_language_def wf_length)
  ultimately show ?thesis
    using digital_safe [OF assms(1) _ assms(6), of 2] digital_safe [OF assms(1) _ assms(6), of 9]
      wf_get [OF assms(1)]
    by (auto simp: cec_ops_select_digital_service_def cec_ops_clear_digital_timer_def
        cec_ops_set_digital_timer_def)
qed

theorem cec_ops_buffers_safe_witness:
  "cec_ops_set_osd_name (cec_msg_zero\<lparr>m_len := 200\<rparr>) (replicate 15 0) \<noteq> None"
  using cec_ops_buffers_safe [of "cec_msg_zero\<lparr>m_len := 200\<rparr>" "replicate 15 0" "replicate 14 0"
      "replicate 15 0" "replicate 4 0" "replicate 8 0" "replicate 4 0" "replicate 4 0"
      "replicate 4 0"]
  by (simp add: cec_wf_def cec_msg_zero_def)

section \<open>Digital services and channels\<close>





section \<open>Strings\<close>

text \<open>
  A program title of any length is cut to its first fourteen characters; the receiver's
  buffer then holds that prefix as a C string.
\<close>

theorem program_title_truncated:
  assumes "cec_wf m" and "0 \<notin> set s" and "length s < 2 ^ 32" and "length title = 15"
  shows "\<exists>m' t. cec_msg_set_timer_program_title m (s @ [0]) = Some m' \<and>
    cec_ops_set_timer_program_title m' title = Some t \<and> cstr t = Some (take 14 s)"
proof -
  have n: "strlen (s @ [0]) = Some (length s)"
    using strlen_append_NUL [of s "[]"] assms(2) by simp
  obtain k :: u32 where k: "k = (if word_of_nat (length s) > (14 :: u32) then 14
      else word_of_nat (length s))" "unat k = min 14 (length s)"
    using assms(3) by (auto simp: word_less_nat_alt unat_of_nat)
  have tk: "take (min 14 (length s)) s = take 14 s"
    by (simp add: min_def)
  have k14: "\<not> 14 < k" "2 < 2 + k \<or> k = 0"
    using k(2) unat_len_add(1) [of k] by (auto simp: word_less_nat_alt unat_eq_zero)
  let ?m = "m\<lparr>m_len := 2 + k, m_msg := m_msg m ! 0 # 0x67 # take 14 s @ drop (2 + unat k) (m_msg m)\<rparr>"
  have "cec_msg_set_timer_program_title m (s @ [0]) = Some ?m"
    using assms(1) n k(2) tk by (elim cec_wf_explicit)
      (simp add: cec_msg_set_timer_program_title_def cec_access k(1) [symmetric])
  moreover have "cec_ops_set_timer_program_title ?m title =
      Some (take 14 s @ (drop (unat k) title)[0 := 0])"
    using k14 k(2) tk assms by (auto simp: cec_ops_set_timer_program_title_def wf_length
        list_update_append)
  moreover have "cstr (take 14 s @ (drop (unat k) title)[0 := 0]) = Some (take 14 s)"
    using cstr_buffer [of "take 14 s" title] assms(2,4) k(2) in_set_takeD [of 0 14 s]
    by (auto simp: min.commute min_def split: if_splits)
  ultimately show ?thesis by blast
qed

theorem program_title_truncated_witness:
  "\<exists>m' t. cec_msg_set_timer_program_title cec_msg_zero (replicate 20 0x41 @ [0]) = Some m' \<and>
    cec_ops_set_timer_program_title m' (replicate 15 0) = Some t \<and>
    cstr t = Some (replicate 14 0x41)"
  using program_title_truncated [of cec_msg_zero "replicate 20 0x41" "replicate 15 0"]
  by (simp add: cec_wf_def cec_msg_zero_def)

section \<open>Times\<close>

text \<open>
  A time of day or a duration travels as two decimal digits: for a value below 100 both
  half-bytes written are decimal digits whose value is the number, and reading gives it back.
\<close>

theorem bcd_time_coding:
  assumes "x < 100"
  shows "drop_bit 4 (bcd x) < 10 \<and> take_bit 4 (bcd x) < 10 \<and>
    10 * drop_bit 4 (bcd x) + take_bit 4 (bcd x) = x \<and> unbcd (bcd x) = x"
proof -
  have "list_all (\<lambda>n. let x = word_of_nat n in 10 * drop_bit 4 (bcd x) + take_bit 4 (bcd x) = x)
      [0..<100]"
    by code_simp
  moreover have "unat x \<in> set [0..<100]"
    using assms by (simp add: word_less_nat_alt)
  ultimately have "let x = word_of_nat (unat x) in 10 * drop_bit 4 (bcd x) + take_bit 4 (bcd x) = x"
    unfolding list_all_iff by blast
  then have "10 * drop_bit 4 (bcd x) + take_bit 4 (bcd x) = x"
    by simp
  then show ?thesis
    using bcd_digits [OF assms] unbcd_bcd [of x] order_less_trans [OF assms, of 160] by simp
qed

theorem bcd_time_coding_witness: "unbcd (bcd 59) = 59 \<and> drop_bit 4 (bcd 59) < 10"
  using bcd_time_coding [of 59] by simp

section \<open>Feature bytes\<close>

text \<open>
  C10: the Report Features decoder skips the RC profile bytes with the extension bit and points
  to the byte after the last one; it returns null pointers exactly when all bytes from 4 to 14
  have the extension bit. The bytes of the device features themselves are never examined, so
  an extended device feature list is reported like any other.
\<close>

theorem report_features_pointers:
  assumes "cec_wf m"
  shows "\<exists>rc dev. cec_ops_report_features m = Some (m_msg m ! 2, m_msg m ! 3, rc, dev) \<and>
    (case dev of
       None \<Rightarrow> rc = None \<and> (\<forall>i\<in>{4..14}. m_msg m ! i AND 0x80 \<noteq> 0)
     | Some q \<Rightarrow> rc = Some 4 \<and> 5 \<le> q \<and> q \<le> 15 \<and> m_msg m ! (q - 1) AND 0x80 = 0 \<and>
         (\<forall>i\<in>{4..<q - 1}. m_msg m ! i AND 0x80 \<noteq> 0))"
  using assms
proof (cases rule: report_features_cases)
  case (found p)
  then show ?thesis by (auto simp: feat_ext_def)
next
  case none
  then show ?thesis by (auto simp: feat_ext_def)
qed

theorem report_features_pointers_witness:
  "\<exists>rc dev. cec_ops_report_features (cec_msg_zero\<lparr>m_msg := (replicate 16 0)[4 := 0x80]\<rparr>) =
      Some (0, 0, rc, dev) \<and> rc = Some 4 \<and> dev = Some 6"
proof -
  let ?m = "cec_msg_zero\<lparr>m_msg := (replicate 16 0)[4 := 0x80]\<rparr>"
  have "cec_wf ?m"
    by (simp add: cec_wf_def cec_msg_zero_def)
  from report_features_pointers [OF this] obtain rc dev where
    r: "cec_ops_report_features ?m = Some (0, 0, rc, dev)" and
    c: "case dev of None \<Rightarrow> rc = None \<and> (\<forall>i\<in>{4..14}. m_msg ?m ! i AND 0x80 \<noteq> 0)
     | Some q \<Rightarrow> rc = Some 4 \<and> 5 \<le> q \<and> q \<le> 15 \<and> m_msg ?m ! (q - 1) AND 0x80 = 0 \<and>
         (\<forall>i\<in>{4..<q - 1}. m_msg ?m ! i AND 0x80 \<noteq> 0)"
    by auto
  from c obtain q where q: "dev = Some q" "rc = Some 4" "5 \<le> q" "q \<le> 15"
    "m_msg ?m ! (q - 1) AND 0x80 = 0" "\<forall>i\<in>{4..<q - 1}. m_msg ?m ! i AND 0x80 \<noteq> 0"
    by (cases dev) (auto dest: bspec [of _ _ 5])
  have "q \<noteq> 5"
    using q(5) by auto
  moreover have "q \<le> 6"
  proof (rule ccontr)
    assume "\<not> q \<le> 6"
    then have "5 \<in> {4..<q - 1}"
      by simp
    with q(6) have "m_msg ?m ! 5 AND 0x80 \<noteq> 0"
      by blast
    then show False by simp
  qed
  ultimately have "q = 6"
    using q(3) by simp
  with r q show ?thesis by auto
qed

section \<open>HDMI Ethernet Channel\<close>

text \<open>
  C11: a HEC Set State message is sent under the opcode of HEC Inquire State: a receiver that
  dispatches on the opcode takes it for an inquiry about the first two addresses, and the
  requested state and the other addresses are lost.
\<close>

theorem hec_set_state_misdispatched:
  assumes "cec_wf m" and "cec_enc (Cdc (Hec_Set_State a b s c d e)) r m = Some m'"
  shows "cec_dec m' = Some (Cdc (Hec_Inquire_State a b))"
  using assms(1)
proof (rule cec_wf_explicit)
  fix b0 b1 b2 b3 b4 b5 b6 b7 b8 b9 b10 b11 b12 b13 b14 b15
  assume "m_msg m = [b0, b1, b2, b3, b4, b5, b6, b7, b8, b9, b10, b11, b12, b13, b14, b15]"
  then show ?thesis
    using assms(2) by (auto simp: cdc_defs cec_access cec_dec_def opcode_tables cdc_dec_def
        cdc_dec_from_def split: if_splits)
qed

theorem hec_set_state_misdispatched_witness:
  "\<exists>m'. cec_enc (Cdc (Hec_Set_State 0x1000 0x2000 1 0xffff 0xffff 0xffff)) 0 cec_msg_zero = Some m' \<and>
     cec_dec m' = Some (Cdc (Hec_Inquire_State 0x1000 0x2000))"
proof -
  have wf: "cec_wf cec_msg_zero"
    by (simp add: cec_wf_def cec_msg_zero_def)
  obtain m' where
    "cec_enc (Cdc (Hec_Set_State 0x1000 0x2000 1 0xffff 0xffff 0xffff)) 0 cec_msg_zero = Some m'"
    using cec.enc_total [OF wf] by blast
  with hec_set_state_misdispatched [OF wf this] show ?thesis by blast
qed

text \<open>
  A HEC Report State message carries four two-bit states; the decoder returns the host
  state also as the encoder state, so the encoder state is lost.
\<close>

theorem hec_report_state_decoded:
  assumes "cec_wf m" and "c < 4" and "h < 4" and "e < 4" and "x < 4"
    and "cec_msg_cdc_hec_report_state m t c h e x f v = Some m'"
  shows "cec_ops_cdc_hec_report_state m' = Some (be16 (m_msg m ! 2) (m_msg m ! 3), t, c, h, h, x,
    if f \<noteq> 0 then 1 else 0, if f \<noteq> 0 then v else 0)"
  using assms(1)
proof (rule cec_wf_explicit)
  fix b0 b1 b2 b3 b4 b5 b6 b7 b8 b9 b10 b11 b12 b13 b14 b15
  assume "m_msg m = [b0, b1, b2, b3, b4, b5, b6, b7, b8, b9, b10, b11, b12, b13, b14, b15]"
  then show ?thesis
    using assms(6) hec_state_byte_fields [OF assms(2-5)]
    by (auto simp: cdc_defs cec_access split: if_splits)
qed

theorem hec_report_state_decoded_witness:
  "\<exists>m'. cec_msg_cdc_hec_report_state cec_msg_zero 0x1000 1 2 3 0 0 0 = Some m' \<and>
     cec_ops_cdc_hec_report_state m' = Some (0, 0x1000, 1, 2, 2, 0, 0, 0)"
proof -
  have wf: "cec_wf cec_msg_zero" "be16 (m_msg cec_msg_zero ! 2) (m_msg cec_msg_zero ! 3) = 0"
    by (simp_all add: cec_wf_def cec_msg_zero_def be16_def)
  obtain m' where "cec_msg_cdc_hec_report_state cec_msg_zero 0x1000 1 2 3 0 0 0 = Some m'"
    using cec.enc_total [OF wf(1), of "Cdc (Hec_Report_State 0x1000 1 2 3 0 None)" 0] by auto
  with hec_report_state_decoded [OF wf(1) _ _ _ _ this] wf(2) show ?thesis by auto
qed

end
