(* ===== verification/Swab.thy ===== *)
theory Swab
  imports CPrelude
begin

text \<open>
  Byte swapping, from \<open>linux-headers/include/linux/swab.h\<close>. The architecture hooks
  (\<open>__arch_swab*\<close>) and compiler built-ins are not defined on RISC-V, so every function is its
  generic branch; \<open>const\<close> is the value of \<open>__builtin_constant_p\<close> and \<open>thru32\<close> says whether
  \<open>__SWAB_64_THRU_32__\<close> is defined. A function on a pointer takes the value pointed to; an
  in-place one returns the value stored.
\<close>

section \<open>Constant folding versions\<close>

definition constant_swab16 :: "u16 \<Rightarrow> u16" where
  "constant_swab16 x = ucast (push_bit 8 ((ucast x :: cint) AND 0x00ff) OR
     drop_bit 8 ((ucast x :: cint) AND 0xff00))"

definition constant_swab32 :: "u32 \<Rightarrow> u32" where
  "constant_swab32 x = push_bit 24 (x AND 0x000000ff) OR push_bit 8 (x AND 0x0000ff00) OR
     drop_bit 8 (x AND 0x00ff0000) OR drop_bit 24 (x AND 0xff000000)"

definition constant_swab64 :: "u64 \<Rightarrow> u64" where
  "constant_swab64 x = push_bit 56 (x AND 0x00000000000000ff) OR
     push_bit 40 (x AND 0x000000000000ff00) OR push_bit 24 (x AND 0x0000000000ff0000) OR
     push_bit 8 (x AND 0x00000000ff000000) OR drop_bit 8 (x AND 0x000000ff00000000) OR
     drop_bit 24 (x AND 0x0000ff0000000000) OR drop_bit 40 (x AND 0x00ff000000000000) OR
     drop_bit 56 (x AND 0xff00000000000000)"

definition constant_swahw32 :: "u32 \<Rightarrow> u32" where
  "constant_swahw32 x = push_bit 16 (x AND 0x0000ffff) OR drop_bit 16 (x AND 0xffff0000)"

definition constant_swahb32 :: "u32 \<Rightarrow> u32" where
  "constant_swahb32 x = push_bit 8 (x AND 0x00ff00ff) OR drop_bit 8 (x AND 0xff00ff00)"

section \<open>Inline versions\<close>

definition fswab16 :: "u16 \<Rightarrow> u16" where
  "fswab16 val = constant_swab16 val"

definition fswab32 :: "u32 \<Rightarrow> u32" where
  "fswab32 val = constant_swab32 val"

definition fswab64 :: "bool \<Rightarrow> u64 \<Rightarrow> u64" where
  "fswab64 thru32 val =
     (if thru32 then
        let h = ucast (drop_bit 32 val) :: u32;
            l = ucast (val AND (push_bit 32 1 - 1)) :: u32
        in push_bit 32 (ucast (fswab32 l)) OR ucast (fswab32 h)
      else constant_swab64 val)"

definition fswahw32 :: "u32 \<Rightarrow> u32" where
  "fswahw32 val = constant_swahw32 val"

definition fswahb32 :: "u32 \<Rightarrow> u32" where
  "fswahb32 val = constant_swahb32 val"

section \<open>The interface\<close>

definition swab16 :: "bool \<Rightarrow> u16 \<Rightarrow> u16" where
  "swab16 const x = (if const then constant_swab16 x else fswab16 x)"

definition swab32 :: "bool \<Rightarrow> u32 \<Rightarrow> u32" where
  "swab32 const x = (if const then constant_swab32 x else fswab32 x)"

definition swab64 :: "bool \<Rightarrow> bool \<Rightarrow> u64 \<Rightarrow> u64" where
  "swab64 thru32 const x = (if const then constant_swab64 x else fswab64 thru32 x)"

text \<open>\<open>unsigned long\<close> has 64 bits; inside the function the argument is not a constant.\<close>

definition swab :: "bool \<Rightarrow> u64 \<Rightarrow> u64" where
  "swab thru32 y = swab64 thru32 False y"

definition swahw32 :: "bool \<Rightarrow> u32 \<Rightarrow> u32" where
  "swahw32 const x = (if const then constant_swahw32 x else fswahw32 x)"

definition swahb32 :: "bool \<Rightarrow> u32 \<Rightarrow> u32" where
  "swahb32 const x = (if const then constant_swahb32 x else fswahb32 x)"

section \<open>Through a pointer and in place\<close>

definition swab16p :: "u16 \<Rightarrow> u16" where
  "swab16p p = swab16 False p"

definition swab32p :: "u32 \<Rightarrow> u32" where
  "swab32p p = swab32 False p"

definition swab64p :: "bool \<Rightarrow> u64 \<Rightarrow> u64" where
  "swab64p thru32 p = swab64 thru32 False p"

definition swahw32p :: "u32 \<Rightarrow> u32" where
  "swahw32p p = swahw32 False p"

definition swahb32p :: "u32 \<Rightarrow> u32" where
  "swahb32p p = swahb32 False p"

definition swab16s :: "u16 \<Rightarrow> u16" where
  "swab16s p = swab16p p"

definition swab32s :: "u32 \<Rightarrow> u32" where
  "swab32s p = swab32p p"

definition swab64s :: "bool \<Rightarrow> u64 \<Rightarrow> u64" where
  "swab64s thru32 p = swab64p thru32 p"

definition swahw32s :: "u32 \<Rightarrow> u32" where
  "swahw32s p = swahw32p p"

definition swahb32s :: "u32 \<Rightarrow> u32" where
  "swahb32s p = swahb32p p"

lemmas swab_defs = fswab16_def fswab32_def swab16_def swab32_def swab64_def swab_def fswahw32_def
  fswahb32_def swahw32_def swahb32_def swab16p_def swab32p_def swab64p_def swahw32p_def
  swahb32p_def swab16s_def swab32s_def swab64s_def swahw32s_def swahb32s_def

section \<open>Bits\<close>

text \<open>The byte masks of the source, as shifted masks.\<close>

lemma byte_masks:
  "(0xff :: 'a::len word) = mask 8" "(0xff00 :: 'a word) = push_bit 8 (mask 8)"
  "(0xff0000 :: 'a word) = push_bit 16 (mask 8)" "(0xff000000 :: 'a word) = push_bit 24 (mask 8)"
  "(0xff00000000 :: 'a word) = push_bit 32 (mask 8)"
  "(0xff0000000000 :: 'a word) = push_bit 40 (mask 8)"
  "(0xff000000000000 :: 'a word) = push_bit 48 (mask 8)"
  "(0xff00000000000000 :: 'a word) = push_bit 56 (mask 8)"
  "(0xffff :: 'a word) = mask 16" "(0xffff0000 :: 'a word) = push_bit 16 (mask 16)"
  by (simp_all add: mask_eq_exp_minus_1 push_bit_eq_mult)

lemma byte_pair_masks:
  "(0xff00ff :: u32) = mask 8 OR push_bit 16 (mask 8)"
  "(0xff00ff00 :: u32) = push_bit 8 (mask 8) OR push_bit 24 (mask 8)"
  by (simp_all add: mask_eq_exp_minus_1 push_bit_eq_mult)

lemma bit_constant_swab16:
  "bit (constant_swab16 x) n \<longleftrightarrow> n < 16 \<and> bit x (if n < 8 then 8 + n else n - 8)"
  by (auto simp: constant_swab16_def byte_masks(2) word_AND_mask_literals bit_simps
      dest: bit_imp_le_length)

lemma bit_constant_swab32:
  "bit (constant_swab32 x) n \<longleftrightarrow> n < 32 \<and> bit x
     (if n < 8 then 24 + n else if n < 16 then 8 + n else if n < 24 then n - 8 else n - 24)"
  unfolding constant_swab32_def byte_masks
  by (auto simp: bit_simps dest: bit_imp_le_length)

lemma bit_constant_swahw32:
  "bit (constant_swahw32 x) n \<longleftrightarrow> n < 32 \<and> bit x (if n < 16 then 16 + n else n - 16)"
  unfolding constant_swahw32_def byte_masks
  by (auto simp: bit_simps dest: bit_imp_le_length)

lemma bit_constant_swahb32:
  "bit (constant_swahb32 x) n \<longleftrightarrow> n < 32 \<and> bit x
     (if n < 8 then 8 + n else if n < 16 then n - 8 else if n < 24 then 8 + n else n - 8)"
  unfolding constant_swahb32_def byte_pair_masks
  by (auto simp: bit_simps dest: bit_imp_le_length)

lemma bit_constant_swab64:
  "bit (constant_swab64 x) n \<longleftrightarrow> n < 64 \<and> bit x
     (if n < 8 then 56 + n else if n < 16 then 40 + n else if n < 24 then 24 + n
      else if n < 32 then 8 + n else if n < 40 then n - 8 else if n < 48 then n - 24
      else if n < 56 then n - 40 else n - 56)"
proof -
  consider "n < 8" | "8 \<le> n \<and> n < 16" | "16 \<le> n \<and> n < 24" | "24 \<le> n \<and> n < 32" | "32 \<le> n \<and> n < 40"
    | "40 \<le> n \<and> n < 48" | "48 \<le> n \<and> n < 56" | "56 \<le> n \<and> n < 64" | "64 \<le> n"
    by linarith
  then show ?thesis
    unfolding constant_swab64_def byte_masks by cases (auto simp: bit_simps)
qed

section \<open>Bytes\<close>

text \<open>The bytes of a value from the least significant on: its image in little-endian memory.\<close>

definition le_bytes :: "nat \<Rightarrow> 'a::len word \<Rightarrow> u8 list" where
  "le_bytes n x = map (\<lambda>i. ucast (drop_bit (8 * i) x)) [0..<n]"

lemma le_bytes_explicit:
  "le_bytes 2 x = [ucast x, ucast (drop_bit 8 x)]"
  "le_bytes 4 x = [ucast x, ucast (drop_bit 8 x), ucast (drop_bit 16 x), ucast (drop_bit 24 x)]"
  "le_bytes 8 x = [ucast x, ucast (drop_bit 8 x), ucast (drop_bit 16 x), ucast (drop_bit 24 x),
     ucast (drop_bit 32 x), ucast (drop_bit 40 x), ucast (drop_bit 48 x), ucast (drop_bit 56 x)]"
  by (simp_all add: le_bytes_def upt_rec)

lemma le_bytes_nth: "i < n \<Longrightarrow> le_bytes n x ! i = ucast (drop_bit (8 * i) x)"
  by (simp add: le_bytes_def)

lemma le_bytes_inject:
  assumes "le_bytes n x = le_bytes n y" and "LENGTH('a) \<le> 8 * n"
  shows "x = (y :: 'a::len word)"
proof (rule bit_word_eqI)
  fix k
  assume "k < LENGTH('a)"
  then have i: "k div 8 < n"
    using assms(2) by (simp add: less_mult_imp_div_less mult.commute)
  have "bit (ucast (drop_bit (8 * (k div 8)) x) :: u8) (k mod 8) =
      bit (ucast (drop_bit (8 * (k div 8)) y) :: u8) (k mod 8)"
    using assms(1) le_bytes_nth [OF i, of x] le_bytes_nth [OF i, of y] by simp
  then show "bit x k = bit y k"
    by (simp add: bit_simps)
qed

lemma constant_swab_bytes:
  "le_bytes 2 (constant_swab16 x) = rev (le_bytes 2 x)"
  "le_bytes 4 (constant_swab32 y) = rev (le_bytes 4 y)"
  "le_bytes 8 (constant_swab64 z) = rev (le_bytes 8 z)"
proof -
  show "le_bytes 2 (constant_swab16 x) = rev (le_bytes 2 x)"
    unfolding le_bytes_explicit by (simp, intro conjI bit_word_eqI)
      (auto simp: bit_constant_swab16 bit_simps)
  show "le_bytes 4 (constant_swab32 y) = rev (le_bytes 4 y)"
    unfolding le_bytes_explicit by (simp, intro conjI bit_word_eqI)
      (auto simp: bit_constant_swab32 bit_simps)
  show "le_bytes 8 (constant_swab64 z) = rev (le_bytes 8 z)"
    unfolding le_bytes_explicit by (simp, intro conjI bit_word_eqI)
      (auto simp: bit_constant_swab64 bit_simps)
qed

text \<open>Swapping through two halves is the same function.\<close>

lemma fswab64_eq: "fswab64 thru32 x = constant_swab64 x"
proof (cases thru32)
  case True
  have m: "x AND 0xffffffff = take_bit 32 x"
    by (simp add: take_bit_eq_mask mask_eq_exp_minus_1)
  have b: "bit (push_bit 32 (ucast (constant_swab32 (ucast (take_bit 32 x)))) OR
      ucast (constant_swab32 (ucast (drop_bit 32 x))) :: u64) n \<longleftrightarrow> bit (constant_swab64 x) n" for n
    unfolding bit_constant_swab64
    by (auto simp: bit_simps bit_constant_swab32)
  show ?thesis
    using True b by (simp add: fswab64_def fswab32_def m bit_eq_iff)
qed (simp add: fswab64_def)

lemma swab_constant:
  "swab16 c x = constant_swab16 x" "swab32 c y = constant_swab32 y"
  "swab64 t c z = constant_swab64 z"
  by (simp_all add: swab_defs fswab64_eq)

lemma constant_swab_involution:
  "constant_swab16 (constant_swab16 x) = x" "constant_swab32 (constant_swab32 y) = y"
  "constant_swab64 (constant_swab64 z) = z"
proof -
  show "constant_swab16 (constant_swab16 x) = x"
    by (rule le_bytes_inject [of 2]) (simp_all add: constant_swab_bytes)
  show "constant_swab32 (constant_swab32 y) = y"
    by (rule le_bytes_inject [of 4]) (simp_all add: constant_swab_bytes)
  show "constant_swab64 (constant_swab64 z) = z"
    by (rule le_bytes_inject [of 8]) (simp_all add: constant_swab_bytes)
qed

text \<open>
  C24: every byte swapping routine of the header, constant folded or not and with 64-bit values
  swapped in one or in two halves, reverses the bytes of its argument.
\<close>

theorem swab_reverses_bytes:
  "le_bytes 2 (swab16 c x) = rev (le_bytes 2 x) \<and> le_bytes 4 (swab32 c y) = rev (le_bytes 4 y) \<and>
   le_bytes 8 (swab64 t c z) = rev (le_bytes 8 z) \<and> swab t z = swab64 t True z \<and>
   swab16s x = swab16 c x \<and> swab32s y = swab32 c y \<and> swab64s t z = swab64 t c z"
  by (simp add: swab_constant constant_swab_bytes swab_def swab16s_def swab32s_def swab64s_def
      swab16p_def swab32p_def swab64p_def)

text \<open>
  The half-word swaps. \<open>__swahw32\<close> exchanges the two half-words, \<open>__swahb32\<close> the bytes inside
  each half-word; each is its own inverse and both together are the full byte swap.
\<close>

theorem swah_composition:
  "le_bytes 4 (swahw32 c x) = rotate 2 (le_bytes 4 x) \<and>
   swahw32 c (swahw32 c x) = x \<and> swahb32 c (swahb32 c x) = x \<and>
   swahb32 c (swahw32 c x) = swab32 c x \<and> swahw32s x = swahw32 c x \<and> swahb32s x = swahb32 c x"
proof -
  have "le_bytes 4 (constant_swahw32 x) = rotate 2 (le_bytes 4 x)"
    unfolding le_bytes_explicit by (simp add: rotate_def numeral_2_eq_2, intro conjI bit_word_eqI)
      (auto simp: bit_constant_swahw32 bit_simps)
  moreover have "constant_swahw32 (constant_swahw32 x) = x"
    by (rule bit_word_eqI) (auto simp: bit_constant_swahw32)
  moreover have "constant_swahb32 (constant_swahb32 x) = x"
    by (rule bit_word_eqI) (auto simp: bit_constant_swahb32)
  moreover have "constant_swahb32 (constant_swahw32 x) = constant_swab32 x"
    by (rule bit_word_eqI) (auto simp: bit_constant_swahb32 bit_constant_swahw32 bit_constant_swab32)
  ultimately show ?thesis
    by (simp add: swab_defs)
qed

end
