(* ===== verification/ByteOrder.thy ===== *)
theory ByteOrder
  imports Swab
begin

text \<open>
  The conversions between host and wire byte order, from
  \<open>linux-headers/include/linux/byteorder\<close>: \<open>little_endian.h\<close>, which the RISC-V \<open>asm/byteorder.h\<close>
  includes, and \<open>big_endian.h\<close> (prefix \<open>big_\<close>). The sparse types \<open>__le32\<close> and \<open>__be32\<close> are
  plain words. The locale \<open>byte_order\<close> says what such a header promises: what a converted value
  looks like in the host's memory. Both headers are instances of it.
\<close>

section \<open>Little-endian host\<close>

subsection \<open>Constant folding macros\<close>

definition constant_htonl :: "u32 \<Rightarrow> u32" where
  "constant_htonl x = constant_swab32 x"

definition constant_ntohl :: "u32 \<Rightarrow> u32" where
  "constant_ntohl x = constant_swab32 x"

definition constant_htons :: "u16 \<Rightarrow> u16" where
  "constant_htons x = constant_swab16 x"

definition constant_ntohs :: "u16 \<Rightarrow> u16" where
  "constant_ntohs x = constant_swab16 x"

definition constant_cpu_to_le64 :: "u64 \<Rightarrow> u64" where
  "constant_cpu_to_le64 x = x"

definition constant_le64_to_cpu :: "u64 \<Rightarrow> u64" where
  "constant_le64_to_cpu x = x"

definition constant_cpu_to_le32 :: "u32 \<Rightarrow> u32" where
  "constant_cpu_to_le32 x = x"

definition constant_le32_to_cpu :: "u32 \<Rightarrow> u32" where
  "constant_le32_to_cpu x = x"

definition constant_cpu_to_le16 :: "u16 \<Rightarrow> u16" where
  "constant_cpu_to_le16 x = x"

definition constant_le16_to_cpu :: "u16 \<Rightarrow> u16" where
  "constant_le16_to_cpu x = x"

definition constant_cpu_to_be64 :: "u64 \<Rightarrow> u64" where
  "constant_cpu_to_be64 x = constant_swab64 x"

definition constant_be64_to_cpu :: "u64 \<Rightarrow> u64" where
  "constant_be64_to_cpu x = constant_swab64 x"

definition constant_cpu_to_be32 :: "u32 \<Rightarrow> u32" where
  "constant_cpu_to_be32 x = constant_swab32 x"

definition constant_be32_to_cpu :: "u32 \<Rightarrow> u32" where
  "constant_be32_to_cpu x = constant_swab32 x"

definition constant_cpu_to_be16 :: "u16 \<Rightarrow> u16" where
  "constant_cpu_to_be16 x = constant_swab16 x"

definition constant_be16_to_cpu :: "u16 \<Rightarrow> u16" where
  "constant_be16_to_cpu x = constant_swab16 x"

subsection \<open>Conversion macros\<close>

definition cpu_to_le64 :: "u64 \<Rightarrow> u64" where
  "cpu_to_le64 x = x"

definition le64_to_cpu :: "u64 \<Rightarrow> u64" where
  "le64_to_cpu x = x"

definition cpu_to_le32 :: "u32 \<Rightarrow> u32" where
  "cpu_to_le32 x = x"

definition le32_to_cpu :: "u32 \<Rightarrow> u32" where
  "le32_to_cpu x = x"

definition cpu_to_le16 :: "u16 \<Rightarrow> u16" where
  "cpu_to_le16 x = x"

definition le16_to_cpu :: "u16 \<Rightarrow> u16" where
  "le16_to_cpu x = x"

definition cpu_to_be64 :: "bool \<Rightarrow> bool \<Rightarrow> u64 \<Rightarrow> u64" where
  "cpu_to_be64 t c x = swab64 t c x"

definition be64_to_cpu :: "bool \<Rightarrow> bool \<Rightarrow> u64 \<Rightarrow> u64" where
  "be64_to_cpu t c x = swab64 t c x"

definition cpu_to_be32 :: "bool \<Rightarrow> u32 \<Rightarrow> u32" where
  "cpu_to_be32 c x = swab32 c x"

definition be32_to_cpu :: "bool \<Rightarrow> u32 \<Rightarrow> u32" where
  "be32_to_cpu c x = swab32 c x"

definition cpu_to_be16 :: "bool \<Rightarrow> u16 \<Rightarrow> u16" where
  "cpu_to_be16 c x = swab16 c x"

definition be16_to_cpu :: "bool \<Rightarrow> u16 \<Rightarrow> u16" where
  "be16_to_cpu c x = swab16 c x"

subsection \<open>Through a pointer\<close>

definition cpu_to_le64p :: "u64 \<Rightarrow> u64" where
  "cpu_to_le64p p = p"

definition le64_to_cpup :: "u64 \<Rightarrow> u64" where
  "le64_to_cpup p = p"

definition cpu_to_le32p :: "u32 \<Rightarrow> u32" where
  "cpu_to_le32p p = p"

definition le32_to_cpup :: "u32 \<Rightarrow> u32" where
  "le32_to_cpup p = p"

definition cpu_to_le16p :: "u16 \<Rightarrow> u16" where
  "cpu_to_le16p p = p"

definition le16_to_cpup :: "u16 \<Rightarrow> u16" where
  "le16_to_cpup p = p"

definition cpu_to_be64p :: "bool \<Rightarrow> u64 \<Rightarrow> u64" where
  "cpu_to_be64p t p = swab64p t p"

definition be64_to_cpup :: "bool \<Rightarrow> u64 \<Rightarrow> u64" where
  "be64_to_cpup t p = swab64p t p"

definition cpu_to_be32p :: "u32 \<Rightarrow> u32" where
  "cpu_to_be32p p = swab32p p"

definition be32_to_cpup :: "u32 \<Rightarrow> u32" where
  "be32_to_cpup p = swab32p p"

definition cpu_to_be16p :: "u16 \<Rightarrow> u16" where
  "cpu_to_be16p p = swab16p p"

definition be16_to_cpup :: "u16 \<Rightarrow> u16" where
  "be16_to_cpup p = swab16p p"

subsection \<open>In place\<close>

definition cpu_to_le64s :: "u64 \<Rightarrow> u64" where
  "cpu_to_le64s x = x"

definition le64_to_cpus :: "u64 \<Rightarrow> u64" where
  "le64_to_cpus x = x"

definition cpu_to_le32s :: "u32 \<Rightarrow> u32" where
  "cpu_to_le32s x = x"

definition le32_to_cpus :: "u32 \<Rightarrow> u32" where
  "le32_to_cpus x = x"

definition cpu_to_le16s :: "u16 \<Rightarrow> u16" where
  "cpu_to_le16s x = x"

definition le16_to_cpus :: "u16 \<Rightarrow> u16" where
  "le16_to_cpus x = x"

definition cpu_to_be64s :: "bool \<Rightarrow> u64 \<Rightarrow> u64" where
  "cpu_to_be64s t x = swab64s t x"

definition be64_to_cpus :: "bool \<Rightarrow> u64 \<Rightarrow> u64" where
  "be64_to_cpus t x = swab64s t x"

definition cpu_to_be32s :: "u32 \<Rightarrow> u32" where
  "cpu_to_be32s x = swab32s x"

definition be32_to_cpus :: "u32 \<Rightarrow> u32" where
  "be32_to_cpus x = swab32s x"

definition cpu_to_be16s :: "u16 \<Rightarrow> u16" where
  "cpu_to_be16s x = swab16s x"

definition be16_to_cpus :: "u16 \<Rightarrow> u16" where
  "be16_to_cpus x = swab16s x"

section \<open>Big-endian host\<close>

subsection \<open>Constant folding macros\<close>

definition big_constant_htonl :: "u32 \<Rightarrow> u32" where
  "big_constant_htonl x = x"

definition big_constant_ntohl :: "u32 \<Rightarrow> u32" where
  "big_constant_ntohl x = x"

definition big_constant_htons :: "u16 \<Rightarrow> u16" where
  "big_constant_htons x = x"

definition big_constant_ntohs :: "u16 \<Rightarrow> u16" where
  "big_constant_ntohs x = x"

definition big_constant_cpu_to_le64 :: "u64 \<Rightarrow> u64" where
  "big_constant_cpu_to_le64 x = constant_swab64 x"

definition big_constant_le64_to_cpu :: "u64 \<Rightarrow> u64" where
  "big_constant_le64_to_cpu x = constant_swab64 x"

definition big_constant_cpu_to_le32 :: "u32 \<Rightarrow> u32" where
  "big_constant_cpu_to_le32 x = constant_swab32 x"

definition big_constant_le32_to_cpu :: "u32 \<Rightarrow> u32" where
  "big_constant_le32_to_cpu x = constant_swab32 x"

definition big_constant_cpu_to_le16 :: "u16 \<Rightarrow> u16" where
  "big_constant_cpu_to_le16 x = constant_swab16 x"

definition big_constant_le16_to_cpu :: "u16 \<Rightarrow> u16" where
  "big_constant_le16_to_cpu x = constant_swab16 x"

definition big_constant_cpu_to_be64 :: "u64 \<Rightarrow> u64" where
  "big_constant_cpu_to_be64 x = x"

definition big_constant_be64_to_cpu :: "u64 \<Rightarrow> u64" where
  "big_constant_be64_to_cpu x = x"

definition big_constant_cpu_to_be32 :: "u32 \<Rightarrow> u32" where
  "big_constant_cpu_to_be32 x = x"

definition big_constant_be32_to_cpu :: "u32 \<Rightarrow> u32" where
  "big_constant_be32_to_cpu x = x"

definition big_constant_cpu_to_be16 :: "u16 \<Rightarrow> u16" where
  "big_constant_cpu_to_be16 x = x"

definition big_constant_be16_to_cpu :: "u16 \<Rightarrow> u16" where
  "big_constant_be16_to_cpu x = x"

subsection \<open>Conversion macros\<close>

definition big_cpu_to_le64 :: "bool \<Rightarrow> bool \<Rightarrow> u64 \<Rightarrow> u64" where
  "big_cpu_to_le64 t c x = swab64 t c x"

definition big_le64_to_cpu :: "bool \<Rightarrow> bool \<Rightarrow> u64 \<Rightarrow> u64" where
  "big_le64_to_cpu t c x = swab64 t c x"

definition big_cpu_to_le32 :: "bool \<Rightarrow> u32 \<Rightarrow> u32" where
  "big_cpu_to_le32 c x = swab32 c x"

definition big_le32_to_cpu :: "bool \<Rightarrow> u32 \<Rightarrow> u32" where
  "big_le32_to_cpu c x = swab32 c x"

definition big_cpu_to_le16 :: "bool \<Rightarrow> u16 \<Rightarrow> u16" where
  "big_cpu_to_le16 c x = swab16 c x"

definition big_le16_to_cpu :: "bool \<Rightarrow> u16 \<Rightarrow> u16" where
  "big_le16_to_cpu c x = swab16 c x"

definition big_cpu_to_be64 :: "u64 \<Rightarrow> u64" where
  "big_cpu_to_be64 x = x"

definition big_be64_to_cpu :: "u64 \<Rightarrow> u64" where
  "big_be64_to_cpu x = x"

definition big_cpu_to_be32 :: "u32 \<Rightarrow> u32" where
  "big_cpu_to_be32 x = x"

definition big_be32_to_cpu :: "u32 \<Rightarrow> u32" where
  "big_be32_to_cpu x = x"

definition big_cpu_to_be16 :: "u16 \<Rightarrow> u16" where
  "big_cpu_to_be16 x = x"

definition big_be16_to_cpu :: "u16 \<Rightarrow> u16" where
  "big_be16_to_cpu x = x"

subsection \<open>Through a pointer\<close>

definition big_cpu_to_le64p :: "bool \<Rightarrow> u64 \<Rightarrow> u64" where
  "big_cpu_to_le64p t p = swab64p t p"

definition big_le64_to_cpup :: "bool \<Rightarrow> u64 \<Rightarrow> u64" where
  "big_le64_to_cpup t p = swab64p t p"

definition big_cpu_to_le32p :: "u32 \<Rightarrow> u32" where
  "big_cpu_to_le32p p = swab32p p"

definition big_le32_to_cpup :: "u32 \<Rightarrow> u32" where
  "big_le32_to_cpup p = swab32p p"

definition big_cpu_to_le16p :: "u16 \<Rightarrow> u16" where
  "big_cpu_to_le16p p = swab16p p"

definition big_le16_to_cpup :: "u16 \<Rightarrow> u16" where
  "big_le16_to_cpup p = swab16p p"

definition big_cpu_to_be64p :: "u64 \<Rightarrow> u64" where
  "big_cpu_to_be64p p = p"

definition big_be64_to_cpup :: "u64 \<Rightarrow> u64" where
  "big_be64_to_cpup p = p"

definition big_cpu_to_be32p :: "u32 \<Rightarrow> u32" where
  "big_cpu_to_be32p p = p"

definition big_be32_to_cpup :: "u32 \<Rightarrow> u32" where
  "big_be32_to_cpup p = p"

definition big_cpu_to_be16p :: "u16 \<Rightarrow> u16" where
  "big_cpu_to_be16p p = p"

definition big_be16_to_cpup :: "u16 \<Rightarrow> u16" where
  "big_be16_to_cpup p = p"

subsection \<open>In place\<close>

definition big_cpu_to_le64s :: "bool \<Rightarrow> u64 \<Rightarrow> u64" where
  "big_cpu_to_le64s t x = swab64s t x"

definition big_le64_to_cpus :: "bool \<Rightarrow> u64 \<Rightarrow> u64" where
  "big_le64_to_cpus t x = swab64s t x"

definition big_cpu_to_le32s :: "u32 \<Rightarrow> u32" where
  "big_cpu_to_le32s x = swab32s x"

definition big_le32_to_cpus :: "u32 \<Rightarrow> u32" where
  "big_le32_to_cpus x = swab32s x"

definition big_cpu_to_le16s :: "u16 \<Rightarrow> u16" where
  "big_cpu_to_le16s x = swab16s x"

definition big_le16_to_cpus :: "u16 \<Rightarrow> u16" where
  "big_le16_to_cpus x = swab16s x"

definition big_cpu_to_be64s :: "u64 \<Rightarrow> u64" where
  "big_cpu_to_be64s x = x"

definition big_be64_to_cpus :: "u64 \<Rightarrow> u64" where
  "big_be64_to_cpus x = x"

definition big_cpu_to_be32s :: "u32 \<Rightarrow> u32" where
  "big_cpu_to_be32s x = x"

definition big_be32_to_cpus :: "u32 \<Rightarrow> u32" where
  "big_be32_to_cpus x = x"

definition big_cpu_to_be16s :: "u16 \<Rightarrow> u16" where
  "big_cpu_to_be16s x = x"

definition big_be16_to_cpus :: "u16 \<Rightarrow> u16" where
  "big_be16_to_cpus x = x"

lemmas little_defs =
  constant_htonl_def constant_ntohl_def constant_htons_def constant_ntohs_def
  constant_cpu_to_le64_def constant_le64_to_cpu_def constant_cpu_to_le32_def
  constant_le32_to_cpu_def constant_cpu_to_le16_def constant_le16_to_cpu_def
  constant_cpu_to_be64_def constant_be64_to_cpu_def constant_cpu_to_be32_def
  constant_be32_to_cpu_def constant_cpu_to_be16_def constant_be16_to_cpu_def cpu_to_le64_def
  le64_to_cpu_def cpu_to_le32_def le32_to_cpu_def cpu_to_le16_def le16_to_cpu_def
  cpu_to_be64_def be64_to_cpu_def cpu_to_be32_def be32_to_cpu_def cpu_to_be16_def
  be16_to_cpu_def cpu_to_le64p_def le64_to_cpup_def cpu_to_le32p_def le32_to_cpup_def
  cpu_to_le16p_def le16_to_cpup_def cpu_to_be64p_def be64_to_cpup_def cpu_to_be32p_def
  be32_to_cpup_def cpu_to_be16p_def be16_to_cpup_def cpu_to_le64s_def le64_to_cpus_def
  cpu_to_le32s_def le32_to_cpus_def cpu_to_le16s_def le16_to_cpus_def cpu_to_be64s_def
  be64_to_cpus_def cpu_to_be32s_def be32_to_cpus_def cpu_to_be16s_def be16_to_cpus_def

lemmas big_defs =
  big_constant_htonl_def big_constant_ntohl_def big_constant_htons_def
  big_constant_ntohs_def big_constant_cpu_to_le64_def big_constant_le64_to_cpu_def
  big_constant_cpu_to_le32_def big_constant_le32_to_cpu_def big_constant_cpu_to_le16_def
  big_constant_le16_to_cpu_def big_constant_cpu_to_be64_def big_constant_be64_to_cpu_def
  big_constant_cpu_to_be32_def big_constant_be32_to_cpu_def big_constant_cpu_to_be16_def
  big_constant_be16_to_cpu_def big_cpu_to_le64_def big_le64_to_cpu_def big_cpu_to_le32_def
  big_le32_to_cpu_def big_cpu_to_le16_def big_le16_to_cpu_def big_cpu_to_be64_def
  big_be64_to_cpu_def big_cpu_to_be32_def big_be32_to_cpu_def big_cpu_to_be16_def
  big_be16_to_cpu_def big_cpu_to_le64p_def big_le64_to_cpup_def big_cpu_to_le32p_def
  big_le32_to_cpup_def big_cpu_to_le16p_def big_le16_to_cpup_def big_cpu_to_be64p_def
  big_be64_to_cpup_def big_cpu_to_be32p_def big_be32_to_cpup_def big_cpu_to_be16p_def
  big_be16_to_cpup_def big_cpu_to_le64s_def big_le64_to_cpus_def big_cpu_to_le32s_def
  big_le32_to_cpus_def big_cpu_to_le16s_def big_le16_to_cpus_def big_cpu_to_be64s_def
  big_be64_to_cpus_def big_cpu_to_be32s_def big_be32_to_cpus_def big_cpu_to_be16s_def
  big_be16_to_cpus_def

section \<open>The contract\<close>

text \<open>\<open>mem16\<close>, \<open>mem32\<close> and \<open>mem64\<close> are the host's memory images.\<close>

locale byte_order =
  fixes mem16 :: "u16 \<Rightarrow> u8 list" and mem32 :: "u32 \<Rightarrow> u8 list" and mem64 :: "u64 \<Rightarrow> u8 list"
    and to_le16 from_le16 to_be16 from_be16 :: "u16 \<Rightarrow> u16"
    and to_le32 from_le32 to_be32 from_be32 :: "u32 \<Rightarrow> u32"
    and to_le64 from_le64 to_be64 from_be64 :: "u64 \<Rightarrow> u64"
  assumes mem_inj: "inj mem16" "inj mem32" "inj mem64"
    and le_mem: "mem16 (to_le16 x) = le_bytes 2 x" "mem32 (to_le32 y) = le_bytes 4 y"
      "mem64 (to_le64 z) = le_bytes 8 z"
    and be_mem: "mem16 (to_be16 x) = rev (le_bytes 2 x)" "mem32 (to_be32 y) = rev (le_bytes 4 y)"
      "mem64 (to_be64 z) = rev (le_bytes 8 z)"
    and le_inv: "from_le16 (to_le16 x) = x" "from_le32 (to_le32 y) = y" "from_le64 (to_le64 z) = z"
    and be_inv: "from_be16 (to_be16 x) = x" "from_be32 (to_be32 y) = y" "from_be64 (to_be64 z) = z"
begin

text \<open>The conversion of whatever memory holds: the value whose wire image is there.\<close>

lemma from_le_mem:
  "mem16 v = le_bytes 2 x \<Longrightarrow> from_le16 v = x" "mem32 w = le_bytes 4 y \<Longrightarrow> from_le32 w = y"
  "mem64 u = le_bytes 8 z \<Longrightarrow> from_le64 u = z"
  using le_mem le_inv mem_inj by (metis injD)+

lemma from_be_mem:
  "mem16 v = rev (le_bytes 2 x) \<Longrightarrow> from_be16 v = x"
  "mem32 w = rev (le_bytes 4 y) \<Longrightarrow> from_be32 w = y"
  "mem64 u = rev (le_bytes 8 z) \<Longrightarrow> from_be64 u = z"
  using be_mem be_inv mem_inj by (metis injD)+

end

text \<open>A big-endian host stores the most significant byte first.\<close>

definition be_bytes :: "nat \<Rightarrow> 'a::len word \<Rightarrow> u8 list" where
  "be_bytes n x = rev (le_bytes n x)"

lemma mem_images_inj:
  "inj (le_bytes 2 :: u16 \<Rightarrow> u8 list)" "inj (le_bytes 4 :: u32 \<Rightarrow> u8 list)"
  "inj (le_bytes 8 :: u64 \<Rightarrow> u8 list)" "inj (be_bytes 2 :: u16 \<Rightarrow> u8 list)"
  "inj (be_bytes 4 :: u32 \<Rightarrow> u8 list)" "inj (be_bytes 8 :: u64 \<Rightarrow> u8 list)"
proof -
  show l: "inj (le_bytes 2 :: u16 \<Rightarrow> u8 list)" "inj (le_bytes 4 :: u32 \<Rightarrow> u8 list)"
    "inj (le_bytes 8 :: u64 \<Rightarrow> u8 list)"
    by (rule injI, erule le_bytes_inject, simp)+
  show "inj (be_bytes 2 :: u16 \<Rightarrow> u8 list)" "inj (be_bytes 4 :: u32 \<Rightarrow> u8 list)"
    "inj (be_bytes 8 :: u64 \<Rightarrow> u8 list)"
    using l by (simp_all add: be_bytes_def inj_def)
qed

lemma little_host: "byte_order (le_bytes 2) (le_bytes 4) (le_bytes 8)
    cpu_to_le16 le16_to_cpu (cpu_to_be16 c) (be16_to_cpu c)
    cpu_to_le32 le32_to_cpu (cpu_to_be32 c) (be32_to_cpu c)
    cpu_to_le64 le64_to_cpu (cpu_to_be64 t c) (be64_to_cpu t c)"
  by unfold_locales (simp_all add: mem_images_inj little_defs swab_constant constant_swab_bytes
      constant_swab_involution)

lemma big_host: "byte_order (be_bytes 2) (be_bytes 4) (be_bytes 8)
    (big_cpu_to_le16 c) (big_le16_to_cpu c) big_cpu_to_be16 big_be16_to_cpu
    (big_cpu_to_le32 c) (big_le32_to_cpu c) big_cpu_to_be32 big_be32_to_cpu
    (big_cpu_to_le64 t c) (big_le64_to_cpu t c) big_cpu_to_be64 big_be64_to_cpu"
  by unfold_locales (simp_all add: mem_images_inj big_defs swab_constant constant_swab_bytes
      constant_swab_involution be_bytes_def)

interpretation little: byte_order "le_bytes 2" "le_bytes 4" "le_bytes 8"
    cpu_to_le16 le16_to_cpu "cpu_to_be16 c" "be16_to_cpu c"
    cpu_to_le32 le32_to_cpu "cpu_to_be32 c" "be32_to_cpu c"
    cpu_to_le64 le64_to_cpu "cpu_to_be64 t c" "be64_to_cpu t c" for c t
  by (rule little_host)

interpretation big: byte_order "be_bytes 2" "be_bytes 4" "be_bytes 8"
    "big_cpu_to_le16 c" "big_le16_to_cpu c" big_cpu_to_be16 big_be16_to_cpu
    "big_cpu_to_le32 c" "big_le32_to_cpu c" big_cpu_to_be32 big_be32_to_cpu
    "big_cpu_to_le64 t c" "big_le64_to_cpu t c" big_cpu_to_be64 big_be64_to_cpu for c t
  by (rule big_host)

text \<open>The constant folding macros, the pointer and the in-place versions are the same functions.\<close>

lemma little_variants:
  "constant_cpu_to_be16 x = cpu_to_be16 c x" "constant_be16_to_cpu x = be16_to_cpu c x"
  "constant_cpu_to_be32 y = cpu_to_be32 c y" "constant_be32_to_cpu y = be32_to_cpu c y"
  "constant_cpu_to_be64 z = cpu_to_be64 t c z" "constant_be64_to_cpu z = be64_to_cpu t c z"
  "constant_htons x = cpu_to_be16 c x" "constant_ntohs x = be16_to_cpu c x"
  "constant_htonl y = cpu_to_be32 c y" "constant_ntohl y = be32_to_cpu c y"
  "cpu_to_be16p x = cpu_to_be16 c x" "be16_to_cpup x = be16_to_cpu c x"
  "cpu_to_be32p y = cpu_to_be32 c y" "be32_to_cpup y = be32_to_cpu c y"
  "cpu_to_be64p t z = cpu_to_be64 t c z" "be64_to_cpup t z = be64_to_cpu t c z"
  "cpu_to_be16s x = cpu_to_be16 c x" "be16_to_cpus x = be16_to_cpu c x"
  "cpu_to_be32s y = cpu_to_be32 c y" "be32_to_cpus y = be32_to_cpu c y"
  "cpu_to_be64s t z = cpu_to_be64 t c z" "be64_to_cpus t z = be64_to_cpu t c z"
  by (simp_all add: little_defs swab_defs fswab64_eq)

lemma big_variants:
  "big_constant_cpu_to_le16 x = big_cpu_to_le16 c x" "big_constant_le16_to_cpu x = big_le16_to_cpu c x"
  "big_constant_cpu_to_le32 y = big_cpu_to_le32 c y" "big_constant_le32_to_cpu y = big_le32_to_cpu c y"
  "big_constant_cpu_to_le64 z = big_cpu_to_le64 t c z"
  "big_constant_le64_to_cpu z = big_le64_to_cpu t c z"
  "big_cpu_to_le16p x = big_cpu_to_le16 c x" "big_le16_to_cpup x = big_le16_to_cpu c x"
  "big_cpu_to_le32p y = big_cpu_to_le32 c y" "big_le32_to_cpup y = big_le32_to_cpu c y"
  "big_cpu_to_le64p t z = big_cpu_to_le64 t c z" "big_le64_to_cpup t z = big_le64_to_cpu t c z"
  "big_cpu_to_le16s x = big_cpu_to_le16 c x" "big_le16_to_cpus x = big_le16_to_cpu c x"
  "big_cpu_to_le32s y = big_cpu_to_le32 c y" "big_le32_to_cpus y = big_le32_to_cpu c y"
  "big_cpu_to_le64s t z = big_cpu_to_le64 t c z" "big_le64_to_cpus t z = big_le64_to_cpu t c z"
  by (simp_all add: big_defs swab_defs fswab64_eq)


text \<open>
  Memory written in network order by a little-endian host and read by a big-endian host (or
  the other way round) gives the value written.
\<close>

theorem byte_order_exchange:
  assumes "be_bytes 4 w = le_bytes 4 (cpu_to_be32 c x)" and "le_bytes 4 v = be_bytes 4 (big_cpu_to_le32 c y)"
  shows "big_be32_to_cpu w = x \<and> le32_to_cpu v = y"
  using assms by (simp add: little.be_mem big.from_be_mem big.le_mem little.from_le_mem)

theorem byte_order_exchange_witness:
  "big_be32_to_cpu 0x12345678 = 0x12345678 \<and> le32_to_cpu 0x9abcdef0 = 0x9abcdef0"
  by (rule byte_order_exchange [of _ False]) code_simp+

end
