(* ===== verification/Ioctl.thy ===== *)
theory Ioctl
  imports CPrelude
begin

text \<open>
  The ioctl number encoding of \<open>linux-headers/include/asm-generic/ioctl.h\<close>, which RISC-V uses
  unchanged, and the ioctl numbers of \<open>linux/cec.h\<close> built with it. The \<open>dir\<close> operand is an
  \<open>unsigned int\<close>, \<open>type\<close> and \<open>nr\<close> are small non-negative integers, and \<open>size\<close> is a \<open>sizeof\<close>, so
  the number has the 64 bits of \<open>unsigned long\<close>. Structure sizes follow the RISC-V ABI: every
  member starts at a multiple of its alignment, and the size is a multiple of the largest one.
\<close>

section \<open>Field widths\<close>

abbreviation (input) IOC_NRBITS :: nat where "IOC_NRBITS \<equiv> 8"
abbreviation (input) IOC_TYPEBITS :: nat where "IOC_TYPEBITS \<equiv> 8"
abbreviation (input) IOC_SIZEBITS :: nat where "IOC_SIZEBITS \<equiv> 14"
abbreviation (input) IOC_DIRBITS :: nat where "IOC_DIRBITS \<equiv> 2"

definition IOC_NRMASK :: u64 where "IOC_NRMASK = push_bit IOC_NRBITS 1 - 1"
definition IOC_TYPEMASK :: u64 where "IOC_TYPEMASK = push_bit IOC_TYPEBITS 1 - 1"
definition IOC_SIZEMASK :: u64 where "IOC_SIZEMASK = push_bit IOC_SIZEBITS 1 - 1"
definition IOC_DIRMASK :: u64 where "IOC_DIRMASK = push_bit IOC_DIRBITS 1 - 1"

abbreviation (input) IOC_NRSHIFT :: nat where "IOC_NRSHIFT \<equiv> 0"
abbreviation (input) IOC_TYPESHIFT :: nat where "IOC_TYPESHIFT \<equiv> IOC_NRSHIFT + IOC_NRBITS"
abbreviation (input) IOC_SIZESHIFT :: nat where "IOC_SIZESHIFT \<equiv> IOC_TYPESHIFT + IOC_TYPEBITS"
abbreviation (input) IOC_DIRSHIFT :: nat where "IOC_DIRSHIFT \<equiv> IOC_SIZESHIFT + IOC_SIZEBITS"

abbreviation (input) IOC_NONE :: u32 where "IOC_NONE \<equiv> 0"
abbreviation (input) IOC_WRITE :: u32 where "IOC_WRITE \<equiv> 1"
abbreviation (input) IOC_READ :: u32 where "IOC_READ \<equiv> 2"

section \<open>Encoding and decoding\<close>

definition IOC :: "u32 \<Rightarrow> u32 \<Rightarrow> u32 \<Rightarrow> u64 \<Rightarrow> u64" where
  "IOC dir type nr sz =
     ucast (push_bit IOC_DIRSHIFT dir) OR ucast (push_bit IOC_TYPESHIFT type) OR
     ucast (push_bit IOC_NRSHIFT nr) OR push_bit IOC_SIZESHIFT sz"

definition IO_num :: "u32 \<Rightarrow> u32 \<Rightarrow> u64" where
  "IO_num type nr = IOC IOC_NONE type nr 0"

definition IOR_num :: "u32 \<Rightarrow> u32 \<Rightarrow> u64 \<Rightarrow> u64" where
  "IOR_num type nr sz = IOC IOC_READ type nr sz"

definition IOW_num :: "u32 \<Rightarrow> u32 \<Rightarrow> u64 \<Rightarrow> u64" where
  "IOW_num type nr sz = IOC IOC_WRITE type nr sz"

definition IOWR_num :: "u32 \<Rightarrow> u32 \<Rightarrow> u64 \<Rightarrow> u64" where
  "IOWR_num type nr sz = IOC (IOC_READ OR IOC_WRITE) type nr sz"

definition IOC_DIR :: "u64 \<Rightarrow> u64" where
  "IOC_DIR nr = drop_bit IOC_DIRSHIFT nr AND IOC_DIRMASK"

definition IOC_TYPE :: "u64 \<Rightarrow> u64" where
  "IOC_TYPE nr = drop_bit IOC_TYPESHIFT nr AND IOC_TYPEMASK"

definition IOC_NR :: "u64 \<Rightarrow> u64" where
  "IOC_NR nr = drop_bit IOC_NRSHIFT nr AND IOC_NRMASK"

definition IOC_SIZE :: "u64 \<Rightarrow> u64" where
  "IOC_SIZE nr = drop_bit IOC_SIZESHIFT nr AND IOC_SIZEMASK"

definition IOC_IN :: u32 where "IOC_IN = push_bit IOC_DIRSHIFT IOC_WRITE"
definition IOC_OUT :: u32 where "IOC_OUT = push_bit IOC_DIRSHIFT IOC_READ"
definition IOC_INOUT :: u32 where "IOC_INOUT = push_bit IOC_DIRSHIFT (IOC_WRITE OR IOC_READ)"
definition IOCSIZE_MASK :: u64 where "IOCSIZE_MASK = push_bit IOC_SIZESHIFT IOC_SIZEMASK"
definition IOCSIZE_SHIFT :: nat where "IOCSIZE_SHIFT = IOC_SIZESHIFT"

lemma ioc_masks:
  "IOC_NRMASK = mask 8" "IOC_TYPEMASK = mask 8" "IOC_SIZEMASK = mask 14" "IOC_DIRMASK = mask 2"
  by (simp_all add: IOC_NRMASK_def IOC_TYPEMASK_def IOC_SIZEMASK_def IOC_DIRMASK_def
      mask_eq_exp_minus_1)

lemma ioc_fields:
  "IOC_DIR n = take_bit 2 (drop_bit 30 n)" "IOC_TYPE n = take_bit 8 (drop_bit 8 n)"
  "IOC_NR n = take_bit 8 n" "IOC_SIZE n = take_bit 14 (drop_bit 16 n)"
  by (simp_all add: IOC_DIR_def IOC_TYPE_def IOC_NR_def IOC_SIZE_def ioc_masks take_bit_eq_mask)

lemma bit_IOC:
  "bit (IOC dir type nr sz) n \<longleftrightarrow> n < 64 \<and>
     (n < 32 \<and> (30 \<le> n \<and> bit dir (n - 30) \<or> 8 \<le> n \<and> bit type (n - 8) \<or> bit nr n) \<or>
      16 \<le> n \<and> bit sz (n - 16))"
  by (auto simp: IOC_def bit_simps dest: bit_imp_le_length)

lemma IOC_decode:
  assumes "type < 256" and "nr < 256"
  shows "IOC_DIR (IOC dir type nr sz) = take_bit 2 (ucast dir OR drop_bit 14 sz)"
    and "IOC_TYPE (IOC dir type nr sz) = ucast type"
    and "IOC_NR (IOC dir type nr sz) = ucast nr"
    and "IOC_SIZE (IOC dir type nr sz) = take_bit 14 sz"
proof -
  have n: "bit type n \<Longrightarrow> n < 8" "bit nr n \<Longrightarrow> n < 8" for n
    using assms bit_below_literals(8) by blast+
  note d = ioc_fields bit_IOC bit_take_bit_iff bit_drop_bit_eq bit_ucast_iff bit_or_iff
  show "IOC_DIR (IOC dir type nr sz) = take_bit 2 (ucast dir OR drop_bit 14 sz)"
    by (rule bit_word_eqI) (auto simp: d dest: n)
  show "IOC_TYPE (IOC dir type nr sz) = ucast type"
    by (rule bit_word_eqI) (auto simp: d dest: n)
  show "IOC_NR (IOC dir type nr sz) = ucast nr"
    by (rule bit_word_eqI) (auto simp: d dest: n)
  show "IOC_SIZE (IOC dir type nr sz) = take_bit 14 sz"
    by (rule bit_word_eqI) (auto simp: d dest: n)
qed

text \<open>
  C26: an ioctl number is decoded to the fields it was built from, for every direction, type and
  number and every argument smaller than 16 kB.
\<close>

theorem ioctl_roundtrip:
  assumes "dir < 4" and "type < 256" and "nr < 256" and "sz < 0x4000"
  shows "IOC_DIR (IOC dir type nr sz) = ucast dir \<and> IOC_TYPE (IOC dir type nr sz) = ucast type \<and>
    IOC_NR (IOC dir type nr sz) = ucast nr \<and> IOC_SIZE (IOC dir type nr sz) = sz"
proof -
  have z: "bit sz n \<Longrightarrow> n < 14" for n
    using bit_below [of sz 14 n] assms(4) by simp
  have "take_bit 2 (ucast dir OR drop_bit 14 sz) = (ucast dir :: u64)"
    using assms(1) by (intro bit_word_eqI)
      (auto simp: bit_simps dest: z bit_below_literals(2))
  moreover have "take_bit 14 sz = sz"
    by (rule bit_word_eqI) (auto simp: bit_simps dest: z)
  ultimately show ?thesis
    using IOC_decode [OF assms(2,3), of dir sz] by simp
qed

theorem ioctl_roundtrip_witness:
  "IOC_DIR (IOC 3 0x61 5 56) = 3 \<and> IOC_TYPE (IOC 3 0x61 5 56) = 0x61 \<and> IOC_NR (IOC 3 0x61 5 56) = 5 \<and>
   IOC_SIZE (IOC 3 0x61 5 56) = 56"
  using ioctl_roundtrip [of 3 "0x61" 5 56] by simp

text \<open>
  The 16 kB limit of the header's comment is not checked by the encoding: the size of a
  larger argument is cut to fourteen bits and its next two bits are mixed into the direction.
\<close>

theorem ioctl_size_overflow:
  assumes "type < 256" and "nr < 256"
  shows "IOC_SIZE (IOC dir type nr sz) = take_bit 14 sz \<and>
    IOC_DIR (IOC dir type nr sz) = take_bit 2 (ucast dir OR drop_bit 14 sz)"
  using IOC_decode [OF assms] by simp

theorem ioctl_size_overflow_witness:
  "IOC_SIZE (IOC 1 0x61 5 0x8004) = 4 \<and> IOC_DIR (IOC 1 0x61 5 0x8004) = 3"
  using ioctl_size_overflow [of "0x61" 5 1 "0x8004"] by simp

section \<open>Structure sizes\<close>

text \<open>A member is its size and its alignment.\<close>

definition align_up :: "nat \<Rightarrow> nat \<Rightarrow> nat" where
  "align_up a n = (n + a - 1) div a * a"

fun struct_end :: "(nat \<times> nat) list \<Rightarrow> nat \<Rightarrow> nat" where
  "struct_end [] off = off"
| "struct_end ((s, a) # ms) off = struct_end ms (align_up a off + s)"

definition sizeof_struct :: "(nat \<times> nat) list \<Rightarrow> nat" where
  "sizeof_struct ms = align_up (fold max (map snd ms) 1) (struct_end ms 0)"

definition cec_caps_members :: "(nat \<times> nat) list" where
  "cec_caps_members = [(32, 1), (32, 1), (4, 4), (4, 4), (4, 4)]"

definition cec_log_addrs_members :: "(nat \<times> nat) list" where
  "cec_log_addrs_members = [(4, 1), (2, 2), (1, 1), (1, 1), (4, 4), (4, 4), (15, 1), (4, 1),
     (4, 1), (4, 1), (48, 1)]"

definition cec_msg_members :: "(nat \<times> nat) list" where
  "cec_msg_members = [(8, 8), (8, 8), (4, 4), (4, 4), (4, 4), (4, 4), (16, 1), (1, 1), (1, 1),
     (1, 1), (1, 1), (1, 1), (1, 1), (1, 1)]"

definition cec_drm_connector_info_members :: "(nat \<times> nat) list" where
  "cec_drm_connector_info_members = [(4, 4), (4, 4)]"

text \<open>The two unions are padded to sixteen 32-bit words.\<close>

definition cec_connector_info_members :: "(nat \<times> nat) list" where
  "cec_connector_info_members = [(4, 4), (64, 4)]"

definition cec_event_members :: "(nat \<times> nat) list" where
  "cec_event_members = [(8, 8), (4, 4), (4, 4), (64, 4)]"

definition sz_of :: "(nat \<times> nat) list \<Rightarrow> u64" where
  "sz_of ms = word_of_nat (sizeof_struct ms)"

section \<open>The CEC ioctl numbers\<close>

text \<open>\<open>'a'\<close> is \<open>0x61\<close>.\<close>

definition CEC_ADAP_G_CAPS :: u64 where
  "CEC_ADAP_G_CAPS = IOWR_num 0x61 0 (sz_of cec_caps_members)"
definition CEC_ADAP_G_PHYS_ADDR :: u64 where
  "CEC_ADAP_G_PHYS_ADDR = IOR_num 0x61 1 2"
definition CEC_ADAP_S_PHYS_ADDR :: u64 where
  "CEC_ADAP_S_PHYS_ADDR = IOW_num 0x61 2 2"
definition CEC_ADAP_G_LOG_ADDRS :: u64 where
  "CEC_ADAP_G_LOG_ADDRS = IOR_num 0x61 3 (sz_of cec_log_addrs_members)"
definition CEC_ADAP_S_LOG_ADDRS :: u64 where
  "CEC_ADAP_S_LOG_ADDRS = IOWR_num 0x61 4 (sz_of cec_log_addrs_members)"
definition CEC_TRANSMIT :: u64 where
  "CEC_TRANSMIT = IOWR_num 0x61 5 (sz_of cec_msg_members)"
definition CEC_RECEIVE :: u64 where
  "CEC_RECEIVE = IOWR_num 0x61 6 (sz_of cec_msg_members)"
definition CEC_DQEVENT :: u64 where
  "CEC_DQEVENT = IOWR_num 0x61 7 (sz_of cec_event_members)"
definition CEC_G_MODE :: u64 where
  "CEC_G_MODE = IOR_num 0x61 8 4"
definition CEC_S_MODE :: u64 where
  "CEC_S_MODE = IOW_num 0x61 9 4"
definition CEC_ADAP_G_CONNECTOR_INFO :: u64 where
  "CEC_ADAP_G_CONNECTOR_INFO = IOR_num 0x61 10 (sz_of cec_connector_info_members)"

definition cec_ioctls :: "u64 list" where
  "cec_ioctls = [CEC_ADAP_G_CAPS, CEC_ADAP_G_PHYS_ADDR, CEC_ADAP_S_PHYS_ADDR,
     CEC_ADAP_G_LOG_ADDRS, CEC_ADAP_S_LOG_ADDRS, CEC_TRANSMIT, CEC_RECEIVE, CEC_DQEVENT,
     CEC_G_MODE, CEC_S_MODE, CEC_ADAP_G_CONNECTOR_INFO]"

text \<open>
  The eleven CEC ioctls have type \<open>'a'\<close>, the numbers 0 to 10 in order, so no two of them
  collide, and carry the sizes of their argument structures; each fits the 32 bits of an
  \<open>unsigned int\<close>.
\<close>

theorem cec_ioctls_decode:
  "map IOC_NR cec_ioctls = [0, 1, 2, 3, 4, 5, 6, 7, 8, 9, 10] \<and>
   map IOC_SIZE cec_ioctls = [76, 2, 2, 92, 92, 56, 56, 80, 4, 4, 68] \<and>
   map IOC_DIR cec_ioctls = [3, 2, 1, 2, 3, 3, 3, 3, 2, 1, 2] \<and>
   list_all (\<lambda>n. IOC_TYPE n = 0x61 \<and> n < 0x100000000) cec_ioctls"
  by code_simp

end
