(* ===== verification/Netlink.thy ===== *)
theory Netlink
  imports CPrelude
begin

text \<open>
  The message and attribute macros of \<open>linux/netlink.h\<close> and \<open>linux/rtnetlink.h\<close>, and the loop
  they are made for. A buffer is a byte list; a pointer into it is an offset. The remaining
  length is an \<open>int\<close> as in the callers of the macros: a 32-bit word that \<open>sint\<close> reads as signed,
  where \<open>OK\<close> compares it signed and \<open>NEXT\<close> subtracts from it with wrap-around. \<open>OK\<close> and
  \<open>NEXT\<close> read the buffer, so their results are options.

  The locale \<open>tlv_stream\<close> is what a loop over such a stream relies on; the netlink and the
  rtnetlink macros are its instances. \<open>RTNH_OK\<close> is not one: it reads before it checks.
\<close>

section \<open>Alignment and loads\<close>

lemma unat_u32_less: "unat (x :: u32) < 4294967296"
proof -
  have "unat x < 2 ^ LENGTH(32)"
    by (rule unsigned_less)
  then show ?thesis by simp
qed

lemma unat_u16_less: "unat (x :: u16) < 65536"
proof -
  have "unat x < 2 ^ LENGTH(16)"
    by (rule unsigned_less)
  then show ?thesis by simp
qed

text \<open>The next multiple of four.\<close>

definition align4 :: "nat \<Rightarrow> nat" where
  "align4 n = (n + 3) div 4 * 4"

lemma align4_bounds: "n \<le> align4 n" "align4 n \<le> n + 3" "align4 n mod 4 = 0"
  by (simp_all add: align4_def)

definition get32 :: "u8 list \<Rightarrow> nat \<Rightarrow> u32 option" where
  "get32 xs i = do { l \<leftarrow> get16 xs i; h \<leftarrow> get16 xs (i + 2);
     Some (push_bit 16 (ucast h) OR ucast l) }"

definition bytes16 :: "u16 \<Rightarrow> u8 list" where
  "bytes16 x = [lo8 x, hi8 x]"

definition bytes32 :: "u32 \<Rightarrow> u8 list" where
  "bytes32 x = bytes16 (ucast x) @ bytes16 (ucast (drop_bit 16 x))"

lemma bytes_length [simp]: "length (bytes16 x) = 2" "length (bytes32 y) = 4"
  by (simp_all add: bytes16_def bytes32_def)

lemma get16_bytes16: "get16 (pre @ bytes16 x @ post) (length pre) = Some x"
  by (simp add: get16_def bytes16_def nth_append)

lemma get32_bytes32: "get32 (pre @ bytes32 x @ post) (length pre) = Some x"
proof -
  have h: "get16 (pre @ bytes16 l @ bytes16 h @ post) (length pre + 2) = Some h" for l h :: u16
    using get16_bytes16 [of "pre @ bytes16 l" h post] by simp
  have "push_bit 16 (ucast (ucast (drop_bit 16 x) :: u16)) OR ucast (ucast x :: u16) = x"
    by (rule bit_word_eqI) (auto simp: bit_simps)
  then show ?thesis
    using get16_bytes16 [of pre "ucast x" "bytes16 (ucast (drop_bit 16 x)) @ post"]
      h [of "ucast x" "ucast (drop_bit 16 x)"]
    by (simp add: get32_def bytes32_def)
qed

lemma get16_total: "i + 2 \<le> length xs \<Longrightarrow> \<exists>v. get16 xs i = Some v"
  by (simp add: get16_def)

lemma get32_total: "i + 4 \<le> length xs \<Longrightarrow> \<exists>v. get32 xs i = Some v"
  by (simp add: get32_def get16_def)

section \<open>Netlink messages\<close>

record nlmsghdr =
  nlmsg_len :: u32
  nlmsg_type :: u16
  nlmsg_flags :: u16
  nlmsg_seq :: u32
  nlmsg_pid :: u32

definition load_nlmsghdr :: "u8 list \<Rightarrow> nat \<Rightarrow> nlmsghdr option" where
  "load_nlmsghdr mem p = do {
     l \<leftarrow> get32 mem p; t \<leftarrow> get16 mem (p + 4); f \<leftarrow> get16 mem (p + 6);
     s \<leftarrow> get32 mem (p + 8); i \<leftarrow> get32 mem (p + 12);
     Some \<lparr>nlmsg_len = l, nlmsg_type = t, nlmsg_flags = f, nlmsg_seq = s, nlmsg_pid = i\<rparr> }"

definition NLMSG_ALIGN :: "u32 \<Rightarrow> u32" where
  "NLMSG_ALIGN len = (len + 4 - 1) AND NOT (4 - 1)"

definition NLMSG_HDRLEN :: u32 where
  "NLMSG_HDRLEN = NLMSG_ALIGN 16"

definition NLMSG_LENGTH :: "u32 \<Rightarrow> u32" where
  "NLMSG_LENGTH len = len + NLMSG_HDRLEN"

definition NLMSG_SPACE :: "u32 \<Rightarrow> u32" where
  "NLMSG_SPACE len = NLMSG_ALIGN (NLMSG_LENGTH len)"

definition NLMSG_DATA :: "nat \<Rightarrow> nat" where
  "NLMSG_DATA nlh = nlh + unat NLMSG_HDRLEN"

definition NLMSG_NEXT :: "u8 list \<Rightarrow> nat \<Rightarrow> cint \<Rightarrow> (nat \<times> cint) option" where
  "NLMSG_NEXT mem nlh len = do {
     l \<leftarrow> get32 mem nlh;
     Some (nlh + unat (NLMSG_ALIGN l), len - NLMSG_ALIGN l) }"

text \<open>The last comparison is between \<open>__u32\<close> and \<open>int\<close>, so it is unsigned.\<close>

definition NLMSG_OK :: "u8 list \<Rightarrow> nat \<Rightarrow> cint \<Rightarrow> bool option" where
  "NLMSG_OK mem nlh len =
     (if sint len \<ge> 16 then do { l \<leftarrow> get32 mem nlh; Some (l \<ge> 16 \<and> l \<le> len) } else Some False)"

definition NLMSG_PAYLOAD :: "u8 list \<Rightarrow> nat \<Rightarrow> u32 \<Rightarrow> u32 option" where
  "NLMSG_PAYLOAD mem nlh len = do { l \<leftarrow> get32 mem nlh; Some (l - NLMSG_SPACE len) }"

definition NLA_ALIGN :: "u32 \<Rightarrow> u32" where
  "NLA_ALIGN len = (len + 4 - 1) AND NOT (4 - 1)"

definition NLA_HDRLEN :: u32 where
  "NLA_HDRLEN = NLA_ALIGN 4"

definition NLA_F_NESTED :: cint where "NLA_F_NESTED = push_bit 15 1"
definition NLA_F_NET_BYTEORDER :: cint where "NLA_F_NET_BYTEORDER = push_bit 14 1"
definition NLA_TYPE_MASK :: cint where
  "NLA_TYPE_MASK = NOT (NLA_F_NESTED OR NLA_F_NET_BYTEORDER)"

section \<open>Routing attributes\<close>

definition RTA_ALIGN :: "u32 \<Rightarrow> u32" where
  "RTA_ALIGN len = (len + 4 - 1) AND NOT (4 - 1)"

definition RTA_OK :: "u8 list \<Rightarrow> nat \<Rightarrow> cint \<Rightarrow> bool option" where
  "RTA_OK mem rta len =
     (if sint len \<ge> 4 then do { l \<leftarrow> get16 mem rta; Some (l \<ge> 4 \<and> int (unat l) \<le> sint len) }
      else Some False)"

definition RTA_NEXT :: "u8 list \<Rightarrow> nat \<Rightarrow> cint \<Rightarrow> (nat \<times> cint) option" where
  "RTA_NEXT mem rta attrlen = do {
     l \<leftarrow> get16 mem rta;
     Some (rta + unat (RTA_ALIGN (ucast l)), attrlen - RTA_ALIGN (ucast l)) }"

definition RTA_LENGTH :: "u64 \<Rightarrow> u64" where
  "RTA_LENGTH len = ucast (RTA_ALIGN 4) + len"

definition RTA_SPACE :: "u64 \<Rightarrow> u64" where
  "RTA_SPACE len = (RTA_LENGTH len + 4 - 1) AND ucast (NOT (4 - 1) :: u32)"

definition RTA_DATA :: "nat \<Rightarrow> nat" where
  "RTA_DATA rta = rta + unat (RTA_LENGTH 0)"

definition RTA_PAYLOAD :: "u8 list \<Rightarrow> nat \<Rightarrow> u64 option" where
  "RTA_PAYLOAD mem rta = do { l \<leftarrow> get16 mem rta; Some (ucast l - RTA_LENGTH 0) }"

section \<open>Next hops\<close>

definition RTNH_ALIGN :: "u32 \<Rightarrow> u32" where
  "RTNH_ALIGN len = (len + 4 - 1) AND NOT (4 - 1)"

definition RTNH_OK :: "u8 list \<Rightarrow> nat \<Rightarrow> cint \<Rightarrow> bool option" where
  "RTNH_OK mem rtnh len = do { l \<leftarrow> get16 mem rtnh; Some (l \<ge> 8 \<and> int (unat l) \<le> sint len) }"

definition RTNH_NEXT :: "u8 list \<Rightarrow> nat \<Rightarrow> nat option" where
  "RTNH_NEXT mem rtnh = do { l \<leftarrow> get16 mem rtnh; Some (rtnh + unat (RTNH_ALIGN (ucast l))) }"

definition RTNH_LENGTH :: "u64 \<Rightarrow> u64" where
  "RTNH_LENGTH len = ucast (RTNH_ALIGN 8) + len"

definition RTNH_SPACE :: "u64 \<Rightarrow> u64" where
  "RTNH_SPACE len = (RTNH_LENGTH len + 4 - 1) AND NOT (4 - 1)"

definition RTNH_DATA :: "nat \<Rightarrow> nat" where
  "RTNH_DATA rtnh = rtnh + unat (RTNH_LENGTH 0)"

section \<open>The loop\<close>

text \<open>
  \<open>for (; OK(p, len); p = NEXT(p, len))\<close>, the loop the macros are written for. Its result is the
  list of offsets it visits; a read outside the buffer, or a loop that does not end, has no
  result.
\<close>

partial_function (option) walk ::
    "(u8 list \<Rightarrow> nat \<Rightarrow> cint \<Rightarrow> bool option) \<Rightarrow> (u8 list \<Rightarrow> nat \<Rightarrow> cint \<Rightarrow> (nat \<times> cint) option) \<Rightarrow>
     u8 list \<Rightarrow> nat \<Rightarrow> cint \<Rightarrow> nat list option" where
  "walk ok next mem p len = do {
     b \<leftarrow> ok mem p len;
     if b then do {
       q \<leftarrow> next mem p len;
       rest \<leftarrow> walk ok next mem (fst q) (snd q);
       Some (p # rest) }
     else Some [] }"

text \<open>Signed readings of the remaining length.\<close>

lemma sint_upper: "sint (w :: cint) < 2147483648"
  using sint_less [of w] by simp

lemma sint_nonneg: "0 \<le> sint (w :: cint) \<Longrightarrow> sint w = int (unat w) \<and> unat w < 2147483648"
proof -
  assume w: "0 \<le> sint w"
  have lt: "sint w < 2147483648"
    by (rule sint_upper)
  have "uint w = take_bit 32 (sint w)"
    using uint_sint [of w] by simp
  also have "\<dots> = sint w"
    using w lt by (intro take_bit_int_eq_self) auto
  finally have "sint w = int (unat w)"
    by simp
  with lt show ?thesis
    by linarith
qed

lemma sint_of_int: "- 2147483648 \<le> k \<Longrightarrow> k < 2147483648 \<Longrightarrow> sint (word_of_int k :: cint) = k"
  by (simp add: signed_of_int signed_take_bit_int_eq_self)

lemma sint_of_nat: "n < 2147483648 \<Longrightarrow> sint (word_of_nat n :: cint) = int n"
  using sint_of_int [of "int n"] by simp

lemma sint_minus:
  assumes "0 \<le> sint (w :: cint)" and "n \<le> 2147483648"
  shows "sint (w - word_of_nat n) = sint w - int n"
proof -
  have "w - word_of_nat n = word_of_int (sint w - int n)"
    by simp
  moreover have "sint (word_of_int (sint w - int n) :: cint) = sint w - int n"
    using assms sint_nonneg [OF assms(1)] by (intro sint_of_int) linarith+
  ultimately show ?thesis
    by metis
qed

section \<open>The contract of a stream\<close>

locale tlv_stream =
  fixes ok :: "u8 list \<Rightarrow> nat \<Rightarrow> cint \<Rightarrow> bool option"
    and nxt :: "u8 list \<Rightarrow> nat \<Rightarrow> cint \<Rightarrow> (nat \<times> cint) option"
    and len_at :: "u8 list \<Rightarrow> nat \<Rightarrow> nat option"
    and hdr :: nat
  assumes hdr_pos: "0 < hdr"
    and ok_short: "sint len < int hdr \<Longrightarrow> ok mem p len = Some False"
    and ok_read: "int hdr \<le> sint len \<Longrightarrow> p + hdr \<le> length mem \<Longrightarrow>
      \<exists>n. len_at mem p = Some n \<and> ok mem p len = Some (hdr \<le> n \<and> int n \<le> sint len)"
    and nxt_read: "len_at mem p = Some n \<Longrightarrow> int n \<le> sint len \<Longrightarrow>
      nxt mem p len = Some (p + align4 n, len - word_of_nat (align4 n))"
begin

text \<open>
  The loop returns and never reads outside the buffer; every element it visits lies inside the
  part of the buffer it was given, and elements do not overlap.
\<close>

lemma walk_safe:
  "(int hdr \<le> sint len \<longrightarrow> int p + sint len \<le> int (length mem)) \<Longrightarrow>
   \<exists>ps. walk ok nxt mem p len = Some ps \<and>
     (\<forall>q\<in>set ps. \<exists>n. len_at mem q = Some n \<and> hdr \<le> n \<and> p \<le> q \<and> int (q + n) \<le> int p + sint len) \<and>
     sorted_wrt (\<lambda>q r. \<exists>n. len_at mem q = Some n \<and> q + n \<le> r) ps"
proof (induction "nat (sint len)" arbitrary: p len rule: less_induct)
  case less
  show ?case
  proof (cases "int hdr \<le> sint len")
    case False
    then show ?thesis
      using ok_short [of len mem p] by (subst walk.simps) simp
  next
    case True
    with less.prems have fit: "int p + sint len \<le> int (length mem)"
      by simp
    then obtain n where n: "len_at mem p = Some n"
      "ok mem p len = Some (hdr \<le> n \<and> int n \<le> sint len)"
      using ok_read [OF True, of p mem] True by auto
    show ?thesis
    proof (cases "hdr \<le> n \<and> int n \<le> sint len")
      case False
      then show ?thesis
        using n by (subst walk.simps) auto
    next
      case ok: True
      let ?len = "len - word_of_nat (align4 n)"
      have nn: "0 \<le> sint len" "n < 2147483648"
        using True ok sint_upper [of len] by linarith+
      have "align4 n \<le> 2147483648"
        using nn(2) by (simp add: align4_def)
      then have slen: "sint ?len = sint len - int (align4 n)"
        using sint_minus [OF nn(1)] by blast
      have dec: "nat (sint ?len) < nat (sint len)"
        using slen ok hdr_pos align4_bounds(1) [of n] nn(1) by linarith
      have "int hdr \<le> sint ?len \<longrightarrow> int (p + align4 n) + sint ?len \<le> int (length mem)"
        using slen fit by simp
      from less.hyps [OF dec this] obtain ps where
        ps: "walk ok nxt mem (p + align4 n) ?len = Some ps"
        "\<forall>q\<in>set ps. \<exists>k. len_at mem q = Some k \<and> hdr \<le> k \<and> p + align4 n \<le> q \<and>
           int (q + k) \<le> int (p + align4 n) + sint ?len"
        "sorted_wrt (\<lambda>q r. \<exists>n. len_at mem q = Some n \<and> q + n \<le> r) ps"
        by blast
      have "walk ok nxt mem p len = Some (p # ps)"
        using n ok nxt_read [OF n(1), of len] ps(1) by (subst walk.simps) simp
      moreover have "\<exists>k. len_at mem q = Some k \<and> hdr \<le> k \<and> p \<le> q \<and> int (q + k) \<le> int p + sint len \<and>
          p + n \<le> q" if "q \<in> set ps" for q
        using ps(2) that slen align4_bounds(1) [of n] by fastforce
      ultimately show ?thesis
        using n ok ps(3) by (intro exI [of _ "p # ps"]) auto
    qed
  qed
qed

end

section \<open>Streams that were built\<close>

text \<open>Each element is followed by padding to the next multiple of four.\<close>

definition padded :: "u8 list \<Rightarrow> u8 list" where
  "padded xs = xs @ replicate (align4 (length xs) - length xs) 0"

lemma padded_length [simp]: "length (padded xs) = align4 (length xs)"
  using align4_bounds(1) [of "length xs"] by (simp add: padded_def)

definition stream :: "('m \<Rightarrow> u8 list) \<Rightarrow> 'm list \<Rightarrow> u8 list" where
  "stream enc ms = concat (map (\<lambda>m. padded (enc m)) ms)"

fun starts :: "('m \<Rightarrow> u8 list) \<Rightarrow> nat \<Rightarrow> 'm list \<Rightarrow> nat list" where
  "starts enc p [] = []"
| "starts enc p (m # ms) = p # starts enc (p + align4 (length (enc m))) ms"

locale tlv_writer = tlv_stream +
  fixes enc :: "'m \<Rightarrow> u8 list" and fits :: "'m \<Rightarrow> bool"
  assumes enc_len: "fits m \<Longrightarrow> len_at (pre @ enc m @ post) (length pre) = Some (length (enc m))"
    and enc_hdr: "hdr \<le> length (enc m)"
begin

text \<open>The loop over a stream that was built visits exactly its elements, in order.\<close>

lemma walk_stream:
  "list_all fits ms \<Longrightarrow> length (stream enc ms) < 2147483648 \<Longrightarrow>
   walk ok nxt (pre @ stream enc ms) (length pre) (word_of_nat (length (stream enc ms))) =
     Some (starts enc (length pre) ms)"
proof (induction ms arbitrary: pre)
  case Nil
  have "sint (0 :: cint) < int hdr"
    using hdr_pos by simp
  then show ?case
    using ok_short by (subst walk.simps) (simp add: stream_def)
next
  case (Cons m ms)
  let ?n = "length (enc m)" and ?mem = "pre @ stream enc (m # ms)"
  let ?len = "length (stream enc (m # ms))"
  have len: "?len = align4 ?n + length (stream enc ms)" "?n \<le> align4 ?n"
    using align4_bounds(1) by (simp_all add: stream_def)
  have s: "sint (word_of_nat ?len :: cint) = int ?len"
    using Cons.prems(2) by (rule sint_of_nat)
  have split: "?mem = pre @ enc m @ (replicate (align4 ?n - ?n) 0 @ stream enc ms)"
    by (simp add: stream_def padded_def)
  have at: "len_at ?mem (length pre) = Some ?n"
    unfolding split using Cons.prems(1) by (intro enc_len) simp
  have "ok ?mem (length pre) (word_of_nat ?len) = Some True"
    using ok_read [of "word_of_nat ?len" "length pre" ?mem] at s len enc_hdr [of m] by auto
  moreover have "nxt ?mem (length pre) (word_of_nat ?len) =
      Some (length pre + align4 ?n, word_of_nat ?len - word_of_nat (align4 ?n))"
    using nxt_read [OF at] s len by simp
  moreover have "word_of_nat ?len - word_of_nat (align4 ?n) =
      (word_of_nat (length (stream enc ms)) :: cint)"
    by (simp add: len)
  moreover have "walk ok nxt ?mem (length pre + align4 ?n) (word_of_nat (length (stream enc ms))) =
      Some (starts enc (length pre + align4 ?n) ms)"
    using Cons.IH [of "pre @ padded (enc m)"] Cons.prems len by (simp add: stream_def)
  ultimately show ?case
    by (subst walk.simps) simp
qed

text \<open>At each offset the element's bytes are found.\<close>

lemma stream_slices:
  "list_all2 (\<lambda>p m. take (length (enc m)) (drop p (pre @ stream enc ms)) = enc m)
     (starts enc (length pre) ms) ms"
proof (induction ms arbitrary: pre)
  case Nil
  then show ?case by simp
next
  case (Cons m ms)
  have eq: "pre @ stream enc (m # ms) = (pre @ padded (enc m)) @ stream enc ms"
    by (simp add: stream_def)
  have "take (length (enc m)) (drop (length pre) (pre @ stream enc (m # ms))) = enc m"
    by (simp add: stream_def padded_def)
  then show ?case
    using Cons.IH [of "pre @ padded (enc m)"] unfolding eq by simp
qed

end

section \<open>The netlink instance\<close>

lemma unat_align:
  "unat l + 3 < 4294967296 \<Longrightarrow> unat (NLMSG_ALIGN l) = align4 (unat l)"
  "unat l + 3 < 4294967296 \<Longrightarrow> unat (RTA_ALIGN l) = align4 (unat l)"
  by (simp_all add: NLMSG_ALIGN_def RTA_ALIGN_def unat_clear_low_literals align4_def unat_word_ariths)

definition nlmsg_at :: "u8 list \<Rightarrow> nat \<Rightarrow> nat option" where
  "nlmsg_at mem p = map_option unat (get32 mem p)"

definition rta_at :: "u8 list \<Rightarrow> nat \<Rightarrow> nat option" where
  "rta_at mem p = map_option unat (get16 mem p)"

text \<open>A message: type, flags, sequence, port and payload; an attribute: type and payload.\<close>

type_synonym nl_message = "u16 \<times> u16 \<times> u32 \<times> u32 \<times> u8 list"

definition nl_bytes :: "nl_message \<Rightarrow> u8 list" where
  "nl_bytes m = (case m of (t, f, s, p, d) \<Rightarrow>
     bytes32 (NLMSG_LENGTH (word_of_nat (length d))) @ bytes16 t @ bytes16 f @ bytes32 s @
     bytes32 p @ d)"

definition rta_bytes :: "u16 \<times> u8 list \<Rightarrow> u8 list" where
  "rta_bytes a = bytes16 (ucast (RTA_LENGTH (word_of_nat (length (snd a))))) @ bytes16 (fst a) @ snd a"

lemma nl_bytes_length: "length (nl_bytes (t, f, s, p, d)) = 16 + length d"
  by (simp add: nl_bytes_def)

lemma rta_bytes_length: "length (rta_bytes (t, d)) = 4 + length d"
  by (simp add: rta_bytes_def)

lemma hdr_consts: "NLMSG_HDRLEN = 16" "RTA_LENGTH n = 4 + n" "RTA_ALIGN 4 = 4"
  by (simp_all add: NLMSG_HDRLEN_def NLMSG_ALIGN_def RTA_LENGTH_def RTA_ALIGN_def)

interpretation netlink: tlv_stream NLMSG_OK NLMSG_NEXT nlmsg_at 16
proof
  show "NLMSG_OK mem p len = Some False" if "sint len < int 16" for len mem p
    using that by (simp add: NLMSG_OK_def)
  show "\<exists>n. nlmsg_at mem p = Some n \<and> NLMSG_OK mem p len = Some (16 \<le> n \<and> int n \<le> sint len)"
    if len: "int 16 \<le> sint len" and mem: "p + 16 \<le> length mem" for len mem p
  proof -
    obtain l where l: "get32 mem p = Some l"
      using get32_total [of p mem] mem by auto
    have "sint len = int (unat len)"
      using sint_nonneg [of len] len by simp
    then have "(l \<le> len) = (int (unat l) \<le> sint len)"
      by (simp only: word_le_nat_alt of_nat_le_iff)
    then show ?thesis
      using l len by (simp add: nlmsg_at_def NLMSG_OK_def word_le_nat_alt)
  qed
  show "NLMSG_NEXT mem p len = Some (p + align4 n, len - word_of_nat (align4 n))"
    if at: "nlmsg_at mem p = Some n" and len: "int n \<le> sint len" for mem p n len
  proof -
    obtain l where l: "get32 mem p = Some l" "n = unat l"
      using at by (auto simp: nlmsg_at_def)
    have "n < 2147483648"
      using len sint_upper [of len] by linarith
    then have u: "unat (NLMSG_ALIGN l) = align4 n"
      using l(2) by (simp add: unat_align)
    have "word_of_nat (align4 n) = NLMSG_ALIGN l"
      by (simp flip: u)
    then show ?thesis
      using l u by (simp add: NLMSG_NEXT_def)
  qed
qed simp

interpretation rtattr: tlv_stream RTA_OK RTA_NEXT rta_at 4
proof
  show "RTA_OK mem p len = Some False" if "sint len < int 4" for len mem p
    using that by (simp add: RTA_OK_def)
  show "\<exists>n. rta_at mem p = Some n \<and> RTA_OK mem p len = Some (4 \<le> n \<and> int n \<le> sint len)"
    if "int 4 \<le> sint len" "p + 4 \<le> length mem" for len mem p
    using get16_total [of p mem] that by (auto simp: rta_at_def RTA_OK_def word_le_nat_alt)
  show "RTA_NEXT mem p len = Some (p + align4 n, len - word_of_nat (align4 n))"
    if at: "rta_at mem p = Some n" and len: "int n \<le> sint len" for mem p n len
  proof -
    obtain l where l: "get16 mem p = Some l" "n = unat l"
      using at by (auto simp: rta_at_def)
    have "unat (ucast l :: u32) = n"
      using unat_u16_less [of l] l(2) by (simp add: unsigned_ucast_eq take_bit_nat_eq_self)
    then have u: "unat (RTA_ALIGN (ucast l)) = align4 n"
      using unat_u16_less [of l] l(2) by (simp add: unat_align)
    have "word_of_nat (align4 n) = RTA_ALIGN (ucast l)"
      by (simp flip: u)
    then show ?thesis
      using l u by (simp add: RTA_NEXT_def)
  qed
qed simp

definition nl_fits :: "nl_message \<Rightarrow> bool" where
  "nl_fits m = (case m of (t, f, s, p, d) \<Rightarrow> length d + 16 < 4294967296)"

definition rta_fits :: "u16 \<times> u8 list \<Rightarrow> bool" where
  "rta_fits a \<longleftrightarrow> length (snd a) + 4 < 65536"

interpretation netlink_out: tlv_writer NLMSG_OK NLMSG_NEXT nlmsg_at 16 nl_bytes nl_fits
proof
  show "nlmsg_at (pre @ nl_bytes m @ post) (length pre) = Some (length (nl_bytes m))"
    if "nl_fits m" for m pre post
  proof (cases m)
    case (fields t f s p d)
    then have "unat (NLMSG_LENGTH (word_of_nat (length d))) = 16 + length d"
      using that by (simp add: nl_fits_def NLMSG_LENGTH_def hdr_consts unat_word_ariths unat_of_nat)
    then show ?thesis
      using fields get32_bytes32 [of pre] by (simp add: nlmsg_at_def nl_bytes_def)
  qed
  show "16 \<le> length (nl_bytes m)" for m
    by (cases m) (simp add: nl_bytes_length)
qed

interpretation rtattr_out: tlv_writer RTA_OK RTA_NEXT rta_at 4 rta_bytes rta_fits
proof
  show "rta_at (pre @ rta_bytes m @ post) (length pre) = Some (length (rta_bytes m))"
    if "rta_fits m" for m pre post
  proof (cases m)
    case (Pair t d)
    then have "unat (ucast (RTA_LENGTH (word_of_nat (length d))) :: u16) = 4 + length d"
      using that by (simp add: rta_fits_def hdr_consts unsigned_ucast_eq unat_word_ariths unat_of_nat
          take_bit_nat_eq_self)
    then show ?thesis
      using Pair get16_bytes16 [of pre] by (simp add: rta_at_def rta_bytes_def)
  qed
  show "4 \<le> length (rta_bytes m)" for m
    by (cases m) (simp add: rta_bytes_length)
qed

section \<open>Properties\<close>

text \<open>
  C18: a loop over netlink messages in a received buffer returns for every buffer content and
  every length field, reads only inside the buffer, and visits only messages that lie inside
  it, each with at least a header and no two overlapping.
\<close>

theorem netlink_walk_safe:
  assumes "int p + sint len \<le> int (length mem)"
  shows "\<exists>ps. walk NLMSG_OK NLMSG_NEXT mem p len = Some ps \<and>
    (\<forall>q\<in>set ps. \<exists>n. get32 mem q = Some n \<and> 16 \<le> unat n \<and> p \<le> q \<and>
       int (q + unat n) \<le> int p + sint len) \<and>
    sorted_wrt (\<lambda>q r. \<exists>n. get32 mem q = Some n \<and> q + unat n \<le> r) ps"
  using netlink.walk_safe [of len p mem] assms by (fastforce simp: nlmsg_at_def elim: sorted_wrt_mono_rel [rotated])

theorem netlink_walk_safe_witness:
  "\<exists>ps. walk NLMSG_OK NLMSG_NEXT (bytes32 16 @ replicate 12 0 @ bytes32 0xfffffffe @ replicate 12 1)
     0 32 = Some ps \<and> (\<forall>q\<in>set ps. q + 16 \<le> 32)"
proof -
  let ?mem = "bytes32 16 @ replicate 12 0 @ bytes32 0xfffffffe @ replicate 12 1"
  have "sint (32 :: cint) = 32"
    by simp
  then obtain ps where ps: "walk NLMSG_OK NLMSG_NEXT ?mem 0 32 = Some ps"
    "\<forall>q\<in>set ps. \<exists>n. get32 ?mem q = Some n \<and> 16 \<le> unat n \<and> 0 \<le> q \<and>
       int (q + unat n) \<le> int 0 + sint (32 :: cint)"
    using netlink_walk_safe [of 0 32 ?mem] by auto
  have "q + 16 \<le> 32" if "q \<in> set ps" for q
  proof -
    obtain n :: u32 where "16 \<le> unat n" "int (q + unat n) \<le> int 0 + sint (32 :: cint)"
      using ps(2) \<open>q \<in> set ps\<close> by blast
    then show ?thesis
      using \<open>sint (32 :: cint) = 32\<close> by linarith
  qed
  with ps(1) show ?thesis by blast
qed

text \<open>
  C19: a buffer of netlink messages laid out by \<open>NLMSG_LENGTH\<close> and \<open>NLMSG_ALIGN\<close> is read back by
  the loop as exactly those messages: it visits their offsets in order, and at each offset the
  bytes of the message are found.
\<close>

theorem netlink_walk_roundtrip:
  assumes "length (stream nl_bytes ms) < 2147483648"
  shows "\<exists>ps. walk NLMSG_OK NLMSG_NEXT (stream nl_bytes ms) 0
      (word_of_nat (length (stream nl_bytes ms))) = Some ps \<and>
    list_all2 (\<lambda>p m. take (length (nl_bytes m)) (drop p (stream nl_bytes ms)) = nl_bytes m) ps ms"
proof -
  have "length (nl_bytes m) \<le> length (stream nl_bytes ms)" if "m \<in> set ms" for m
    using that align4_bounds(1) [of "length (nl_bytes m)"]
    by (induction ms) (auto simp: stream_def)
  then have "list_all nl_fits ms"
    using assms by (fastforce simp: list_all_iff nl_fits_def nl_bytes_length)
  then show ?thesis
    using netlink_out.walk_stream [of ms "[]"] netlink_out.stream_slices [of "[]" ms] assms by auto
qed

theorem netlink_walk_roundtrip_witness:
  "\<exists>ps. walk NLMSG_OK NLMSG_NEXT (stream nl_bytes [(1, 0, 7, 0, [1, 2, 3]), (3, 0, 7, 0, [])]) 0 36 =
     Some ps \<and> length ps = 2"
proof -
  let ?ms = "[(1, 0, 7, 0, [1, 2, 3]), (3, 0, 7, 0, [])] :: nl_message list"
  have "length (stream nl_bytes ?ms) = 36"
    by (simp add: stream_def nl_bytes_length align4_def)
  then show ?thesis
    using netlink_walk_roundtrip [of ?ms] by (auto dest: list_all2_lengthD)
qed

text \<open>
  The loop over routing attributes has the same safety: it returns, stays inside the buffer,
  and visits attributes that lie inside it and do not overlap.
\<close>

theorem rtattr_walk_safe:
  assumes "int p + sint len \<le> int (length mem)"
  shows "\<exists>ps. walk RTA_OK RTA_NEXT mem p len = Some ps \<and>
    (\<forall>q\<in>set ps. \<exists>n. get16 mem q = Some n \<and> 4 \<le> unat n \<and> p \<le> q \<and>
       int (q + unat n) \<le> int p + sint len) \<and>
    sorted_wrt (\<lambda>q r. \<exists>n. get16 mem q = Some n \<and> q + unat n \<le> r) ps"
  using rtattr.walk_safe [of len p mem] assms by (fastforce simp: rta_at_def elim: sorted_wrt_mono_rel [rotated])

theorem rtattr_walk_safe_witness:
  "\<exists>ps. walk RTA_OK RTA_NEXT [8, 0, 1, 0, 1, 2, 3, 4, 2, 0, 0, 0] 0 12 = Some ps"
  using rtattr_walk_safe [of 0 12 "[8, 0, 1, 0, 1, 2, 3, 4, 2, 0, 0, 0]"] by auto

text \<open>
  \<open>RTNH_OK\<close> reads the length of a next hop before it compares it with the remaining length, so
  at the end of a buffer it reads past it; one byte later than the last complete half-word it
  has no defined result, even with a remaining length of zero.
\<close>

theorem rtnh_ok_reads_past_end:
  "RTNH_OK mem (length mem) 0 = None"
  by (simp add: RTNH_OK_def get16_def)

end
