(* ===== verification/TipcTlv.thy ===== *)
theory TipcTlv
  imports ByteOrder Netlink
begin

text \<open>
  The type-length-value format of TIPC configuration messages, from
  \<open>linux-headers/include/linux/tipc_config.h\<close>, and the address packing of \<open>linux/tipc.h\<close>. Memory is
  a byte list and a pointer an offset into it; a descriptor is two 16-bit fields in network
  order, stored by a little-endian host. A \<open>data\<close> pointer that may be \<open>NULL\<close> is an option.
\<close>

section \<open>Sizes\<close>

definition TLV_ALIGN :: "u64 \<Rightarrow> u64" where
  "TLV_ALIGN datalen = (datalen + (4 - 1)) AND NOT (4 - 1)"

definition TLV_LENGTH :: "u64 \<Rightarrow> u64" where
  "TLV_LENGTH datalen = 4 + datalen"

definition TLV_SPACE :: "u64 \<Rightarrow> u64" where
  "TLV_SPACE datalen = TLV_ALIGN (TLV_LENGTH datalen)"

definition TLV_DATA :: "nat \<Rightarrow> nat" where
  "TLV_DATA tlv = tlv + unat (TLV_LENGTH 0)"

section \<open>Descriptors\<close>

definition TLV_GET_LEN :: "u8 list \<Rightarrow> nat \<Rightarrow> cint option" where
  "TLV_GET_LEN mem tlv = do { l \<leftarrow> get16 mem tlv; Some (ucast (be16_to_cpu False l)) }"

definition TLV_SET_LEN :: "u8 list \<Rightarrow> nat \<Rightarrow> u16 \<Rightarrow> u8 list option" where
  "TLV_SET_LEN mem tlv len = put16 tlv (cpu_to_be16 False len) mem"

definition TLV_CHECK_TYPE :: "u8 list \<Rightarrow> nat \<Rightarrow> u16 \<Rightarrow> bool option" where
  "TLV_CHECK_TYPE mem tlv type = do { t \<leftarrow> get16 mem (tlv + 2); Some (be16_to_cpu False t = type) }"

definition TLV_SET_TYPE :: "u8 list \<Rightarrow> nat \<Rightarrow> u16 \<Rightarrow> u8 list option" where
  "TLV_SET_TYPE mem tlv type = put16 (tlv + 2) (cpu_to_be16 False type) mem"

definition TLV_OK :: "u8 list \<Rightarrow> nat \<Rightarrow> u16 \<Rightarrow> bool option" where
  "TLV_OK mem tlv space =
     (if ucast space \<ge> TLV_SPACE 0
      then do { l \<leftarrow> get16 mem tlv; Some (be16_to_cpu False l \<le> space) }
      else Some False)"

definition TLV_CHECK :: "u8 list \<Rightarrow> nat \<Rightarrow> u16 \<Rightarrow> u16 \<Rightarrow> bool option" where
  "TLV_CHECK mem tlv space exp_type = do {
     ok \<leftarrow> TLV_OK mem tlv space;
     if ok then do { t \<leftarrow> get16 mem (tlv + 2); Some (be16_to_cpu False t = exp_type) }
     else Some False }"

definition TLV_SET :: "u8 list \<Rightarrow> nat \<Rightarrow> u16 \<Rightarrow> u8 list option \<Rightarrow> u16 \<Rightarrow> (u8 list \<times> cint) option" where
  "TLV_SET mem tlv type data len = do {
     tlv_len \<leftarrow> Some (ucast (TLV_LENGTH (ucast len)) :: cint);
     mem \<leftarrow> put16 (tlv + 2) (cpu_to_be16 False type) mem;
     mem \<leftarrow> put16 tlv (cpu_to_be16 False (ucast tlv_len)) mem;
     mem \<leftarrow> (case data of
          Some src \<Rightarrow>
            if len \<noteq> 0 then do {
              mem \<leftarrow> memcpy mem (TLV_DATA tlv) src 0 (unat len);
              let n = unat (TLV_SPACE (ucast len) - ucast tlv_len) in
              memcpy mem (TLV_DATA tlv + unat len) (replicate n 0) 0 n }
            else Some mem
        | None \<Rightarrow> Some mem);
     Some (mem, ucast (TLV_SPACE (ucast len))) }"

section \<open>Lists\<close>

record tlv_list_desc =
  tlv_ptr :: nat
  tlv_space :: u32

definition TLV_LIST_INIT :: "nat \<Rightarrow> u32 \<Rightarrow> tlv_list_desc" where
  "TLV_LIST_INIT data space = \<lparr>tlv_ptr = data, tlv_space = space\<rparr>"

definition TLV_LIST_EMPTY :: "tlv_list_desc \<Rightarrow> bool" where
  "TLV_LIST_EMPTY list \<longleftrightarrow> tlv_space list = 0"

text \<open>The 32-bit space is passed as a \<open>__u16\<close>.\<close>

definition TLV_LIST_CHECK :: "u8 list \<Rightarrow> tlv_list_desc \<Rightarrow> u16 \<Rightarrow> bool option" where
  "TLV_LIST_CHECK mem list exp_type = TLV_CHECK mem (tlv_ptr list) (ucast (tlv_space list)) exp_type"

definition TLV_LIST_DATA :: "tlv_list_desc \<Rightarrow> nat" where
  "TLV_LIST_DATA list = TLV_DATA (tlv_ptr list)"

definition TLV_LIST_STEP :: "u8 list \<Rightarrow> tlv_list_desc \<Rightarrow> tlv_list_desc option" where
  "TLV_LIST_STEP mem list = do {
     l \<leftarrow> get16 mem (tlv_ptr list);
     let n = ucast (TLV_ALIGN (ucast (be16_to_cpu False l))) :: u16 in
     Some \<lparr>tlv_ptr = tlv_ptr list + unat n, tlv_space = tlv_space list - ucast n\<rparr> }"

section \<open>Message header\<close>

definition TCM_ALIGN :: "u64 \<Rightarrow> u64" where
  "TCM_ALIGN datalen = (datalen + 3) AND NOT 3"

definition TCM_LENGTH :: "u64 \<Rightarrow> u64" where
  "TCM_LENGTH datalen = 16 + datalen"

definition TCM_SPACE :: "u64 \<Rightarrow> u64" where
  "TCM_SPACE datalen = TCM_ALIGN (TCM_LENGTH datalen)"

definition TCM_DATA :: "nat \<Rightarrow> nat" where
  "TCM_DATA tcm_hdr = tcm_hdr + unat (TCM_LENGTH 0)"

definition put32 :: "nat \<Rightarrow> u32 \<Rightarrow> u8 list \<Rightarrow> u8 list option" where
  "put32 i v xs = do { xs \<leftarrow> put16 i (ucast v) xs; put16 (i + 2) (ucast (drop_bit 16 v)) xs }"

definition TCM_SET ::
    "u8 list \<Rightarrow> nat \<Rightarrow> u16 \<Rightarrow> u16 \<Rightarrow> u8 list option \<Rightarrow> u16 \<Rightarrow> (u8 list \<times> cint) option" where
  "TCM_SET mem msg cmd flags data data_len = do {
     msg_len \<leftarrow> Some (ucast (TCM_LENGTH (ucast data_len)) :: cint);
     mem \<leftarrow> put32 msg (cpu_to_be32 False msg_len) mem;
     mem \<leftarrow> put16 (msg + 4) (cpu_to_be16 False cmd) mem;
     mem \<leftarrow> put16 (msg + 6) (cpu_to_be16 False flags) mem;
     mem \<leftarrow> (case data of
          Some src \<Rightarrow>
            if data_len \<noteq> 0 then do {
              mem \<leftarrow> memcpy mem (TCM_DATA msg) src 0 (unat data_len);
              let n = unat (TCM_SPACE (ucast data_len) - ucast msg_len) in
              memcpy mem (TCM_DATA msg + unat data_len) (replicate n 0) 0 n }
            else Some mem
        | None \<Rightarrow> Some mem);
     Some (mem, ucast (TCM_SPACE (ucast data_len))) }"

section \<open>Addresses\<close>

abbreviation (input) TIPC_NODE_BITS :: nat where "TIPC_NODE_BITS \<equiv> 12"
abbreviation (input) TIPC_CLUSTER_BITS :: nat where "TIPC_CLUSTER_BITS \<equiv> 12"
abbreviation (input) TIPC_ZONE_BITS :: nat where "TIPC_ZONE_BITS \<equiv> 8"
abbreviation (input) TIPC_NODE_OFFSET :: nat where "TIPC_NODE_OFFSET \<equiv> 0"
abbreviation (input) TIPC_CLUSTER_OFFSET :: nat where "TIPC_CLUSTER_OFFSET \<equiv> TIPC_NODE_BITS"
abbreviation (input) TIPC_ZONE_OFFSET :: nat where
  "TIPC_ZONE_OFFSET \<equiv> TIPC_CLUSTER_OFFSET + TIPC_CLUSTER_BITS"

definition TIPC_NODE_MASK :: u64 where
  "TIPC_NODE_MASK = push_bit TIPC_NODE_OFFSET (push_bit TIPC_NODE_BITS 1 - 1)"

definition TIPC_CLUSTER_MASK :: u64 where
  "TIPC_CLUSTER_MASK = push_bit TIPC_CLUSTER_OFFSET (push_bit TIPC_CLUSTER_BITS 1 - 1)"

definition tipc_addr :: "u32 \<Rightarrow> u32 \<Rightarrow> u32 \<Rightarrow> u32" where
  "tipc_addr zone cluster node =
     push_bit TIPC_ZONE_OFFSET zone OR push_bit TIPC_CLUSTER_OFFSET cluster OR node"

definition tipc_zone :: "u32 \<Rightarrow> u32" where
  "tipc_zone addr = drop_bit TIPC_ZONE_OFFSET addr"

definition tipc_cluster :: "u32 \<Rightarrow> u32" where
  "tipc_cluster addr = ucast (drop_bit TIPC_CLUSTER_OFFSET (ucast addr AND TIPC_CLUSTER_MASK))"

definition tipc_node :: "u32 \<Rightarrow> u32" where
  "tipc_node addr = ucast (ucast addr AND TIPC_NODE_MASK)"

section \<open>Lemmas\<close>

lemma unat_ucast_u16: "unat (ucast (x :: u16) :: u64) = unat x" "unat (ucast x :: u32) = unat x"
  using unat_u16_less [of x] by (simp_all add: unsigned_ucast_eq take_bit_nat_eq_self)

lemma tlv_sizes:
  "unat (TLV_ALIGN (ucast (n :: u16))) = align4 (unat n)"
  "unat (TLV_LENGTH (ucast n)) = 4 + unat n" "unat (TLV_SPACE (ucast n)) = align4 (4 + unat n)"
  "unat (TCM_LENGTH (ucast n)) = 16 + unat n" "unat (TCM_SPACE (ucast n)) = align4 (16 + unat n)"
  "TLV_LENGTH 0 = 4" "TLV_SPACE 0 = 4" "TCM_LENGTH 0 = 16"
  using unat_u16_less [of n]
  by (simp_all add: TLV_ALIGN_def TLV_LENGTH_def TLV_SPACE_def TCM_LENGTH_def TCM_SPACE_def
      TCM_ALIGN_def unat_clear_low_literals align4_def unat_word_ariths unat_ucast_u16 add.assoc)

text \<open>Half-words stored and the bytes around them.\<close>

lemma put16_Some: "i + 2 \<le> length xs \<Longrightarrow> put16 i v xs = Some (xs[i := lo8 v, i + 1 := hi8 v])"
  by (simp add: put16_def)

lemma get16_Some: "i + 2 \<le> length xs \<Longrightarrow> get16 xs i = Some (be16 (xs ! (i + 1)) (xs ! i))"
  by (simp add: get16_def)

lemma be16_order [simp]: "be16_to_cpu c (cpu_to_be16 c x) = x"
  by (rule little.be_inv)

lemma swab16_halves: "lo8 (cpu_to_be16 c x) = hi8 x" "hi8 (cpu_to_be16 c x) = lo8 x"
  by (rule bit_word_eqI; auto simp: cpu_to_be16_def swab_constant c_expr word_AND_mask_literals
      bit_constant_swab16 bit_simps)+

text \<open>The bytes of a TLV: descriptor in network order, value, padding.\<close>

definition tlv_image :: "u16 \<Rightarrow> u8 list \<Rightarrow> u8 list" where
  "tlv_image type d =
     (let l = word_of_nat (4 + length d) :: u16 in
      [hi8 l, lo8 l, hi8 type, lo8 type] @ d @ replicate (align4 (4 + length d) - (4 + length d)) 0)"

lemma tlv_image_length: "length (tlv_image type d) = align4 (4 + length d)"
  using align4_bounds(1) [of "4 + length d"] by (simp add: tlv_image_def Let_def)

text \<open>A size that went through an \<open>int\<close> and, for the field, a \<open>__u16\<close>.\<close>

lemma narrow:
  assumes "unat (x :: u64) < 4294967296"
  shows "ucast (ucast x :: cint) = (word_of_nat (unat x) :: u16)"
    and "x \<le> y \<Longrightarrow> unat (y - ucast (ucast x :: cint)) = unat y - unat x"
proof -
  have x: "ucast (ucast x :: cint) = x"
    using assms by (intro unsigned_word_eqI [where 'a = nat])
      (simp add: unsigned_ucast_eq unsigned_take_bit_eq take_bit_nat_eq_self)
  show "ucast (ucast x :: cint) = (word_of_nat (unat x) :: u16)"
    by (intro unsigned_word_eqI [where 'a = nat])
      (simp add: unsigned_ucast_eq unsigned_of_nat unsigned_take_bit_eq)
  show "unat (y - ucast (ucast x :: cint)) = unat y - unat x" if "x \<le> y"
    unfolding x using that by (rule unat_sub)
qed

lemma TLV_SET_image:
  assumes "length old = align4 (4 + unat len)" and "unat len \<le> length src"
  shows "TLV_SET (pre @ old @ post) (length pre) type (Some src) len =
    Some (pre @ tlv_image type (take (unat len) src) @ post, ucast (TLV_SPACE (ucast len)))"
proof -
  let ?n = "unat len"
  let ?pad = "align4 (4 + ?n) - (4 + ?n)"
  obtain a b c d body where old: "old = a # b # c # d # body"
    using assms(1) align4_bounds(1) [of "4 + ?n"]
    by (cases old; cases "tl old"; cases "tl (tl old)"; cases "tl (tl (tl old))") auto
  have body: "length body = ?n + ?pad"
    using assms(1) align4_bounds(1) [of "4 + ?n"] by (simp add: old)
  have len: "ucast (ucast (TLV_LENGTH (ucast len)) :: cint) = (word_of_nat (4 + ?n) :: u16)"
    "unat (TLV_SPACE (ucast len) - ucast (ucast (TLV_LENGTH (ucast len)) :: cint)) = ?pad"
    using narrow(1) [of "TLV_LENGTH (ucast len)"] narrow(2) [of "TLV_LENGTH (ucast len)" "TLV_SPACE (ucast len)"] unat_u16_less [of len]
      align4_bounds(1) [of "4 + ?n"] by (simp_all add: tlv_sizes word_le_nat_alt)
  show ?thesis
  proof (cases "len = 0")
    case True
    then show ?thesis
      using body len old by (simp add: TLV_SET_def put16_Some swab16_halves tlv_image_def Let_def
          list_update_append align4_def)
  next
    case False
    then show ?thesis
      using body len assms(2) by (simp add: TLV_SET_def put16_Some swab16_halves tlv_image_def Let_def
          old list_update_append TLV_DATA_def tlv_sizes min_def)
  qed
qed

text \<open>Reading a TLV that is in memory.\<close>

lemma be16_swapped: "be16 (lo8 x) (hi8 x) = cpu_to_be16 c x"
  using be16_hi_lo [of "cpu_to_be16 c x"] by (simp add: swab16_halves del: be16_hi_lo)

lemma get16_image:
  "get16 (pre @ tlv_image type d @ post) (length pre) =
     Some (cpu_to_be16 False (word_of_nat (4 + length d)))"
  "get16 (pre @ tlv_image type d @ post) (length pre + 2) = Some (cpu_to_be16 False type)"
  by (simp_all add: get16_def tlv_image_def Let_def nth_append be16_swapped [where c = False]
      del: of_nat_add)

lemma image_data:
  "take (length d) (drop (TLV_DATA (length pre)) (pre @ tlv_image type d @ post)) = d"
  by (simp add: TLV_DATA_def tlv_sizes tlv_image_def Let_def)

lemma image_len: "length d \<le> 65531 \<Longrightarrow> unat (word_of_nat (4 + length d) :: u16) = 4 + length d"
  by (simp add: unsigned_of_nat take_bit_nat_eq_self del: of_nat_add)

lemma image_ok:
  assumes "length d \<le> 65531" and "4 + length d \<le> unat space"
  shows "TLV_OK (pre @ tlv_image type d @ post) (length pre) space = Some True"
proof -
  have "TLV_SPACE 0 \<le> ucast space"
    using assms(2) by (simp add: tlv_sizes word_le_nat_alt unat_ucast_u16)
  moreover have "word_of_nat (4 + length d) \<le> space"
    using assms image_len [OF assms(1)] by (simp add: word_le_nat_alt del: of_nat_add)
  ultimately show ?thesis
    by (simp add: TLV_OK_def get16_image(1) del: of_nat_add)
qed

section \<open>The list loop\<close>

text \<open>
  The loop the list descriptor is made for: while the list is not empty, check the current TLV,
  take its type and value, and step. A check that fails ends it without a result, as does a
  read outside the memory or a list that never gets empty.
\<close>

partial_function (option) tlv_loop :: "u8 list \<Rightarrow> tlv_list_desc \<Rightarrow> (u16 \<times> u8 list) list option" where
  "tlv_loop mem list =
     (if TLV_LIST_EMPTY list then Some []
      else do {
        ok \<leftarrow> TLV_OK mem (tlv_ptr list) (ucast (tlv_space list));
        if ok then do {
          t \<leftarrow> get16 mem (tlv_ptr list + 2);
          n \<leftarrow> TLV_GET_LEN mem (tlv_ptr list);
          next \<leftarrow> TLV_LIST_STEP mem list;
          rest \<leftarrow> tlv_loop mem next;
          Some ((be16_to_cpu False t,
            take (unat n - 4) (drop (TLV_LIST_DATA list) mem)) # rest) }
        else None })"

lemma tlv_step:
  assumes "get16 mem p = Some v" and "unat (be16_to_cpu False v) = n" and "n \<le> 65532"
    and "align4 n \<le> unat s"
  shows "TLV_LIST_STEP mem \<lparr>tlv_ptr = p, tlv_space = s\<rparr> =
    Some \<lparr>tlv_ptr = p + align4 n, tlv_space = s - word_of_nat (align4 n)\<rparr>"
proof -
  have a: "align4 n \<le> 65532"
    using assms(3) by (simp add: align4_def)
  let ?n = "ucast (TLV_ALIGN (ucast (be16_to_cpu False v))) :: u16"
  have u: "unat ?n = align4 n"
    using a assms(2) by (simp add: unsigned_ucast_eq unsigned_take_bit_eq tlv_sizes take_bit_nat_eq_self)
  moreover have "ucast ?n = (word_of_nat (align4 n) :: u32)"
    using a u by (intro unsigned_word_eqI [where 'a = nat])
      (simp add: unat_ucast_u16 unsigned_of_nat take_bit_nat_eq_self)
  ultimately show ?thesis
    using assms(1) by (simp add: TLV_LIST_STEP_def Let_def)
qed

abbreviation tlv_images :: "(u16 \<times> u8 list) list \<Rightarrow> u8 list" where
  "tlv_images ts \<equiv> concat (map (\<lambda>(t, d). tlv_image t d) ts)"

lemma tlv_loop_images:
  "list_all (\<lambda>(t, d). length d \<le> 65528) ts \<Longrightarrow> length (tlv_images ts) \<le> 65535 \<Longrightarrow>
   tlv_loop (pre @ tlv_images ts @ post)
     \<lparr>tlv_ptr = length pre, tlv_space = word_of_nat (length (tlv_images ts))\<rparr> = Some ts"
proof (induction ts arbitrary: pre)
  case Nil
  then show ?case
    by (subst tlv_loop.simps) (simp add: TLV_LIST_EMPTY_def)
next
  case (Cons td ts)
  obtain t d where td: "td = (t, d)"
    by (cases td)
  let ?n = "4 + length d"
  let ?s = "align4 ?n + length (tlv_images ts)"
  define M where "M = pre @ tlv_image t d @ tlv_images ts @ post"
  have mem: "pre @ tlv_images (td # ts) @ post = M" "length (tlv_images (td # ts)) = ?s"
    by (simp_all add: M_def td tlv_image_length)
  have d: "length d \<le> 65528" and s: "?s \<le> 65535"
    using Cons.prems by (simp_all add: td tlv_image_length)
  have n: "?n \<le> align4 ?n"
    by (rule align4_bounds)
  have space: "unat (word_of_nat ?s :: u32) = ?s" "unat (ucast (word_of_nat ?s :: u32) :: u16) = ?s"
    using s by (simp_all add: unsigned_of_nat unsigned_ucast_eq unsigned_take_bit_eq
        take_bit_nat_eq_self del: of_nat_add)
  have len: "unat (be16_to_cpu False (cpu_to_be16 False (word_of_nat ?n))) = ?n"
    using d by (simp add: image_len del: of_nat_add)
  have step: "TLV_LIST_STEP M \<lparr>tlv_ptr = length pre, tlv_space = word_of_nat ?s\<rparr> =
      Some \<lparr>tlv_ptr = length pre + align4 ?n, tlv_space = word_of_nat (length (tlv_images ts))\<rparr>"
    using tlv_step [OF get16_image(1) len, of "word_of_nat ?s" pre t "tlv_images ts @ post"] d space(1)
    by (simp add: M_def)
  have rest: "tlv_loop M \<lparr>tlv_ptr = length pre + align4 ?n,
      tlv_space = word_of_nat (length (tlv_images ts))\<rparr> = Some ts"
    using Cons.IH [of "pre @ tlv_image t d"] Cons.prems s by (simp add: td tlv_image_length M_def)
  have ok: "TLV_OK M (length pre) (ucast (word_of_nat ?s :: u32)) = Some True"
    unfolding M_def using d n space(2) by (intro image_ok) auto
  have nonempty: "word_of_nat ?s \<noteq> (0 :: u32)"
    using space(1) n by (metis add_eq_0_iff_both_eq_0 le_zero_eq unsigned_0 zero_neq_numeral)
  have get_len: "TLV_GET_LEN M (length pre) = Some (ucast (word_of_nat ?n :: u16))"
    by (simp add: TLV_GET_LEN_def get16_image(1) M_def del: of_nat_add)
  have value_len: "unat (ucast (word_of_nat ?n :: u16) :: cint) - 4 = length d"
    using d image_len [of d] by (simp add: unat_ucast_u16 del: of_nat_add)
  have type: "get16 M (length pre + 2) = Some (cpu_to_be16 False t)"
    unfolding M_def by (rule get16_image)
  have data: "take (length d) (drop (TLV_DATA (length pre)) M) = d"
    unfolding M_def by (rule image_data)
  show ?case
    unfolding mem using step rest ok nonempty get_len value_len type data
    by (subst tlv_loop.simps) (simp add: td TLV_LIST_EMPTY_def TLV_LIST_DATA_def del: of_nat_add)
qed

text \<open>The sender's side: each TLV is set where the one before it, with its padding, ended.\<close>

fun tlv_build :: "u8 list \<Rightarrow> nat \<Rightarrow> (u16 \<times> u8 list) list \<Rightarrow> (u8 list \<times> nat) option" where
  "tlv_build mem tlv [] = Some (mem, tlv)"
| "tlv_build mem tlv ((t, d) # ts) = do {
     (mem, n) \<leftarrow> TLV_SET mem tlv t (Some d) (word_of_nat (length d));
     tlv_build mem (tlv + unat n) ts }"

lemma split_memory:
  assumes "p + n \<le> length mem"
  obtains pre old post where "mem = pre @ old @ post" and "length pre = p" and "length old = n"
    and "post = drop (p + n) mem" and "pre = take p mem"
proof
  show "mem = take p mem @ take n (drop p mem) @ drop (p + n) mem"
    by (metis append_take_drop_id drop_drop add.commute)
qed (use assms in auto)

lemma space_returned: "unat (ucast (TLV_SPACE (ucast (n :: u16))) :: cint) = align4 (4 + unat n)"
  using unat_u16_less [of n] align4_bounds(2) [of "4 + unat n"]
  by (simp add: unsigned_ucast_eq unsigned_take_bit_eq tlv_sizes take_bit_nat_eq_self)

lemma tlv_build_images:
  "list_all (\<lambda>(t, d). length d \<le> 65528) ts \<Longrightarrow> length old = length (tlv_images ts) \<Longrightarrow>
   tlv_build (pre @ old @ post) (length pre) ts =
     Some (pre @ tlv_images ts @ post, length pre + length (tlv_images ts))"
proof (induction ts arbitrary: pre old)
  case Nil
  then show ?case
    by simp
next
  case (Cons td ts)
  obtain t d where td: "td = (t, d)"
    by (cases td)
  let ?n = "align4 (4 + length d)"
  have len: "unat (word_of_nat (length d) :: u16) = length d"
    using Cons.prems(1) by (simp add: td unsigned_of_nat take_bit_nat_eq_self)
  obtain o1 o2 where old: "old = o1 @ o2" "length o1 = ?n" "length o2 = length (tlv_images ts)"
    using Cons.prems(2) by (intro that [of "take ?n old" "drop ?n old"]) (simp_all add: td tlv_image_length)
  have "TLV_SET (pre @ old @ post) (length pre) t (Some d) (word_of_nat (length d)) =
      Some ((pre @ tlv_image t d) @ o2 @ post, ucast (TLV_SPACE (ucast (word_of_nat (length d) :: u16))))"
    using TLV_SET_image [of o1 "word_of_nat (length d)" d pre "o2 @ post" t] len old by simp
  with Cons.IH [of o2 "pre @ tlv_image t d"] Cons.prems(1) old(3) show ?case
    by (simp add: td space_returned len tlv_image_length)
qed

section \<open>Message header in memory\<close>

definition bytes_be32 :: "u32 \<Rightarrow> u8 list" where
  "bytes_be32 v = map (\<lambda>k. ucast (drop_bit k v)) [24, 16, 8, 0]"

lemma put32_be:
  "put32 (length pre) (cpu_to_be32 False v) (pre @ a # b # c # d # post) = Some (pre @ bytes_be32 v @ post)"
proof -
  have "lo8 (ucast (cpu_to_be32 False v)) = ucast (drop_bit 24 v)"
    "hi8 (ucast (cpu_to_be32 False v)) = ucast (drop_bit 16 v)"
    "lo8 (ucast (drop_bit 16 (cpu_to_be32 False v))) = ucast (drop_bit 8 v)"
    "hi8 (ucast (drop_bit 16 (cpu_to_be32 False v))) = ucast v"
    by (rule bit_word_eqI; auto simp: cpu_to_be32_def swab_constant c_expr word_AND_mask_literals
        bit_constant_swab32 bit_simps)+
  then show ?thesis
    by (simp add: put32_def put16_Some list_update_append bytes_be32_def)
qed

lemma bytes_be32_length [simp]: "length (bytes_be32 v) = 4"
  by (simp add: bytes_be32_def)

lemma narrow32: "ucast (x :: u64) = (word_of_nat (unat x) :: u32)"
  by (intro unsigned_word_eqI [where 'a = nat])
    (simp add: unsigned_ucast_eq unsigned_of_nat unsigned_take_bit_eq)

lemma header_bytes:
  assumes "16 \<le> length xs"
  obtains a b c d e f g h res body
  where "xs = [a, b, c, d] @ [e, f, g, h] @ res @ body" and "length res = 8"
    and "length xs = 16 + length body"
proof -
  have "Suc (Suc (Suc (Suc (Suc (Suc (Suc (Suc 8))))))) \<le> length xs"
    using assms by simp
  then obtain a b c d e f g h ys where xs: "xs = [a, b, c, d] @ [e, f, g, h] @ ys" and ys: "8 \<le> length ys"
    unfolding Suc_le_length_iff by fastforce
  show thesis
    by (rule that [of a b c d e f g h "take 8 ys" "drop 8 ys"]) (use xs ys in auto)
qed

lemma TCM_SET_image:
  assumes "length old = align4 (16 + unat len)" and "unat len \<le> length src"
  shows "TCM_SET (pre @ old @ post) (length pre) cmd flags (Some src) len =
    Some (pre @ bytes_be32 (word_of_nat (16 + unat len)) @ [hi8 cmd, lo8 cmd, hi8 flags, lo8 flags] @
        take 8 (drop 8 old) @ take (unat len) src @
        replicate (align4 (16 + unat len) - (16 + unat len)) 0 @ post, ucast (TCM_SPACE (ucast len)))"
proof -
  let ?n = "unat len"
  let ?pad = "align4 (16 + ?n) - (16 + ?n)"
  have "16 \<le> length old"
    using assms(1) align4_bounds(1) [of "16 + ?n"] by simp
  then obtain a b c d e f g h res body where old: "old = [a, b, c, d] @ [e, f, g, h] @ res @ body"
    and lens: "length res = 8" "length old = 16 + length body"
    by (rule header_bytes)
  have body: "length body = ?n + ?pad"
    using assms(1) lens(2) align4_bounds(1) [of "16 + ?n"] by simp
  have len: "ucast (TCM_LENGTH (ucast len)) = (word_of_nat (16 + ?n) :: cint)"
    "unat (TCM_SPACE (ucast len) - ucast (ucast (TCM_LENGTH (ucast len)) :: cint)) = ?pad"
    using narrow(2) [of "TCM_LENGTH (ucast len)" "TCM_SPACE (ucast len)"] unat_u16_less [of len]
      align4_bounds(1) [of "16 + ?n"] narrow32 [of "TCM_LENGTH (ucast len)"]
    by (simp_all add: tlv_sizes word_le_nat_alt)
  note unfold = TCM_SET_def put32_be put16_Some swab16_halves Let_def old list_update_append
    TCM_DATA_def tlv_sizes
  show ?thesis
  proof (cases "len = 0")
    case True
    then show ?thesis
      using lens(1) body len by (simp add: unfold align4_def del: of_nat_add)
  next
    case False
    obtain pad where pad: "?pad = pad"
      by simp
    show ?thesis
      using False lens(1) body len assms(2) unfolding pad by (simp add: unfold del: of_nat_add)
  qed
qed

section \<open>Properties\<close>

text \<open>
  Setting a TLV in memory that has room for it writes its descriptor, value and padding and
  nothing else, and returns the aligned size; the descriptor then checks, within every space that holds the
  TLV, for its own type and for no other, and gives back the length and the value.
\<close>

theorem tlv_set_roundtrip:
  assumes "length src = unat len" and "unat len \<le> 65531"
    and "tlv + align4 (4 + unat len) \<le> length mem"
  shows "\<exists>mem' ret. TLV_SET mem tlv type (Some src) len = Some (mem', ret) \<and>
    unat ret = align4 (4 + unat len) \<and> length mem' = length mem \<and>
    take tlv mem' = take tlv mem \<and> drop (tlv + unat ret) mem' = drop (tlv + unat ret) mem \<and>
    (\<forall>space exp_type. 4 + unat len \<le> unat space \<longrightarrow>
       TLV_CHECK mem' tlv space exp_type = Some (exp_type = type)) \<and>
    TLV_GET_LEN mem' tlv = Some (word_of_nat (4 + unat len)) \<and>
    take (unat len) (drop (TLV_DATA tlv) mem') = src"
proof -
  obtain pre old post where mem: "mem = pre @ old @ post" and pre: "length pre = tlv"
    and old: "length old = align4 (4 + unat len)"
    using assms(3) by (rule split_memory)
  let ?mem = "pre @ tlv_image type src @ post"
  have "TLV_SET mem tlv type (Some src) len = Some (?mem, ucast (TLV_SPACE (ucast len)))"
    using TLV_SET_image [of old len src pre post type] old pre mem assms(1) by simp
  moreover have "TLV_CHECK ?mem tlv space exp_type = Some (exp_type = type)"
    if "4 + unat len \<le> unat space" for space exp_type
    using image_ok [of src space pre type post] get16_image(2) [of pre type src post] that assms(1,2) pre
    by (auto simp: TLV_CHECK_def)
  moreover have "TLV_GET_LEN ?mem tlv = Some (word_of_nat (4 + unat len))"
  proof -
    have "ucast (word_of_nat (4 + unat len) :: u16) = (word_of_nat (4 + unat len) :: cint)"
      using image_len [of src] assms(1,2) by (metis of_nat_unat)
    then show ?thesis
      using get16_image(1) [of pre type src post] pre assms(1)
      by (simp add: TLV_GET_LEN_def del: of_nat_add)
  qed
  moreover have "take (unat len) (drop (TLV_DATA tlv) ?mem) = src"
    using image_data [of src pre type post] pre assms(1) by simp
  ultimately show ?thesis
    using space_returned [of len] mem old pre assms(1)
    by (intro exI [of _ ?mem] exI [of _ "ucast (TLV_SPACE (ucast len)) :: cint"])
      (simp add: tlv_image_length)
qed

theorem tlv_set_roundtrip_witness:
  "\<exists>mem' ret. TLV_SET (replicate 12 0xee) 2 7 (Some [1, 2, 3]) 3 = Some (mem', ret) \<and>
    unat ret = align4 (4 + unat (3 :: u16)) \<and> TLV_CHECK mem' 2 10 7 = Some True \<and>
    TLV_CHECK mem' 2 10 8 = Some False \<and> take 3 (drop (TLV_DATA 2) mem') = [1, 2, 3]"
  using tlv_set_roundtrip [of "[1, 2, 3]" 3 2 "replicate 12 0xee" 7]
  by (fastforce simp: align4_def)

text \<open>
  C20: A list of TLVs built one after the other in a buffer is read back by the list-descriptor
  loop, which ends with the list empty after exactly those TLVs, in order.
\<close>

theorem tlv_list_roundtrip:
  assumes "list_all (\<lambda>(t, d). length d \<le> 65528) ts"
    and "(\<Sum>(t, d) \<leftarrow> ts. align4 (4 + length d)) = space" and "space \<le> 65535"
    and "tlv + space \<le> length mem"
  shows "\<exists>mem'. tlv_build mem tlv ts = Some (mem', tlv + space) \<and>
    take tlv mem' = take tlv mem \<and> drop (tlv + space) mem' = drop (tlv + space) mem \<and>
    tlv_loop mem' (TLV_LIST_INIT tlv (word_of_nat space)) = Some ts"
proof -
  have space: "space = length (tlv_images ts)"
    unfolding assms(2) [symmetric]
    by (induction ts) (auto simp: tlv_image_length)
  obtain pre old post where mem: "mem = pre @ old @ post" and pre: "length pre = tlv"
    and old: "length old = space"
    using assms(4) by (rule split_memory)
  show ?thesis
    using tlv_build_images [OF assms(1), of old pre post] tlv_loop_images [OF assms(1), of pre post]
      assms(3) pre old mem space by (simp add: TLV_LIST_INIT_def)
qed

theorem tlv_list_roundtrip_witness:
  "\<exists>mem'. tlv_build (replicate 20 0) 0 [(1, [5]), (2, []), (3, [6, 7])] = Some (mem', 20) \<and>
    tlv_loop mem' (TLV_LIST_INIT 0 20) = Some [(1, [5]), (2, []), (3, [6, 7])]"
  using tlv_list_roundtrip [of "[(1, [5]), (2, []), (3, [6, 7])]" 20 0 "replicate 20 0"]
  by (fastforce simp: align4_def simp del: tlv_build.simps)

text \<open>
  C22: The check accepts a TLV whose length field is zero, although it is shorter than its own
  descriptor, and the step over it stays where it is: the list loop on it never ends.
\<close>

theorem tlv_zero_length_stuck:
  assumes "get16 mem (tlv_ptr list) = Some 0" and "tlv_ptr list + 4 \<le> length mem"
    and "4 \<le> unat (ucast (tlv_space list) :: u16)"
  shows "(\<exists>exp_type. TLV_LIST_CHECK mem list exp_type = Some True) \<and>
    TLV_LIST_STEP mem list = Some list \<and> tlv_loop mem list = None"
proof -
  let ?sp = "ucast (tlv_space list) :: u16"
  have zero: "be16_to_cpu False 0 = 0"
    using be16_order [of False 0] by (simp add: cpu_to_be16_def swab_constant constant_swab16_def)
  have ok: "TLV_OK mem (tlv_ptr list) ?sp = Some True"
    using assms(1,3) zero by (simp add: TLV_OK_def tlv_sizes word_le_nat_alt unat_ucast_u16)
  moreover obtain t where t: "get16 mem (tlv_ptr list + 2) = Some t"
    using assms(2) by (simp add: get16_Some)
  ultimately have check: "TLV_LIST_CHECK mem list (be16_to_cpu False t) = Some True"
    by (simp add: TLV_LIST_CHECK_def TLV_CHECK_def)
  have step: "TLV_LIST_STEP mem list = Some list"
    using assms(1) zero by (simp add: TLV_LIST_STEP_def TLV_ALIGN_def)
  have "\<not> TLV_LIST_EMPTY list"
    using assms(3) by (auto simp: TLV_LIST_EMPTY_def)
  then have "tlv_loop mem list = Some r \<Longrightarrow> \<exists>x. Some r = map_option ((#) x) (tlv_loop mem list)" for r
    using ok t step assms(1) by (subst (asm) tlv_loop.simps) (auto simp: TLV_GET_LEN_def bind_eq_Some_conv)
  then have "tlv_loop mem list \<noteq> Some r" for r
    by (metis list.distinct(1) not_Cons_self2 option.map(2) option.inject)
  then show ?thesis
    using check step by (cases "tlv_loop mem list") auto
qed

theorem tlv_zero_length_stuck_witness:
  "TLV_LIST_STEP [0, 0, 0, 1] (TLV_LIST_INIT 0 4) = Some (TLV_LIST_INIT 0 4) \<and>
    tlv_loop [0, 0, 0, 1] (TLV_LIST_INIT 0 4) = None"
  using tlv_zero_length_stuck [of "[0, 0, 0, 1]" "TLV_LIST_INIT 0 4"]
  by (simp add: TLV_LIST_INIT_def get16_def c_expr)

text \<open>
  C21: A configuration message set in memory that has room for it gets its length, command, flags
  and data in network order, zero padding up to the aligned size it returns, and keeps its
  reserved bytes and everything around it.
\<close>

theorem tcm_set_layout:
  assumes "msg + align4 (16 + unat data_len) \<le> length mem" and "length src = unat data_len"
  shows "\<exists>mem' ret. TCM_SET mem msg cmd flags (Some src) data_len = Some (mem', ret) \<and>
    unat ret = align4 (16 + length src) \<and>
    take msg mem' = take msg mem \<and> drop (msg + unat ret) mem' = drop (msg + unat ret) mem \<and>
    take (unat ret) (drop msg mem') =
      bytes_be32 (word_of_nat (16 + length src)) @ [hi8 cmd, lo8 cmd, hi8 flags, lo8 flags] @
      take 8 (drop (msg + 8) mem) @ src @ replicate (unat ret - (16 + length src)) 0"
proof -
  obtain pre old post where mem: "mem = pre @ old @ post" and pre: "length pre = msg"
    and old: "length old = align4 (16 + unat data_len)"
    using assms(1) by (rule split_memory)
  have ret: "unat (ucast (TCM_SPACE (ucast data_len)) :: cint) = align4 (16 + unat data_len)"
    using unat_u16_less [of data_len] align4_bounds(2) [of "16 + unat data_len"]
    by (simp add: unsigned_ucast_eq unsigned_take_bit_eq tlv_sizes take_bit_nat_eq_self)
  have old16: "16 + unat data_len \<le> length old"
    using old align4_bounds(1) [of "16 + unat data_len"] by simp
  define new where "new = bytes_be32 (word_of_nat (16 + length src)) @ [hi8 cmd, lo8 cmd, hi8 flags, lo8 flags] @
      take 8 (drop (msg + 8) mem) @ src @ replicate (align4 (16 + length src) - (16 + length src)) 0"
  have res: "take 8 (drop (msg + 8) mem) = take 8 (drop 8 old)"
    using mem pre old16 by simp
  have len: "length new = align4 (16 + length src)"
    using align4_bounds(1) [of "16 + length src"] old16 unfolding new_def res by (simp del: of_nat_add)
  have "TCM_SET mem msg cmd flags (Some src) data_len =
      Some (pre @ new @ post, ucast (TCM_SPACE (ucast data_len)))"
    using TCM_SET_image [of old data_len src pre post cmd flags] old pre mem assms(2)
    unfolding new_def res by simp
  then show ?thesis
    using ret len mem pre old assms(2)
    by (intro exI [of _ "pre @ new @ post"] exI [of _ "ucast (TCM_SPACE (ucast data_len)) :: cint"])
      (simp, simp add: new_def)
qed

theorem tcm_set_layout_witness:
  "\<exists>mem' ret. TCM_SET (replicate 20 0xee) 0 1 2 (Some [9]) 1 = Some (mem', ret) \<and> unat ret = 20 \<and>
    take 20 mem' = bytes_be32 17 @ [hi8 1, lo8 1, hi8 2, lo8 2] @ replicate 8 0xee @ [9] @ replicate 3 0"
  using tcm_set_layout [of 0 1 "replicate 20 0xee" "[9]" 1 2] by (fastforce simp: align4_def)

text \<open>
  A TIPC address made of a zone, a cluster and a node within their 8, 12 and 12 bits is taken
  apart into them again, and every 32-bit address is made of its own parts.
\<close>

theorem tipc_addr_roundtrip:
  "(zone < 256 \<longrightarrow> cluster < 4096 \<longrightarrow> node < 4096 \<longrightarrow>
     tipc_zone (tipc_addr zone cluster node) = zone \<and>
     tipc_cluster (tipc_addr zone cluster node) = cluster \<and>
     tipc_node (tipc_addr zone cluster node) = node) \<and>
   tipc_addr (tipc_zone a) (tipc_cluster a) (tipc_node a) = a"
proof -
  have masks: "TIPC_NODE_MASK = mask 12" "TIPC_CLUSTER_MASK = push_bit 12 (mask 12)"
    by (simp_all add: TIPC_NODE_MASK_def TIPC_CLUSTER_MASK_def mask_eq_exp_minus_1)
  note bits = tipc_addr_def tipc_zone_def tipc_cluster_def tipc_node_def masks bit_simps
  have "tipc_zone (tipc_addr zone cluster node) = zone"
    if "zone < 256" "cluster < 4096" "node < 4096"
    by (rule bit_word_eqI) (use that in \<open>auto simp: bits dest: bit_below_literals\<close>)
  moreover have "tipc_cluster (tipc_addr zone cluster node) = cluster"
    if "cluster < 4096" "node < 4096"
    by (rule bit_word_eqI) (use that in \<open>auto simp: bits dest: bit_below_literals\<close>)
  moreover have "tipc_node (tipc_addr zone cluster node) = node" if "node < 4096"
    by (rule bit_word_eqI) (use that in \<open>auto simp: bits dest: bit_below_literals\<close>)
  moreover have "tipc_addr (tipc_zone a) (tipc_cluster a) (tipc_node a) = a"
    by (rule bit_word_eqI; rename_tac n; case_tac "24 \<le> n") (auto simp: bits)
  ultimately show ?thesis
    by blast
qed

theorem tipc_addr_roundtrip_witness:
  "tipc_zone (tipc_addr 1 2 3) = 1 \<and> tipc_cluster (tipc_addr 1 2 3) = 2 \<and> tipc_node (tipc_addr 1 2 3) = 3"
  using tipc_addr_roundtrip [of 1 2 3] by simp

end
