(* ===== verification/BitFields.thy ===== *)
theory BitFields
  imports CPrelude
begin

text \<open>
  The contract of a pair of fields packed into one object by masking and shifting, which several
  headers offer as a \<open>get\<close> and a \<open>set\<close> function per field: an update of one field is read back
  and is not seen by the other. The clients need it for every interleaving of updates, which is
  proved here once.
\<close>

section \<open>One field\<close>

locale bit_field =
  fixes get_f :: "'s \<Rightarrow> 'v" and set_f :: "'v \<Rightarrow> 's \<Rightarrow> 's"
    and ok_f :: "'v \<Rightarrow> bool" and norm_f :: "'v \<Rightarrow> 'v"
  assumes get_set: "ok_f v \<Longrightarrow> get_f (set_f v s) = norm_f v"
    and set_set: "ok_f v \<Longrightarrow> ok_f w \<Longrightarrow> set_f v (set_f w s) = set_f v s"
    and set_get: "ok_f (get_f s) \<and> set_f (get_f s) s = s"
begin

lemma last_set_wins: "list_all ok_f vs \<Longrightarrow> ok_f v \<Longrightarrow> set_f v (fold set_f vs s) = set_f v s"
  by (induction vs arbitrary: s) (simp_all add: set_set)

lemma norm_get: "norm_f (get_f s) = get_f s"
  using get_set [of "get_f s" s] set_get [of s] by simp

end

section \<open>Two independent fields\<close>

datatype ('v, 'w) field_update = Update1 'v | Update2 'w

fun apply_update :: "('v \<Rightarrow> 's \<Rightarrow> 's) \<Rightarrow> ('w \<Rightarrow> 's \<Rightarrow> 's) \<Rightarrow> ('v, 'w) field_update \<Rightarrow> 's \<Rightarrow> 's" where
  "apply_update s1 s2 (Update1 v) = s1 v"
| "apply_update s1 s2 (Update2 w) = s2 w"

text \<open>The value a sequence of updates leaves in a field that starts with \<open>x\<close>.\<close>

fun last1 :: "'v \<Rightarrow> ('v, 'w) field_update list \<Rightarrow> 'v" where
  "last1 x [] = x"
| "last1 x (Update1 v # us) = last1 v us"
| "last1 x (Update2 w # us) = last1 x us"

fun last2 :: "'w \<Rightarrow> ('v, 'w) field_update list \<Rightarrow> 'w" where
  "last2 y [] = y"
| "last2 y (Update1 v # us) = last2 y us"
| "last2 y (Update2 w # us) = last2 w us"

fun update_ok :: "('v \<Rightarrow> bool) \<Rightarrow> ('w \<Rightarrow> bool) \<Rightarrow> ('v, 'w) field_update \<Rightarrow> bool" where
  "update_ok ok1 ok2 (Update1 v) = ok1 v"
| "update_ok ok1 ok2 (Update2 w) = ok2 w"

locale bit_field_pair =
  one: bit_field get1 set1 ok1 norm1 + two: bit_field get2 set2 ok2 norm2
  for get1 :: "'s \<Rightarrow> 'v" and set1 :: "'v \<Rightarrow> 's \<Rightarrow> 's" and ok1 :: "'v \<Rightarrow> bool" and norm1 :: "'v \<Rightarrow> 'v"
    and get2 :: "'s \<Rightarrow> 'w" and set2 :: "'w \<Rightarrow> 's \<Rightarrow> 's" and ok2 :: "'w \<Rightarrow> bool" and norm2 :: "'w \<Rightarrow> 'w" +
  assumes commute: "ok1 v \<Longrightarrow> ok2 w \<Longrightarrow> set1 v (set2 w s) = set2 w (set1 v s)"
    and get1_set2: "ok2 w \<Longrightarrow> get1 (set2 w s) = get1 s"
    and get2_set1: "ok1 v \<Longrightarrow> get2 (set1 v s) = get2 s"
begin

lemma last_ok:
  "list_all (update_ok ok1 ok2) us \<Longrightarrow> ok1 x \<Longrightarrow> ok1 (last1 x us)"
  "list_all (update_ok ok1 ok2) us \<Longrightarrow> ok2 y \<Longrightarrow> ok2 (last2 y us)"
proof (induction us arbitrary: x y)
  case (Cons u us)
  { case 1 then show ?case using Cons.IH(1) by (cases u) auto }
  { case 2 then show ?case using Cons.IH(2) by (cases u) auto }
qed simp_all

lemma updates_from:
  "list_all (update_ok ok1 ok2) us \<Longrightarrow> ok1 x \<Longrightarrow> ok2 y \<Longrightarrow>
   fold (apply_update set1 set2) us (set1 x (set2 y s)) = set1 (last1 x us) (set2 (last2 y us) s)"
proof (induction us arbitrary: x y)
  case (Cons u us)
  then show ?case
    by (cases u) (simp_all add: one.set_set two.set_set commute [symmetric])
qed simp

text \<open>Any interleaving of updates comes to the last update of each field.\<close>

lemma updates_state:
  assumes "list_all (update_ok ok1 ok2) us"
  shows "fold (apply_update set1 set2) us s = set1 (last1 (get1 s) us) (set2 (last2 (get2 s) us) s)"
  using updates_from [OF assms, of "get1 s" "get2 s" s] one.set_get [of s] two.set_get [of s] by simp

lemma updates_read:
  assumes "list_all (update_ok ok1 ok2) us"
  shows "get1 (fold (apply_update set1 set2) us s) = norm1 (last1 (get1 s) us)"
    and "get2 (fold (apply_update set1 set2) us s) = norm2 (last2 (get2 s) us)"
proof -
  have ok: "ok1 (last1 (get1 s) us)" "ok2 (last2 (get2 s) us)"
    using last_ok [OF assms] one.set_get [of s] two.set_get [of s] by auto
  show "get1 (fold (apply_update set1 set2) us s) = norm1 (last1 (get1 s) us)"
    using ok by (simp add: updates_state [OF assms] one.get_set)
  show "get2 (fold (apply_update set1 set2) us s) = norm2 (last2 (get2 s) us)"
    using ok by (simp add: updates_state [OF assms] get2_set1 two.get_set)
qed

end

end
