(* ===== verification/Phonet.thy ===== *)
theory Phonet
  imports BitFields
begin

text \<open>
  Phonet object handles and socket addresses, from \<open>linux-headers/include/linux/phonet.h\<close>. A
  16-bit handle is a 6-bit device address above a 10-bit port; a socket address keeps the
  handle's two bytes as \<open>spn_dev\<close> and \<open>spn_obj\<close>, so that the two high bits of the port share a
  byte with the address.
\<close>

section \<open>Handles\<close>

definition pn_object :: "u8 \<Rightarrow> u16 \<Rightarrow> u16" where
  "pn_object addr port = ucast (push_bit 8 (ucast addr :: cint) OR (ucast port AND 0x3ff))"

definition pn_obj :: "u16 \<Rightarrow> u8" where
  "pn_obj handle = ucast ((ucast handle :: cint) AND 0xff)"

definition pn_dev :: "u16 \<Rightarrow> u8" where
  "pn_dev handle = ucast (drop_bit 8 (ucast handle :: cint))"

definition pn_port :: "u16 \<Rightarrow> u16" where
  "pn_port handle = ucast ((ucast handle :: cint) AND 0x3ff)"

definition pn_addr :: "u16 \<Rightarrow> u8" where
  "pn_addr handle = ucast (drop_bit 8 (ucast handle :: cint) AND 0xfc)"

section \<open>Socket addresses\<close>

record sockaddr_pn =
  spn_family :: u16
  spn_obj :: u8
  spn_dev :: u8
  spn_resource :: u8
  spn_zero :: "u8 list"

definition pn_sockaddr_set_addr :: "u8 \<Rightarrow> sockaddr_pn \<Rightarrow> sockaddr_pn" where
  "pn_sockaddr_set_addr addr spn =
     (let spn = spn\<lparr>spn_dev := spn_dev spn AND 0x03\<rparr> in
      spn\<lparr>spn_dev := spn_dev spn OR (addr AND 0xfc)\<rparr>)"

definition pn_sockaddr_set_port :: "u16 \<Rightarrow> sockaddr_pn \<Rightarrow> sockaddr_pn" where
  "pn_sockaddr_set_port port spn =
     (let spn = spn\<lparr>spn_dev := spn_dev spn AND 0xfc\<rparr>;
          spn = spn\<lparr>spn_dev := spn_dev spn OR ucast (drop_bit 8 (ucast port :: cint) AND 0x03)\<rparr> in
      spn\<lparr>spn_obj := ucast ((ucast port :: cint) AND 0xff)\<rparr>)"

definition pn_sockaddr_set_object :: "u16 \<Rightarrow> sockaddr_pn \<Rightarrow> sockaddr_pn" where
  "pn_sockaddr_set_object handle spn =
     (let spn = spn\<lparr>spn_dev := pn_dev handle\<rparr> in spn\<lparr>spn_obj := pn_obj handle\<rparr>)"

definition pn_sockaddr_set_resource :: "u8 \<Rightarrow> sockaddr_pn \<Rightarrow> sockaddr_pn" where
  "pn_sockaddr_set_resource resource spn = spn\<lparr>spn_resource := resource\<rparr>"

definition pn_sockaddr_get_addr :: "sockaddr_pn \<Rightarrow> u8" where
  "pn_sockaddr_get_addr spn = spn_dev spn AND 0xfc"

definition pn_sockaddr_get_port :: "sockaddr_pn \<Rightarrow> u16" where
  "pn_sockaddr_get_port spn =
     ucast (push_bit 8 ((ucast (spn_dev spn) :: cint) AND 0x03) OR ucast (spn_obj spn))"

definition pn_sockaddr_get_object :: "sockaddr_pn \<Rightarrow> u16" where
  "pn_sockaddr_get_object spn = pn_object (spn_dev spn) (ucast (spn_obj spn))"

definition pn_sockaddr_get_resource :: "sockaddr_pn \<Rightarrow> u8" where
  "pn_sockaddr_get_resource spn = spn_resource spn"

section \<open>Bits\<close>

lemma two_below: "2 \<le> n \<Longrightarrow> Suc (Suc (n - 2)) = n" "\<not> n < 2 \<Longrightarrow> Suc (Suc (n - 2)) = n"
  by simp_all

lemma AND_0xfc:
  "(w :: u8) AND 0xfc = push_bit 2 (take_bit 6 (drop_bit 2 w))"
  "(v :: cint) AND 0xfc = push_bit 2 (take_bit 6 (drop_bit 2 v))"
proof -
  have "(0xfc :: u8) = push_bit 2 (mask 6)" "(0xfc :: cint) = push_bit 2 (mask 6)"
    by (simp_all add: mask_eq_exp_minus_1)
  then show "(w :: u8) AND 0xfc = push_bit 2 (take_bit 6 (drop_bit 2 w))"
    "(v :: cint) AND 0xfc = push_bit 2 (take_bit 6 (drop_bit 2 v))"
    by (auto intro!: bit_word_eqI simp only: bit_simps) (auto simp: two_below)
qed

lemmas pn_defs = pn_object_def pn_obj_def pn_dev_def pn_port_def pn_addr_def
  pn_sockaddr_set_addr_def pn_sockaddr_set_port_def pn_sockaddr_set_object_def
  pn_sockaddr_get_addr_def pn_sockaddr_get_port_def pn_sockaddr_get_object_def Let_def

section \<open>The address and port fields\<close>

interpretation pn: bit_field_pair pn_sockaddr_get_addr pn_sockaddr_set_addr "\<lambda>_. True" "\<lambda>addr. addr AND 0xfc"
  pn_sockaddr_get_port pn_sockaddr_set_port "\<lambda>_. True" "\<lambda>port. port AND 0x3ff"
proof unfold_locales
  note bits = bit_word_eqI sockaddr_pn.equality
  fix addr a :: u8 and port q :: u16 and spn :: sockaddr_pn
  show "pn_sockaddr_get_addr (pn_sockaddr_set_addr addr spn) = addr AND 0xfc"
    unfolding pn_defs word_AND_mask_literals AND_0xfc
    by (rule bit_word_eqI) (auto simp: two_below bit_simps dest: bit_imp_le_length)
  show "pn_sockaddr_set_addr addr (pn_sockaddr_set_addr a spn) = pn_sockaddr_set_addr addr spn"
    unfolding pn_defs word_AND_mask_literals AND_0xfc
    by (auto intro!: bits) (auto simp: two_below bit_simps dest: bit_imp_le_length)
  show "True \<and> pn_sockaddr_set_addr (pn_sockaddr_get_addr spn) spn = spn"
    unfolding pn_defs word_AND_mask_literals AND_0xfc
    by (auto intro!: bits) (auto simp: two_below bit_simps dest: bit_imp_le_length)
  show "pn_sockaddr_get_port (pn_sockaddr_set_port port spn) = port AND 0x3ff"
    unfolding pn_defs word_AND_mask_literals AND_0xfc
    by (rule bit_word_eqI) (auto simp: two_below bit_simps dest: bit_imp_le_length)
  show "pn_sockaddr_set_port port (pn_sockaddr_set_port q spn) = pn_sockaddr_set_port port spn"
    unfolding pn_defs word_AND_mask_literals AND_0xfc
    by (auto intro!: bits) (auto simp: two_below bit_simps dest: bit_imp_le_length)
  show "True \<and> pn_sockaddr_set_port (pn_sockaddr_get_port spn) spn = spn"
    unfolding pn_defs word_AND_mask_literals AND_0xfc
    by (auto intro!: bits) (auto simp: two_below bit_simps dest: bit_imp_le_length)
  show "pn_sockaddr_set_addr addr (pn_sockaddr_set_port port spn) =
      pn_sockaddr_set_port port (pn_sockaddr_set_addr addr spn)"
    unfolding pn_defs word_AND_mask_literals AND_0xfc
    by (auto intro!: bits) (auto simp: two_below bit_simps dest: bit_imp_le_length)
  show "pn_sockaddr_get_addr (pn_sockaddr_set_port port spn) = pn_sockaddr_get_addr spn"
    unfolding pn_defs word_AND_mask_literals AND_0xfc
    by (rule bit_word_eqI) (auto simp: two_below bit_simps dest: bit_imp_le_length)
  show "pn_sockaddr_get_port (pn_sockaddr_set_addr addr spn) = pn_sockaddr_get_port spn"
    unfolding pn_defs word_AND_mask_literals AND_0xfc
    by (rule bit_word_eqI) (auto simp: two_below bit_simps dest: bit_imp_le_length)
qed

section \<open>Properties\<close>

text \<open>
  C40: However updates of the device address and of the port of a socket address interleave, the
  address read is the last one set, cut to its six bits, the port the last one set, cut to
  its ten bits, and a field that was not set is unchanged; family, resource and padding stay.
\<close>

theorem phonet_updates:
  "(let spn' = fold (apply_update pn_sockaddr_set_addr pn_sockaddr_set_port) us spn in
    pn_sockaddr_get_addr spn' = last1 (pn_sockaddr_get_addr spn) us AND 0xfc \<and>
    pn_sockaddr_get_port spn' = last2 (pn_sockaddr_get_port spn) us AND 0x3ff \<and>
    spn_family spn' = spn_family spn \<and> pn_sockaddr_get_resource spn' = pn_sockaddr_get_resource spn \<and>
    spn_zero spn' = spn_zero spn)"
proof -
  have ok: "list_all (update_ok (\<lambda>_. True) (\<lambda>_. True)) us"
    by (induction us) (auto, case_tac a, auto)
  show ?thesis
    using pn.updates_read [OF ok, of spn] pn.updates_state [OF ok, of spn]
    by (simp add: Let_def pn_sockaddr_get_resource_def pn_sockaddr_set_addr_def pn_sockaddr_set_port_def)
qed

text \<open>
  The handle of a socket address is the one set; setting address and port is setting the
  handle made of them; and a handle made of a device address whose two low bits are clear and a
  port within ten bits is taken apart into them, as every handle is made of its own parts.
\<close>

theorem phonet_handles:
  "pn_sockaddr_get_object (pn_sockaddr_set_object handle spn) = handle \<and>
   pn_object (pn_addr handle) (pn_port handle) = handle \<and>
   (addr AND 3 = 0 \<longrightarrow>
      pn_sockaddr_set_port port (pn_sockaddr_set_addr addr spn) = pn_sockaddr_set_object (pn_object addr port) spn \<and>
      pn_addr (pn_object addr port) = addr \<and> pn_port (pn_object addr port) = port AND 0x3ff)"
proof (intro conjI impI)
  show "pn_sockaddr_get_object (pn_sockaddr_set_object handle spn) = handle"
    unfolding pn_defs word_AND_mask_literals AND_0xfc
    by (rule bit_word_eqI) (auto simp: two_below bit_simps dest: bit_imp_le_length)
  show "pn_object (pn_addr handle) (pn_port handle) = handle"
    unfolding pn_defs word_AND_mask_literals AND_0xfc
    by (rule bit_word_eqI) (auto simp: two_below bit_simps dest: bit_imp_le_length)
next
  assume "addr AND 3 = 0"
  then have low: "bit addr n \<Longrightarrow> 2 \<le> n" for n
    by (metis bit_0_eq bot_apply bot_bool_def bit_take_bit_iff not_le word_AND_mask_literals(1))
  then have same: "bit addr n \<Longrightarrow> bit addr (Suc (Suc (n - 2)))" for n
    by (simp add: two_below)
  show "pn_sockaddr_set_port port (pn_sockaddr_set_addr addr spn) = pn_sockaddr_set_object (pn_object addr port) spn"
    unfolding pn_defs word_AND_mask_literals AND_0xfc
    by (auto intro!: sockaddr_pn.equality bit_word_eqI)
      (auto simp: two_below bit_simps dest: bit_imp_le_length low intro: same)
  show "pn_addr (pn_object addr port) = addr"
    unfolding pn_defs word_AND_mask_literals AND_0xfc
    by (rule bit_word_eqI) (auto simp: two_below bit_simps dest: bit_imp_le_length low intro: same)
  show "pn_port (pn_object addr port) = port AND 0x3ff"
    unfolding pn_defs word_AND_mask_literals AND_0xfc
    by (rule bit_word_eqI) (auto simp: two_below bit_simps dest: bit_imp_le_length low intro: same)
qed

theorem phonet_handles_witness:
  "pn_addr (pn_object 0x6c 0x123) = 0x6c \<and> pn_port (pn_object 0x6c 0x123) = 0x123 AND 0x3ff"
  using phonet_handles [of 0 undefined "0x6c" "0x123"] by simp

end
