(* ===== verification/Tcmu.thy ===== *)
theory Tcmu
  imports BitFields
begin

text \<open>
  Headers of the command ring of the user-space SCSI target, from
  \<open>linux-headers/include/linux/target_core_user.h\<close>: the length of an entry is a multiple of
  eight, so its three low bits hold the opcode. An \<open>enum tcmu_opcode\<close> is passed as the 32-bit
  value it has.
\<close>

abbreviation TCMU_OP_MASK :: u32 where "TCMU_OP_MASK \<equiv> 0x7"

abbreviation TCMU_OP_PAD :: u32 where "TCMU_OP_PAD \<equiv> 0"
abbreviation TCMU_OP_CMD :: u32 where "TCMU_OP_CMD \<equiv> 1"
abbreviation TCMU_OP_TMR :: u32 where "TCMU_OP_TMR \<equiv> 2"

record tcmu_cmd_entry_hdr =
  len_op :: u32
  cmd_id :: u16
  kflags :: u8
  uflags :: u8

definition tcmu_hdr_get_op :: "u32 \<Rightarrow> u32" where
  "tcmu_hdr_get_op l = l AND TCMU_OP_MASK"

definition tcmu_hdr_set_op :: "u32 \<Rightarrow> u32 \<Rightarrow> u32" where
  "tcmu_hdr_set_op op l = (let l = l AND NOT TCMU_OP_MASK in l OR (op AND TCMU_OP_MASK))"

definition tcmu_hdr_get_len :: "u32 \<Rightarrow> u32" where
  "tcmu_hdr_get_len l = l AND NOT TCMU_OP_MASK"

definition tcmu_hdr_set_len :: "u32 \<Rightarrow> u32 \<Rightarrow> u32" where
  "tcmu_hdr_set_len len l = (let l = l AND TCMU_OP_MASK in l OR len)"

lemma NOT_7: "(w :: u32) AND NOT 7 = w AND NOT (mask 3)"
  by (simp add: mask_literals)

lemmas tcmu_defs = tcmu_hdr_get_op_def tcmu_hdr_set_op_def tcmu_hdr_get_len_def tcmu_hdr_set_len_def
  Let_def NOT_7 word_AND_mask_literals

text \<open>The length is not masked when it is stored, so that it has to be a multiple of eight.\<close>

interpretation hdr: bit_field_pair tcmu_hdr_get_op tcmu_hdr_set_op "\<lambda>_. True" "\<lambda>op. op AND TCMU_OP_MASK"
  tcmu_hdr_get_len tcmu_hdr_set_len "\<lambda>len. len AND TCMU_OP_MASK = 0" "\<lambda>len. len"
proof unfold_locales
  have low: "len AND TCMU_OP_MASK = 0 \<Longrightarrow> bit len n \<Longrightarrow> 3 \<le> n" for len n
    by (metis bit_0_eq bot_apply bot_bool_def bit_take_bit_iff not_le word_AND_mask_literals(2))
  note bits = bit_simps
  fix op q len m l :: u32
  show "tcmu_hdr_get_op (tcmu_hdr_set_op op l) = op AND TCMU_OP_MASK"
    "tcmu_hdr_set_op op (tcmu_hdr_set_op q l) = tcmu_hdr_set_op op l"
    "True \<and> tcmu_hdr_set_op (tcmu_hdr_get_op l) l = l"
    "tcmu_hdr_get_len l AND TCMU_OP_MASK = 0 \<and> tcmu_hdr_set_len (tcmu_hdr_get_len l) l = l"
    "tcmu_hdr_get_len (tcmu_hdr_set_op op l) = tcmu_hdr_get_len l"
    unfolding tcmu_defs by (auto intro!: bit_word_eqI simp: bits)
  show "tcmu_hdr_get_len (tcmu_hdr_set_len len l) = len" if "len AND TCMU_OP_MASK = 0"
    unfolding tcmu_defs by (rule bit_word_eqI) (auto simp: bits dest: low [OF that])
  show "tcmu_hdr_set_len len (tcmu_hdr_set_len m l) = tcmu_hdr_set_len len l"
    if "m AND TCMU_OP_MASK = 0"
    unfolding tcmu_defs by (rule bit_word_eqI) (auto simp: bits dest: low [OF that])
  show "tcmu_hdr_set_op op (tcmu_hdr_set_len len l) = tcmu_hdr_set_len len (tcmu_hdr_set_op op l)"
    if "len AND TCMU_OP_MASK = 0"
    unfolding tcmu_defs by (rule bit_word_eqI) (auto simp: bits dest: low [OF that])
  show "tcmu_hdr_get_op (tcmu_hdr_set_len len l) = tcmu_hdr_get_op l"
    if "len AND TCMU_OP_MASK = 0"
    unfolding tcmu_defs by (rule bit_word_eqI) (auto simp: bits dest: low [OF that])
qed

text \<open>
  However updates of opcode and length of an entry header interleave, the header comes to
  hold the last opcode, cut to three bits, and the last length, provided the lengths are
  multiples of eight; a length that is not one changes the opcode.
\<close>

theorem tcmu_hdr_updates:
  assumes "list_all (update_ok (\<lambda>_. True) (\<lambda>len. len AND TCMU_OP_MASK = 0)) us"
  shows "tcmu_hdr_get_op (fold (apply_update tcmu_hdr_set_op tcmu_hdr_set_len) us l) =
      last1 (tcmu_hdr_get_op l) us AND TCMU_OP_MASK \<and>
    tcmu_hdr_get_len (fold (apply_update tcmu_hdr_set_op tcmu_hdr_set_len) us l) =
      last2 (tcmu_hdr_get_len l) us \<and>
    tcmu_hdr_get_op (tcmu_hdr_set_len len l) = (tcmu_hdr_get_op l OR (len AND TCMU_OP_MASK))"
proof -
  have "tcmu_hdr_get_op (tcmu_hdr_set_len len l) = (tcmu_hdr_get_op l OR (len AND TCMU_OP_MASK))"
    unfolding tcmu_defs by (rule bit_word_eqI) (auto simp: bit_simps)
  then show ?thesis
    using hdr.updates_read [OF assms, of l] by blast
qed

theorem tcmu_hdr_updates_witness:
  "tcmu_hdr_get_op (fold (apply_update tcmu_hdr_set_op tcmu_hdr_set_len)
      [Update2 64, Update1 TCMU_OP_CMD, Update2 128] 0) = TCMU_OP_CMD AND TCMU_OP_MASK \<and>
   tcmu_hdr_get_len (fold (apply_update tcmu_hdr_set_op tcmu_hdr_set_len)
      [Update2 64, Update1 TCMU_OP_CMD, Update2 128] 0) = 128"
  using tcmu_hdr_updates [of "[Update2 64, Update1 TCMU_OP_CMD, Update2 128]" 0] by simp

end
