(* ===== verification/Nilfs.thy ===== *)
theory Nilfs
  imports ByteOrder Ioctl
begin

text \<open>
  On-disk structures of NILFS2 and the inline functions on them, from
  \<open>linux-headers/include/linux/nilfs2_ondisk.h\<close>. The flag functions are generated by two macros,
  which are definitions here with the flag's bit number as an argument; \<open>1UL\<close> is 64 bits wide
  and the result is cut to the 32 bits of the field.
\<close>

section \<open>Structures\<close>

record nilfs_inode =
  i_blocks :: u64
  i_size :: u64
  i_ctime :: u64
  i_mtime :: u64
  i_ctime_nsec :: u32
  i_mtime_nsec :: u32
  i_uid :: u32
  i_gid :: u32
  i_mode :: u16
  i_links_count :: u16
  i_flags :: u32
  i_bmap :: "u64 list"
  i_xattr :: u64
  i_generation :: u32
  i_pad :: u32

record nilfs_snapshot_list =
  ssl_next :: u64
  ssl_prev :: u64

record nilfs_checkpoint =
  cp_flags :: u32
  cp_checkpoints_count :: u32
  cp_snapshot_list :: nilfs_snapshot_list
  cp_cno :: u64
  cp_create :: u64
  cp_nblk_inc :: u64
  cp_inodes_count :: u64
  cp_blocks_count :: u64
  cp_ifile_inode :: nilfs_inode

record nilfs_segment_usage =
  su_lastmod :: u64
  su_nblocks :: u32
  su_flags :: u32

section \<open>Checkpoint flags\<close>

abbreviation (input) NILFS_CHECKPOINT_SNAPSHOT :: nat where "NILFS_CHECKPOINT_SNAPSHOT \<equiv> 0"
abbreviation (input) NILFS_CHECKPOINT_INVALID :: nat where "NILFS_CHECKPOINT_INVALID \<equiv> 1"
abbreviation (input) NILFS_CHECKPOINT_MINOR :: nat where "NILFS_CHECKPOINT_MINOR \<equiv> 3"

definition checkpoint_fns_set :: "nat \<Rightarrow> nilfs_checkpoint \<Rightarrow> nilfs_checkpoint" where
  "checkpoint_fns_set flag cp =
     cp\<lparr>cp_flags := cpu_to_le32 (ucast ((ucast (le32_to_cpu (cp_flags cp)) :: u64) OR push_bit flag 1))\<rparr>"

definition checkpoint_fns_clear :: "nat \<Rightarrow> nilfs_checkpoint \<Rightarrow> nilfs_checkpoint" where
  "checkpoint_fns_clear flag cp =
     cp\<lparr>cp_flags := cpu_to_le32 (ucast ((ucast (le32_to_cpu (cp_flags cp)) :: u64) AND NOT (push_bit flag 1)))\<rparr>"

definition checkpoint_fns_test :: "nat \<Rightarrow> nilfs_checkpoint \<Rightarrow> bool" where
  "checkpoint_fns_test flag cp \<longleftrightarrow> (ucast (le32_to_cpu (cp_flags cp)) :: u64) AND push_bit flag 1 \<noteq> 0"

definition nilfs_checkpoint_set_snapshot :: "nilfs_checkpoint \<Rightarrow> nilfs_checkpoint" where
  "nilfs_checkpoint_set_snapshot = checkpoint_fns_set NILFS_CHECKPOINT_SNAPSHOT"

definition nilfs_checkpoint_clear_snapshot :: "nilfs_checkpoint \<Rightarrow> nilfs_checkpoint" where
  "nilfs_checkpoint_clear_snapshot = checkpoint_fns_clear NILFS_CHECKPOINT_SNAPSHOT"

definition nilfs_checkpoint_snapshot :: "nilfs_checkpoint \<Rightarrow> bool" where
  "nilfs_checkpoint_snapshot = checkpoint_fns_test NILFS_CHECKPOINT_SNAPSHOT"

definition nilfs_checkpoint_set_invalid :: "nilfs_checkpoint \<Rightarrow> nilfs_checkpoint" where
  "nilfs_checkpoint_set_invalid = checkpoint_fns_set NILFS_CHECKPOINT_INVALID"

definition nilfs_checkpoint_clear_invalid :: "nilfs_checkpoint \<Rightarrow> nilfs_checkpoint" where
  "nilfs_checkpoint_clear_invalid = checkpoint_fns_clear NILFS_CHECKPOINT_INVALID"

definition nilfs_checkpoint_invalid :: "nilfs_checkpoint \<Rightarrow> bool" where
  "nilfs_checkpoint_invalid = checkpoint_fns_test NILFS_CHECKPOINT_INVALID"

definition nilfs_checkpoint_set_minor :: "nilfs_checkpoint \<Rightarrow> nilfs_checkpoint" where
  "nilfs_checkpoint_set_minor = checkpoint_fns_set NILFS_CHECKPOINT_MINOR"

definition nilfs_checkpoint_clear_minor :: "nilfs_checkpoint \<Rightarrow> nilfs_checkpoint" where
  "nilfs_checkpoint_clear_minor = checkpoint_fns_clear NILFS_CHECKPOINT_MINOR"

definition nilfs_checkpoint_minor :: "nilfs_checkpoint \<Rightarrow> bool" where
  "nilfs_checkpoint_minor = checkpoint_fns_test NILFS_CHECKPOINT_MINOR"

section \<open>Segment usage flags\<close>

abbreviation (input) NILFS_SEGMENT_USAGE_ACTIVE :: nat where "NILFS_SEGMENT_USAGE_ACTIVE \<equiv> 0"
abbreviation (input) NILFS_SEGMENT_USAGE_DIRTY :: nat where "NILFS_SEGMENT_USAGE_DIRTY \<equiv> 1"
abbreviation (input) NILFS_SEGMENT_USAGE_ERROR :: nat where "NILFS_SEGMENT_USAGE_ERROR \<equiv> 2"

definition segment_usage_fns_set :: "nat \<Rightarrow> nilfs_segment_usage \<Rightarrow> nilfs_segment_usage" where
  "segment_usage_fns_set flag su =
     su\<lparr>su_flags := cpu_to_le32 (ucast ((ucast (le32_to_cpu (su_flags su)) :: u64) OR push_bit flag 1))\<rparr>"

definition segment_usage_fns_clear :: "nat \<Rightarrow> nilfs_segment_usage \<Rightarrow> nilfs_segment_usage" where
  "segment_usage_fns_clear flag su =
     su\<lparr>su_flags := cpu_to_le32 (ucast ((ucast (le32_to_cpu (su_flags su)) :: u64) AND NOT (push_bit flag 1)))\<rparr>"

definition segment_usage_fns_test :: "nat \<Rightarrow> nilfs_segment_usage \<Rightarrow> bool" where
  "segment_usage_fns_test flag su \<longleftrightarrow> (ucast (le32_to_cpu (su_flags su)) :: u64) AND push_bit flag 1 \<noteq> 0"

definition nilfs_segment_usage_set_active :: "nilfs_segment_usage \<Rightarrow> nilfs_segment_usage" where
  "nilfs_segment_usage_set_active = segment_usage_fns_set NILFS_SEGMENT_USAGE_ACTIVE"

definition nilfs_segment_usage_clear_active :: "nilfs_segment_usage \<Rightarrow> nilfs_segment_usage" where
  "nilfs_segment_usage_clear_active = segment_usage_fns_clear NILFS_SEGMENT_USAGE_ACTIVE"

definition nilfs_segment_usage_active :: "nilfs_segment_usage \<Rightarrow> bool" where
  "nilfs_segment_usage_active = segment_usage_fns_test NILFS_SEGMENT_USAGE_ACTIVE"

definition nilfs_segment_usage_set_dirty :: "nilfs_segment_usage \<Rightarrow> nilfs_segment_usage" where
  "nilfs_segment_usage_set_dirty = segment_usage_fns_set NILFS_SEGMENT_USAGE_DIRTY"

definition nilfs_segment_usage_clear_dirty :: "nilfs_segment_usage \<Rightarrow> nilfs_segment_usage" where
  "nilfs_segment_usage_clear_dirty = segment_usage_fns_clear NILFS_SEGMENT_USAGE_DIRTY"

definition nilfs_segment_usage_dirty :: "nilfs_segment_usage \<Rightarrow> bool" where
  "nilfs_segment_usage_dirty = segment_usage_fns_test NILFS_SEGMENT_USAGE_DIRTY"

definition nilfs_segment_usage_set_error :: "nilfs_segment_usage \<Rightarrow> nilfs_segment_usage" where
  "nilfs_segment_usage_set_error = segment_usage_fns_set NILFS_SEGMENT_USAGE_ERROR"

definition nilfs_segment_usage_clear_error :: "nilfs_segment_usage \<Rightarrow> nilfs_segment_usage" where
  "nilfs_segment_usage_clear_error = segment_usage_fns_clear NILFS_SEGMENT_USAGE_ERROR"

definition nilfs_segment_usage_error :: "nilfs_segment_usage \<Rightarrow> bool" where
  "nilfs_segment_usage_error = segment_usage_fns_test NILFS_SEGMENT_USAGE_ERROR"

definition nilfs_segment_usage_set_clean :: "nilfs_segment_usage \<Rightarrow> nilfs_segment_usage" where
  "nilfs_segment_usage_set_clean su =
     (let su = su\<lparr>su_lastmod := cpu_to_le64 0\<rparr>;
          su = su\<lparr>su_nblocks := cpu_to_le32 0\<rparr> in
      su\<lparr>su_flags := cpu_to_le32 0\<rparr>)"

definition nilfs_segment_usage_clean :: "nilfs_segment_usage \<Rightarrow> bool" where
  "nilfs_segment_usage_clean su \<longleftrightarrow> le32_to_cpu (su_flags su) = 0"

section \<open>Flag sets\<close>

text \<open>
  What the flag functions promise of the word they work on: the word is a set of bit numbers,
  and the functions insert, remove and look up.
\<close>

locale flag_word =
  fixes flags_of :: "'s \<Rightarrow> u32" and set_flag clear_flag :: "nat \<Rightarrow> 's \<Rightarrow> 's" and test_flag :: "nat \<Rightarrow> 's \<Rightarrow> bool"
  assumes bit_set: "k < 32 \<Longrightarrow> bit (flags_of (set_flag k s)) n \<longleftrightarrow> n = k \<or> bit (flags_of s) n"
    and bit_clear: "bit (flags_of (clear_flag k s)) n \<longleftrightarrow> n \<noteq> k \<and> bit (flags_of s) n"
    and test_bit: "test_flag k s \<longleftrightarrow> bit (flags_of s) k"
begin

lemma flag_set_ops:
  "k < 32 \<Longrightarrow> {j. test_flag j (set_flag k s)} = insert k {j. test_flag j s}"
  "{j. test_flag j (clear_flag k s)} = {j. test_flag j s} - {k}"
  "{j. test_flag j s} = {} \<longleftrightarrow> flags_of s = 0"
  by (auto simp: test_bit bit_set bit_clear intro!: bit_word_eqI)

text \<open>A sequence of settings and clearings leaves a flag as its last one.\<close>

lemma flag_sequence:
  "list_all (\<lambda>(k, b). k < 32) us \<Longrightarrow>
   test_flag j (fold (\<lambda>(k, b). if b then set_flag k else clear_flag k) us s) \<longleftrightarrow>
     (case filter (\<lambda>(k, b). k = j) us of [] \<Rightarrow> test_flag j s | vs \<Rightarrow> snd (last vs))"
proof (induction us arbitrary: s)
  case (Cons u us)
  obtain k b where u: "u = (k, b)"
    by (cases u)
  then show ?case
    using Cons by (cases "filter (\<lambda>(k, b). k = j) us") (auto simp: test_bit bit_set bit_clear)
qed simp

end

lemma bit_flag_word:
  "k < 32 \<Longrightarrow> bit (ucast ((ucast (w :: u32) :: u64) OR 2 ^ k) :: u32) n \<longleftrightarrow> n = k \<or> bit w n"
  "bit (ucast ((ucast w :: u64) AND NOT (2 ^ k)) :: u32) n \<longleftrightarrow> n \<noteq> k \<and> bit w n"
  "(ucast w :: u64) AND 2 ^ k \<noteq> 0 \<longleftrightarrow> bit w k"
  by (auto simp: bit_simps and_exp_eq_0_iff_not_bit dest: bit_imp_le_length)

interpretation cp: flag_word "\<lambda>cp. le32_to_cpu (cp_flags cp)" checkpoint_fns_set checkpoint_fns_clear
  checkpoint_fns_test
  by unfold_locales (simp_all add: checkpoint_fns_set_def checkpoint_fns_clear_def
      checkpoint_fns_test_def bit_flag_word little.le_inv)

interpretation su: flag_word "\<lambda>su. le32_to_cpu (su_flags su)" segment_usage_fns_set
  segment_usage_fns_clear segment_usage_fns_test
  by unfold_locales (simp_all add: segment_usage_fns_set_def segment_usage_fns_clear_def
      segment_usage_fns_test_def bit_flag_word little.le_inv)

section \<open>Layout\<close>

definition NILFS_DIR_REC_LEN :: "u32 \<Rightarrow> u32" where
  "NILFS_DIR_REC_LEN name_len = (name_len + 12 + (8 - 1)) AND NOT (8 - 1)"

definition NILFS_SB2_OFFSET_BYTES :: "u64 \<Rightarrow> u64" where
  "NILFS_SB2_OFFSET_BYTES devsize = push_bit 12 (drop_bit 12 devsize - 1)"

definition nilfs_inode_members :: "(nat \<times> nat) list" where
  "nilfs_inode_members = [(8, 8), (8, 8), (8, 8), (8, 8), (4, 4), (4, 4), (4, 4), (4, 4), (2, 2), (2, 2),
     (4, 4), (8 * 7, 8), (8, 8), (4, 4), (4, 4)]"

definition nilfs_checkpoint_members :: "(nat \<times> nat) list" where
  "nilfs_checkpoint_members = [(4, 4), (4, 4), (16, 8), (8, 8), (8, 8), (8, 8), (8, 8), (8, 8),
     (sizeof_struct nilfs_inode_members, 8)]"

definition nilfs_cpfile_header_members :: "(nat \<times> nat) list" where
  "nilfs_cpfile_header_members = [(8, 8), (8, 8), (16, 8)]"

definition nilfs_segment_usage_members :: "(nat \<times> nat) list" where
  "nilfs_segment_usage_members = [(8, 8), (4, 4), (4, 4)]"

definition nilfs_sufile_header_members :: "(nat \<times> nat) list" where
  "nilfs_sufile_header_members = [(8, 8), (8, 8), (8, 8)]"

definition NILFS_CPFILE_FIRST_CHECKPOINT_OFFSET :: u64 where
  "NILFS_CPFILE_FIRST_CHECKPOINT_OFFSET =
     (sz_of nilfs_cpfile_header_members + sz_of nilfs_checkpoint_members - 1) div sz_of nilfs_checkpoint_members"

definition NILFS_SUFILE_FIRST_SEGMENT_USAGE_OFFSET :: u64 where
  "NILFS_SUFILE_FIRST_SEGMENT_USAGE_OFFSET =
     (sz_of nilfs_sufile_header_members + sz_of nilfs_segment_usage_members - 1) div
       sz_of nilfs_segment_usage_members"

section \<open>Properties\<close>

lemma flag_frames:
  "su_lastmod (segment_usage_fns_set k su) = su_lastmod su"
  "su_nblocks (segment_usage_fns_set k su) = su_nblocks su"
  "su_lastmod (segment_usage_fns_clear k su) = su_lastmod su"
  "su_nblocks (segment_usage_fns_clear k su) = su_nblocks su"
  "checkpoint_fns_set k cp = cp\<lparr>cp_flags := cp_flags (checkpoint_fns_set k cp)\<rparr>"
  "checkpoint_fns_clear k cp = cp\<lparr>cp_flags := cp_flags (checkpoint_fns_clear k cp)\<rparr>"
  by (simp_all add: segment_usage_fns_set_def segment_usage_fns_clear_def checkpoint_fns_set_def
      checkpoint_fns_clear_def)

lemmas segment_usage_defs = nilfs_segment_usage_set_active_def nilfs_segment_usage_set_dirty_def
  nilfs_segment_usage_set_error_def nilfs_segment_usage_clear_active_def
  nilfs_segment_usage_clear_dirty_def nilfs_segment_usage_clear_error_def
  nilfs_segment_usage_active_def nilfs_segment_usage_dirty_def nilfs_segment_usage_error_def

lemmas checkpoint_defs = nilfs_checkpoint_set_snapshot_def nilfs_checkpoint_set_invalid_def
  nilfs_checkpoint_set_minor_def nilfs_checkpoint_clear_snapshot_def nilfs_checkpoint_clear_invalid_def
  nilfs_checkpoint_clear_minor_def nilfs_checkpoint_snapshot_def nilfs_checkpoint_invalid_def
  nilfs_checkpoint_minor_def

text \<open>
  C27: The flags of a segment usage are a set of flag numbers: the set functions insert into it,
  the clear functions remove from it, the tests look it up, and none of them touches anything
  else; a segment is clean exactly when the set is empty, and cleaning it empties the set.
\<close>

theorem segment_usage_refines_flag_set:
  "(let flags = (\<lambda>su. {k. segment_usage_fns_test k su}) in
    flags (nilfs_segment_usage_set_active su) = insert 0 (flags su) \<and>
    flags (nilfs_segment_usage_set_dirty su) = insert 1 (flags su) \<and>
    flags (nilfs_segment_usage_set_error su) = insert 2 (flags su) \<and>
    flags (nilfs_segment_usage_clear_active su) = flags su - {0} \<and>
    flags (nilfs_segment_usage_clear_dirty su) = flags su - {1} \<and>
    flags (nilfs_segment_usage_clear_error su) = flags su - {2} \<and>
    nilfs_segment_usage_active su = (0 \<in> flags su) \<and> nilfs_segment_usage_dirty su = (1 \<in> flags su) \<and>
    nilfs_segment_usage_error su = (2 \<in> flags su) \<and>
    nilfs_segment_usage_clean su = (flags su = {}) \<and>
    flags (nilfs_segment_usage_set_clean su) = {}) \<and>
   list_all (\<lambda>f. su_lastmod (f su) = su_lastmod su \<and> su_nblocks (f su) = su_nblocks su)
     [nilfs_segment_usage_set_active, nilfs_segment_usage_set_dirty, nilfs_segment_usage_set_error,
      nilfs_segment_usage_clear_active, nilfs_segment_usage_clear_dirty, nilfs_segment_usage_clear_error]"
proof -
  have clean: "le32_to_cpu (su_flags (nilfs_segment_usage_set_clean su)) = 0"
    by (simp add: nilfs_segment_usage_set_clean_def little.le_inv)
  show ?thesis
    unfolding Let_def
    by (intro conjI) (simp_all add: segment_usage_defs su.flag_set_ops nilfs_segment_usage_clean_def
        clean flag_frames del: Collect_empty_eq empty_Collect_eq)
qed

text \<open>
  After any sequence of settings and clearings of the snapshot, invalid and minor flags of a
  checkpoint, each flag reads as its last setting or clearing left it, a flag that was not
  touched as before, and the rest of the checkpoint is unchanged.
\<close>

theorem checkpoint_flag_sequence:
  assumes "list_all (\<lambda>(k, b). k < 32) us"
  shows "(let cp' = fold (\<lambda>(k, b). if b then checkpoint_fns_set k else checkpoint_fns_clear k) us cp;
              final = (\<lambda>j old. case filter (\<lambda>(k, b). k = j) us of [] \<Rightarrow> old | vs \<Rightarrow> snd (last vs)) in
    nilfs_checkpoint_snapshot cp' = final 0 (nilfs_checkpoint_snapshot cp) \<and>
    nilfs_checkpoint_invalid cp' = final 1 (nilfs_checkpoint_invalid cp) \<and>
    nilfs_checkpoint_minor cp' = final 3 (nilfs_checkpoint_minor cp) \<and>
    cp' = cp\<lparr>cp_flags := cp_flags cp'\<rparr>)"
proof -
  have "\<exists>w. fold (\<lambda>(k, b). if b then checkpoint_fns_set k else checkpoint_fns_clear k) us cp =
      cp\<lparr>cp_flags := w\<rparr>"
  proof (induction us arbitrary: cp)
    case Nil
    show ?case
      by (intro exI [of _ "cp_flags cp"]) simp
  next
    case (Cons u us)
    obtain k b where u: "u = (k, b)"
      by (cases u)
    show ?case
      using Cons.IH [of "checkpoint_fns_set k cp"] Cons.IH [of "checkpoint_fns_clear k cp"]
      by (auto simp: u checkpoint_fns_set_def checkpoint_fns_clear_def)
  qed
  then have frame: "fold (\<lambda>(k, b). if b then checkpoint_fns_set k else checkpoint_fns_clear k) us cp =
      cp\<lparr>cp_flags := cp_flags (fold (\<lambda>(k, b). if b then checkpoint_fns_set k else checkpoint_fns_clear k) us cp)\<rparr>"
    by fastforce
  show ?thesis
    unfolding Let_def checkpoint_defs
    by (intro conjI; (rule cp.flag_sequence [OF assms] | rule frame))
qed

theorem checkpoint_flag_sequence_witness:
  "\<forall>cp. nilfs_checkpoint_snapshot (fold (\<lambda>(k, b). if b then checkpoint_fns_set k else checkpoint_fns_clear k)
      [(0, True), (3, True), (3, False)] cp) \<and>
   \<not> nilfs_checkpoint_minor (fold (\<lambda>(k, b). if b then checkpoint_fns_set k else checkpoint_fns_clear k)
      [(0, True), (3, True), (3, False)] cp)"
  using checkpoint_flag_sequence [of "[(0, True), (3, True), (3, False)]"]
  by (simp add: Let_def)

text \<open>
  C28: The sizes the layout rests on: a directory record of a name of at most 255 bytes is the least
  multiple of eight that holds its twelve-byte head and the name, and fits a 16-bit record length; the
  first checkpoint and segment usage entries come right after their file's header; and the
  second super block starts at the last 4 KiB boundary that has a whole 4 KiB before the end of
  the device.
\<close>

theorem nilfs_layout:
  "(n \<le> 255 \<longrightarrow> unat (NILFS_DIR_REC_LEN n) mod 8 = 0 \<and> unat n + 12 \<le> unat (NILFS_DIR_REC_LEN n) \<and>
     unat (NILFS_DIR_REC_LEN n) < unat n + 20 \<and> unat (NILFS_DIR_REC_LEN n) < 65536) \<and>
   sizeof_struct nilfs_inode_members = 128 \<and> sizeof_struct nilfs_checkpoint_members = 64 + 128 \<and>
   NILFS_CPFILE_FIRST_CHECKPOINT_OFFSET = 1 \<and> NILFS_SUFILE_FIRST_SEGMENT_USAGE_OFFSET = 2 \<and>
   (4096 \<le> unat devsize \<longrightarrow>
     unat (NILFS_SB2_OFFSET_BYTES devsize) = (unat devsize div 4096 - 1) * 4096 \<and>
     unat (NILFS_SB2_OFFSET_BYTES devsize) + 4096 \<le> unat devsize)"
proof (intro conjI impI)
  assume n: "n \<le> 255"
  then have "unat n \<le> 255"
    by (simp add: word_le_nat_alt)
  then have len: "unat (NILFS_DIR_REC_LEN n) = (19 + unat n) div 8 * 8"
    by (simp add: NILFS_DIR_REC_LEN_def unat_clear_low_literals unat_word_ariths)
  show "unat (NILFS_DIR_REC_LEN n) mod 8 = 0" "unat n + 12 \<le> unat (NILFS_DIR_REC_LEN n)"
    "unat (NILFS_DIR_REC_LEN n) < unat n + 20" "unat (NILFS_DIR_REC_LEN n) < 65536"
    using \<open>unat n \<le> 255\<close> unfolding len by simp_all
next
  show "sizeof_struct nilfs_inode_members = 128" "sizeof_struct nilfs_checkpoint_members = 64 + 128"
    "NILFS_CPFILE_FIRST_CHECKPOINT_OFFSET = 1" "NILFS_SUFILE_FIRST_SEGMENT_USAGE_OFFSET = 2"
    by code_simp+
next
  assume "4096 \<le> unat devsize"
  then have "1 \<le> unat devsize div 4096"
    by simp
  moreover have "unat (drop_bit 12 devsize) = unat devsize div 4096"
    by (simp add: drop_bit_eq_div unat_div_distrib)
  moreover obtain b where b: "b = drop_bit 12 devsize - 1"
    by simp
  ultimately have minus: "unat b = unat devsize div 4096 - 1"
    unfolding b by (subst unat_sub) (simp_all add: word_le_nat_alt)
  have "unat devsize < 2 ^ 64"
    using unsigned_less [of devsize] by simp
  then show off: "unat (NILFS_SB2_OFFSET_BYTES devsize) = (unat devsize div 4096 - 1) * 4096"
    unfolding NILFS_SB2_OFFSET_BYTES_def b [symmetric]
    by (simp add: push_bit_eq_mult unat_word_ariths minus)
  show "unat (NILFS_SB2_OFFSET_BYTES devsize) + 4096 \<le> unat devsize"
    unfolding off using \<open>4096 \<le> unat devsize\<close> by (simp add: diff_mult_distrib)
qed

theorem nilfs_layout_witness:
  "unat (NILFS_DIR_REC_LEN 5) mod 8 = 0 \<and>
   unat (NILFS_SB2_OFFSET_BYTES 1048580) = (unat (1048580 :: u64) div 4096 - 1) * 4096"
  using nilfs_layout [of 5 1048580] by simp

end
