(* ===== verification/VirtioRing.thy ===== *)
theory VirtioRing
  imports CPrelude
begin

text \<open>
  The layout of a split virtqueue and the event suppression test, from
  \<open>linux-headers/include/linux/virtio_ring.h\<close>. Pointers are 64-bit addresses; \<open>size_t\<close>,
  \<open>unsigned long\<close> and \<open>uintptr_t\<close> have 64 bits, \<open>unsigned int\<close> 32.
\<close>

section \<open>Structures\<close>

record vring_desc =
  addr :: u64
  len :: u32
  flags :: u16
  desc_next :: u16

record vring_avail =
  avail_flags :: u16
  avail_idx :: u16
  avail_ring :: "u16 list"

record vring_used_elem =
  used_id :: u32
  used_len :: u32

record vring_used =
  used_flags :: u16
  used_idx :: u16
  used_ring :: "vring_used_elem list"

record vring =
  num :: u32
  desc :: u64
  avail :: u64
  used :: u64

abbreviation (input) sizeof_vring_desc :: u64 where "sizeof_vring_desc \<equiv> 16"
abbreviation (input) sizeof_vring_used_elem :: u64 where "sizeof_vring_used_elem \<equiv> 8"
abbreviation (input) sizeof_virtio16 :: u64 where "sizeof_virtio16 \<equiv> 2"

text \<open>The address of \<open>avail->ring[i]\<close> and of \<open>used->ring[i]\<close>: each ring starts after two half-words.\<close>

definition avail_ring_at :: "u64 \<Rightarrow> u32 \<Rightarrow> u64" where
  "avail_ring_at a i = a + 4 + sizeof_virtio16 * ucast i"

definition used_ring_at :: "u64 \<Rightarrow> u32 \<Rightarrow> u64" where
  "used_ring_at u i = u + 4 + sizeof_vring_used_elem * ucast i"

definition vring_used_event :: "vring \<Rightarrow> u64" where
  "vring_used_event vr = avail_ring_at (avail vr) (num vr)"

definition vring_avail_event :: "vring \<Rightarrow> u64" where
  "vring_avail_event vr = used_ring_at (used vr) (num vr)"

definition vring_init :: "vring \<Rightarrow> u32 \<Rightarrow> u64 \<Rightarrow> u64 \<Rightarrow> vring" where
  "vring_init vr n p align =
     (let vr = vr\<lparr>num := n\<rparr>;
          vr = vr\<lparr>desc := p\<rparr>;
          vr = vr\<lparr>avail := p + ucast n * sizeof_vring_desc\<rparr> in
      vr\<lparr>used := (avail_ring_at (avail vr) n + sizeof_virtio16 + align - 1) AND NOT (align - 1)\<rparr>)"

definition vring_size :: "u32 \<Rightarrow> u64 \<Rightarrow> u32" where
  "vring_size n align =
     ucast (((sizeof_vring_desc * ucast n + sizeof_virtio16 * (3 + ucast n) + align - 1) AND NOT (align - 1))
       + sizeof_virtio16 * 3 + sizeof_vring_used_elem * ucast n)"

definition vring_need_event :: "u16 \<Rightarrow> u16 \<Rightarrow> u16 \<Rightarrow> bool" where
  "vring_need_event event_idx new_idx old \<longleftrightarrow>
     (ucast ((ucast new_idx :: cint) - ucast event_idx - 1) :: u16) < ucast ((ucast new_idx :: cint) - ucast old)"

section \<open>Layout\<close>

definition round_up :: "nat \<Rightarrow> nat \<Rightarrow> nat" where
  "round_up a n = (n + a - 1) div a * a"

lemma round_up_bounds: "0 < a \<Longrightarrow> n \<le> round_up a n \<and> round_up a n < n + a \<and> round_up a n mod a = 0"
proof -
  assume "0 < a"
  have "(n + a - 1) div a * a + (n + a - 1) mod a = n + a - 1"
    by (rule div_mult_mod_eq)
  moreover have "(n + a - 1) mod a < a" "1 \<le> a"
    using \<open>0 < a\<close> by simp_all
  ultimately have "n \<le> (n + a - 1) div a * a" "(n + a - 1) div a * a < n + a"
    by linarith+
  then show ?thesis
    unfolding round_up_def by simp
qed

lemma round_up_add: "0 < a \<Longrightarrow> p mod a = 0 \<Longrightarrow> round_up a (p + n) = p + round_up a n"
proof -
  assume "0 < a" "p mod a = 0"
  then obtain q where "p = q * a"
    by (metis mod_0_imp_dvd dvdE mult.commute)
  then have "p + n + a - 1 = (n + a - 1) + q * a"
    using \<open>0 < a\<close> by simp
  then have "(p + n + a - 1) div a = q + (n + a - 1) div a"
    using \<open>0 < a\<close> by (simp only: div_mult_self1)
  then show ?thesis
    using \<open>p = q * a\<close> unfolding round_up_def by (simp add: distrib_right)
qed

lemma unat_exp: "k < 64 \<Longrightarrow> unat (2 ^ k :: u64) = 2 ^ k"
proof -
  assume "k < 64"
  then have "(2 :: nat) ^ k < 2 ^ 64"
    by (intro power_strict_increasing) simp_all
  then have "unat (word_of_nat (2 ^ k) :: u64) = 2 ^ k"
    using \<open>k < 64\<close> by (simp only: unsigned_of_nat) (simp add: take_bit_nat_eq_self)
  then show ?thesis
    by simp
qed

lemma unat_round_up:
  assumes "unat x + 2 ^ k \<le> 2 ^ 64" and "k < 64"
  shows "unat ((x + 2 ^ k - 1) AND NOT (2 ^ k - 1) :: u64) = round_up (2 ^ k) (unat x)"
proof -
  have e: "unat (2 ^ k :: u64) = 2 ^ k"
    using assms(2) by (rule unat_exp)
  have one: "(1 :: nat) \<le> 2 ^ k"
    by simp
  have "unat (x + (2 ^ k - 1)) = unat x + (2 ^ k - 1)"
    using assms(1) one e by (subst unat_add_lem [THEN iffD1]) (simp_all add: unat_sub word_le_nat_alt)
  then show ?thesis
    using unat_clear_low [of "x + (2 ^ k - 1)" k] one
    by (simp add: round_up_def mask_eq_exp_minus_1 add_diff_eq)
qed

lemma unat_ucast_u32: "unat (ucast (n :: u32) :: u64) = unat n"
  using unsigned_less [of n, where 'a = nat] by (simp add: unsigned_ucast_eq take_bit_nat_eq_self)

text \<open>The areas of a ring as numbers, without the machine's wrap-around.\<close>

lemma vring_sizes:
  assumes "unat n \<le> 32768" and "k < 32"
  shows "unat (vring_size n (2 ^ k)) = round_up (2 ^ k) (18 * unat n + 6) + 6 + 8 * unat n"
proof -
  have k: "(2 :: nat) ^ k \<le> 2 ^ 31"
    using assms(2) by (intro power_increasing) simp_all
  let ?x = "sizeof_vring_desc * ucast n + sizeof_virtio16 * (3 + ucast n)"
  have x: "unat ?x = 18 * unat n + 6"
    using assms(1) by (simp add: unat_word_ariths unat_ucast_u32)
  have r: "round_up (2 ^ k) (18 * unat n + 6) < 18 * unat n + 6 + 2 ^ k"
    by (simp add: round_up_bounds)
  have "unat ((?x + 2 ^ k - 1) AND NOT (2 ^ k - 1)) = round_up (2 ^ k) (18 * unat n + 6)"
    using unat_round_up [of ?x k] x k assms by simp
  moreover obtain u where u: "u = (?x + 2 ^ k - 1) AND NOT (2 ^ k - 1)"
    by simp
  ultimately have "unat (u + sizeof_virtio16 * 3 + sizeof_vring_used_elem * ucast n) =
      round_up (2 ^ k) (18 * unat n + 6) + 6 + 8 * unat n"
    using r k assms(1) by (simp add: unat_word_ariths unat_ucast_u32)
  then show ?thesis
    unfolding vring_size_def u [symmetric]
    using r k assms(1) by (simp add: unsigned_ucast_eq unsigned_take_bit_eq take_bit_nat_eq_self)
qed

lemma aligned_below:
  assumes "(p + r) mod 2 ^ k = 0" and "p + r < 2 ^ 64" and "k < 64"
  shows "p + r + 2 ^ k \<le> (2 ^ 64 :: nat)"
proof -
  obtain q where q: "p + r = 2 ^ k * q"
    using assms(1) by (metis mod_0_imp_dvd dvdE)
  have pow: "(2 :: nat) ^ 64 = 2 ^ k * 2 ^ (64 - k)"
    using assms(3) by (metis less_imp_le_nat le_add_diff_inverse power_add)
  have "q < 2 ^ (64 - k)"
    using assms(2) unfolding q pow by simp
  then have "2 ^ k * (q + 1) \<le> (2 :: nat) ^ k * 2 ^ (64 - k)"
    by (intro mult_le_mono2) simp
  then show ?thesis
    unfolding q pow by (simp add: algebra_simps)
qed

text \<open>
  C30: A ring of at most 32768 entries, laid out by \<open>vring_init\<close> at an address that is a multiple
  of the alignment (a power of two) in memory of the size \<open>vring_size\<close> gives: descriptors, available ring, its
  event index, padding, used ring and its event index follow one another without overlap, the
  used ring starts at the next multiple of the alignment, and the last field ends exactly where
  the memory does.
\<close>

theorem vring_layout:
  assumes "unat n \<le> 32768" and "k < 32" and "unat p mod 2 ^ k = 0"
    and "unat p + unat (vring_size n (2 ^ k)) \<le> 2 ^ 64"
  shows "(let vr' = vring_init vr n p (2 ^ k) in
    num vr' = n \<and> desc vr' = p \<and> unat (avail vr') = unat p + 16 * unat n \<and>
    unat (vring_used_event vr') = unat (avail vr') + 4 + 2 * unat n \<and>
    unat (used vr') = round_up (2 ^ k) (unat (vring_used_event vr') + 2) \<and>
    unat (vring_avail_event vr') = unat (used vr') + 4 + 8 * unat n \<and>
    unat (vring_avail_event vr') + 2 = unat p + unat (vring_size n (2 ^ k)))"
proof -
  let ?m = "18 * unat n + 6" and ?a = "(2 :: nat) ^ k"
  let ?r = "round_up ?a ?m"
  have r: "?m \<le> ?r" "?r < ?m + ?a" "?r mod ?a = 0"
    using round_up_bounds [of ?a ?m] by simp_all
  have fit: "unat p + ?r + 6 + 8 * unat n \<le> 2 ^ 64"
    using assms(4) vring_sizes [OF assms(1,2)] by simp
  have "(unat p + ?r) mod ?a = 0"
    using assms(3) r(3) unfolding mod_eq_0_iff_dvd by (rule dvd_add)
  then have room: "unat p + ?r + ?a \<le> 2 ^ 64"
    using fit assms(2) by (intro aligned_below) simp_all
  have av: "unat (p + ucast n * sizeof_vring_desc) = unat p + 16 * unat n"
    using fit r(1) by (simp add: unat_word_ariths unat_ucast_u32)
  have ev: "unat (avail_ring_at (p + ucast n * sizeof_vring_desc) n) = unat p + 18 * unat n + 4"
    using fit r(1) av by (simp add: avail_ring_at_def unat_word_ariths unat_ucast_u32)
  have x: "unat (avail_ring_at (p + ucast n * sizeof_vring_desc) n + sizeof_virtio16) = unat p + ?m"
    using fit r(1) ev by (simp add: unat_word_ariths)
  have us: "unat ((avail_ring_at (p + ucast n * sizeof_vring_desc) n + sizeof_virtio16 + 2 ^ k - 1) AND
      NOT (2 ^ k - 1)) = unat p + ?r"
    using unat_round_up [of "avail_ring_at (p + ucast n * sizeof_vring_desc) n + sizeof_virtio16" k]
      round_up_add [of ?a "unat p" ?m] x room r(1) assms(2,3) by simp
  have fin: "unat (used_ring_at u n) = unat u + 4 + 8 * unat n" if "unat u = unat p + ?r" for u
    using that fit by (simp add: used_ring_at_def unat_word_ariths unat_ucast_u32)
  have padded: "round_up ?a (6 + (unat p + 18 * unat n)) = unat p + ?r"
    using round_up_add [of ?a "unat p" ?m] assms(3) by (simp add: ac_simps)
  show ?thesis
    using av ev us fin [OF us] vring_sizes [OF assms(1,2)] padded
    by (simp add: Let_def vring_init_def vring_used_event_def vring_avail_event_def)
qed

theorem vring_layout_witness:
  "unat (vring_avail_event (vring_init \<lparr>num = 0, desc = 0, avail = 0, used = 0\<rparr> 8 0x10000 (2 ^ 12))) + 2 =
     0x10000 + unat (vring_size 8 (2 ^ 12))"
  using vring_layout [of 8 12 "0x10000" "\<lparr>num = 0, desc = 0, avail = 0, used = 0\<rparr>"]
    vring_sizes [of 8 12]
  by (simp add: Let_def round_up_def)

section \<open>Event suppression\<close>

lemma ucast_minus: "(ucast (x - y :: cint) :: u16) = ucast x - ucast y"
proof -
  have "take_bit 16 (a - b) = take_bit 16 (take_bit 32 a - take_bit 32 b)" for a b :: int
    using take_bit_diff [of 16 a b] take_bit_diff [of 16 "take_bit 32 a" "take_bit 32 b"]
    by (simp add: take_bit_take_bit)
  then show ?thesis
    by transfer (simp add: take_bit_take_bit)
qed

text \<open>The promotion to \<open>int\<close> and the cast back are arithmetic on half-words.\<close>

lemma need_event_words: "vring_need_event e n o' \<longleftrightarrow> n - e - 1 < n - o'"
proof -
  have "ucast (ucast x :: cint) = x" for x :: u16
    by (rule bit_word_eqI) (simp add: bit_simps)
  then show ?thesis
    by (simp add: vring_need_event_def ucast_minus)
qed

text \<open>An index that advances by a number of entries, batch after batch; the batches that notify.\<close>

fun vring_notified :: "u16 \<Rightarrow> u16 \<Rightarrow> nat list \<Rightarrow> nat" where
  "vring_notified event_idx old [] = 0"
| "vring_notified event_idx old (b # bs) =
     (let new_idx = old + word_of_nat b in
      (if vring_need_event event_idx new_idx old then 1 else 0) + vring_notified event_idx new_idx bs)"

lemma u16_nat: "n < 65536 \<Longrightarrow> unat (word_of_nat n :: u16) = n"
  by (simp add: unsigned_of_nat take_bit_nat_eq_self)

text \<open>The distance of the event index from the old index decides.\<close>

lemma need_event_distance:
  assumes "b < 65536"
  shows "vring_need_event e (old + word_of_nat b) old \<longleftrightarrow> unat (e - old) < b"
proof -
  define d where "d = e - old"
  have diff: "(old + word_of_nat b) - e - 1 = word_of_nat b - d - 1" "(old + word_of_nat b) - old = word_of_nat b"
    by (simp_all add: d_def)
  have b: "unat (word_of_nat b :: u16) = b"
    using assms by (rule u16_nat)
  have d16: "unat d < 65536"
    using unsigned_less [of d, where 'a = nat] by simp
  have "unat (word_of_nat b - d - 1) < b \<longleftrightarrow> unat d < b"
  proof (cases "unat d < b")
    case True
    then have "word_of_nat b - d - 1 = (word_of_nat (b - unat d - 1) :: u16)"
      by (simp add: of_nat_diff)
    moreover have "unat (word_of_nat (b - unat d - 1) :: u16) = b - unat d - 1"
      using assms by (intro u16_nat) simp
    ultimately have "unat (word_of_nat b - d - 1) = b - unat d - 1"
      by (simp only:)
    then show ?thesis
      using True by simp
  next
    case False
    then have "word_of_nat b - d - 1 = (word_of_nat (65536 + b - unat d - 1) :: u16)"
      using d16 by (simp add: of_nat_diff)
    moreover have "unat (word_of_nat (65536 + b - unat d - 1) :: u16) = 65536 + b - unat d - 1"
      using False by (intro u16_nat) simp
    ultimately have "unat (word_of_nat b - d - 1) = 65536 + b - unat d - 1"
      by (simp only:)
    then show ?thesis
      using False d16 by simp
  qed
  then show ?thesis
    unfolding need_event_words diff using b by (simp add: word_less_nat_alt d_def)
qed

text \<open>
  The test says that the other side is to be notified exactly when the index it waits for is
  one of those the batch has just passed, counted around the 16-bit ring.
\<close>

theorem vring_need_event_window:
  "vring_need_event event_idx new_idx old \<longleftrightarrow> (\<exists>i < unat (new_idx - old). event_idx = old + word_of_nat i)"
proof -
  have "vring_need_event event_idx new_idx old \<longleftrightarrow> unat (event_idx - old) < unat (new_idx - old)"
    using need_event_distance [of "unat (new_idx - old)" event_idx old]
      unsigned_less [of "new_idx - old", where 'a = nat] by simp
  moreover have "(\<exists>i < unat (new_idx - old). event_idx = old + word_of_nat i) \<longleftrightarrow>
      unat (event_idx - old) < unat (new_idx - old)"
  proof
    assume "\<exists>i < unat (new_idx - old). event_idx = old + word_of_nat i"
    then obtain i where i: "i < unat (new_idx - old)" "event_idx = old + word_of_nat i"
      by blast
    then show "unat (event_idx - old) < unat (new_idx - old)"
      using u16_nat [of i] unsigned_less [of "new_idx - old", where 'a = nat] by simp
  next
    assume "unat (event_idx - old) < unat (new_idx - old)"
    then show "\<exists>i < unat (new_idx - old). event_idx = old + word_of_nat i"
      by (intro exI [of _ "unat (event_idx - old)"]) simp
  qed
  ultimately show ?thesis
    by blast
qed

lemma notified_once:
  "sum_list bs < 65536 \<Longrightarrow>
   vring_notified e old bs = (if unat (e - old) < sum_list bs then 1 else 0)"
proof (induction bs arbitrary: old)
  case (Cons b bs)
  define d where "d = e - old"
  have new: "e - (old + word_of_nat b) = d - word_of_nat b"
    by (simp add: d_def)
  have d16: "unat d < 65536"
    using unsigned_less [of d, where 'a = nat] by simp
  have b: "b < 65536" "sum_list bs < 65536"
    using Cons.prems by auto
  have "unat d < b \<Longrightarrow> \<not> unat (d - word_of_nat b) < sum_list bs"
  proof -
    assume "unat d < b"
    then have "d - word_of_nat b = (word_of_nat (65536 + unat d - b) :: u16)"
      using b(1) by (simp add: of_nat_diff)
    then have "unat (d - word_of_nat b) = 65536 + unat d - b"
      using \<open>unat d < b\<close> by (simp add: unsigned_of_nat take_bit_nat_eq_self)
    then show ?thesis
      using Cons.prems by simp
  qed
  moreover have "\<not> unat d < b \<Longrightarrow> unat (d - word_of_nat b) = unat d - b"
    using b(1) u16_nat [of b] by (subst unat_sub) (simp_all add: word_le_nat_alt)
  ultimately show ?case
    using Cons.IH [OF b(2), of "old + word_of_nat b"] need_event_distance [OF b(1), of e old]
    unfolding new d_def [symmetric] by (auto simp: Let_def new)
qed simp



end
