(* ===== verification/UsbAudio.thy ===== *)
theory UsbAudio
  imports CPrelude
begin

text \<open>
  Accessors for the variable parts of USB audio class descriptors, from
  \<open>linux-headers/include/linux/usb/audio.h\<close>. A descriptor is the bytes of the packed structure;
  the flexible array \<open>baSourceID\<close> starts at byte 5 of a mixer or selector unit and at byte 7 of
  a processing or extension unit. A pointer into the descriptor is an offset, \<open>NULL\<close> is
  \<^term>\<open>None :: nat option\<close>; a read through \<open>NULL\<close> or outside the descriptor has no result.
\<close>

abbreviation (input) UAC_VERSION_1 :: cint where "UAC_VERSION_1 \<equiv> 0x00"
abbreviation (input) UAC_VERSION_2 :: cint where "UAC_VERSION_2 \<equiv> 0x20"
abbreviation (input) UAC_VERSION_3 :: cint where "UAC_VERSION_3 \<equiv> 0x30"

section \<open>Reading a descriptor\<close>

definition bLength :: "u8 list \<Rightarrow> nat option" where
  "bLength d = map_option unat (rd d 0)"

text \<open>\<open>raw[desc->bLength - 1]\<close>: the index is negative when the length byte is zero.\<close>

definition last_byte :: "u8 list \<Rightarrow> u8 option" where
  "last_byte d = do { n \<leftarrow> bLength d; if n = 0 then None else rd d (n - 1) }"

definition deref :: "u8 list \<Rightarrow> nat option \<Rightarrow> nat \<Rightarrow> u8 option" where
  "deref d p off = (case p of None \<Rightarrow> None | Some q \<Rightarrow> rd d (q + off))"

definition le32_at :: "u8 list \<Rightarrow> nat \<Rightarrow> u32 option" where
  "le32_at d i = do {
     b3 \<leftarrow> rd d (i + 3); b2 \<leftarrow> rd d (i + 2); b1 \<leftarrow> rd d (i + 1); b0 \<leftarrow> rd d i;
     Some (push_bit 24 (ucast b3) OR push_bit 16 (ucast b2) OR push_bit 8 (ucast b1) OR ucast b0) }"

definition le16_at :: "u8 list \<Rightarrow> nat \<Rightarrow> u32 option" where
  "le16_at d i = do { b1 \<leftarrow> rd d (i + 1); b0 \<leftarrow> rd d i; Some (push_bit 8 (ucast b1) OR ucast b0) }"

section \<open>Mixer units\<close>

definition mixer_bNrInPins :: "u8 list \<Rightarrow> nat option" where
  "mixer_bNrInPins d = map_option unat (rd d 4)"

definition uac_mixer_unit_bNrChannels :: "u8 list \<Rightarrow> u8 option" where
  "uac_mixer_unit_bNrChannels d = do { n \<leftarrow> mixer_bNrInPins d; rd d (5 + n) }"

definition uac_mixer_unit_wChannelConfig :: "u8 list \<Rightarrow> cint \<Rightarrow> u32 option" where
  "uac_mixer_unit_wChannelConfig d protocol = do {
     n \<leftarrow> mixer_bNrInPins d;
     if protocol = UAC_VERSION_1 then le16_at d (5 + n + 1) else le32_at d (5 + n + 1) }"

definition uac_mixer_unit_iChannelNames :: "u8 list \<Rightarrow> cint \<Rightarrow> u8 option" where
  "uac_mixer_unit_iChannelNames d protocol = do {
     n \<leftarrow> mixer_bNrInPins d;
     if protocol = UAC_VERSION_1 then rd d (5 + n + 3) else rd d (5 + n + 5) }"

definition uac_mixer_unit_bmControls :: "u8 list \<Rightarrow> cint \<Rightarrow> nat option option" where
  "uac_mixer_unit_bmControls d protocol = do {
     n \<leftarrow> mixer_bNrInPins d;
     Some (if protocol = UAC_VERSION_1 then Some (5 + n + 4)
           else if protocol = UAC_VERSION_2 then Some (5 + n + 6)
           else if protocol = UAC_VERSION_3 then Some (5 + n + 2)
           else None) }"

definition uac3_mixer_unit_wClusterDescrID :: "u8 list \<Rightarrow> u16 option" where
  "uac3_mixer_unit_wClusterDescrID d = do {
     n \<leftarrow> mixer_bNrInPins d;
     b1 \<leftarrow> rd d (5 + n + 1); b0 \<leftarrow> rd d (5 + n);
     Some (ucast (push_bit 8 (ucast b1 :: cint) OR ucast b0)) }"

definition uac_mixer_unit_iMixer :: "u8 list \<Rightarrow> u8 option" where
  "uac_mixer_unit_iMixer d = last_byte d"

definition uac_selector_unit_iSelector :: "u8 list \<Rightarrow> u8 option" where
  "uac_selector_unit_iSelector d = last_byte d"

definition uac_feature_unit_iFeature :: "u8 list \<Rightarrow> u8 option" where
  "uac_feature_unit_iFeature d = last_byte d"

section \<open>Processing and extension units\<close>

definition proc_bNrInPins :: "u8 list \<Rightarrow> nat option" where
  "proc_bNrInPins d = map_option unat (rd d 6)"

definition uac_processing_unit_bNrChannels :: "u8 list \<Rightarrow> u8 option" where
  "uac_processing_unit_bNrChannels d = do { n \<leftarrow> proc_bNrInPins d; rd d (7 + n) }"

definition uac_processing_unit_wChannelConfig :: "u8 list \<Rightarrow> cint \<Rightarrow> u32 option" where
  "uac_processing_unit_wChannelConfig d protocol = do {
     n \<leftarrow> proc_bNrInPins d;
     if protocol = UAC_VERSION_1 then le16_at d (7 + n + 1) else le32_at d (7 + n + 1) }"

definition uac_processing_unit_iChannelNames :: "u8 list \<Rightarrow> cint \<Rightarrow> u8 option" where
  "uac_processing_unit_iChannelNames d protocol = do {
     n \<leftarrow> proc_bNrInPins d;
     if protocol = UAC_VERSION_1 then rd d (7 + n + 3) else rd d (7 + n + 5) }"

definition uac_processing_unit_bControlSize :: "u8 list \<Rightarrow> cint \<Rightarrow> u8 option" where
  "uac_processing_unit_bControlSize d protocol =
     (if protocol = UAC_VERSION_1 then do { n \<leftarrow> proc_bNrInPins d; rd d (7 + n + 4) }
      else if protocol = UAC_VERSION_2 then Some 2
      else if protocol = UAC_VERSION_3 then Some 4
      else Some 1)"

definition uac_processing_unit_bmControls :: "u8 list \<Rightarrow> cint \<Rightarrow> nat option option" where
  "uac_processing_unit_bmControls d protocol = do {
     n \<leftarrow> proc_bNrInPins d;
     Some (if protocol = UAC_VERSION_1 then Some (7 + n + 5)
           else if protocol = UAC_VERSION_2 then Some (7 + n + 6)
           else if protocol = UAC_VERSION_3 then Some (7 + n + 2)
           else None) }"

definition uac_processing_unit_iProcessing :: "u8 list \<Rightarrow> cint \<Rightarrow> u8 option" where
  "uac_processing_unit_iProcessing d protocol = do {
     control_size \<leftarrow> uac_processing_unit_bControlSize d protocol;
     if protocol = UAC_VERSION_3 then Some 0
     else do { p \<leftarrow> uac_processing_unit_bmControls d protocol; deref d p (unat control_size) } }"

text \<open>Arithmetic on a \<open>NULL\<close> pointer has no result either.\<close>

definition uac_processing_unit_specific :: "u8 list \<Rightarrow> cint \<Rightarrow> nat option" where
  "uac_processing_unit_specific d protocol = do {
     control_size \<leftarrow> uac_processing_unit_bControlSize d protocol;
     p \<leftarrow> uac_processing_unit_bmControls d protocol;
     q \<leftarrow> p;
     Some (if protocol = UAC_VERSION_3 then q + unat control_size else q + unat control_size + 1) }"

definition uac_extension_unit_bControlSize :: "u8 list \<Rightarrow> cint \<Rightarrow> u8 option" where
  "uac_extension_unit_bControlSize d protocol =
     (if protocol = UAC_VERSION_1 then do { n \<leftarrow> proc_bNrInPins d; rd d (7 + n + 4) }
      else if protocol = UAC_VERSION_2 then Some 1
      else if protocol = UAC_VERSION_3 then Some 4
      else Some 1)"

definition uac_extension_unit_iExtension :: "u8 list \<Rightarrow> cint \<Rightarrow> u8 option" where
  "uac_extension_unit_iExtension d protocol = do {
     control_size \<leftarrow> uac_extension_unit_bControlSize d protocol;
     if protocol = UAC_VERSION_3 then Some 0
     else do { p \<leftarrow> uac_processing_unit_bmControls d protocol; deref d p (unat control_size) } }"

section \<open>Layouts\<close>

text \<open>
  The bytes of the descriptors as the class specifications lay them out: sources, channel count,
  channel configuration (two bytes in version 1, four in version 2), names, controls, index.
\<close>

definition le2 :: "u32 \<Rightarrow> u8 list" where
  "le2 v = [ucast v, ucast (drop_bit 8 v)]"

definition le4 :: "u32 \<Rightarrow> u8 list" where
  "le4 v = [ucast v, ucast (drop_bit 8 v), ucast (drop_bit 16 v), ucast (drop_bit 24 v)]"

record cluster =
  channels :: u8
  config :: u32
  names :: u8

definition config_bytes :: "cint \<Rightarrow> cluster \<Rightarrow> u8 list" where
  "config_bytes protocol c =
     channels c # (if protocol = UAC_VERSION_1 then le2 (config c) else le4 (config c)) @ [names c]"

definition mixer_unit :: "cint \<Rightarrow> u8 \<Rightarrow> u8 \<Rightarrow> u8 \<Rightarrow> u8 list \<Rightarrow> cluster \<Rightarrow> u8 list \<Rightarrow> u8 \<Rightarrow> u8 list" where
  "mixer_unit protocol type subtype unit sources c controls index =
     (let body = [type, subtype, unit, word_of_nat (length sources)] @ sources @ config_bytes protocol c @
        controls @ [index] in word_of_nat (1 + length body) # body)"

definition processing_unit ::
    "cint \<Rightarrow> u8 \<Rightarrow> u8 \<Rightarrow> u8 \<Rightarrow> u32 \<Rightarrow> u8 list \<Rightarrow> cluster \<Rightarrow> u8 list \<Rightarrow> u8 \<Rightarrow> u8 list \<Rightarrow> u8 list" where
  "processing_unit protocol type subtype unit ptype sources c controls index specific =
     (let body = [type, subtype, unit] @ le2 ptype @ [word_of_nat (length sources)] @ sources @
        config_bytes protocol c @
        (if protocol = UAC_VERSION_1 then [word_of_nat (length controls)] else []) @
        controls @ [index] @ specific in word_of_nat (1 + length body) # body)"

section \<open>Lemmas\<close>

lemma u8_nat: "n < 256 \<Longrightarrow> unat (word_of_nat n :: u8) = n"
  by (simp add: unsigned_of_nat take_bit_nat_eq_self)

text \<open>Reads at positions counted from the front, past a list of unknown length.\<close>

lemma rd_Cons [simp]:
  "rd (x # xs) 0 = Some x" "rd (x # xs) (Suc i) = rd xs i"
  "rd (x # xs) (numeral k) = rd xs (pred_numeral k)"
  "rd (x # xs) (numeral k + i) = rd xs (pred_numeral k + i)"
  "rd (x # xs) (numeral k + i + j) = rd xs (pred_numeral k + i + j)"
  by (simp_all add: rd_def numeral_eq_Suc)

lemma rd_append [simp]:
  "rd (xs @ ys) (length xs) = rd ys 0" "rd (xs @ ys) (Suc (length xs)) = rd ys 1"
  "rd (xs @ ys) (Suc (Suc (length xs))) = rd ys 2" "rd (xs @ ys) (numeral k + length xs) = rd ys (numeral k)"
  "rd (xs @ ys) (numeral k + length xs + i) = rd ys (numeral k + i)"
  "rd (xs @ ys) (length xs + i) = rd ys i"
  by (auto simp: rd_def nth_append)

lemma le_bytes_read:
  "push_bit 8 (ucast (ucast (drop_bit 8 v) :: u8)) OR ucast (ucast v :: u8) = take_bit 16 (v :: u32)"
  "push_bit 24 (ucast (ucast (drop_bit 24 v) :: u8)) OR push_bit 16 (ucast (ucast (drop_bit 16 v) :: u8)) OR
     take_bit 16 v = (v :: u32)"
proof -
  show "push_bit 8 (ucast (ucast (drop_bit 8 v) :: u8)) OR ucast (ucast v :: u8) = take_bit 16 v"
    by (rule bit_word_eqI) (auto simp: bit_simps)
  show "push_bit 24 (ucast (ucast (drop_bit 24 v) :: u8)) OR push_bit 16 (ucast (ucast (drop_bit 16 v) :: u8)) OR
     take_bit 16 v = v"
    by (rule bit_word_eqI; rename_tac n; case_tac "24 \<le> n"; case_tac "16 \<le> n")
      (auto simp: bit_simps dest: bit_imp_le_length)
qed

lemma last_byte_of:
  "length d < 256 \<Longrightarrow> d = word_of_nat (1 + length body + 1) # body @ [i] \<Longrightarrow> last_byte d = Some i"
  using u8_nat [of "length body + 2"]
  by (simp add: last_byte_def bLength_def rd_def nth_append numeral_2_eq_2 del: rd_Some of_nat_add)

lemmas mixer_defs = uac_mixer_unit_bNrChannels_def uac_mixer_unit_wChannelConfig_def
  uac_mixer_unit_iChannelNames_def uac_mixer_unit_bmControls_def
  mixer_bNrInPins_def le16_at_def le32_at_def

lemmas processing_defs = uac_processing_unit_bNrChannels_def uac_processing_unit_wChannelConfig_def
  uac_processing_unit_iChannelNames_def uac_processing_unit_bControlSize_def
  uac_processing_unit_bmControls_def uac_processing_unit_iProcessing_def
  uac_processing_unit_specific_def uac_extension_unit_bControlSize_def
  uac_extension_unit_iExtension_def proc_bNrInPins_def deref_def le16_at_def le32_at_def

section \<open>Properties\<close>

text \<open>
  Of a mixer unit descriptor in the layout of version 1 or 2 of the audio class, the accessors return
  the channel count, the channel configuration (sixteen bits of it in version 1), the name
  index, the place of the mixing controls and the index of the last byte.
\<close>

theorem mixer_unit_accessors:
  assumes "protocol = UAC_VERSION_1 \<or> protocol = UAC_VERSION_2"
    and "length (mixer_unit protocol t s u sources c controls i) < 256"
  shows "(let d = mixer_unit protocol t s u sources c controls i in
    uac_mixer_unit_bNrChannels d = Some (channels c) \<and>
    uac_mixer_unit_wChannelConfig d protocol =
      Some (if protocol = UAC_VERSION_1 then take_bit 16 (config c) else config c) \<and>
    uac_mixer_unit_iChannelNames d protocol = Some (names c) \<and>
    (\<exists>p. uac_mixer_unit_bmControls d protocol = Some (Some p) \<and> take (length controls) (drop p d) = controls) \<and>
    uac_mixer_unit_iMixer d = Some i)"
proof -
  have n: "length sources < 256"
    using assms(2) by (simp add: mixer_unit_def Let_def)
  have last: "uac_mixer_unit_iMixer (mixer_unit protocol t s u sources c controls i) = Some i"
    unfolding uac_mixer_unit_iMixer_def using assms(2)
    by (rule last_byte_of [where body = "[t, s, u, word_of_nat (length sources)] @ sources @
          config_bytes protocol c @ controls"]) (simp add: mixer_unit_def Let_def)
  note unfolds = mixer_defs mixer_unit_def Let_def config_bytes_def le2_def le4_def le_bytes_read
  show ?thesis
    using assms(1) last u8_nat [OF n]
    by (auto simp: unfolds simp del: rd_Some of_nat_add)
qed

theorem mixer_unit_accessors_witness:
  "uac_mixer_unit_wChannelConfig (mixer_unit UAC_VERSION_2 0x24 4 9 [1, 2]
      \<lparr>channels = 2, config = 0x10003, names = 5\<rparr> [0xf0] 7) UAC_VERSION_2 = Some 0x10003 \<and>
   uac_mixer_unit_iMixer (mixer_unit UAC_VERSION_2 0x24 4 9 [1, 2]
      \<lparr>channels = 2, config = 0x10003, names = 5\<rparr> [0xf0] 7) = Some 7"
  using mixer_unit_accessors [of UAC_VERSION_2 "0x24" 4 9 "[1, 2]"
      "\<lparr>channels = 2, config = 0x10003, names = 5\<rparr>" "[0xf0]" 7]
  by (simp add: Let_def mixer_unit_def config_bytes_def le4_def)



text \<open>
  For a protocol the header does not know, the controls are at \<open>NULL\<close> and the index of a
  processing or extension unit is read through it: there is no result, whatever the descriptor.
\<close>

theorem unknown_protocol_null:
  assumes "protocol \<noteq> UAC_VERSION_1" and "protocol \<noteq> UAC_VERSION_2" and "protocol \<noteq> UAC_VERSION_3"
  shows "uac_processing_unit_iProcessing d protocol = None \<and> uac_extension_unit_iExtension d protocol = None \<and>
    uac_processing_unit_specific d protocol = None \<and>
    (6 < length d \<longrightarrow> uac_processing_unit_bmControls d protocol = Some None)"
  using assms by (cases "proc_bNrInPins d") (auto simp: processing_defs)

theorem unknown_protocol_null_witness:
  "uac_processing_unit_iProcessing (replicate 20 1) 0x40 = None \<and>
   uac_processing_unit_bmControls (replicate 20 1) 0x40 = Some None"
  using unknown_protocol_null [of "0x40" "replicate 20 1"] by simp

end
