(* ===== verification/UsbCh9.thy ===== *)
theory UsbCh9
  imports ByteOrder
begin

text \<open>
  Endpoint descriptors of USB devices, from \<open>linux-headers/include/linux/usb/ch9.h\<close>: the accessors of transfer type,
  direction, number and packet size, the combined tests, and the stream count of the
  SuperSpeed companion descriptor. Functions that return a truth value as \<open>int\<close> are predicates.
\<close>

section \<open>Descriptors\<close>

record usb_endpoint_descriptor =
  bLength :: u8
  bDescriptorType :: u8
  bEndpointAddress :: u8
  bmAttributes :: u8
  wMaxPacketSize :: u16
  bInterval :: u8
  bRefresh :: u8
  bSynchAddress :: u8

record usb_ss_ep_comp_descriptor =
  ss_bLength :: u8
  ss_bDescriptorType :: u8
  bMaxBurst :: u8
  ss_bmAttributes :: u8
  wBytesPerInterval :: u16

abbreviation (input) USB_DIR_OUT :: u8 where "USB_DIR_OUT \<equiv> 0"
abbreviation (input) USB_DIR_IN :: u8 where "USB_DIR_IN \<equiv> 0x80"
abbreviation (input) USB_ENDPOINT_NUMBER_MASK :: u8 where "USB_ENDPOINT_NUMBER_MASK \<equiv> 0x0f"
abbreviation (input) USB_ENDPOINT_DIR_MASK :: u8 where "USB_ENDPOINT_DIR_MASK \<equiv> 0x80"
abbreviation (input) USB_ENDPOINT_XFERTYPE_MASK :: u8 where "USB_ENDPOINT_XFERTYPE_MASK \<equiv> 0x03"
abbreviation (input) USB_ENDPOINT_XFER_CONTROL :: u8 where "USB_ENDPOINT_XFER_CONTROL \<equiv> 0"
abbreviation (input) USB_ENDPOINT_XFER_ISOC :: u8 where "USB_ENDPOINT_XFER_ISOC \<equiv> 1"
abbreviation (input) USB_ENDPOINT_XFER_BULK :: u8 where "USB_ENDPOINT_XFER_BULK \<equiv> 2"
abbreviation (input) USB_ENDPOINT_XFER_INT :: u8 where "USB_ENDPOINT_XFER_INT \<equiv> 3"
abbreviation (input) USB_ENDPOINT_MAXP_MASK :: u16 where "USB_ENDPOINT_MAXP_MASK \<equiv> 0x07ff"
abbreviation (input) USB_EP_MAXP_MULT_SHIFT :: nat where "USB_EP_MAXP_MULT_SHIFT \<equiv> 11"
abbreviation (input) USB_EP_MAXP_MULT_MASK :: cint where "USB_EP_MAXP_MULT_MASK \<equiv> push_bit 11 3"
abbreviation (input) USB_ENDPOINT_INTRTYPE :: u8 where "USB_ENDPOINT_INTRTYPE \<equiv> 0x30"

section \<open>Accessors\<close>

definition usb_endpoint_num :: "usb_endpoint_descriptor \<Rightarrow> cint" where
  "usb_endpoint_num epd = ucast (bEndpointAddress epd AND USB_ENDPOINT_NUMBER_MASK)"

definition usb_endpoint_type :: "usb_endpoint_descriptor \<Rightarrow> cint" where
  "usb_endpoint_type epd = ucast (bmAttributes epd AND USB_ENDPOINT_XFERTYPE_MASK)"

definition usb_endpoint_dir_in :: "usb_endpoint_descriptor \<Rightarrow> bool" where
  "usb_endpoint_dir_in epd \<longleftrightarrow> bEndpointAddress epd AND USB_ENDPOINT_DIR_MASK = USB_DIR_IN"

definition usb_endpoint_dir_out :: "usb_endpoint_descriptor \<Rightarrow> bool" where
  "usb_endpoint_dir_out epd \<longleftrightarrow> bEndpointAddress epd AND USB_ENDPOINT_DIR_MASK = USB_DIR_OUT"

definition usb_endpoint_xfer_bulk :: "usb_endpoint_descriptor \<Rightarrow> bool" where
  "usb_endpoint_xfer_bulk epd \<longleftrightarrow> bmAttributes epd AND USB_ENDPOINT_XFERTYPE_MASK = USB_ENDPOINT_XFER_BULK"

definition usb_endpoint_xfer_control :: "usb_endpoint_descriptor \<Rightarrow> bool" where
  "usb_endpoint_xfer_control epd \<longleftrightarrow> bmAttributes epd AND USB_ENDPOINT_XFERTYPE_MASK = USB_ENDPOINT_XFER_CONTROL"

definition usb_endpoint_xfer_int :: "usb_endpoint_descriptor \<Rightarrow> bool" where
  "usb_endpoint_xfer_int epd \<longleftrightarrow> bmAttributes epd AND USB_ENDPOINT_XFERTYPE_MASK = USB_ENDPOINT_XFER_INT"

definition usb_endpoint_xfer_isoc :: "usb_endpoint_descriptor \<Rightarrow> bool" where
  "usb_endpoint_xfer_isoc epd \<longleftrightarrow> bmAttributes epd AND USB_ENDPOINT_XFERTYPE_MASK = USB_ENDPOINT_XFER_ISOC"

definition usb_endpoint_is_bulk_in :: "usb_endpoint_descriptor \<Rightarrow> bool" where
  "usb_endpoint_is_bulk_in epd \<longleftrightarrow> usb_endpoint_xfer_bulk epd \<and> usb_endpoint_dir_in epd"

definition usb_endpoint_is_bulk_out :: "usb_endpoint_descriptor \<Rightarrow> bool" where
  "usb_endpoint_is_bulk_out epd \<longleftrightarrow> usb_endpoint_xfer_bulk epd \<and> usb_endpoint_dir_out epd"

definition usb_endpoint_is_int_in :: "usb_endpoint_descriptor \<Rightarrow> bool" where
  "usb_endpoint_is_int_in epd \<longleftrightarrow> usb_endpoint_xfer_int epd \<and> usb_endpoint_dir_in epd"

definition usb_endpoint_is_int_out :: "usb_endpoint_descriptor \<Rightarrow> bool" where
  "usb_endpoint_is_int_out epd \<longleftrightarrow> usb_endpoint_xfer_int epd \<and> usb_endpoint_dir_out epd"

definition usb_endpoint_is_isoc_in :: "usb_endpoint_descriptor \<Rightarrow> bool" where
  "usb_endpoint_is_isoc_in epd \<longleftrightarrow> usb_endpoint_xfer_isoc epd \<and> usb_endpoint_dir_in epd"

definition usb_endpoint_is_isoc_out :: "usb_endpoint_descriptor \<Rightarrow> bool" where
  "usb_endpoint_is_isoc_out epd \<longleftrightarrow> usb_endpoint_xfer_isoc epd \<and> usb_endpoint_dir_out epd"

definition usb_endpoint_maxp :: "usb_endpoint_descriptor \<Rightarrow> cint" where
  "usb_endpoint_maxp epd = ucast (le16_to_cpu (wMaxPacketSize epd) AND USB_ENDPOINT_MAXP_MASK)"

definition USB_EP_MAXP_MULT :: "cint \<Rightarrow> cint" where
  "USB_EP_MAXP_MULT m = drop_bit USB_EP_MAXP_MULT_SHIFT (m AND USB_EP_MAXP_MULT_MASK)"

definition usb_endpoint_maxp_mult :: "usb_endpoint_descriptor \<Rightarrow> cint" where
  "usb_endpoint_maxp_mult epd =
     (let maxp = ucast (le16_to_cpu (wMaxPacketSize epd)) in USB_EP_MAXP_MULT maxp + 1)"

definition usb_endpoint_interrupt_type :: "usb_endpoint_descriptor \<Rightarrow> cint" where
  "usb_endpoint_interrupt_type epd = ucast (bmAttributes epd AND USB_ENDPOINT_INTRTYPE)"

text \<open>\<open>1 << max_streams\<close> is undefined for 31: the result does not fit an \<open>int\<close>.\<close>

definition usb_ss_max_streams :: "usb_ss_ep_comp_descriptor option \<Rightarrow> cint option" where
  "usb_ss_max_streams desc =
     (case desc of
        None \<Rightarrow> Some 0
      | Some c \<Rightarrow>
          let max_streams = unat (ss_bmAttributes c AND 0x1f) in
          if max_streams = 0 then Some 0
          else if max_streams = 31 then None
          else Some (push_bit max_streams 1))"

definition USB_SS_MULT :: "u8 \<Rightarrow> cint" where
  "USB_SS_MULT p = 1 + (ucast p AND 0x3)"

definition USB_SS_SSP_ISOC_COMP :: "u8 \<Rightarrow> cint" where
  "USB_SS_SSP_ISOC_COMP p = ucast p AND push_bit 7 1"

section \<open>Properties\<close>

lemma low2_cases: "x AND 3 = 0 \<or> x AND 3 = 1 \<or> x AND 3 = 2 \<or> x AND 3 = 3" for x :: u8
proof -
  have "unat (x AND 3) < 4"
    using take_bit_nat_less_exp [of 2 "unat x"] by (simp add: word_AND_mask_literals unsigned_take_bit_eq)
  then have "unat (x AND 3) \<in> {0, 1, 2, 3}"
    by auto
  then show ?thesis
    by (auto simp: word_unat_eq_iff)
qed

lemma and_push_bit_one: "x AND push_bit k 1 = (if bit x k then push_bit k 1 else 0)" for x :: u8
  by (rule bit_word_eqI) (auto simp: bit_simps)

lemma dir_bit: "x AND 0x80 = (if bit x 7 then 0x80 else 0)" for x :: u8
  using and_push_bit_one [of x 7] by simp

lemma maxp_bits: "x AND 0x7ff = take_bit 11 x" for x :: u16
  by (simp add: take_bit_eq_mask mask_eq_exp_minus_1)

lemma mult_bits: "drop_bit k (y AND push_bit k 3) = take_bit 2 (drop_bit k y)" for y :: cint
  unfolding mask_literals by (rule bit_word_eqI) (auto simp: bit_simps dest: bit_imp_le_length)


text \<open>
  Numbers, packet size and transaction count are read back from the descriptor bytes they were put into, whatever the
  other bits are: the number and direction from the address, the packet size (11 bits) and one to four
  transactions from the size word.
\<close>

theorem usb_endpoint_fields:
  assumes "num < 16" and "maxp < 2048" and "1 \<le> mult" and "mult \<le> 4"
    and "bEndpointAddress epd = (if dir_in then 0x80 else 0) OR push_bit 4 (reserved AND 7) OR num"
    and "wMaxPacketSize epd = cpu_to_le16 (push_bit 13 high OR push_bit 11 (ucast (mult - 1)) OR maxp)"
  shows "usb_endpoint_num epd = ucast num \<and> usb_endpoint_dir_in epd = dir_in \<and>
    usb_endpoint_maxp epd = ucast maxp \<and> usb_endpoint_maxp_mult epd = mult"
proof -
  have b: "\<And>n. bit num n \<Longrightarrow> n < 4" "\<And>n. bit maxp n \<Longrightarrow> n < 11"
    using bit_below [of num 4] bit_below [of maxp 11] assms(1,2) by auto
  have addr: "bEndpointAddress epd AND 0xf = num" "bit (bEndpointAddress epd) 7 = dir_in"
  proof -
    have "((if dir_in then 0x80 else 0) :: u8) = (if dir_in then push_bit 7 1 else 0)"
      by simp
    then show "bEndpointAddress epd AND 0xf = num" "bit (bEndpointAddress epd) 7 = dir_in"
      unfolding assms(5) word_AND_mask_literals
      by (auto intro!: bit_word_eqI simp: bit_simps dest: b)
  qed
  have size: "le16_to_cpu (wMaxPacketSize epd) = push_bit 13 high OR push_bit 11 (ucast (mult - 1)) OR maxp"
    using assms(6) by (simp add: le16_to_cpu_def cpu_to_le16_def)
  have m: "unat (mult - 1) < 4"
    using assms(3,4) by (simp add: word_le_nat_alt unat_sub)
  then have mb: "bit (mult - 1) n \<Longrightarrow> n < 2" for n
    using bit_below [of "mult - 1" 2 n] by (simp add: word_less_nat_alt)
  have "take_bit 11 (le16_to_cpu (wMaxPacketSize epd)) = maxp"
    "take_bit 2 (drop_bit 11 (ucast (le16_to_cpu (wMaxPacketSize epd)))) = mult - 1"
    unfolding size by (auto intro!: bit_word_eqI simp: bit_simps dest: b) (drule mb; simp)+
  then have "le16_to_cpu (wMaxPacketSize epd) AND 0x7ff = maxp"
    "drop_bit 11 (ucast (le16_to_cpu (wMaxPacketSize epd)) AND push_bit 11 3) = mult - 1"
    by (simp_all only: maxp_bits mult_bits)
  then show ?thesis
    using addr by (simp add: usb_endpoint_num_def usb_endpoint_dir_in_def dir_bit usb_endpoint_maxp_def usb_endpoint_maxp_mult_def
        USB_EP_MAXP_MULT_def)
qed

theorem usb_endpoint_fields_witness:
  "usb_endpoint_num \<lparr>bLength = 7, bDescriptorType = 5, bEndpointAddress = 0x83, bmAttributes = 1, wMaxPacketSize = 0x1400,
      bInterval = 1, bRefresh = 0, bSynchAddress = 0\<rparr> = 3"
  using usb_endpoint_fields [of 3 "0x400" 3 "\<lparr>bLength = 7, bDescriptorType = 5, bEndpointAddress = 0x83, bmAttributes = 1,
      wMaxPacketSize = 0x1400, bInterval = 1, bRefresh = 0, bSynchAddress = 0\<rparr>" True 0 0]
  by (simp add: cpu_to_le16_def)

text \<open>
  The number of streams is a power of two or zero, and undefined for the exponent 31, which a device can send: the shift
  overflows \<open>int\<close>.
\<close>

lemma usb_ss_max_streams_cases:
  "usb_ss_max_streams desc =
     (case desc of None \<Rightarrow> Some 0
      | Some c \<Rightarrow> let n = take_bit 5 (unat (ss_bmAttributes c)) in
          if n = 0 then Some 0 else if n = 31 then None else Some (2 ^ n))"
  by (auto simp: usb_ss_max_streams_def word_AND_mask_literals unsigned_take_bit_eq Let_def push_bit_of_1 split: option.splits)

end
