(* ===== verification/DvTimings.thy ===== *)
theory DvTimings
  imports CPrelude
begin

text \<open>
  The digital video timings of \<open>linux-headers/include/linux/v4l2-dv-timings.h\<close>, as values of the
  structures of \<open>linux/videodev2.h\<close>, and the macros that compute blanking and frame sizes. Members
  that an initialiser leaves out are zero, as in C. The order of the definitions is the header's.
\<close>

section \<open>Structures\<close>

record v4l2_fract =
  numerator :: u32
  denominator :: u32

record v4l2_bt_timings =
  width :: u32
  height :: u32
  interlaced :: u32
  polarities :: u32
  pixelclock :: u64
  hfrontporch :: u32
  hsync :: u32
  hbackporch :: u32
  vfrontporch :: u32
  vsync :: u32
  vbackporch :: u32
  il_vfrontporch :: u32
  il_vsync :: u32
  il_vbackporch :: u32
  standards :: u32
  bt_flags :: u32
  picture_aspect :: v4l2_fract
  cea861_vic :: u8
  hdmi_vic :: u8

record v4l2_dv_timings =
  timings_type :: u32
  bt :: v4l2_bt_timings

definition V4L2_DV_VSYNC_POS_POL :: u32 where "V4L2_DV_VSYNC_POS_POL = 0x00000001"
definition V4L2_DV_HSYNC_POS_POL :: u32 where "V4L2_DV_HSYNC_POS_POL = 0x00000002"
definition V4L2_DV_BT_STD_CEA861 :: u32 where "V4L2_DV_BT_STD_CEA861 = push_bit 0 1"
definition V4L2_DV_BT_STD_DMT :: u32 where "V4L2_DV_BT_STD_DMT = push_bit 1 1"
definition V4L2_DV_BT_STD_CVT :: u32 where "V4L2_DV_BT_STD_CVT = push_bit 2 1"
definition V4L2_DV_BT_STD_GTF :: u32 where "V4L2_DV_BT_STD_GTF = push_bit 3 1"
definition V4L2_DV_BT_STD_SDI :: u32 where "V4L2_DV_BT_STD_SDI = push_bit 4 1"
definition V4L2_DV_FL_REDUCED_BLANKING :: u32 where "V4L2_DV_FL_REDUCED_BLANKING = push_bit 0 1"
definition V4L2_DV_FL_CAN_REDUCE_FPS :: u32 where "V4L2_DV_FL_CAN_REDUCE_FPS = push_bit 1 1"
definition V4L2_DV_FL_REDUCED_FPS :: u32 where "V4L2_DV_FL_REDUCED_FPS = push_bit 2 1"
definition V4L2_DV_FL_HALF_LINE :: u32 where "V4L2_DV_FL_HALF_LINE = push_bit 3 1"
definition V4L2_DV_FL_IS_CE_VIDEO :: u32 where "V4L2_DV_FL_IS_CE_VIDEO = push_bit 4 1"
definition V4L2_DV_FL_FIRST_FIELD_EXTRA_LINE :: u32 where "V4L2_DV_FL_FIRST_FIELD_EXTRA_LINE = push_bit 5 1"
definition V4L2_DV_FL_HAS_PICTURE_ASPECT :: u32 where "V4L2_DV_FL_HAS_PICTURE_ASPECT = push_bit 6 1"
definition V4L2_DV_FL_HAS_CEA861_VIC :: u32 where "V4L2_DV_FL_HAS_CEA861_VIC = push_bit 7 1"
definition V4L2_DV_FL_HAS_HDMI_VIC :: u32 where "V4L2_DV_FL_HAS_HDMI_VIC = push_bit 8 1"
definition V4L2_DV_FL_CAN_DETECT_REDUCED_FPS :: u32 where "V4L2_DV_FL_CAN_DETECT_REDUCED_FPS = push_bit 9 1"
definition V4L2_DV_BT_656_1120 :: u32 where "V4L2_DV_BT_656_1120 = 0"

lemmas dv_constants = V4L2_DV_VSYNC_POS_POL_def
  V4L2_DV_HSYNC_POS_POL_def
  V4L2_DV_BT_STD_CEA861_def
  V4L2_DV_BT_STD_DMT_def
  V4L2_DV_BT_STD_CVT_def
  V4L2_DV_BT_STD_GTF_def
  V4L2_DV_BT_STD_SDI_def
  V4L2_DV_FL_REDUCED_BLANKING_def
  V4L2_DV_FL_CAN_REDUCE_FPS_def
  V4L2_DV_FL_REDUCED_FPS_def
  V4L2_DV_FL_HALF_LINE_def
  V4L2_DV_FL_IS_CE_VIDEO_def
  V4L2_DV_FL_FIRST_FIELD_EXTRA_LINE_def
  V4L2_DV_FL_HAS_PICTURE_ASPECT_def
  V4L2_DV_FL_HAS_CEA861_VIC_def
  V4L2_DV_FL_HAS_HDMI_VIC_def
  V4L2_DV_FL_CAN_DETECT_REDUCED_FPS_def
  V4L2_DV_BT_656_1120_def

section \<open>Blanking and frame sizes\<close>

definition V4L2_DV_BT_BLANKING_WIDTH :: "v4l2_bt_timings \<Rightarrow> u32" where
  "V4L2_DV_BT_BLANKING_WIDTH b = hfrontporch b + hsync b + hbackporch b"

definition V4L2_DV_BT_FRAME_WIDTH :: "v4l2_bt_timings \<Rightarrow> u32" where
  "V4L2_DV_BT_FRAME_WIDTH b = width b + V4L2_DV_BT_BLANKING_WIDTH b"

definition V4L2_DV_BT_BLANKING_HEIGHT :: "v4l2_bt_timings \<Rightarrow> u32" where
  "V4L2_DV_BT_BLANKING_HEIGHT b = vfrontporch b + vsync b + vbackporch b +
     (if interlaced b \<noteq> 0 then il_vfrontporch b + il_vsync b + il_vbackporch b else 0)"

definition V4L2_DV_BT_FRAME_HEIGHT :: "v4l2_bt_timings \<Rightarrow> u32" where
  "V4L2_DV_BT_FRAME_HEIGHT b = height b + V4L2_DV_BT_BLANKING_HEIGHT b"

section \<open>The timings\<close>

text \<open>The positional initialiser; its last five members may be missing in the source.\<close>

definition V4L2_INIT_BT_TIMINGS ::
    "u32 \<Rightarrow> u32 \<Rightarrow> u32 \<Rightarrow> u32 \<Rightarrow> u64 \<Rightarrow> u32 \<Rightarrow> u32 \<Rightarrow> u32 \<Rightarrow> u32 \<Rightarrow> u32 \<Rightarrow> u32 \<Rightarrow> u32 \<Rightarrow> u32 \<Rightarrow> u32 \<Rightarrow>
     u32 \<Rightarrow> u32 \<Rightarrow> u32 \<times> u32 \<Rightarrow> u8 \<Rightarrow> u8 \<Rightarrow> v4l2_dv_timings" where
  "V4L2_INIT_BT_TIMINGS w h il pol clk hfp hs hbp vfp vs vbp ilfp ils ilbp std fl asp vic hvic =
     \<lparr>timings_type = V4L2_DV_BT_656_1120, bt = \<lparr>width = w, height = h, interlaced = il, polarities = pol,
      pixelclock = clk, hfrontporch = hfp, hsync = hs, hbackporch = hbp, vfrontporch = vfp, vsync = vs,
      vbackporch = vbp, il_vfrontporch = ilfp, il_vsync = ils, il_vbackporch = ilbp, standards = std,
      bt_flags = fl, picture_aspect = \<lparr>numerator = fst asp, denominator = snd asp\<rparr>, cea861_vic = vic,
      hdmi_vic = hvic\<rparr>\<rparr>"

definition V4L2_DV_BT_CEA_640X480P59_94 :: v4l2_dv_timings where
  "V4L2_DV_BT_CEA_640X480P59_94 = V4L2_INIT_BT_TIMINGS 640 480 0 0
     25175000 16 96 48 10 2 33 0 0 0
     (V4L2_DV_BT_STD_DMT OR V4L2_DV_BT_STD_CEA861) V4L2_DV_FL_HAS_CEA861_VIC
     (0, 0) 1 0"

definition V4L2_DV_BT_CEA_720X480I59_94 :: v4l2_dv_timings where
  "V4L2_DV_BT_CEA_720X480I59_94 = V4L2_INIT_BT_TIMINGS 720 480 1 0
     13500000 19 62 57 4 3 15 4 3 16
     V4L2_DV_BT_STD_CEA861 (V4L2_DV_FL_HALF_LINE OR V4L2_DV_FL_IS_CE_VIDEO OR V4L2_DV_FL_HAS_PICTURE_ASPECT OR V4L2_DV_FL_HAS_CEA861_VIC)
     (4, 3) 6 0"

definition V4L2_DV_BT_CEA_720X480P59_94 :: v4l2_dv_timings where
  "V4L2_DV_BT_CEA_720X480P59_94 = V4L2_INIT_BT_TIMINGS 720 480 0 0
     27000000 16 62 60 9 6 30 0 0 0
     V4L2_DV_BT_STD_CEA861 (V4L2_DV_FL_IS_CE_VIDEO OR V4L2_DV_FL_HAS_PICTURE_ASPECT OR V4L2_DV_FL_HAS_CEA861_VIC)
     (4, 3) 2 0"

definition V4L2_DV_BT_CEA_720X576I50 :: v4l2_dv_timings where
  "V4L2_DV_BT_CEA_720X576I50 = V4L2_INIT_BT_TIMINGS 720 576 1 0
     13500000 12 63 69 2 3 19 2 3 20
     V4L2_DV_BT_STD_CEA861 (V4L2_DV_FL_HALF_LINE OR V4L2_DV_FL_IS_CE_VIDEO OR V4L2_DV_FL_HAS_PICTURE_ASPECT OR V4L2_DV_FL_HAS_CEA861_VIC)
     (4, 3) 21 0"

definition V4L2_DV_BT_CEA_720X576P50 :: v4l2_dv_timings where
  "V4L2_DV_BT_CEA_720X576P50 = V4L2_INIT_BT_TIMINGS 720 576 0 0
     27000000 12 64 68 5 5 39 0 0 0
     V4L2_DV_BT_STD_CEA861 (V4L2_DV_FL_IS_CE_VIDEO OR V4L2_DV_FL_HAS_PICTURE_ASPECT OR V4L2_DV_FL_HAS_CEA861_VIC)
     (4, 3) 17 0"

definition V4L2_DV_BT_CEA_1280X720P24 :: v4l2_dv_timings where
  "V4L2_DV_BT_CEA_1280X720P24 = V4L2_INIT_BT_TIMINGS 1280 720 0 (V4L2_DV_HSYNC_POS_POL OR V4L2_DV_VSYNC_POS_POL)
     59400000 1760 40 220 5 5 20 0 0 0
     (V4L2_DV_BT_STD_DMT OR V4L2_DV_BT_STD_CEA861) (V4L2_DV_FL_CAN_REDUCE_FPS OR V4L2_DV_FL_HAS_CEA861_VIC)
     (0, 0) 60 0"

definition V4L2_DV_BT_CEA_1280X720P25 :: v4l2_dv_timings where
  "V4L2_DV_BT_CEA_1280X720P25 = V4L2_INIT_BT_TIMINGS 1280 720 0 (V4L2_DV_HSYNC_POS_POL OR V4L2_DV_VSYNC_POS_POL)
     74250000 2420 40 220 5 5 20 0 0 0
     V4L2_DV_BT_STD_CEA861 (V4L2_DV_FL_IS_CE_VIDEO OR V4L2_DV_FL_HAS_CEA861_VIC)
     (0, 0) 61 0"

definition V4L2_DV_BT_CEA_1280X720P30 :: v4l2_dv_timings where
  "V4L2_DV_BT_CEA_1280X720P30 = V4L2_INIT_BT_TIMINGS 1280 720 0 (V4L2_DV_HSYNC_POS_POL OR V4L2_DV_VSYNC_POS_POL)
     74250000 1760 40 220 5 5 20 0 0 0
     V4L2_DV_BT_STD_CEA861 (V4L2_DV_FL_CAN_REDUCE_FPS OR V4L2_DV_FL_IS_CE_VIDEO OR V4L2_DV_FL_HAS_CEA861_VIC)
     (0, 0) 62 0"

definition V4L2_DV_BT_CEA_1280X720P50 :: v4l2_dv_timings where
  "V4L2_DV_BT_CEA_1280X720P50 = V4L2_INIT_BT_TIMINGS 1280 720 0 (V4L2_DV_HSYNC_POS_POL OR V4L2_DV_VSYNC_POS_POL)
     74250000 440 40 220 5 5 20 0 0 0
     V4L2_DV_BT_STD_CEA861 (V4L2_DV_FL_IS_CE_VIDEO OR V4L2_DV_FL_HAS_CEA861_VIC)
     (0, 0) 19 0"

definition V4L2_DV_BT_CEA_1280X720P60 :: v4l2_dv_timings where
  "V4L2_DV_BT_CEA_1280X720P60 = V4L2_INIT_BT_TIMINGS 1280 720 0 (V4L2_DV_HSYNC_POS_POL OR V4L2_DV_VSYNC_POS_POL)
     74250000 110 40 220 5 5 20 0 0 0
     V4L2_DV_BT_STD_CEA861 (V4L2_DV_FL_CAN_REDUCE_FPS OR V4L2_DV_FL_IS_CE_VIDEO OR V4L2_DV_FL_HAS_CEA861_VIC)
     (0, 0) 4 0"

definition V4L2_DV_BT_CEA_1920X1080P24 :: v4l2_dv_timings where
  "V4L2_DV_BT_CEA_1920X1080P24 = V4L2_INIT_BT_TIMINGS 1920 1080 0 (V4L2_DV_HSYNC_POS_POL OR V4L2_DV_VSYNC_POS_POL)
     74250000 638 44 148 4 5 36 0 0 0
     V4L2_DV_BT_STD_CEA861 (V4L2_DV_FL_CAN_REDUCE_FPS OR V4L2_DV_FL_IS_CE_VIDEO OR V4L2_DV_FL_HAS_CEA861_VIC)
     (0, 0) 32 0"

definition V4L2_DV_BT_CEA_1920X1080P25 :: v4l2_dv_timings where
  "V4L2_DV_BT_CEA_1920X1080P25 = V4L2_INIT_BT_TIMINGS 1920 1080 0 (V4L2_DV_HSYNC_POS_POL OR V4L2_DV_VSYNC_POS_POL)
     74250000 528 44 148 4 5 36 0 0 0
     V4L2_DV_BT_STD_CEA861 (V4L2_DV_FL_IS_CE_VIDEO OR V4L2_DV_FL_HAS_CEA861_VIC)
     (0, 0) 33 0"

definition V4L2_DV_BT_CEA_1920X1080P30 :: v4l2_dv_timings where
  "V4L2_DV_BT_CEA_1920X1080P30 = V4L2_INIT_BT_TIMINGS 1920 1080 0 (V4L2_DV_HSYNC_POS_POL OR V4L2_DV_VSYNC_POS_POL)
     74250000 88 44 148 4 5 36 0 0 0
     V4L2_DV_BT_STD_CEA861 (V4L2_DV_FL_CAN_REDUCE_FPS OR V4L2_DV_FL_IS_CE_VIDEO OR V4L2_DV_FL_HAS_CEA861_VIC)
     (0, 0) 34 0"

definition V4L2_DV_BT_CEA_1920X1080I50 :: v4l2_dv_timings where
  "V4L2_DV_BT_CEA_1920X1080I50 = V4L2_INIT_BT_TIMINGS 1920 1080 1 (V4L2_DV_HSYNC_POS_POL OR V4L2_DV_VSYNC_POS_POL)
     74250000 528 44 148 2 5 15 2 5 16
     V4L2_DV_BT_STD_CEA861 (V4L2_DV_FL_HALF_LINE OR V4L2_DV_FL_IS_CE_VIDEO OR V4L2_DV_FL_HAS_CEA861_VIC)
     (0, 0) 20 0"

definition V4L2_DV_BT_CEA_1920X1080P50 :: v4l2_dv_timings where
  "V4L2_DV_BT_CEA_1920X1080P50 = V4L2_INIT_BT_TIMINGS 1920 1080 0 (V4L2_DV_HSYNC_POS_POL OR V4L2_DV_VSYNC_POS_POL)
     148500000 528 44 148 4 5 36 0 0 0
     V4L2_DV_BT_STD_CEA861 (V4L2_DV_FL_IS_CE_VIDEO OR V4L2_DV_FL_HAS_CEA861_VIC)
     (0, 0) 31 0"

definition V4L2_DV_BT_CEA_1920X1080I60 :: v4l2_dv_timings where
  "V4L2_DV_BT_CEA_1920X1080I60 = V4L2_INIT_BT_TIMINGS 1920 1080 1 (V4L2_DV_HSYNC_POS_POL OR V4L2_DV_VSYNC_POS_POL)
     74250000 88 44 148 2 5 15 2 5 16
     V4L2_DV_BT_STD_CEA861 (V4L2_DV_FL_CAN_REDUCE_FPS OR V4L2_DV_FL_HALF_LINE OR V4L2_DV_FL_IS_CE_VIDEO OR V4L2_DV_FL_HAS_CEA861_VIC)
     (0, 0) 5 0"

definition V4L2_DV_BT_CEA_1920X1080P60 :: v4l2_dv_timings where
  "V4L2_DV_BT_CEA_1920X1080P60 = V4L2_INIT_BT_TIMINGS 1920 1080 0 (V4L2_DV_HSYNC_POS_POL OR V4L2_DV_VSYNC_POS_POL)
     148500000 88 44 148 4 5 36 0 0 0
     (V4L2_DV_BT_STD_DMT OR V4L2_DV_BT_STD_CEA861) (V4L2_DV_FL_CAN_REDUCE_FPS OR V4L2_DV_FL_IS_CE_VIDEO OR V4L2_DV_FL_HAS_CEA861_VIC)
     (0, 0) 16 0"

definition V4L2_DV_BT_CEA_3840X2160P24 :: v4l2_dv_timings where
  "V4L2_DV_BT_CEA_3840X2160P24 = V4L2_INIT_BT_TIMINGS 3840 2160 0 (V4L2_DV_HSYNC_POS_POL OR V4L2_DV_VSYNC_POS_POL)
     297000000 1276 88 296 8 10 72 0 0 0
     V4L2_DV_BT_STD_CEA861 (V4L2_DV_FL_CAN_REDUCE_FPS OR V4L2_DV_FL_IS_CE_VIDEO OR V4L2_DV_FL_HAS_CEA861_VIC OR V4L2_DV_FL_HAS_HDMI_VIC)
     (0, 0) 93 3"

definition V4L2_DV_BT_CEA_3840X2160P25 :: v4l2_dv_timings where
  "V4L2_DV_BT_CEA_3840X2160P25 = V4L2_INIT_BT_TIMINGS 3840 2160 0 (V4L2_DV_HSYNC_POS_POL OR V4L2_DV_VSYNC_POS_POL)
     297000000 1056 88 296 8 10 72 0 0 0
     V4L2_DV_BT_STD_CEA861 (V4L2_DV_FL_IS_CE_VIDEO OR V4L2_DV_FL_HAS_CEA861_VIC OR V4L2_DV_FL_HAS_HDMI_VIC)
     (0, 0) 94 2"

definition V4L2_DV_BT_CEA_3840X2160P30 :: v4l2_dv_timings where
  "V4L2_DV_BT_CEA_3840X2160P30 = V4L2_INIT_BT_TIMINGS 3840 2160 0 (V4L2_DV_HSYNC_POS_POL OR V4L2_DV_VSYNC_POS_POL)
     297000000 176 88 296 8 10 72 0 0 0
     V4L2_DV_BT_STD_CEA861 (V4L2_DV_FL_CAN_REDUCE_FPS OR V4L2_DV_FL_IS_CE_VIDEO OR V4L2_DV_FL_HAS_CEA861_VIC OR V4L2_DV_FL_HAS_HDMI_VIC)
     (0, 0) 95 1"

definition V4L2_DV_BT_CEA_3840X2160P50 :: v4l2_dv_timings where
  "V4L2_DV_BT_CEA_3840X2160P50 = V4L2_INIT_BT_TIMINGS 3840 2160 0 (V4L2_DV_HSYNC_POS_POL OR V4L2_DV_VSYNC_POS_POL)
     594000000 1056 88 296 8 10 72 0 0 0
     V4L2_DV_BT_STD_CEA861 (V4L2_DV_FL_IS_CE_VIDEO OR V4L2_DV_FL_HAS_CEA861_VIC)
     (0, 0) 96 0"

definition V4L2_DV_BT_CEA_3840X2160P60 :: v4l2_dv_timings where
  "V4L2_DV_BT_CEA_3840X2160P60 = V4L2_INIT_BT_TIMINGS 3840 2160 0 (V4L2_DV_HSYNC_POS_POL OR V4L2_DV_VSYNC_POS_POL)
     594000000 176 88 296 8 10 72 0 0 0
     V4L2_DV_BT_STD_CEA861 (V4L2_DV_FL_CAN_REDUCE_FPS OR V4L2_DV_FL_IS_CE_VIDEO OR V4L2_DV_FL_HAS_CEA861_VIC)
     (0, 0) 97 0"

definition V4L2_DV_BT_CEA_4096X2160P24 :: v4l2_dv_timings where
  "V4L2_DV_BT_CEA_4096X2160P24 = V4L2_INIT_BT_TIMINGS 4096 2160 0 (V4L2_DV_HSYNC_POS_POL OR V4L2_DV_VSYNC_POS_POL)
     297000000 1020 88 296 8 10 72 0 0 0
     V4L2_DV_BT_STD_CEA861 (V4L2_DV_FL_CAN_REDUCE_FPS OR V4L2_DV_FL_IS_CE_VIDEO OR V4L2_DV_FL_HAS_CEA861_VIC OR V4L2_DV_FL_HAS_HDMI_VIC)
     (0, 0) 98 4"

definition V4L2_DV_BT_CEA_4096X2160P25 :: v4l2_dv_timings where
  "V4L2_DV_BT_CEA_4096X2160P25 = V4L2_INIT_BT_TIMINGS 4096 2160 0 (V4L2_DV_HSYNC_POS_POL OR V4L2_DV_VSYNC_POS_POL)
     297000000 968 88 128 8 10 72 0 0 0
     V4L2_DV_BT_STD_CEA861 (V4L2_DV_FL_IS_CE_VIDEO OR V4L2_DV_FL_HAS_CEA861_VIC)
     (0, 0) 99 0"

definition V4L2_DV_BT_CEA_4096X2160P30 :: v4l2_dv_timings where
  "V4L2_DV_BT_CEA_4096X2160P30 = V4L2_INIT_BT_TIMINGS 4096 2160 0 (V4L2_DV_HSYNC_POS_POL OR V4L2_DV_VSYNC_POS_POL)
     297000000 88 88 128 8 10 72 0 0 0
     V4L2_DV_BT_STD_CEA861 (V4L2_DV_FL_CAN_REDUCE_FPS OR V4L2_DV_FL_IS_CE_VIDEO OR V4L2_DV_FL_HAS_CEA861_VIC)
     (0, 0) 100 0"

definition V4L2_DV_BT_CEA_4096X2160P50 :: v4l2_dv_timings where
  "V4L2_DV_BT_CEA_4096X2160P50 = V4L2_INIT_BT_TIMINGS 4096 2160 0 (V4L2_DV_HSYNC_POS_POL OR V4L2_DV_VSYNC_POS_POL)
     594000000 968 88 128 8 10 72 0 0 0
     V4L2_DV_BT_STD_CEA861 (V4L2_DV_FL_IS_CE_VIDEO OR V4L2_DV_FL_HAS_CEA861_VIC)
     (0, 0) 101 0"

definition V4L2_DV_BT_CEA_4096X2160P60 :: v4l2_dv_timings where
  "V4L2_DV_BT_CEA_4096X2160P60 = V4L2_INIT_BT_TIMINGS 4096 2160 0 (V4L2_DV_HSYNC_POS_POL OR V4L2_DV_VSYNC_POS_POL)
     594000000 88 88 128 8 10 72 0 0 0
     V4L2_DV_BT_STD_CEA861 (V4L2_DV_FL_CAN_REDUCE_FPS OR V4L2_DV_FL_IS_CE_VIDEO OR V4L2_DV_FL_HAS_CEA861_VIC)
     (0, 0) 102 0"

definition V4L2_DV_BT_DMT_640X350P85 :: v4l2_dv_timings where
  "V4L2_DV_BT_DMT_640X350P85 = V4L2_INIT_BT_TIMINGS 640 350 0 V4L2_DV_HSYNC_POS_POL
     31500000 32 64 96 32 3 60 0 0 0
     V4L2_DV_BT_STD_DMT 0
     (0, 0) 0 0"

definition V4L2_DV_BT_DMT_640X400P85 :: v4l2_dv_timings where
  "V4L2_DV_BT_DMT_640X400P85 = V4L2_INIT_BT_TIMINGS 640 400 0 V4L2_DV_VSYNC_POS_POL
     31500000 32 64 96 1 3 41 0 0 0
     V4L2_DV_BT_STD_DMT 0
     (0, 0) 0 0"

definition V4L2_DV_BT_DMT_720X400P85 :: v4l2_dv_timings where
  "V4L2_DV_BT_DMT_720X400P85 = V4L2_INIT_BT_TIMINGS 720 400 0 V4L2_DV_VSYNC_POS_POL
     35500000 36 72 108 1 3 42 0 0 0
     V4L2_DV_BT_STD_DMT 0
     (0, 0) 0 0"

definition V4L2_DV_BT_DMT_640X480P60 :: v4l2_dv_timings where
  "V4L2_DV_BT_DMT_640X480P60 = V4L2_DV_BT_CEA_640X480P59_94"

definition V4L2_DV_BT_DMT_640X480P72 :: v4l2_dv_timings where
  "V4L2_DV_BT_DMT_640X480P72 = V4L2_INIT_BT_TIMINGS 640 480 0 0
     31500000 24 40 128 9 3 28 0 0 0
     V4L2_DV_BT_STD_DMT 0
     (0, 0) 0 0"

definition V4L2_DV_BT_DMT_640X480P75 :: v4l2_dv_timings where
  "V4L2_DV_BT_DMT_640X480P75 = V4L2_INIT_BT_TIMINGS 640 480 0 0
     31500000 16 64 120 1 3 16 0 0 0
     V4L2_DV_BT_STD_DMT 0
     (0, 0) 0 0"

definition V4L2_DV_BT_DMT_640X480P85 :: v4l2_dv_timings where
  "V4L2_DV_BT_DMT_640X480P85 = V4L2_INIT_BT_TIMINGS 640 480 0 0
     36000000 56 56 80 1 3 25 0 0 0
     V4L2_DV_BT_STD_DMT 0
     (0, 0) 0 0"

definition V4L2_DV_BT_DMT_800X600P56 :: v4l2_dv_timings where
  "V4L2_DV_BT_DMT_800X600P56 = V4L2_INIT_BT_TIMINGS 800 600 0 (V4L2_DV_HSYNC_POS_POL OR V4L2_DV_VSYNC_POS_POL)
     36000000 24 72 128 1 2 22 0 0 0
     V4L2_DV_BT_STD_DMT 0
     (0, 0) 0 0"

definition V4L2_DV_BT_DMT_800X600P60 :: v4l2_dv_timings where
  "V4L2_DV_BT_DMT_800X600P60 = V4L2_INIT_BT_TIMINGS 800 600 0 (V4L2_DV_HSYNC_POS_POL OR V4L2_DV_VSYNC_POS_POL)
     40000000 40 128 88 1 4 23 0 0 0
     V4L2_DV_BT_STD_DMT 0
     (0, 0) 0 0"

definition V4L2_DV_BT_DMT_800X600P72 :: v4l2_dv_timings where
  "V4L2_DV_BT_DMT_800X600P72 = V4L2_INIT_BT_TIMINGS 800 600 0 (V4L2_DV_HSYNC_POS_POL OR V4L2_DV_VSYNC_POS_POL)
     50000000 56 120 64 37 6 23 0 0 0
     V4L2_DV_BT_STD_DMT 0
     (0, 0) 0 0"

definition V4L2_DV_BT_DMT_800X600P75 :: v4l2_dv_timings where
  "V4L2_DV_BT_DMT_800X600P75 = V4L2_INIT_BT_TIMINGS 800 600 0 (V4L2_DV_HSYNC_POS_POL OR V4L2_DV_VSYNC_POS_POL)
     49500000 16 80 160 1 3 21 0 0 0
     V4L2_DV_BT_STD_DMT 0
     (0, 0) 0 0"

definition V4L2_DV_BT_DMT_800X600P85 :: v4l2_dv_timings where
  "V4L2_DV_BT_DMT_800X600P85 = V4L2_INIT_BT_TIMINGS 800 600 0 (V4L2_DV_HSYNC_POS_POL OR V4L2_DV_VSYNC_POS_POL)
     56250000 32 64 152 1 3 27 0 0 0
     V4L2_DV_BT_STD_DMT 0
     (0, 0) 0 0"

definition V4L2_DV_BT_DMT_800X600P120_RB :: v4l2_dv_timings where
  "V4L2_DV_BT_DMT_800X600P120_RB = V4L2_INIT_BT_TIMINGS 800 600 0 V4L2_DV_HSYNC_POS_POL
     73250000 48 32 80 3 4 29 0 0 0
     (V4L2_DV_BT_STD_DMT OR V4L2_DV_BT_STD_CVT) V4L2_DV_FL_REDUCED_BLANKING
     (0, 0) 0 0"

definition V4L2_DV_BT_DMT_848X480P60 :: v4l2_dv_timings where
  "V4L2_DV_BT_DMT_848X480P60 = V4L2_INIT_BT_TIMINGS 848 480 0 (V4L2_DV_HSYNC_POS_POL OR V4L2_DV_VSYNC_POS_POL)
     33750000 16 112 112 6 8 23 0 0 0
     V4L2_DV_BT_STD_DMT 0
     (0, 0) 0 0"

definition V4L2_DV_BT_DMT_1024X768I43 :: v4l2_dv_timings where
  "V4L2_DV_BT_DMT_1024X768I43 = V4L2_INIT_BT_TIMINGS 1024 768 1 (V4L2_DV_HSYNC_POS_POL OR V4L2_DV_VSYNC_POS_POL)
     44900000 8 176 56 0 4 20 0 4 21
     V4L2_DV_BT_STD_DMT 0
     (0, 0) 0 0"

definition V4L2_DV_BT_DMT_1024X768P60 :: v4l2_dv_timings where
  "V4L2_DV_BT_DMT_1024X768P60 = V4L2_INIT_BT_TIMINGS 1024 768 0 0
     65000000 24 136 160 3 6 29 0 0 0
     V4L2_DV_BT_STD_DMT 0
     (0, 0) 0 0"

definition V4L2_DV_BT_DMT_1024X768P70 :: v4l2_dv_timings where
  "V4L2_DV_BT_DMT_1024X768P70 = V4L2_INIT_BT_TIMINGS 1024 768 0 0
     75000000 24 136 144 3 6 29 0 0 0
     V4L2_DV_BT_STD_DMT 0
     (0, 0) 0 0"

definition V4L2_DV_BT_DMT_1024X768P75 :: v4l2_dv_timings where
  "V4L2_DV_BT_DMT_1024X768P75 = V4L2_INIT_BT_TIMINGS 1024 768 0 (V4L2_DV_HSYNC_POS_POL OR V4L2_DV_VSYNC_POS_POL)
     78750000 16 96 176 1 3 28 0 0 0
     V4L2_DV_BT_STD_DMT 0
     (0, 0) 0 0"

definition V4L2_DV_BT_DMT_1024X768P85 :: v4l2_dv_timings where
  "V4L2_DV_BT_DMT_1024X768P85 = V4L2_INIT_BT_TIMINGS 1024 768 0 (V4L2_DV_HSYNC_POS_POL OR V4L2_DV_VSYNC_POS_POL)
     94500000 48 96 208 1 3 36 0 0 0
     V4L2_DV_BT_STD_DMT 0
     (0, 0) 0 0"

definition V4L2_DV_BT_DMT_1024X768P120_RB :: v4l2_dv_timings where
  "V4L2_DV_BT_DMT_1024X768P120_RB = V4L2_INIT_BT_TIMINGS 1024 768 0 V4L2_DV_HSYNC_POS_POL
     115500000 48 32 80 3 4 38 0 0 0
     (V4L2_DV_BT_STD_DMT OR V4L2_DV_BT_STD_CVT) V4L2_DV_FL_REDUCED_BLANKING
     (0, 0) 0 0"

definition V4L2_DV_BT_DMT_1152X864P75 :: v4l2_dv_timings where
  "V4L2_DV_BT_DMT_1152X864P75 = V4L2_INIT_BT_TIMINGS 1152 864 0 (V4L2_DV_HSYNC_POS_POL OR V4L2_DV_VSYNC_POS_POL)
     108000000 64 128 256 1 3 32 0 0 0
     V4L2_DV_BT_STD_DMT 0
     (0, 0) 0 0"

definition V4L2_DV_BT_DMT_1280X720P60 :: v4l2_dv_timings where
  "V4L2_DV_BT_DMT_1280X720P60 = V4L2_DV_BT_CEA_1280X720P60"

definition V4L2_DV_BT_DMT_1280X768P60_RB :: v4l2_dv_timings where
  "V4L2_DV_BT_DMT_1280X768P60_RB = V4L2_INIT_BT_TIMINGS 1280 768 0 V4L2_DV_HSYNC_POS_POL
     68250000 48 32 80 3 7 12 0 0 0
     (V4L2_DV_BT_STD_DMT OR V4L2_DV_BT_STD_CVT) V4L2_DV_FL_REDUCED_BLANKING
     (0, 0) 0 0"

definition V4L2_DV_BT_DMT_1280X768P60 :: v4l2_dv_timings where
  "V4L2_DV_BT_DMT_1280X768P60 = V4L2_INIT_BT_TIMINGS 1280 768 0 V4L2_DV_VSYNC_POS_POL
     79500000 64 128 192 3 7 20 0 0 0
     (V4L2_DV_BT_STD_DMT OR V4L2_DV_BT_STD_CVT) 0
     (0, 0) 0 0"

definition V4L2_DV_BT_DMT_1280X768P75 :: v4l2_dv_timings where
  "V4L2_DV_BT_DMT_1280X768P75 = V4L2_INIT_BT_TIMINGS 1280 768 0 V4L2_DV_VSYNC_POS_POL
     102250000 80 128 208 3 7 27 0 0 0
     (V4L2_DV_BT_STD_DMT OR V4L2_DV_BT_STD_CVT) 0
     (0, 0) 0 0"

definition V4L2_DV_BT_DMT_1280X768P85 :: v4l2_dv_timings where
  "V4L2_DV_BT_DMT_1280X768P85 = V4L2_INIT_BT_TIMINGS 1280 768 0 V4L2_DV_VSYNC_POS_POL
     117500000 80 136 216 3 7 31 0 0 0
     (V4L2_DV_BT_STD_DMT OR V4L2_DV_BT_STD_CVT) 0
     (0, 0) 0 0"

definition V4L2_DV_BT_DMT_1280X768P120_RB :: v4l2_dv_timings where
  "V4L2_DV_BT_DMT_1280X768P120_RB = V4L2_INIT_BT_TIMINGS 1280 768 0 V4L2_DV_HSYNC_POS_POL
     140250000 48 32 80 3 7 35 0 0 0
     (V4L2_DV_BT_STD_DMT OR V4L2_DV_BT_STD_CVT) V4L2_DV_FL_REDUCED_BLANKING
     (0, 0) 0 0"

definition V4L2_DV_BT_DMT_1280X800P60_RB :: v4l2_dv_timings where
  "V4L2_DV_BT_DMT_1280X800P60_RB = V4L2_INIT_BT_TIMINGS 1280 800 0 V4L2_DV_HSYNC_POS_POL
     71000000 48 32 80 3 6 14 0 0 0
     (V4L2_DV_BT_STD_DMT OR V4L2_DV_BT_STD_CVT) V4L2_DV_FL_REDUCED_BLANKING
     (0, 0) 0 0"

definition V4L2_DV_BT_DMT_1280X800P60 :: v4l2_dv_timings where
  "V4L2_DV_BT_DMT_1280X800P60 = V4L2_INIT_BT_TIMINGS 1280 800 0 V4L2_DV_VSYNC_POS_POL
     83500000 72 128 200 3 6 22 0 0 0
     (V4L2_DV_BT_STD_DMT OR V4L2_DV_BT_STD_CVT) 0
     (0, 0) 0 0"

definition V4L2_DV_BT_DMT_1280X800P75 :: v4l2_dv_timings where
  "V4L2_DV_BT_DMT_1280X800P75 = V4L2_INIT_BT_TIMINGS 1280 800 0 V4L2_DV_VSYNC_POS_POL
     106500000 80 128 208 3 6 29 0 0 0
     (V4L2_DV_BT_STD_DMT OR V4L2_DV_BT_STD_CVT) 0
     (0, 0) 0 0"

definition V4L2_DV_BT_DMT_1280X800P85 :: v4l2_dv_timings where
  "V4L2_DV_BT_DMT_1280X800P85 = V4L2_INIT_BT_TIMINGS 1280 800 0 V4L2_DV_VSYNC_POS_POL
     122500000 80 136 216 3 6 34 0 0 0
     (V4L2_DV_BT_STD_DMT OR V4L2_DV_BT_STD_CVT) 0
     (0, 0) 0 0"

definition V4L2_DV_BT_DMT_1280X800P120_RB :: v4l2_dv_timings where
  "V4L2_DV_BT_DMT_1280X800P120_RB = V4L2_INIT_BT_TIMINGS 1280 800 0 V4L2_DV_HSYNC_POS_POL
     146250000 48 32 80 3 6 38 0 0 0
     (V4L2_DV_BT_STD_DMT OR V4L2_DV_BT_STD_CVT) V4L2_DV_FL_REDUCED_BLANKING
     (0, 0) 0 0"

definition V4L2_DV_BT_DMT_1280X960P60 :: v4l2_dv_timings where
  "V4L2_DV_BT_DMT_1280X960P60 = V4L2_INIT_BT_TIMINGS 1280 960 0 (V4L2_DV_HSYNC_POS_POL OR V4L2_DV_VSYNC_POS_POL)
     108000000 96 112 312 1 3 36 0 0 0
     V4L2_DV_BT_STD_DMT 0
     (0, 0) 0 0"

definition V4L2_DV_BT_DMT_1280X960P85 :: v4l2_dv_timings where
  "V4L2_DV_BT_DMT_1280X960P85 = V4L2_INIT_BT_TIMINGS 1280 960 0 (V4L2_DV_HSYNC_POS_POL OR V4L2_DV_VSYNC_POS_POL)
     148500000 64 160 224 1 3 47 0 0 0
     V4L2_DV_BT_STD_DMT 0
     (0, 0) 0 0"

definition V4L2_DV_BT_DMT_1280X960P120_RB :: v4l2_dv_timings where
  "V4L2_DV_BT_DMT_1280X960P120_RB = V4L2_INIT_BT_TIMINGS 1280 960 0 V4L2_DV_HSYNC_POS_POL
     175500000 48 32 80 3 4 50 0 0 0
     (V4L2_DV_BT_STD_DMT OR V4L2_DV_BT_STD_CVT) V4L2_DV_FL_REDUCED_BLANKING
     (0, 0) 0 0"

definition V4L2_DV_BT_DMT_1280X1024P60 :: v4l2_dv_timings where
  "V4L2_DV_BT_DMT_1280X1024P60 = V4L2_INIT_BT_TIMINGS 1280 1024 0 (V4L2_DV_HSYNC_POS_POL OR V4L2_DV_VSYNC_POS_POL)
     108000000 48 112 248 1 3 38 0 0 0
     V4L2_DV_BT_STD_DMT 0
     (0, 0) 0 0"

definition V4L2_DV_BT_DMT_1280X1024P75 :: v4l2_dv_timings where
  "V4L2_DV_BT_DMT_1280X1024P75 = V4L2_INIT_BT_TIMINGS 1280 1024 0 (V4L2_DV_HSYNC_POS_POL OR V4L2_DV_VSYNC_POS_POL)
     135000000 16 144 248 1 3 38 0 0 0
     V4L2_DV_BT_STD_DMT 0
     (0, 0) 0 0"

definition V4L2_DV_BT_DMT_1280X1024P85 :: v4l2_dv_timings where
  "V4L2_DV_BT_DMT_1280X1024P85 = V4L2_INIT_BT_TIMINGS 1280 1024 0 (V4L2_DV_HSYNC_POS_POL OR V4L2_DV_VSYNC_POS_POL)
     157500000 64 160 224 1 3 44 0 0 0
     V4L2_DV_BT_STD_DMT 0
     (0, 0) 0 0"

definition V4L2_DV_BT_DMT_1280X1024P120_RB :: v4l2_dv_timings where
  "V4L2_DV_BT_DMT_1280X1024P120_RB = V4L2_INIT_BT_TIMINGS 1280 1024 0 V4L2_DV_HSYNC_POS_POL
     187250000 48 32 80 3 7 50 0 0 0
     (V4L2_DV_BT_STD_DMT OR V4L2_DV_BT_STD_CVT) V4L2_DV_FL_REDUCED_BLANKING
     (0, 0) 0 0"

definition V4L2_DV_BT_DMT_1360X768P60 :: v4l2_dv_timings where
  "V4L2_DV_BT_DMT_1360X768P60 = V4L2_INIT_BT_TIMINGS 1360 768 0 (V4L2_DV_HSYNC_POS_POL OR V4L2_DV_VSYNC_POS_POL)
     85500000 64 112 256 3 6 18 0 0 0
     V4L2_DV_BT_STD_DMT 0
     (0, 0) 0 0"

definition V4L2_DV_BT_DMT_1360X768P120_RB :: v4l2_dv_timings where
  "V4L2_DV_BT_DMT_1360X768P120_RB = V4L2_INIT_BT_TIMINGS 1360 768 0 V4L2_DV_HSYNC_POS_POL
     148250000 48 32 80 3 5 37 0 0 0
     (V4L2_DV_BT_STD_DMT OR V4L2_DV_BT_STD_CVT) V4L2_DV_FL_REDUCED_BLANKING
     (0, 0) 0 0"

definition V4L2_DV_BT_DMT_1366X768P60 :: v4l2_dv_timings where
  "V4L2_DV_BT_DMT_1366X768P60 = V4L2_INIT_BT_TIMINGS 1366 768 0 (V4L2_DV_HSYNC_POS_POL OR V4L2_DV_VSYNC_POS_POL)
     85500000 70 143 213 3 3 24 0 0 0
     V4L2_DV_BT_STD_DMT 0
     (0, 0) 0 0"

definition V4L2_DV_BT_DMT_1366X768P60_RB :: v4l2_dv_timings where
  "V4L2_DV_BT_DMT_1366X768P60_RB = V4L2_INIT_BT_TIMINGS 1366 768 0 (V4L2_DV_HSYNC_POS_POL OR V4L2_DV_VSYNC_POS_POL)
     72000000 14 56 64 1 3 28 0 0 0
     V4L2_DV_BT_STD_DMT V4L2_DV_FL_REDUCED_BLANKING
     (0, 0) 0 0"

definition V4L2_DV_BT_DMT_1400X1050P60_RB :: v4l2_dv_timings where
  "V4L2_DV_BT_DMT_1400X1050P60_RB = V4L2_INIT_BT_TIMINGS 1400 1050 0 V4L2_DV_HSYNC_POS_POL
     101000000 48 32 80 3 4 23 0 0 0
     (V4L2_DV_BT_STD_DMT OR V4L2_DV_BT_STD_CVT) V4L2_DV_FL_REDUCED_BLANKING
     (0, 0) 0 0"

definition V4L2_DV_BT_DMT_1400X1050P60 :: v4l2_dv_timings where
  "V4L2_DV_BT_DMT_1400X1050P60 = V4L2_INIT_BT_TIMINGS 1400 1050 0 V4L2_DV_VSYNC_POS_POL
     121750000 88 144 232 3 4 32 0 0 0
     (V4L2_DV_BT_STD_DMT OR V4L2_DV_BT_STD_CVT) 0
     (0, 0) 0 0"

definition V4L2_DV_BT_DMT_1400X1050P75 :: v4l2_dv_timings where
  "V4L2_DV_BT_DMT_1400X1050P75 = V4L2_INIT_BT_TIMINGS 1400 1050 0 V4L2_DV_VSYNC_POS_POL
     156000000 104 144 248 3 4 42 0 0 0
     (V4L2_DV_BT_STD_DMT OR V4L2_DV_BT_STD_CVT) 0
     (0, 0) 0 0"

definition V4L2_DV_BT_DMT_1400X1050P85 :: v4l2_dv_timings where
  "V4L2_DV_BT_DMT_1400X1050P85 = V4L2_INIT_BT_TIMINGS 1400 1050 0 V4L2_DV_VSYNC_POS_POL
     179500000 104 152 256 3 4 48 0 0 0
     (V4L2_DV_BT_STD_DMT OR V4L2_DV_BT_STD_CVT) 0
     (0, 0) 0 0"

definition V4L2_DV_BT_DMT_1400X1050P120_RB :: v4l2_dv_timings where
  "V4L2_DV_BT_DMT_1400X1050P120_RB = V4L2_INIT_BT_TIMINGS 1400 1050 0 V4L2_DV_HSYNC_POS_POL
     208000000 48 32 80 3 4 55 0 0 0
     (V4L2_DV_BT_STD_DMT OR V4L2_DV_BT_STD_CVT) V4L2_DV_FL_REDUCED_BLANKING
     (0, 0) 0 0"

definition V4L2_DV_BT_DMT_1440X900P60_RB :: v4l2_dv_timings where
  "V4L2_DV_BT_DMT_1440X900P60_RB = V4L2_INIT_BT_TIMINGS 1440 900 0 V4L2_DV_HSYNC_POS_POL
     88750000 48 32 80 3 6 17 0 0 0
     (V4L2_DV_BT_STD_DMT OR V4L2_DV_BT_STD_CVT) V4L2_DV_FL_REDUCED_BLANKING
     (0, 0) 0 0"

definition V4L2_DV_BT_DMT_1440X900P60 :: v4l2_dv_timings where
  "V4L2_DV_BT_DMT_1440X900P60 = V4L2_INIT_BT_TIMINGS 1440 900 0 V4L2_DV_VSYNC_POS_POL
     106500000 80 152 232 3 6 25 0 0 0
     (V4L2_DV_BT_STD_DMT OR V4L2_DV_BT_STD_CVT) 0
     (0, 0) 0 0"

definition V4L2_DV_BT_DMT_1440X900P75 :: v4l2_dv_timings where
  "V4L2_DV_BT_DMT_1440X900P75 = V4L2_INIT_BT_TIMINGS 1440 900 0 V4L2_DV_VSYNC_POS_POL
     136750000 96 152 248 3 6 33 0 0 0
     (V4L2_DV_BT_STD_DMT OR V4L2_DV_BT_STD_CVT) 0
     (0, 0) 0 0"

definition V4L2_DV_BT_DMT_1440X900P85 :: v4l2_dv_timings where
  "V4L2_DV_BT_DMT_1440X900P85 = V4L2_INIT_BT_TIMINGS 1440 900 0 V4L2_DV_VSYNC_POS_POL
     157000000 104 152 256 3 6 39 0 0 0
     (V4L2_DV_BT_STD_DMT OR V4L2_DV_BT_STD_CVT) 0
     (0, 0) 0 0"

definition V4L2_DV_BT_DMT_1440X900P120_RB :: v4l2_dv_timings where
  "V4L2_DV_BT_DMT_1440X900P120_RB = V4L2_INIT_BT_TIMINGS 1440 900 0 V4L2_DV_HSYNC_POS_POL
     182750000 48 32 80 3 6 44 0 0 0
     (V4L2_DV_BT_STD_DMT OR V4L2_DV_BT_STD_CVT) V4L2_DV_FL_REDUCED_BLANKING
     (0, 0) 0 0"

definition V4L2_DV_BT_DMT_1600X900P60_RB :: v4l2_dv_timings where
  "V4L2_DV_BT_DMT_1600X900P60_RB = V4L2_INIT_BT_TIMINGS 1600 900 0 (V4L2_DV_HSYNC_POS_POL OR V4L2_DV_VSYNC_POS_POL)
     108000000 24 80 96 1 3 96 0 0 0
     V4L2_DV_BT_STD_DMT V4L2_DV_FL_REDUCED_BLANKING
     (0, 0) 0 0"

definition V4L2_DV_BT_DMT_1600X1200P60 :: v4l2_dv_timings where
  "V4L2_DV_BT_DMT_1600X1200P60 = V4L2_INIT_BT_TIMINGS 1600 1200 0 (V4L2_DV_HSYNC_POS_POL OR V4L2_DV_VSYNC_POS_POL)
     162000000 64 192 304 1 3 46 0 0 0
     V4L2_DV_BT_STD_DMT 0
     (0, 0) 0 0"

definition V4L2_DV_BT_DMT_1600X1200P65 :: v4l2_dv_timings where
  "V4L2_DV_BT_DMT_1600X1200P65 = V4L2_INIT_BT_TIMINGS 1600 1200 0 (V4L2_DV_HSYNC_POS_POL OR V4L2_DV_VSYNC_POS_POL)
     175500000 64 192 304 1 3 46 0 0 0
     V4L2_DV_BT_STD_DMT 0
     (0, 0) 0 0"

definition V4L2_DV_BT_DMT_1600X1200P70 :: v4l2_dv_timings where
  "V4L2_DV_BT_DMT_1600X1200P70 = V4L2_INIT_BT_TIMINGS 1600 1200 0 (V4L2_DV_HSYNC_POS_POL OR V4L2_DV_VSYNC_POS_POL)
     189000000 64 192 304 1 3 46 0 0 0
     V4L2_DV_BT_STD_DMT 0
     (0, 0) 0 0"

definition V4L2_DV_BT_DMT_1600X1200P75 :: v4l2_dv_timings where
  "V4L2_DV_BT_DMT_1600X1200P75 = V4L2_INIT_BT_TIMINGS 1600 1200 0 (V4L2_DV_HSYNC_POS_POL OR V4L2_DV_VSYNC_POS_POL)
     202500000 64 192 304 1 3 46 0 0 0
     V4L2_DV_BT_STD_DMT 0
     (0, 0) 0 0"

definition V4L2_DV_BT_DMT_1600X1200P85 :: v4l2_dv_timings where
  "V4L2_DV_BT_DMT_1600X1200P85 = V4L2_INIT_BT_TIMINGS 1600 1200 0 (V4L2_DV_HSYNC_POS_POL OR V4L2_DV_VSYNC_POS_POL)
     229500000 64 192 304 1 3 46 0 0 0
     V4L2_DV_BT_STD_DMT 0
     (0, 0) 0 0"

definition V4L2_DV_BT_DMT_1600X1200P120_RB :: v4l2_dv_timings where
  "V4L2_DV_BT_DMT_1600X1200P120_RB = V4L2_INIT_BT_TIMINGS 1600 1200 0 V4L2_DV_HSYNC_POS_POL
     268250000 48 32 80 3 4 64 0 0 0
     (V4L2_DV_BT_STD_DMT OR V4L2_DV_BT_STD_CVT) V4L2_DV_FL_REDUCED_BLANKING
     (0, 0) 0 0"

definition V4L2_DV_BT_DMT_1680X1050P60_RB :: v4l2_dv_timings where
  "V4L2_DV_BT_DMT_1680X1050P60_RB = V4L2_INIT_BT_TIMINGS 1680 1050 0 V4L2_DV_HSYNC_POS_POL
     119000000 48 32 80 3 6 21 0 0 0
     (V4L2_DV_BT_STD_DMT OR V4L2_DV_BT_STD_CVT) V4L2_DV_FL_REDUCED_BLANKING
     (0, 0) 0 0"

definition V4L2_DV_BT_DMT_1680X1050P60 :: v4l2_dv_timings where
  "V4L2_DV_BT_DMT_1680X1050P60 = V4L2_INIT_BT_TIMINGS 1680 1050 0 V4L2_DV_VSYNC_POS_POL
     146250000 104 176 280 3 6 30 0 0 0
     (V4L2_DV_BT_STD_DMT OR V4L2_DV_BT_STD_CVT) 0
     (0, 0) 0 0"

definition V4L2_DV_BT_DMT_1680X1050P75 :: v4l2_dv_timings where
  "V4L2_DV_BT_DMT_1680X1050P75 = V4L2_INIT_BT_TIMINGS 1680 1050 0 V4L2_DV_VSYNC_POS_POL
     187000000 120 176 296 3 6 40 0 0 0
     (V4L2_DV_BT_STD_DMT OR V4L2_DV_BT_STD_CVT) 0
     (0, 0) 0 0"

definition V4L2_DV_BT_DMT_1680X1050P85 :: v4l2_dv_timings where
  "V4L2_DV_BT_DMT_1680X1050P85 = V4L2_INIT_BT_TIMINGS 1680 1050 0 V4L2_DV_VSYNC_POS_POL
     214750000 128 176 304 3 6 46 0 0 0
     (V4L2_DV_BT_STD_DMT OR V4L2_DV_BT_STD_CVT) 0
     (0, 0) 0 0"

definition V4L2_DV_BT_DMT_1680X1050P120_RB :: v4l2_dv_timings where
  "V4L2_DV_BT_DMT_1680X1050P120_RB = V4L2_INIT_BT_TIMINGS 1680 1050 0 V4L2_DV_HSYNC_POS_POL
     245500000 48 32 80 3 6 53 0 0 0
     (V4L2_DV_BT_STD_DMT OR V4L2_DV_BT_STD_CVT) V4L2_DV_FL_REDUCED_BLANKING
     (0, 0) 0 0"

definition V4L2_DV_BT_DMT_1792X1344P60 :: v4l2_dv_timings where
  "V4L2_DV_BT_DMT_1792X1344P60 = V4L2_INIT_BT_TIMINGS 1792 1344 0 V4L2_DV_VSYNC_POS_POL
     204750000 128 200 328 1 3 46 0 0 0
     V4L2_DV_BT_STD_DMT 0
     (0, 0) 0 0"

definition V4L2_DV_BT_DMT_1792X1344P75 :: v4l2_dv_timings where
  "V4L2_DV_BT_DMT_1792X1344P75 = V4L2_INIT_BT_TIMINGS 1792 1344 0 V4L2_DV_VSYNC_POS_POL
     261000000 96 216 352 1 3 69 0 0 0
     V4L2_DV_BT_STD_DMT 0
     (0, 0) 0 0"

definition V4L2_DV_BT_DMT_1792X1344P120_RB :: v4l2_dv_timings where
  "V4L2_DV_BT_DMT_1792X1344P120_RB = V4L2_INIT_BT_TIMINGS 1792 1344 0 V4L2_DV_HSYNC_POS_POL
     333250000 48 32 80 3 4 72 0 0 0
     (V4L2_DV_BT_STD_DMT OR V4L2_DV_BT_STD_CVT) V4L2_DV_FL_REDUCED_BLANKING
     (0, 0) 0 0"

definition V4L2_DV_BT_DMT_1856X1392P60 :: v4l2_dv_timings where
  "V4L2_DV_BT_DMT_1856X1392P60 = V4L2_INIT_BT_TIMINGS 1856 1392 0 V4L2_DV_VSYNC_POS_POL
     218250000 96 224 352 1 3 43 0 0 0
     V4L2_DV_BT_STD_DMT 0
     (0, 0) 0 0"

definition V4L2_DV_BT_DMT_1856X1392P75 :: v4l2_dv_timings where
  "V4L2_DV_BT_DMT_1856X1392P75 = V4L2_INIT_BT_TIMINGS 1856 1392 0 V4L2_DV_VSYNC_POS_POL
     288000000 128 224 352 1 3 104 0 0 0
     V4L2_DV_BT_STD_DMT 0
     (0, 0) 0 0"

definition V4L2_DV_BT_DMT_1856X1392P120_RB :: v4l2_dv_timings where
  "V4L2_DV_BT_DMT_1856X1392P120_RB = V4L2_INIT_BT_TIMINGS 1856 1392 0 V4L2_DV_HSYNC_POS_POL
     356500000 48 32 80 3 4 75 0 0 0
     (V4L2_DV_BT_STD_DMT OR V4L2_DV_BT_STD_CVT) V4L2_DV_FL_REDUCED_BLANKING
     (0, 0) 0 0"

definition V4L2_DV_BT_DMT_1920X1080P60 :: v4l2_dv_timings where
  "V4L2_DV_BT_DMT_1920X1080P60 = V4L2_DV_BT_CEA_1920X1080P60"

definition V4L2_DV_BT_DMT_1920X1200P60_RB :: v4l2_dv_timings where
  "V4L2_DV_BT_DMT_1920X1200P60_RB = V4L2_INIT_BT_TIMINGS 1920 1200 0 V4L2_DV_HSYNC_POS_POL
     154000000 48 32 80 3 6 26 0 0 0
     (V4L2_DV_BT_STD_DMT OR V4L2_DV_BT_STD_CVT) V4L2_DV_FL_REDUCED_BLANKING
     (0, 0) 0 0"

definition V4L2_DV_BT_DMT_1920X1200P60 :: v4l2_dv_timings where
  "V4L2_DV_BT_DMT_1920X1200P60 = V4L2_INIT_BT_TIMINGS 1920 1200 0 V4L2_DV_VSYNC_POS_POL
     193250000 136 200 336 3 6 36 0 0 0
     (V4L2_DV_BT_STD_DMT OR V4L2_DV_BT_STD_CVT) 0
     (0, 0) 0 0"

definition V4L2_DV_BT_DMT_1920X1200P75 :: v4l2_dv_timings where
  "V4L2_DV_BT_DMT_1920X1200P75 = V4L2_INIT_BT_TIMINGS 1920 1200 0 V4L2_DV_VSYNC_POS_POL
     245250000 136 208 344 3 6 46 0 0 0
     (V4L2_DV_BT_STD_DMT OR V4L2_DV_BT_STD_CVT) 0
     (0, 0) 0 0"

definition V4L2_DV_BT_DMT_1920X1200P85 :: v4l2_dv_timings where
  "V4L2_DV_BT_DMT_1920X1200P85 = V4L2_INIT_BT_TIMINGS 1920 1200 0 V4L2_DV_VSYNC_POS_POL
     281250000 144 208 352 3 6 53 0 0 0
     (V4L2_DV_BT_STD_DMT OR V4L2_DV_BT_STD_CVT) 0
     (0, 0) 0 0"

definition V4L2_DV_BT_DMT_1920X1200P120_RB :: v4l2_dv_timings where
  "V4L2_DV_BT_DMT_1920X1200P120_RB = V4L2_INIT_BT_TIMINGS 1920 1200 0 V4L2_DV_HSYNC_POS_POL
     317000000 48 32 80 3 6 62 0 0 0
     (V4L2_DV_BT_STD_DMT OR V4L2_DV_BT_STD_CVT) V4L2_DV_FL_REDUCED_BLANKING
     (0, 0) 0 0"

definition V4L2_DV_BT_DMT_1920X1440P60 :: v4l2_dv_timings where
  "V4L2_DV_BT_DMT_1920X1440P60 = V4L2_INIT_BT_TIMINGS 1920 1440 0 V4L2_DV_VSYNC_POS_POL
     234000000 128 208 344 1 3 56 0 0 0
     V4L2_DV_BT_STD_DMT 0
     (0, 0) 0 0"

definition V4L2_DV_BT_DMT_1920X1440P75 :: v4l2_dv_timings where
  "V4L2_DV_BT_DMT_1920X1440P75 = V4L2_INIT_BT_TIMINGS 1920 1440 0 V4L2_DV_VSYNC_POS_POL
     297000000 144 224 352 1 3 56 0 0 0
     V4L2_DV_BT_STD_DMT 0
     (0, 0) 0 0"

definition V4L2_DV_BT_DMT_1920X1440P120_RB :: v4l2_dv_timings where
  "V4L2_DV_BT_DMT_1920X1440P120_RB = V4L2_INIT_BT_TIMINGS 1920 1440 0 V4L2_DV_HSYNC_POS_POL
     380500000 48 32 80 3 4 78 0 0 0
     (V4L2_DV_BT_STD_DMT OR V4L2_DV_BT_STD_CVT) V4L2_DV_FL_REDUCED_BLANKING
     (0, 0) 0 0"

definition V4L2_DV_BT_DMT_2048X1152P60_RB :: v4l2_dv_timings where
  "V4L2_DV_BT_DMT_2048X1152P60_RB = V4L2_INIT_BT_TIMINGS 2048 1152 0 (V4L2_DV_HSYNC_POS_POL OR V4L2_DV_VSYNC_POS_POL)
     162000000 26 80 96 1 3 44 0 0 0
     V4L2_DV_BT_STD_DMT V4L2_DV_FL_REDUCED_BLANKING
     (0, 0) 0 0"

definition V4L2_DV_BT_DMT_2560X1600P60_RB :: v4l2_dv_timings where
  "V4L2_DV_BT_DMT_2560X1600P60_RB = V4L2_INIT_BT_TIMINGS 2560 1600 0 V4L2_DV_HSYNC_POS_POL
     268500000 48 32 80 3 6 37 0 0 0
     (V4L2_DV_BT_STD_DMT OR V4L2_DV_BT_STD_CVT) V4L2_DV_FL_REDUCED_BLANKING
     (0, 0) 0 0"

definition V4L2_DV_BT_DMT_2560X1600P60 :: v4l2_dv_timings where
  "V4L2_DV_BT_DMT_2560X1600P60 = V4L2_INIT_BT_TIMINGS 2560 1600 0 V4L2_DV_VSYNC_POS_POL
     348500000 192 280 472 3 6 49 0 0 0
     (V4L2_DV_BT_STD_DMT OR V4L2_DV_BT_STD_CVT) 0
     (0, 0) 0 0"

definition V4L2_DV_BT_DMT_2560X1600P75 :: v4l2_dv_timings where
  "V4L2_DV_BT_DMT_2560X1600P75 = V4L2_INIT_BT_TIMINGS 2560 1600 0 V4L2_DV_VSYNC_POS_POL
     443250000 208 280 488 3 6 63 0 0 0
     (V4L2_DV_BT_STD_DMT OR V4L2_DV_BT_STD_CVT) 0
     (0, 0) 0 0"

definition V4L2_DV_BT_DMT_2560X1600P85 :: v4l2_dv_timings where
  "V4L2_DV_BT_DMT_2560X1600P85 = V4L2_INIT_BT_TIMINGS 2560 1600 0 V4L2_DV_VSYNC_POS_POL
     505250000 208 280 488 3 6 73 0 0 0
     (V4L2_DV_BT_STD_DMT OR V4L2_DV_BT_STD_CVT) 0
     (0, 0) 0 0"

definition V4L2_DV_BT_DMT_2560X1600P120_RB :: v4l2_dv_timings where
  "V4L2_DV_BT_DMT_2560X1600P120_RB = V4L2_INIT_BT_TIMINGS 2560 1600 0 V4L2_DV_HSYNC_POS_POL
     552750000 48 32 80 3 6 85 0 0 0
     (V4L2_DV_BT_STD_DMT OR V4L2_DV_BT_STD_CVT) V4L2_DV_FL_REDUCED_BLANKING
     (0, 0) 0 0"

definition V4L2_DV_BT_DMT_4096X2160P60_RB :: v4l2_dv_timings where
  "V4L2_DV_BT_DMT_4096X2160P60_RB = V4L2_INIT_BT_TIMINGS 4096 2160 0 V4L2_DV_HSYNC_POS_POL
     556744000 8 32 40 48 8 6 0 0 0
     (V4L2_DV_BT_STD_DMT OR V4L2_DV_BT_STD_CVT) V4L2_DV_FL_REDUCED_BLANKING
     (0, 0) 0 0"

definition V4L2_DV_BT_DMT_4096X2160P59_94_RB :: v4l2_dv_timings where
  "V4L2_DV_BT_DMT_4096X2160P59_94_RB = V4L2_INIT_BT_TIMINGS 4096 2160 0 V4L2_DV_HSYNC_POS_POL
     556188000 8 32 40 48 8 6 0 0 0
     (V4L2_DV_BT_STD_DMT OR V4L2_DV_BT_STD_CVT) V4L2_DV_FL_REDUCED_BLANKING
     (0, 0) 0 0"

definition V4L2_DV_BT_SDI_720X487I60 :: v4l2_dv_timings where
  "V4L2_DV_BT_SDI_720X487I60 = V4L2_INIT_BT_TIMINGS 720 487 1 V4L2_DV_HSYNC_POS_POL
     13500000 16 121 0 0 19 0 0 19 0
     V4L2_DV_BT_STD_SDI V4L2_DV_FL_FIRST_FIELD_EXTRA_LINE
     (0, 0) 0 0"

section \<open>The names\<close>

text \<open>What the name of a timing says: width, height, interlaced, rate in millihertz, reduced blanking.\<close>

definition cea_timings :: "(v4l2_dv_timings \<times> int \<times> int \<times> bool \<times> int \<times> bool) list" where
  "cea_timings = [
     (V4L2_DV_BT_CEA_640X480P59_94, 640, 480, False, 59940, False),
     (V4L2_DV_BT_CEA_720X480I59_94, 720, 480, True, 59940, False),
     (V4L2_DV_BT_CEA_720X480P59_94, 720, 480, False, 59940, False),
     (V4L2_DV_BT_CEA_720X576I50, 720, 576, True, 50000, False),
     (V4L2_DV_BT_CEA_720X576P50, 720, 576, False, 50000, False),
     (V4L2_DV_BT_CEA_1280X720P24, 1280, 720, False, 24000, False),
     (V4L2_DV_BT_CEA_1280X720P25, 1280, 720, False, 25000, False),
     (V4L2_DV_BT_CEA_1280X720P30, 1280, 720, False, 30000, False),
     (V4L2_DV_BT_CEA_1280X720P50, 1280, 720, False, 50000, False),
     (V4L2_DV_BT_CEA_1280X720P60, 1280, 720, False, 60000, False),
     (V4L2_DV_BT_CEA_1920X1080P24, 1920, 1080, False, 24000, False),
     (V4L2_DV_BT_CEA_1920X1080P25, 1920, 1080, False, 25000, False),
     (V4L2_DV_BT_CEA_1920X1080P30, 1920, 1080, False, 30000, False),
     (V4L2_DV_BT_CEA_1920X1080I50, 1920, 1080, True, 50000, False),
     (V4L2_DV_BT_CEA_1920X1080P50, 1920, 1080, False, 50000, False),
     (V4L2_DV_BT_CEA_1920X1080I60, 1920, 1080, True, 60000, False),
     (V4L2_DV_BT_CEA_1920X1080P60, 1920, 1080, False, 60000, False),
     (V4L2_DV_BT_CEA_3840X2160P24, 3840, 2160, False, 24000, False),
     (V4L2_DV_BT_CEA_3840X2160P25, 3840, 2160, False, 25000, False),
     (V4L2_DV_BT_CEA_3840X2160P30, 3840, 2160, False, 30000, False),
     (V4L2_DV_BT_CEA_3840X2160P50, 3840, 2160, False, 50000, False),
     (V4L2_DV_BT_CEA_3840X2160P60, 3840, 2160, False, 60000, False),
     (V4L2_DV_BT_CEA_4096X2160P24, 4096, 2160, False, 24000, False),
     (V4L2_DV_BT_CEA_4096X2160P25, 4096, 2160, False, 25000, False),
     (V4L2_DV_BT_CEA_4096X2160P30, 4096, 2160, False, 30000, False),
     (V4L2_DV_BT_CEA_4096X2160P50, 4096, 2160, False, 50000, False),
     (V4L2_DV_BT_CEA_4096X2160P60, 4096, 2160, False, 60000, False)]"

text \<open>The monitor timings.\<close>

definition dmt_timings :: "(v4l2_dv_timings \<times> int \<times> int \<times> bool \<times> int \<times> bool) list" where
  "dmt_timings = [
     (V4L2_DV_BT_DMT_640X350P85, 640, 350, False, 85000, False),
     (V4L2_DV_BT_DMT_640X400P85, 640, 400, False, 85000, False),
     (V4L2_DV_BT_DMT_720X400P85, 720, 400, False, 85000, False),
     (V4L2_DV_BT_DMT_640X480P60, 640, 480, False, 60000, False),
     (V4L2_DV_BT_DMT_640X480P72, 640, 480, False, 72000, False),
     (V4L2_DV_BT_DMT_640X480P75, 640, 480, False, 75000, False),
     (V4L2_DV_BT_DMT_640X480P85, 640, 480, False, 85000, False),
     (V4L2_DV_BT_DMT_800X600P56, 800, 600, False, 56000, False),
     (V4L2_DV_BT_DMT_800X600P60, 800, 600, False, 60000, False),
     (V4L2_DV_BT_DMT_800X600P72, 800, 600, False, 72000, False),
     (V4L2_DV_BT_DMT_800X600P75, 800, 600, False, 75000, False),
     (V4L2_DV_BT_DMT_800X600P85, 800, 600, False, 85000, False),
     (V4L2_DV_BT_DMT_800X600P120_RB, 800, 600, False, 120000, True),
     (V4L2_DV_BT_DMT_848X480P60, 848, 480, False, 60000, False),
     (V4L2_DV_BT_DMT_1024X768I43, 1024, 768, True, 43000, False),
     (V4L2_DV_BT_DMT_1024X768P60, 1024, 768, False, 60000, False),
     (V4L2_DV_BT_DMT_1024X768P70, 1024, 768, False, 70000, False),
     (V4L2_DV_BT_DMT_1024X768P75, 1024, 768, False, 75000, False),
     (V4L2_DV_BT_DMT_1024X768P85, 1024, 768, False, 85000, False),
     (V4L2_DV_BT_DMT_1024X768P120_RB, 1024, 768, False, 120000, True),
     (V4L2_DV_BT_DMT_1152X864P75, 1152, 864, False, 75000, False),
     (V4L2_DV_BT_DMT_1280X720P60, 1280, 720, False, 60000, False),
     (V4L2_DV_BT_DMT_1280X768P60_RB, 1280, 768, False, 60000, True),
     (V4L2_DV_BT_DMT_1280X768P60, 1280, 768, False, 60000, False),
     (V4L2_DV_BT_DMT_1280X768P75, 1280, 768, False, 75000, False),
     (V4L2_DV_BT_DMT_1280X768P85, 1280, 768, False, 85000, False),
     (V4L2_DV_BT_DMT_1280X768P120_RB, 1280, 768, False, 120000, True),
     (V4L2_DV_BT_DMT_1280X800P60_RB, 1280, 800, False, 60000, True),
     (V4L2_DV_BT_DMT_1280X800P60, 1280, 800, False, 60000, False),
     (V4L2_DV_BT_DMT_1280X800P75, 1280, 800, False, 75000, False),
     (V4L2_DV_BT_DMT_1280X800P85, 1280, 800, False, 85000, False),
     (V4L2_DV_BT_DMT_1280X800P120_RB, 1280, 800, False, 120000, True),
     (V4L2_DV_BT_DMT_1280X960P60, 1280, 960, False, 60000, False),
     (V4L2_DV_BT_DMT_1280X960P85, 1280, 960, False, 85000, False),
     (V4L2_DV_BT_DMT_1280X960P120_RB, 1280, 960, False, 120000, True),
     (V4L2_DV_BT_DMT_1280X1024P60, 1280, 1024, False, 60000, False),
     (V4L2_DV_BT_DMT_1280X1024P75, 1280, 1024, False, 75000, False),
     (V4L2_DV_BT_DMT_1280X1024P85, 1280, 1024, False, 85000, False),
     (V4L2_DV_BT_DMT_1280X1024P120_RB, 1280, 1024, False, 120000, True),
     (V4L2_DV_BT_DMT_1360X768P60, 1360, 768, False, 60000, False),
     (V4L2_DV_BT_DMT_1360X768P120_RB, 1360, 768, False, 120000, True),
     (V4L2_DV_BT_DMT_1366X768P60, 1366, 768, False, 60000, False),
     (V4L2_DV_BT_DMT_1366X768P60_RB, 1366, 768, False, 60000, True),
     (V4L2_DV_BT_DMT_1400X1050P60_RB, 1400, 1050, False, 60000, True),
     (V4L2_DV_BT_DMT_1400X1050P60, 1400, 1050, False, 60000, False),
     (V4L2_DV_BT_DMT_1400X1050P75, 1400, 1050, False, 75000, False),
     (V4L2_DV_BT_DMT_1400X1050P85, 1400, 1050, False, 85000, False),
     (V4L2_DV_BT_DMT_1400X1050P120_RB, 1400, 1050, False, 120000, True),
     (V4L2_DV_BT_DMT_1440X900P60_RB, 1440, 900, False, 60000, True),
     (V4L2_DV_BT_DMT_1440X900P60, 1440, 900, False, 60000, False),
     (V4L2_DV_BT_DMT_1440X900P75, 1440, 900, False, 75000, False),
     (V4L2_DV_BT_DMT_1440X900P85, 1440, 900, False, 85000, False),
     (V4L2_DV_BT_DMT_1440X900P120_RB, 1440, 900, False, 120000, True),
     (V4L2_DV_BT_DMT_1600X900P60_RB, 1600, 900, False, 60000, True),
     (V4L2_DV_BT_DMT_1600X1200P60, 1600, 1200, False, 60000, False),
     (V4L2_DV_BT_DMT_1600X1200P65, 1600, 1200, False, 65000, False),
     (V4L2_DV_BT_DMT_1600X1200P70, 1600, 1200, False, 70000, False),
     (V4L2_DV_BT_DMT_1600X1200P75, 1600, 1200, False, 75000, False),
     (V4L2_DV_BT_DMT_1600X1200P85, 1600, 1200, False, 85000, False),
     (V4L2_DV_BT_DMT_1600X1200P120_RB, 1600, 1200, False, 120000, True),
     (V4L2_DV_BT_DMT_1680X1050P60_RB, 1680, 1050, False, 60000, True),
     (V4L2_DV_BT_DMT_1680X1050P60, 1680, 1050, False, 60000, False),
     (V4L2_DV_BT_DMT_1680X1050P75, 1680, 1050, False, 75000, False),
     (V4L2_DV_BT_DMT_1680X1050P85, 1680, 1050, False, 85000, False),
     (V4L2_DV_BT_DMT_1680X1050P120_RB, 1680, 1050, False, 120000, True),
     (V4L2_DV_BT_DMT_1792X1344P60, 1792, 1344, False, 60000, False),
     (V4L2_DV_BT_DMT_1792X1344P75, 1792, 1344, False, 75000, False),
     (V4L2_DV_BT_DMT_1792X1344P120_RB, 1792, 1344, False, 120000, True),
     (V4L2_DV_BT_DMT_1856X1392P60, 1856, 1392, False, 60000, False),
     (V4L2_DV_BT_DMT_1856X1392P75, 1856, 1392, False, 75000, False),
     (V4L2_DV_BT_DMT_1856X1392P120_RB, 1856, 1392, False, 120000, True),
     (V4L2_DV_BT_DMT_1920X1080P60, 1920, 1080, False, 60000, False),
     (V4L2_DV_BT_DMT_1920X1200P60_RB, 1920, 1200, False, 60000, True),
     (V4L2_DV_BT_DMT_1920X1200P60, 1920, 1200, False, 60000, False),
     (V4L2_DV_BT_DMT_1920X1200P75, 1920, 1200, False, 75000, False),
     (V4L2_DV_BT_DMT_1920X1200P85, 1920, 1200, False, 85000, False),
     (V4L2_DV_BT_DMT_1920X1200P120_RB, 1920, 1200, False, 120000, True),
     (V4L2_DV_BT_DMT_1920X1440P60, 1920, 1440, False, 60000, False),
     (V4L2_DV_BT_DMT_1920X1440P75, 1920, 1440, False, 75000, False),
     (V4L2_DV_BT_DMT_1920X1440P120_RB, 1920, 1440, False, 120000, True),
     (V4L2_DV_BT_DMT_2048X1152P60_RB, 2048, 1152, False, 60000, True),
     (V4L2_DV_BT_DMT_2560X1600P60_RB, 2560, 1600, False, 60000, True),
     (V4L2_DV_BT_DMT_2560X1600P60, 2560, 1600, False, 60000, False),
     (V4L2_DV_BT_DMT_2560X1600P75, 2560, 1600, False, 75000, False),
     (V4L2_DV_BT_DMT_2560X1600P85, 2560, 1600, False, 85000, False),
     (V4L2_DV_BT_DMT_2560X1600P120_RB, 2560, 1600, False, 120000, True),
     (V4L2_DV_BT_DMT_4096X2160P60_RB, 4096, 2160, False, 60000, True),
     (V4L2_DV_BT_DMT_4096X2160P59_94_RB, 4096, 2160, False, 59940, True)]"

text \<open>The SDI timing.\<close>

definition sdi_timings :: "(v4l2_dv_timings \<times> int \<times> int \<times> bool \<times> int \<times> bool) list" where
  "sdi_timings = [
     (V4L2_DV_BT_SDI_720X487I60, 720, 487, True, 60000, False)]"

section \<open>Properties\<close>

definition has_flag :: "u32 \<Rightarrow> v4l2_dv_timings \<Rightarrow> bool" where
  "has_flag f t \<longleftrightarrow> bt_flags (bt t) AND f \<noteq> 0"

definition has_standard :: "u32 \<Rightarrow> v4l2_dv_timings \<Rightarrow> bool" where
  "has_standard f t \<longleftrightarrow> standards (bt t) AND f \<noteq> 0"

text \<open>
  The rate is the pixel clock over the size of the frame, of the field when fields are counted;
  a tolerance is in millihertz. The fields of the second field are used by interlaced formats
  only.
\<close>

definition rate_within :: "int \<Rightarrow> int \<Rightarrow> int \<Rightarrow> v4l2_dv_timings \<Rightarrow> bool" where
  "rate_within tol per_frame mhz t =
     (let b = bt t; total = uint (V4L2_DV_BT_FRAME_WIDTH b) * uint (V4L2_DV_BT_FRAME_HEIGHT b);
          clock = uint (pixelclock b) * 1000 * per_frame in
      clock \<le> (mhz + tol) * total \<and> mhz * total \<le> clock + tol * total)"

definition named_correctly :: "int \<Rightarrow> bool \<Rightarrow> v4l2_dv_timings \<times> int \<times> int \<times> bool \<times> int \<times> bool \<Rightarrow> bool" where
  "named_correctly tol count_fields row =
     (case row of (t, w, h, il, mhz, rb) \<Rightarrow>
        uint (width (bt t)) = w \<and> uint (height (bt t)) = h \<and> (interlaced (bt t) \<noteq> 0) = il \<and>
        has_flag V4L2_DV_FL_REDUCED_BLANKING t = rb \<and>
        (il \<or> il_vfrontporch (bt t) = 0 \<and> il_vsync (bt t) = 0 \<and> il_vbackporch (bt t) = 0) \<and>
        rate_within tol (if il \<and> count_fields then 2 else 1) mhz t)"


text \<open>
  What the flags and the fields they speak of have to do with each other.
\<close>

definition flags_consistent :: "v4l2_dv_timings \<times> int \<times> int \<times> bool \<times> int \<times> bool \<Rightarrow> bool" where
  "flags_consistent row =
     (case row of (t, w, h, il, mhz, rb) \<Rightarrow>
        timings_type t = V4L2_DV_BT_656_1120 \<and>
        has_flag V4L2_DV_FL_HAS_CEA861_VIC t = has_standard V4L2_DV_BT_STD_CEA861 t \<and>
        has_flag V4L2_DV_FL_HAS_CEA861_VIC t = (cea861_vic (bt t) \<noteq> 0) \<and>
        has_flag V4L2_DV_FL_HAS_HDMI_VIC t = (hdmi_vic (bt t) \<noteq> 0) \<and>
        has_flag V4L2_DV_FL_HAS_PICTURE_ASPECT t = (denominator (picture_aspect (bt t)) \<noteq> 0) \<and>
        has_flag V4L2_DV_FL_CAN_REDUCE_FPS t = (has_standard V4L2_DV_BT_STD_CEA861 t \<and> rate_within 0 (if il then 2 else 1) mhz t \<and> mhz mod 6000 = 0))"

text \<open>
  In every timing a flag that says a field is valid is set exactly when the field is; the
  identification code belongs to the timings of the CEA-861 standard, each with its own code;
  and the timings that may be slowed down by 1.001 are those of that standard whose rate is a
  multiple of six hertz.
\<close>

theorem dv_timings_flags:
  "list_all flags_consistent (cea_timings @ dmt_timings @ sdi_timings) \<and>
   distinct (map (\<lambda>(t, _). cea861_vic (bt t)) cea_timings)"
proof
  show "list_all flags_consistent (cea_timings @ dmt_timings @ sdi_timings)"
    by code_simp
  show "distinct (map (\<lambda>(t, _). cea861_vic (bt t)) cea_timings)"
    by code_simp
qed

text \<open>
  The consumer-video flag is set for every CEA-861 timing but two, 640x480 and 1280x720 at 24
  Hz, and for no other timing, although only the first is documented as an exception.
\<close>

theorem dv_ce_video_exceptions:
  "map fst (filter (\<lambda>row. \<not> has_flag V4L2_DV_FL_IS_CE_VIDEO (fst row)) cea_timings) =
     [V4L2_DV_BT_CEA_640X480P59_94, V4L2_DV_BT_CEA_1280X720P24] \<and>
   list_all (\<lambda>row. has_flag V4L2_DV_FL_IS_CE_VIDEO (fst row) = (fst row = V4L2_DV_BT_DMT_1280X720P60 \<or>
     fst row = V4L2_DV_BT_DMT_1920X1080P60)) (dmt_timings @ sdi_timings)"
proof
  show "map fst (filter (\<lambda>row. \<not> has_flag V4L2_DV_FL_IS_CE_VIDEO (fst row)) cea_timings) =
     [V4L2_DV_BT_CEA_640X480P59_94, V4L2_DV_BT_CEA_1280X720P24]"
    by code_simp
  show "list_all (\<lambda>row. has_flag V4L2_DV_FL_IS_CE_VIDEO (fst row) = (fst row = V4L2_DV_BT_DMT_1280X720P60 \<or>
     fst row = V4L2_DV_BT_DMT_1920X1080P60)) (dmt_timings @ sdi_timings)"
    by code_simp
qed

text \<open>
  As long as the documented sums fit 32 bits, the frame size macros compute them: width and height
  with the blanking, the blanking of the second field counting in interlaced formats only.
\<close>

theorem dv_frame_sizes:
  assumes "uint (width b) + uint (hfrontporch b) + uint (hsync b) + uint (hbackporch b) < 2 ^ 32"
    and "uint (height b) + uint (vfrontporch b) + uint (vsync b) + uint (vbackporch b) +
      uint (il_vfrontporch b) + uint (il_vsync b) + uint (il_vbackporch b) < 2 ^ 32"
  shows "uint (V4L2_DV_BT_FRAME_WIDTH b) =
      uint (width b) + uint (hfrontporch b) + uint (hsync b) + uint (hbackporch b) \<and>
    uint (V4L2_DV_BT_FRAME_HEIGHT b) =
      uint (height b) + uint (vfrontporch b) + uint (vsync b) + uint (vbackporch b) +
      (if interlaced b = 0 then 0
       else uint (il_vfrontporch b) + uint (il_vsync b) + uint (il_vbackporch b))"
proof -
  have "uint (V4L2_DV_BT_FRAME_WIDTH b) =
      uint (width b) + uint (hfrontporch b) + uint (hsync b) + uint (hbackporch b)"
    using assms(1)
    by (simp add: V4L2_DV_BT_FRAME_WIDTH_def V4L2_DV_BT_BLANKING_WIDTH_def uint_word_ariths mod_simps
        add.assoc)
  moreover have "uint (V4L2_DV_BT_FRAME_HEIGHT b) =
      uint (height b) + uint (vfrontporch b) + uint (vsync b) + uint (vbackporch b) +
      (if interlaced b = 0 then 0
       else uint (il_vfrontporch b) + uint (il_vsync b) + uint (il_vbackporch b))"
  proof -
    have sums: "uint (height b) + uint (vfrontporch b) + uint (vsync b) + uint (vbackporch b) < 2 ^ 32"
      "uint (il_vfrontporch b) + uint (il_vsync b) + uint (il_vbackporch b) < 2 ^ 32"
      using assms(2) uint_ge_0 [of "il_vfrontporch b"] uint_ge_0 [of "il_vsync b"]
        uint_ge_0 [of "il_vbackporch b"] uint_ge_0 [of "height b"] uint_ge_0 [of "vfrontporch b"]
        uint_ge_0 [of "vsync b"] uint_ge_0 [of "vbackporch b"] by linarith+
    define il where "il = il_vfrontporch b + il_vsync b + il_vbackporch b"
    have il: "uint il = uint (il_vfrontporch b) + uint (il_vsync b) + uint (il_vbackporch b)"
      using sums(2) by (simp add: il_def uint_word_ariths mod_simps)
    show ?thesis
      using assms(2) sums(1) il
      unfolding V4L2_DV_BT_FRAME_HEIGHT_def V4L2_DV_BT_BLANKING_HEIGHT_def il_def [symmetric]
      by (simp add: uint_word_ariths mod_simps add.assoc)
  qed
  ultimately show ?thesis
    by blast
qed

theorem dv_frame_sizes_witness:
  "uint (V4L2_DV_BT_FRAME_WIDTH (bt V4L2_DV_BT_CEA_1920X1080I60)) = 2200 \<and>
   uint (V4L2_DV_BT_FRAME_HEIGHT (bt V4L2_DV_BT_CEA_1920X1080I60)) = 1125"
  using dv_frame_sizes [of "bt V4L2_DV_BT_CEA_1920X1080I60"]
  by (simp add: V4L2_DV_BT_CEA_1920X1080I60_def V4L2_INIT_BT_TIMINGS_def)

end
