(* ===== verification/XtSctp.thy ===== *)
theory XtSctp
  imports CPrelude
begin

text \<open>
  The chunk map of the SCTP match of the packet filter, from
  \<open>linux-headers/include/linux/netfilter/xt_sctp.h\<close>: a bit per chunk type in an array of 32-bit
  words. The array is declared with \<open>256 / sizeof (__u32)\<close> words.
\<close>

section \<open>Structures\<close>

record xt_sctp_flag_info =
  chunktype :: u8
  flag :: u8
  flag_mask :: u8

record xt_sctp_info =
  dpts :: "u16 list"
  spts :: "u16 list"
  chunkmap :: "u32 list"
  chunk_match_type :: u32
  flag_info :: "xt_sctp_flag_info list"
  flag_count :: cint
  sctp_flags :: u32
  invflags :: u32

abbreviation (input) chunkmap_words :: nat where "chunkmap_words \<equiv> 256 div 4"

text \<open>\<open>bytes(__u32)\<close> of the source is the number of bits.\<close>

abbreviation (input) bits_of_u32 :: nat where "bits_of_u32 \<equiv> 4 * 8"

section \<open>Operations\<close>

definition SCTP_CHUNKMAP_SET :: "nat \<Rightarrow> u32 list \<Rightarrow> u32 list option" where
  "SCTP_CHUNKMAP_SET type m = do {
     w \<leftarrow> rd m (type div bits_of_u32);
     wr m (type div bits_of_u32) (w OR push_bit (type mod bits_of_u32) 1) }"

definition SCTP_CHUNKMAP_CLEAR :: "nat \<Rightarrow> u32 list \<Rightarrow> u32 list option" where
  "SCTP_CHUNKMAP_CLEAR type m = do {
     w \<leftarrow> rd m (type div bits_of_u32);
     wr m (type div bits_of_u32) (w AND NOT (push_bit (type mod bits_of_u32) 1)) }"

definition SCTP_CHUNKMAP_IS_SET :: "u32 list \<Rightarrow> nat \<Rightarrow> bool option" where
  "SCTP_CHUNKMAP_IS_SET m type = do {
     w \<leftarrow> rd m (type div bits_of_u32);
     Some (w AND push_bit (type mod bits_of_u32) 1 \<noteq> 0) }"

definition SCTP_CHUNKMAP_RESET :: "u32 list \<Rightarrow> u32 list" where
  "SCTP_CHUNKMAP_RESET m = replicate (length m) 0"

definition SCTP_CHUNKMAP_SET_ALL :: "u32 list \<Rightarrow> u32 list" where
  "SCTP_CHUNKMAP_SET_ALL m = replicate (length m) (NOT 0)"

definition SCTP_CHUNKMAP_COPY :: "u32 list \<Rightarrow> u32 list \<Rightarrow> u32 list option" where
  "SCTP_CHUNKMAP_COPY destmap srcmap = memcpy destmap 0 srcmap 0 (length srcmap)"

text \<open>The loops of the two tests.\<close>

function sctp_is_clear_from :: "u32 list \<Rightarrow> nat \<Rightarrow> nat \<Rightarrow> bool option" where
  "sctp_is_clear_from m i n =
     (if i < n then do { w \<leftarrow> rd m i; if w \<noteq> 0 then Some False else sctp_is_clear_from m (i + 1) n }
      else Some True)"
  by auto
termination
  by (relation "measure (\<lambda>(m, i, n). n - i)") auto

function sctp_is_all_set_from :: "u32 list \<Rightarrow> nat \<Rightarrow> nat \<Rightarrow> bool option" where
  "sctp_is_all_set_from m i n =
     (if i < n then do { w \<leftarrow> rd m i; if w \<noteq> NOT 0 then Some False else sctp_is_all_set_from m (i + 1) n }
      else Some True)"
  by auto
termination
  by (relation "measure (\<lambda>(m, i, n). n - i)") auto

declare sctp_is_clear_from.simps [simp del] sctp_is_all_set_from.simps [simp del]

definition sctp_chunkmap_is_clear :: "u32 list \<Rightarrow> nat \<Rightarrow> bool option" where
  "sctp_chunkmap_is_clear m n = sctp_is_clear_from m 0 n"

definition sctp_chunkmap_is_all_set :: "u32 list \<Rightarrow> nat \<Rightarrow> bool option" where
  "sctp_chunkmap_is_all_set m n = sctp_is_all_set_from m 0 n"

definition SCTP_CHUNKMAP_IS_CLEAR :: "u32 list \<Rightarrow> bool option" where
  "SCTP_CHUNKMAP_IS_CLEAR m = sctp_chunkmap_is_clear m (length m)"

definition SCTP_CHUNKMAP_IS_ALL_SET :: "u32 list \<Rightarrow> bool option" where
  "SCTP_CHUNKMAP_IS_ALL_SET m = sctp_chunkmap_is_all_set m (length m)"

section \<open>Maps as sets\<close>

definition chunk_set :: "u32 list \<Rightarrow> nat set" where
  "chunk_set m = {t. SCTP_CHUNKMAP_IS_SET m t = Some True}"

lemma mem_chunk_set: "t \<in> chunk_set m \<longleftrightarrow> t < 32 * length m \<and> bit (m ! (t div 32)) (t mod 32)"
proof -
  have "t div 32 < length m \<longleftrightarrow> t < 32 * length m"
    by (simp add: less_mult_imp_div_less div_less_iff_less_mult mult.commute)
  then show ?thesis
    by (auto simp: chunk_set_def SCTP_CHUNKMAP_IS_SET_def rd_def and_exp_eq_0_iff_not_bit)
qed

lemma is_clear_from:
  "n \<le> length m \<Longrightarrow> sctp_is_clear_from m i n = Some (\<forall>j. i \<le> j \<and> j < n \<longrightarrow> m ! j = 0)"
proof (induction m i n rule: sctp_is_clear_from.induct)
  case (1 m i n)
  show ?case
  proof (cases "i < n")
    case True
    then have all: "(\<forall>j. i \<le> j \<and> j < n \<longrightarrow> m ! j = 0) \<longleftrightarrow> m ! i = 0 \<and> (\<forall>j. i + 1 \<le> j \<and> j < n \<longrightarrow> m ! j = 0)"
      by (metis Suc_eq_plus1 Suc_le_eq le_neq_implies_less less_imp_le order_refl)
    show ?thesis
      using 1 True unfolding all by (subst sctp_is_clear_from.simps) simp
  qed (subst sctp_is_clear_from.simps, auto)
qed

lemma is_all_set_from:
  "n \<le> length m \<Longrightarrow> sctp_is_all_set_from m i n = Some (\<forall>j. i \<le> j \<and> j < n \<longrightarrow> m ! j = NOT 0)"
proof (induction m i n rule: sctp_is_all_set_from.induct)
  case (1 m i n)
  show ?case
  proof (cases "i < n")
    case True
    then have all: "(\<forall>j. i \<le> j \<and> j < n \<longrightarrow> m ! j = NOT 0) \<longleftrightarrow>
        m ! i = NOT 0 \<and> (\<forall>j. i + 1 \<le> j \<and> j < n \<longrightarrow> m ! j = NOT 0)"
      by (metis Suc_eq_plus1 Suc_le_eq le_neq_implies_less less_imp_le order_refl)
    show ?thesis
      using 1 True unfolding all by (subst sctp_is_all_set_from.simps) simp
  qed (subst sctp_is_all_set_from.simps, auto)
qed

lemma words_chunk_set:
  "(\<forall>j < length m. m ! j = 0) \<longleftrightarrow> chunk_set m = {}"
  "(\<forall>j < length m. m ! j = NOT 0) \<longleftrightarrow> chunk_set m = {..< 32 * length m}"
proof -
  have split: "t = 32 * (t div 32) + t mod 32" "t mod 32 < 32" for t :: nat
    by simp_all
  have in_map: "32 * j + k \<in> chunk_set m \<longleftrightarrow> bit (m ! j) k" if "j < length m" "k < 32" for j k
    using that by (simp add: mem_chunk_set)
  show "(\<forall>j < length m. m ! j = 0) \<longleftrightarrow> chunk_set m = {}"
  proof
    assume "\<forall>j < length m. m ! j = 0"
    then show "chunk_set m = {}"
      by (auto simp: mem_chunk_set less_mult_imp_div_less mult.commute)
  next
    assume "chunk_set m = {}"
    then show "\<forall>j < length m. m ! j = 0"
      using in_map by (auto intro!: bit_word_eqI)
  qed
  show "(\<forall>j < length m. m ! j = NOT 0) \<longleftrightarrow> chunk_set m = {..< 32 * length m}"
  proof
    assume "\<forall>j < length m. m ! j = NOT 0"
    then show "chunk_set m = {..< 32 * length m}"
      by (auto simp: mem_chunk_set less_mult_imp_div_less mult.commute bit_simps)
  next
    assume "chunk_set m = {..< 32 * length m}"
    then have "32 * j + k \<in> chunk_set m" if "j < length m" "k < 32" for j k
      using that by auto
    then show "\<forall>j < length m. m ! j = NOT 0"
      using in_map by (auto intro!: bit_word_eqI simp: bit_simps)
  qed
qed

text \<open>Changing one bit of one word changes the membership of one type.\<close>

lemma bit_or_push: "bit (w OR push_bit k 1) n \<longleftrightarrow> bit w n \<or> n = k \<and> n < 32" for w :: u32
  by (auto simp: bit_or_iff bit_simps)

lemma bit_clear_push: "bit (w AND NOT (push_bit k 1)) n \<longleftrightarrow> bit w n \<and> n \<noteq> k" for w :: u32
  by (auto simp: bit_and_iff bit_simps dest: bit_imp_le_length)

lemma chunk_set_update:
  assumes "t < 32 * length m" and "\<And>n. bit w n \<longleftrightarrow> (if n = t mod 32 then b else bit (m ! (t div 32)) n)"
  shows "chunk_set (m[t div 32 := w]) = (if b then insert t (chunk_set m) else chunk_set m - {t})"
proof (rule set_eqI)
  fix u
  have "u = t" if "u div 32 = t div 32" "u mod 32 = t mod 32"
    using that by (metis div_mult_mod_eq)
  moreover have "t div 32 < length m"
    using assms(1) by (simp add: less_mult_imp_div_less mult.commute)
  ultimately show "u \<in> chunk_set (m[t div 32 := w]) \<longleftrightarrow> u \<in> (if b then insert t (chunk_set m) else chunk_set m - {t})"
    using assms by (cases "u div 32 = t div 32"; cases "u mod 32 = t mod 32") (auto simp: mem_chunk_set)
qed

section \<open>Properties\<close>

text \<open>
  C29: A chunk map is a set of chunk types. For a type inside the array, setting and clearing insert and remove it
  and succeed, the reset map is the empty set and the copy the same set, and the two loops decide
  whether the set is empty and whether it has every bit of the array.
\<close>

theorem sctp_chunkmap_refines_set:
  assumes "t < 32 * length m"
  shows "(\<exists>m'. SCTP_CHUNKMAP_SET t m = Some m' \<and> length m' = length m \<and> chunk_set m' = insert t (chunk_set m)) \<and>
    (\<exists>m'. SCTP_CHUNKMAP_CLEAR t m = Some m' \<and> length m' = length m \<and> chunk_set m' = chunk_set m - {t}) \<and>
    SCTP_CHUNKMAP_IS_SET m t = Some (t \<in> chunk_set m) \<and>
    chunk_set (SCTP_CHUNKMAP_RESET m) = {} \<and> chunk_set (SCTP_CHUNKMAP_SET_ALL m) = {..< 32 * length m} \<and>
    SCTP_CHUNKMAP_COPY (SCTP_CHUNKMAP_RESET m) m = Some m \<and>
    SCTP_CHUNKMAP_IS_CLEAR m = Some (chunk_set m = {}) \<and>
    SCTP_CHUNKMAP_IS_ALL_SET m = Some (chunk_set m = {..< 32 * length m})"
proof -
  have i: "t div 32 < length m"
    using assms by (simp add: less_mult_imp_div_less mult.commute)
  have "chunk_set (m[t div 32 := m ! (t div 32) OR push_bit (t mod 32) 1]) = insert t (chunk_set m)"
    using chunk_set_update [OF assms, of "m ! (t div 32) OR push_bit (t mod 32) 1" True]
    by (simp only: bit_or_push if_True) auto
  moreover have "chunk_set (m[t div 32 := m ! (t div 32) AND NOT (push_bit (t mod 32) 1)]) = chunk_set m - {t}"
    using chunk_set_update [OF assms, of "m ! (t div 32) AND NOT (push_bit (t mod 32) 1)" False]
    by (simp only: bit_clear_push if_False) auto
  moreover have "chunk_set (SCTP_CHUNKMAP_RESET m) = {}" "chunk_set (SCTP_CHUNKMAP_SET_ALL m) = {..< 32 * length m}"
    using words_chunk_set(1) [of "SCTP_CHUNKMAP_RESET m"] words_chunk_set(2) [of "SCTP_CHUNKMAP_SET_ALL m"]
    by (simp_all add: SCTP_CHUNKMAP_RESET_def SCTP_CHUNKMAP_SET_ALL_def)
  moreover have "SCTP_CHUNKMAP_IS_SET m t = Some (t \<in> chunk_set m)"
    using i by (auto simp: chunk_set_def SCTP_CHUNKMAP_IS_SET_def)
  moreover have "SCTP_CHUNKMAP_IS_CLEAR m = Some (chunk_set m = {})"
    "SCTP_CHUNKMAP_IS_ALL_SET m = Some (chunk_set m = {..< 32 * length m})"
    by (simp_all add: SCTP_CHUNKMAP_IS_CLEAR_def SCTP_CHUNKMAP_IS_ALL_SET_def sctp_chunkmap_is_clear_def
        sctp_chunkmap_is_all_set_def is_clear_from is_all_set_from words_chunk_set [symmetric])
  ultimately show ?thesis
    using i by (simp add: SCTP_CHUNKMAP_SET_def SCTP_CHUNKMAP_CLEAR_def SCTP_CHUNKMAP_COPY_def
        SCTP_CHUNKMAP_RESET_def)
qed

theorem sctp_chunkmap_refines_set_witness:
  "\<exists>m'. SCTP_CHUNKMAP_SET 63 (replicate 2 0) = Some m' \<and> chunk_set m' = insert 63 (chunk_set (replicate 2 0))"
  using sctp_chunkmap_refines_set [of 63 "replicate 2 0"] by auto

text \<open>
  The array has eight times the words that 256 chunk types need, so a map with each of the 256 types
  set is not one in which everything is set: the test says no, although it says yes after setting all.
\<close>

theorem sctp_all_types_not_all_set:
  assumes "length m = chunkmap_words" and "chunk_set m = {..< 256}"
  shows "SCTP_CHUNKMAP_IS_ALL_SET m = Some False \<and>
    SCTP_CHUNKMAP_IS_ALL_SET (SCTP_CHUNKMAP_SET_ALL m) = Some True"
proof -
  have "{..< 256 :: nat} \<noteq> {..< 32 * 64}"
    by (simp add: lessThan_eq_iff)
  moreover have "SCTP_CHUNKMAP_IS_ALL_SET x = Some (\<forall>j < length x. x ! j = NOT 0)" for x
    by (simp add: SCTP_CHUNKMAP_IS_ALL_SET_def sctp_chunkmap_is_all_set_def is_all_set_from)
  ultimately show ?thesis
    using assms words_chunk_set(2) [of m] by (simp add: SCTP_CHUNKMAP_SET_ALL_def)
qed

lemma chunk_set_prefix: "n \<le> k \<Longrightarrow> chunk_set (replicate n (NOT 0) @ replicate (k - n) 0) = {..< 32 * n}"
  by (auto simp: mem_chunk_set nth_append less_mult_imp_div_less mult.commute bit_simps split: if_splits)

theorem sctp_all_types_not_all_set_witness:
  "SCTP_CHUNKMAP_IS_ALL_SET (replicate 8 (NOT 0) @ replicate 56 0) = Some False"
  using sctp_all_types_not_all_set [of "replicate 8 (NOT 0) @ replicate 56 0"] chunk_set_prefix [of 8 64]
  by simp

end
