(* ===== verification/XtWalk.thy ===== *)
theory XtWalk
  imports Netlink Ioctl
begin

text \<open>
  Walking the rule tables of the packet filters: the iteration macros of
  \<open>linux-headers/include/linux/netfilter/x_tables.h\<close> and their uses for IPv4, IPv6 and ARP tables, and those of
  \<open>netfilter_bridge/ebtables.h\<close>, which also check that the elements fill the space exactly.

  A table is a byte list; a callback gets the position of an element and the
  state its further arguments refer to, and does not change the table. It is a parameter: any function from
  position and state to a return value and a new state. Structure layouts are those of a 64-bit target.
\<close>

section \<open>Structure layouts\<close>

text \<open>The offset of member \<open>k\<close> of a structure given by the sizes and alignments of its members.\<close>

definition offset_of :: "(nat \<times> nat) list \<Rightarrow> nat \<Rightarrow> nat" where
  "offset_of ms k = align_up (snd (ms ! k)) (struct_end (take k ms) 0)"

definition ipt_ip_members :: "(nat \<times> nat) list" where
  "ipt_ip_members = [(4, 4), (4, 4), (4, 4), (4, 4), (16, 1), (16, 1), (16, 1), (16, 1), (2, 2), (1, 1), (1, 1)]"

definition xt_counters_members :: "(nat \<times> nat) list" where
  "xt_counters_members = [(8, 8), (8, 8)]"

definition ipt_entry_members :: "(nat \<times> nat) list" where
  "ipt_entry_members = [(sizeof_struct ipt_ip_members, 4), (4, 4), (2, 2), (2, 2), (4, 4),
     (sizeof_struct xt_counters_members, 8)]"

definition ip6t_ip6_members :: "(nat \<times> nat) list" where
  "ip6t_ip6_members = [(16, 4), (16, 4), (16, 4), (16, 4), (16, 1), (16, 1), (16, 1), (16, 1), (2, 2), (1, 1), (1, 1), (1, 1)]"

definition ip6t_entry_members :: "(nat \<times> nat) list" where
  "ip6t_entry_members = [(sizeof_struct ip6t_ip6_members, 4), (4, 4), (2, 2), (2, 2), (4, 4),
     (sizeof_struct xt_counters_members, 8)]"

definition arpt_devaddr_info_members :: "(nat \<times> nat) list" where
  "arpt_devaddr_info_members = [(16, 1), (16, 1)]"

definition arpt_arp_members :: "(nat \<times> nat) list" where
  "arpt_arp_members = [(4, 4), (4, 4), (4, 4), (4, 4), (1, 1), (1, 1), (sizeof_struct arpt_devaddr_info_members, 1),
     (sizeof_struct arpt_devaddr_info_members, 1), (2, 2), (2, 2), (2, 2), (2, 2), (2, 2), (2, 2),
     (16, 1), (16, 1), (16, 1), (16, 1), (1, 1), (2, 2)]"

definition arpt_entry_members :: "(nat \<times> nat) list" where
  "arpt_entry_members = [(sizeof_struct arpt_arp_members, 4), (2, 2), (2, 2), (4, 4), (sizeof_struct xt_counters_members, 8)]"

text \<open>The flexible arrays of the bridge structures are aligned to eight bytes.\<close>

definition ebt_entry_members :: "(nat \<times> nat) list" where
  "ebt_entry_members = [(4, 4), (4, 4), (2, 2), (16, 1), (16, 1), (16, 1), (16, 1), (6, 1), (6, 1), (6, 1), (6, 1),
     (4, 4), (4, 4), (4, 4), (0, 8)]"

definition ebt_entries_members :: "(nat \<times> nat) list" where
  "ebt_entries_members = [(4, 4), (32, 1), (4, 4), (4, 4), (4, 4), (0, 8)]"

definition ebt_entry_match_members :: "(nat \<times> nat) list" where
  "ebt_entry_match_members = [(32, 8), (4, 4), (0, 8)]"

definition ebt_entry_watcher_members :: "(nat \<times> nat) list" where
  "ebt_entry_watcher_members = [(32, 8), (4, 4), (0, 8)]"

lemma layouts:
  "sizeof_struct ipt_entry_members = 112" "offset_of ipt_entry_members 2 = 88" "offset_of ipt_entry_members 3 = 90"
  "sizeof_struct ip6t_entry_members = 168" "offset_of ip6t_entry_members 2 = 140" "offset_of ip6t_entry_members 3 = 142"
  "sizeof_struct arpt_entry_members = 192" "offset_of arpt_entry_members 1 = 164" "offset_of arpt_entry_members 2 = 166"
  "sizeof_struct ebt_entry_members = 112" "offset_of ebt_entry_members 11 = 100" "offset_of ebt_entry_members 12 = 104"
  "offset_of ebt_entry_members 13 = 108" "sizeof_struct ebt_entries_members = 48"
  "sizeof_struct ebt_entry_match_members = 40" "offset_of ebt_entry_match_members 1 = 32"
  "sizeof_struct ebt_entry_watcher_members = 40" "offset_of ebt_entry_watcher_members 1 = 32"
  by (simp_all add: ipt_entry_members_def ip6t_entry_members_def arpt_entry_members_def ebt_entry_members_def
      ebt_entries_members_def ebt_entry_match_members_def ebt_entry_watcher_members_def ipt_ip_members_def ip6t_ip6_members_def
      arpt_arp_members_def arpt_devaddr_info_members_def xt_counters_members_def sizeof_struct_def offset_of_def align_up_def)

section \<open>Counters and alignment\<close>

record xt_counters =
  pcnt :: u64
  bcnt :: u64

definition SET_COUNTER :: "u64 \<Rightarrow> u64 \<Rightarrow> xt_counters \<Rightarrow> xt_counters" where
  "SET_COUNTER b p c = c\<lparr>bcnt := b, pcnt := p\<rparr>"

definition ADD_COUNTER :: "u64 \<Rightarrow> u64 \<Rightarrow> xt_counters \<Rightarrow> xt_counters" where
  "ADD_COUNTER b p c = c\<lparr>bcnt := bcnt c + b, pcnt := pcnt c + p\<rparr>"

definition ALIGN_KERNEL_MASK :: "u64 \<Rightarrow> u64 \<Rightarrow> u64" where
  "ALIGN_KERNEL_MASK x msk = (x + msk) AND NOT msk"

definition ALIGN_KERNEL :: "u64 \<Rightarrow> u64 \<Rightarrow> u64" where
  "ALIGN_KERNEL x a = ALIGN_KERNEL_MASK x (a - 1)"

definition XT_ALIGN :: "u64 \<Rightarrow> u64" where
  "XT_ALIGN s = ALIGN_KERNEL s 8"

section \<open>The loops\<close>

type_synonym 's callback = "nat \<Rightarrow> 's \<Rightarrow> int \<times> 's"

text \<open>
  The loop all the macros share: \<open>for (__i = i; __i < lim; __i += advance)\<close> with a body that calls the callback
  on the element at \<open>__i\<close> and breaks when it returns something other than zero. The loop need not end.
\<close>

partial_function (option) iterate ::
    "(nat \<Rightarrow> u32 option) \<Rightarrow> (nat \<Rightarrow> 's \<Rightarrow> int \<times> 's) \<Rightarrow> nat \<Rightarrow> u32 \<Rightarrow> u32 \<Rightarrow> 's \<Rightarrow> (int \<times> u32 \<times> 's) option" where
  "iterate advance fn base lim i s =
     (if i < lim then
        if fst (fn (base + unat i) s) \<noteq> 0 then Some (fst (fn (base + unat i) s), i, snd (fn (base + unat i) s))
        else do {
          d \<leftarrow> advance (base + unat i);
          iterate advance fn base lim (i + d) (snd (fn (base + unat i) s)) }
      else Some (0, i, s))"

definition XT_MATCH_ITERATE ::
    "nat \<Rightarrow> nat \<Rightarrow> u8 list \<Rightarrow> nat \<Rightarrow> 's callback \<Rightarrow> 's \<Rightarrow> (int \<times> 's) option" where
  "XT_MATCH_ITERATE sizeof_type target_offset mem e fn s = do {
     t \<leftarrow> get16 mem (e + target_offset);
     (ret, _, s) \<leftarrow> iterate (\<lambda>m. map_option ucast (get16 mem m)) fn e (ucast t) (word_of_nat sizeof_type) s;
     Some (ret, s) }"

text \<open>The entry loop counts the entries and skips the first \<open>n\<close>.\<close>

definition counting :: "u32 \<Rightarrow> 's callback \<Rightarrow> (u32 \<times> 's) callback" where
  "counting n fn entry ks =
     (if fst ks < n then (0, fst ks + 1, snd ks) else (fst (fn entry (snd ks)), fst ks + 1, snd (fn entry (snd ks))))"

definition xt_advance :: "nat \<Rightarrow> u8 list \<Rightarrow> nat \<Rightarrow> u32 option" where
  "xt_advance next_offset mem entry = map_option ucast (get16 mem (entry + next_offset))"

definition XT_ENTRY_ITERATE_CONTINUE ::
    "nat \<Rightarrow> u8 list \<Rightarrow> nat \<Rightarrow> u32 \<Rightarrow> u32 \<Rightarrow> 's callback \<Rightarrow> 's \<Rightarrow> (int \<times> 's) option" where
  "XT_ENTRY_ITERATE_CONTINUE next_offset mem entries sz n fn s = do {
     r \<leftarrow> iterate (xt_advance next_offset mem) (counting n fn) entries sz 0 (0, s);
     Some (fst r, snd (snd (snd r))) }"

definition XT_ENTRY_ITERATE ::
    "nat \<Rightarrow> u8 list \<Rightarrow> nat \<Rightarrow> u32 \<Rightarrow> 's callback \<Rightarrow> 's \<Rightarrow> (int \<times> 's) option" where
  "XT_ENTRY_ITERATE next_offset mem entries sz = XT_ENTRY_ITERATE_CONTINUE next_offset mem entries sz 0"

definition IPT_MATCH_ITERATE :: "u8 list \<Rightarrow> nat \<Rightarrow> 's callback \<Rightarrow> 's \<Rightarrow> (int \<times> 's) option" where
  "IPT_MATCH_ITERATE = XT_MATCH_ITERATE (sizeof_struct ipt_entry_members) (offset_of ipt_entry_members 2)"
definition IPT_ENTRY_ITERATE :: "u8 list \<Rightarrow> nat \<Rightarrow> u32 \<Rightarrow> 's callback \<Rightarrow> 's \<Rightarrow> (int \<times> 's) option" where
  "IPT_ENTRY_ITERATE = XT_ENTRY_ITERATE (offset_of ipt_entry_members 3)"
definition ipt_get_target :: "u8 list \<Rightarrow> nat \<Rightarrow> nat option" where
  "ipt_get_target mem e = map_option (\<lambda>t. e + unat t) (get16 mem (e + offset_of ipt_entry_members 2))"

definition IP6T_MATCH_ITERATE :: "u8 list \<Rightarrow> nat \<Rightarrow> 's callback \<Rightarrow> 's \<Rightarrow> (int \<times> 's) option" where
  "IP6T_MATCH_ITERATE = XT_MATCH_ITERATE (sizeof_struct ip6t_entry_members) (offset_of ip6t_entry_members 2)"
definition IP6T_ENTRY_ITERATE :: "u8 list \<Rightarrow> nat \<Rightarrow> u32 \<Rightarrow> 's callback \<Rightarrow> 's \<Rightarrow> (int \<times> 's) option" where
  "IP6T_ENTRY_ITERATE = XT_ENTRY_ITERATE (offset_of ip6t_entry_members 3)"
definition ip6t_get_target :: "u8 list \<Rightarrow> nat \<Rightarrow> nat option" where
  "ip6t_get_target mem e = map_option (\<lambda>t. e + unat t) (get16 mem (e + offset_of ip6t_entry_members 2))"

definition ARPT_ENTRY_ITERATE :: "u8 list \<Rightarrow> nat \<Rightarrow> u32 \<Rightarrow> 's callback \<Rightarrow> 's \<Rightarrow> (int \<times> 's) option" where
  "ARPT_ENTRY_ITERATE = XT_ENTRY_ITERATE (offset_of arpt_entry_members 2)"
definition arpt_get_target :: "u8 list \<Rightarrow> nat \<Rightarrow> nat option" where
  "arpt_get_target mem e = map_option (\<lambda>t. e + unat t) (get16 mem (e + offset_of arpt_entry_members 1))"

text \<open>The bridge macros. \<open>EINVAL\<close> is 22.\<close>

definition ebt_check_end :: "u32 \<Rightarrow> int \<times> u32 \<times> 's \<Rightarrow> int \<times> 's" where
  "ebt_check_end lim r = (case r of (ret, i, s) \<Rightarrow> (if ret = 0 \<and> i \<noteq> lim then - 22 else ret, s))"

definition ebt_match_advance :: "u8 list \<Rightarrow> nat \<Rightarrow> u32 option" where
  "ebt_match_advance mem m = do {
     z \<leftarrow> get32 mem (m + offset_of ebt_entry_match_members 1);
     Some (z + word_of_nat (sizeof_struct ebt_entry_match_members)) }"

definition EBT_MATCH_ITERATE :: "u8 list \<Rightarrow> nat \<Rightarrow> 's callback \<Rightarrow> 's \<Rightarrow> (int \<times> 's) option" where
  "EBT_MATCH_ITERATE mem e fn s = do {
     w \<leftarrow> get32 mem (e + offset_of ebt_entry_members 11);
     r \<leftarrow> iterate (ebt_match_advance mem) fn e w (word_of_nat (sizeof_struct ebt_entry_members)) s;
     Some (ebt_check_end w r) }"

definition ebt_watcher_advance :: "u8 list \<Rightarrow> nat \<Rightarrow> u32 option" where
  "ebt_watcher_advance mem m = do {
     z \<leftarrow> get32 mem (m + offset_of ebt_entry_watcher_members 1);
     Some (z + word_of_nat (sizeof_struct ebt_entry_watcher_members)) }"

definition EBT_WATCHER_ITERATE :: "u8 list \<Rightarrow> nat \<Rightarrow> 's callback \<Rightarrow> 's \<Rightarrow> (int \<times> 's) option" where
  "EBT_WATCHER_ITERATE mem e fn s = do {
     w \<leftarrow> get32 mem (e + offset_of ebt_entry_members 11);
     t \<leftarrow> get32 mem (e + offset_of ebt_entry_members 12);
     r \<leftarrow> iterate (ebt_watcher_advance mem) fn e t w s;
     Some (ebt_check_end t r) }"

text \<open>An element of a table is an entry or, with a zero in place of the bit mask, the header of a chain.\<close>

definition ebt_entry_advance :: "u8 list \<Rightarrow> nat \<Rightarrow> u32 option" where
  "ebt_entry_advance mem p = do {
     bitmask \<leftarrow> get32 mem p;
     if bitmask \<noteq> 0 then get32 mem (p + offset_of ebt_entry_members 13)
     else Some (word_of_nat (sizeof_struct ebt_entries_members)) }"

definition EBT_ENTRY_ITERATE :: "u8 list \<Rightarrow> nat \<Rightarrow> u32 \<Rightarrow> 's callback \<Rightarrow> 's \<Rightarrow> (int \<times> 's) option" where
  "EBT_ENTRY_ITERATE mem entries sz fn s = do {
     r \<leftarrow> iterate (ebt_entry_advance mem) fn entries sz 0 s;
     Some (ebt_check_end sz r) }"

definition ebt_get_target :: "u8 list \<Rightarrow> nat \<Rightarrow> nat option" where
  "ebt_get_target mem e = map_option (\<lambda>t. e + unat t) (get32 mem (e + offset_of ebt_entry_members 12))"

section \<open>Paths of a loop\<close>

text \<open>The callback applied to a list of positions until it returns something other than zero.\<close>

fun run_until :: "'s callback \<Rightarrow> nat list \<Rightarrow> 's \<Rightarrow> int \<times> 's" where
  "run_until fn [] s = (0, s)"
| "run_until fn (p # ps) s = (if fst (fn p s) \<noteq> 0 then fn p s else run_until fn ps (snd (fn p s)))"

text \<open>From index \<open>i\<close> the loop visits the positions \<open>ps\<close> and leaves with index \<open>j\<close> when nothing stops it.\<close>

inductive path :: "(nat \<Rightarrow> u32 option) \<Rightarrow> nat \<Rightarrow> u32 \<Rightarrow> u32 \<Rightarrow> nat list \<Rightarrow> u32 \<Rightarrow> bool" for advance base lim where
  stop: "\<not> i < lim \<Longrightarrow> path advance base lim i [] i"
| visit: "i < lim \<Longrightarrow> advance (base + unat i) = Some d \<Longrightarrow> path advance base lim (i + d) ps j \<Longrightarrow>
    path advance base lim i ((base + unat i) # ps) j"

lemma path_iterate:
  "path advance base lim i ps j \<Longrightarrow>
   \<exists>k. iterate advance fn base lim i s = Some (fst (run_until fn ps s), k, snd (run_until fn ps s)) \<and>
     (fst (run_until fn ps s) = 0 \<longrightarrow> k = j)"
proof (induction arbitrary: s rule: path.induct)
  case (stop i)
  then show ?case
    by (subst iterate.simps) simp
next
  case (visit i d ps j)
  then show ?case
    by (subst iterate.simps) auto
qed

text \<open>A loop that returns without being stopped has followed a path.\<close>

lemma iterate_path:
  assumes "iterate advance fn base lim i s = Some r" "\<forall>p s. fst (fn p s) = 0"
  shows "fst r = 0 \<and> (\<exists>ps. path advance base lim i ps (fst (snd r)))"
proof -
  let ?P = "\<lambda>advance fn base lim i (s :: 'a) r. (\<forall>p s. fst (fn p s) = 0) \<longrightarrow>
    fst r = 0 \<and> (\<exists>ps. path advance base lim i ps (fst (snd r)))"
  have "?P advance fn base lim i s r"
  proof (rule iterate.raw_induct [where P = ?P, OF _ assms(1)], intro impI)
    fix iter advance fn base lim i r and s :: 'a
    assume ih: "\<And>advance fn base lim i s r. iter advance fn base lim i s = Some r \<Longrightarrow> ?P advance fn base lim i s r"
      and eq: "(if i < lim then
          if fst (fn (base + unat i) s) \<noteq> 0 then Some (fst (fn (base + unat i) s), i, snd (fn (base + unat i) s))
          else advance (base + unat i) \<bind> (\<lambda>d. iter advance fn base lim (i + d) (snd (fn (base + unat i) s)))
        else Some (0, i, s)) = Some r"
      and fn: "\<forall>p s. fst (fn p s) = 0"
    show "fst r = 0 \<and> (\<exists>ps. path advance base lim i ps (fst (snd r)))"
    proof (cases "i < lim")
      case True
      then obtain d where d: "advance (base + unat i) = Some d" "iter advance fn base lim (i + d) (snd (fn (base + unat i) s)) = Some r"
        using eq fn by (auto simp: bind_eq_Some_conv)
      then show ?thesis
        using ih [OF d(2)] fn True by (blast intro: path.visit)
    next
      case False
      then show ?thesis
        using eq path.stop [OF False, of advance base] by auto
    qed
  qed
  then show ?thesis
    using assms(2) by blast
qed

text \<open>
  The next index of a loop. When the index cannot wrap around, a path exists exactly when no element that is reached
  lies outside the table or has size zero.
\<close>

definition step :: "(nat \<Rightarrow> u32 option) \<Rightarrow> nat \<Rightarrow> u32 \<Rightarrow> u32 \<Rightarrow> u32 \<Rightarrow> bool" where
  "step advance base lim i j \<longleftrightarrow> i < lim \<and> (\<exists>d. advance (base + unat i) = Some d \<and> j = i + d)"

definition stuck :: "(nat \<Rightarrow> u32 option) \<Rightarrow> nat \<Rightarrow> u32 \<Rightarrow> u32 \<Rightarrow> bool" where
  "stuck advance base lim i \<longleftrightarrow> i < lim \<and> (advance (base + unat i) = None \<or> advance (base + unat i) = Some 0)"

lemma path_not_stuck:
  "path advance base lim i ps j \<Longrightarrow> (step advance base lim)\<^sup>*\<^sup>* i k \<Longrightarrow> \<not> stuck advance base lim k"
proof (induction arbitrary: k rule: path.induct)
  case (stop i)
  from stop(2) show ?case
    using stop(1) by (cases rule: converse_rtranclpE) (auto simp: step_def stuck_def)
next
  case (visit i d ps j)
  show ?case
  proof (cases "d = 0")
    case True
    then have "path advance base lim i ps j"
      using visit by simp
    then show ?thesis
      using visit True by simp
  next
    case False
    from visit(5) show ?thesis
    proof (cases rule: converse_rtranclpE)
      case base
      then show ?thesis
        using visit False by (simp add: stuck_def)
    next
      case (step y)
      then show ?thesis
        using visit by (auto simp: step_def)
    qed
  qed
qed

lemma not_stuck_path:
  assumes "\<And>p d. advance p = Some d \<Longrightarrow> unat d < 65536" "unat lim + 65536 \<le> 2 ^ 32"
    and "\<And>k. (step advance base lim)\<^sup>*\<^sup>* i k \<Longrightarrow> \<not> stuck advance base lim k"
  shows "\<exists>ps j. path advance base lim i ps j"
  using assms(3)
proof (induction "unat lim - unat i" arbitrary: i rule: less_induct)
  case less
  show ?case
  proof (cases "i < lim")
    case True
    then obtain d where d: "advance (base + unat i) = Some d" "d \<noteq> 0"
      using less(2) [of i] by (auto simp: stuck_def)
    have "unat (i + d) = unat i + unat d"
      using True assms(1) [OF d(1)] assms(2) by (subst unat_add_lem [THEN iffD1]) (auto simp: word_less_nat_alt)
    moreover have "0 < unat d"
      using d(2) by (simp add: unat_gt_0)
    moreover have "unat i < unat lim"
      using True by (simp add: word_less_nat_alt)
    ultimately have "unat lim - unat (i + d) < unat lim - unat i"
      by simp
    moreover have "\<not> stuck advance base lim k" if "(step advance base lim)\<^sup>*\<^sup>* (i + d) k" for k
      using that True d(1) by (intro less(2)) (auto simp: step_def intro: converse_rtranclp_into_rtranclp)
    ultimately have "\<exists>ps j. path advance base lim (i + d) ps j"
      by (rule less(1))
    then show ?thesis
      using True d path.visit by blast
  qed (auto intro: path.stop)
qed

section \<open>Tables\<close>

text \<open>
  What the loops rely on of a table: where an element starts, the step
  is read from inside it and is its length. The lemmas hold for every such kind of element.
\<close>

fun positions :: "nat \<Rightarrow> u8 list list \<Rightarrow> nat list" where
  "positions p [] = []"
| "positions p (e # es) = p # positions (p + length e) es"

locale element_table =
  fixes advance :: "u8 list \<Rightarrow> nat \<Rightarrow> u32 option" and element :: "u8 list \<Rightarrow> bool"
  assumes advance_element: "element e \<Longrightarrow> advance (pre @ e @ post) (length pre) = Some (word_of_nat (length e))"
    and element_nonempty: "element e \<Longrightarrow> 0 < length e"
begin

text \<open>The limit may lie inside the last element; the loop then leaves behind it.\<close>

lemma path_table:
  assumes "list_all element es" "length pre = base + k" "k + length (concat es) < 4294967296"
    "unat lim \<le> k + length (concat es)" "k + length (concat (butlast es)) \<le> unat lim" "es \<noteq> [] \<Longrightarrow> k + length (concat (butlast es)) < unat lim"
  shows "path (advance (pre @ concat es @ post)) base lim (word_of_nat k) (positions (base + k) es)
    (word_of_nat (k + length (concat es)))"
  using assms
proof (induction es arbitrary: k pre)
  case Nil
  then have "unat (word_of_nat k :: u32) = k" "unat lim \<le> k"
    by (simp_all add: unsigned_of_nat take_bit_nat_eq_self)
  then show ?case
    by (auto intro!: path.stop simp: word_less_nat_alt)
next
  case (Cons e es)
  have e: "0 < length e" "element e"
    using Cons.prems element_nonempty by auto
  have k: "unat (word_of_nat k :: u32) = k"
    using Cons.prems(3) by (simp add: unsigned_of_nat take_bit_nat_eq_self)
  have less: "k < unat lim"
    using Cons.prems(5,6) e by (cases "es = []") auto
  have "path (advance ((pre @ e) @ concat es @ post)) base lim (word_of_nat (k + length e)) (positions (base + (k + length e)) es)
      (word_of_nat (k + length e + length (concat es)))"
    if "es \<noteq> []"
    using Cons.prems that by (intro Cons.IH) auto
  moreover have "path (advance ((pre @ e) @ concat es @ post)) base lim (word_of_nat (k + length e)) (positions (base + (k + length e)) es)
      (word_of_nat (k + length e + length (concat es)))"
    if "es = []"
    using Cons.prems that
    by (auto intro!: path.stop simp: word_less_nat_alt unsigned_of_nat take_bit_nat_eq_self simp del: of_nat_add)
  ultimately have rest: "path (advance ((pre @ e) @ concat es @ post)) base lim (word_of_nat (k + length e)) (positions (base + (k + length e)) es)
      (word_of_nat (k + length e + length (concat es)))"
    by blast
  have "path (advance (pre @ concat (e # es) @ post)) base lim (word_of_nat k)
      ((base + unat (word_of_nat k :: u32)) # positions (base + (k + length e)) es) (word_of_nat (k + length e + length (concat es)))"
    using advance_element [OF e(2), of pre "concat es @ post"] Cons.prems(2) less k rest
    by (intro path.visit [where d = "word_of_nat (length e)"]) (simp_all add: word_less_nat_alt)
  then show ?case
    by (simp add: k add.assoc)
qed

lemma length_positions: "length (positions p es) = length es"
  by (induction es arbitrary: p) auto

lemma element_count: "list_all element es \<Longrightarrow> length es \<le> length (concat es)"
  using element_nonempty by (induction es) (auto simp: Suc_le_eq add_strict_increasing)

text \<open>Over a table that the elements fill, the loop applies the callback to them in order.\<close>

lemma iterate_table:
  assumes "list_all element es" "unat lim = length (concat es)"
  shows "\<exists>j. iterate (advance (pre @ concat es @ post)) fn (length pre) lim 0 s =
      Some (fst (run_until fn (positions (length pre) es) s), j, snd (run_until fn (positions (length pre) es) s)) \<and>
    (fst (run_until fn (positions (length pre) es) s) = 0 \<longrightarrow> j = lim)"
proof -
  have "length (concat (butlast es)) < length (concat es)" if "es \<noteq> []"
    using that assms(1) element_nonempty by (cases es rule: rev_cases) auto
  then have "path (advance (pre @ concat es @ post)) (length pre) lim (word_of_nat 0) (positions (length pre + 0) es)
      (word_of_nat (0 + length (concat es)))"
    using assms unat_u32_less [of lim] by (intro path_table) (cases "es = []"; auto)+
  moreover have "word_of_nat (length (concat es)) = lim"
    using assms(2) unat_u32_less [of lim]
    by (simp add: word_unat_eq_iff unsigned_of_nat take_bit_nat_eq_self del: of_nat_add length_concat)
  ultimately show ?thesis
    using path_iterate [of "advance (pre @ concat es @ post)" "length pre" lim 0 "positions (length pre) es" lim fn s] by simp
qed

text \<open>When the limit lies inside the last element, the loop leaves with an index behind it.\<close>

lemma iterate_cut:
  assumes "list_all element (es @ [e])" "length (concat es) < unat lim" "unat lim < length (concat (es @ [e]))"
    "length (concat (es @ [e])) < 4294967296" "\<forall>p s. fst (fn p s) = 0"
  shows "\<exists>j s'. iterate (advance (pre @ concat (es @ [e]) @ post)) fn (length pre) lim 0 s = Some (0, j, s') \<and> j \<noteq> lim"
proof -
  have "path (advance (pre @ concat (es @ [e]) @ post)) (length pre) lim (word_of_nat 0) (positions (length pre + 0) (es @ [e]))
      (word_of_nat (0 + length (concat (es @ [e]))))"
    using assms by (intro path_table) auto
  moreover have "word_of_nat (length (concat (es @ [e]))) \<noteq> lim"
    using assms(3,4) by (auto simp: unsigned_of_nat take_bit_nat_eq_self simp del: of_nat_add)
  moreover have "fst (run_until fn ps s) = 0" for ps
    using assms(5) by (induction ps arbitrary: s) auto
  ultimately show ?thesis
    using path_iterate [of "advance (pre @ concat (es @ [e]) @ post)" "length pre" lim 0 _ _ fn s] by fastforce
qed

end

text \<open>The entries of the IP tables: a 16-bit member holds the length.\<close>

definition xt_element :: "nat \<Rightarrow> nat \<Rightarrow> u8 list \<Rightarrow> bool" where
  "xt_element sizeof_type next_offset e \<longleftrightarrow> sizeof_type \<le> length e \<and> length e < 65536 \<and>
     get16 e next_offset = Some (word_of_nat (length e))"

definition ebt_element :: "u8 list \<Rightarrow> bool" where
  "ebt_element e \<longleftrightarrow> length e < 2 ^ 32 \<and>
     (if get32 e 0 = Some 0 then length e = 48 else 112 \<le> length e \<and> get32 e 108 = Some (word_of_nat (length e)))"

lemma get16_within: "i + 2 \<le> length e \<Longrightarrow> get16 (pre @ e @ post) (length pre + i) = get16 e i"
  by (simp add: get16_def nth_append)

lemma get32_within: "i + 4 \<le> length e \<Longrightarrow> get32 (pre @ e @ post) (length pre + i) = get32 e i"
  using get16_within [of i e pre post] get16_within [of "i + 2" e pre post] by (simp add: get32_def add.assoc)

lemma xt_advance_element:
  assumes "xt_element z k e" "k + 2 \<le> z"
  shows "xt_advance k (pre @ e @ post) (length pre) = Some (word_of_nat (length e))"
proof -
  have "ucast (word_of_nat (length e) :: u16) = (word_of_nat (length e) :: u32)"
    using assms by (simp add: xt_element_def word_unat_eq_iff unsigned_of_nat unsigned_ucast_eq take_bit_nat_eq_self)
  then show ?thesis
    using assms get16_within [of k e pre post] by (simp add: xt_advance_def xt_element_def)
qed

interpretation ipt: element_table "xt_advance 90" "xt_element 112 90"
  by unfold_locales (auto intro: xt_advance_element simp: xt_element_def)

interpretation ip6t: element_table "xt_advance 142" "xt_element 168 142"
  by unfold_locales (auto intro: xt_advance_element simp: xt_element_def)

interpretation arpt: element_table "xt_advance 166" "xt_element 192 166"
  by unfold_locales (auto intro: xt_advance_element simp: xt_element_def)

interpretation ebt: element_table ebt_entry_advance ebt_element
proof
  fix e pre post :: "u8 list"
  assume e: "ebt_element e"
  then have "48 \<le> length e"
    by (auto simp: ebt_element_def split: if_splits)
  then obtain b where "get32 e 0 = Some b" "get32 (pre @ e @ post) (length pre) = Some b"
    using get32_total [of 0 e] get32_within [of 0 e pre post] by auto
  then show "ebt_entry_advance (pre @ e @ post) (length pre) = Some (word_of_nat (length e))"
    using e get32_within [of 108 e pre post] by (auto simp: ebt_element_def ebt_entry_advance_def layouts split: if_splits)
qed (auto simp: ebt_element_def split: if_splits)

section \<open>The counting loop\<close>

lemma run_until_count:
  fixes k n :: u32
  assumes "unat k + length ps < 4294967296"
  shows "fst (run_until (counting n fn) ps (k, s)) = fst (run_until fn (drop (unat n - unat k) ps) s) \<and>
    snd (snd (run_until (counting n fn) ps (k, s))) = snd (run_until fn (drop (unat n - unat k) ps) s)"
  using assms
proof (induction ps arbitrary: k s)
  case (Cons p ps)
  have k: "unat (k + 1) = Suc (unat k)"
    using Cons.prems by (subst unat_add_lem [THEN iffD1]) auto
  show ?case
  proof (cases "k < n")
    case True
    then have "unat n - unat k = Suc (unat n - unat (k + 1))"
      using k by (simp add: word_less_nat_alt)
    then show ?thesis
      using Cons.IH [of "k + 1" s] Cons.prems True k by (simp add: counting_def)
  next
    case False
    then have "unat n - unat k = 0" "unat n - unat (k + 1) = 0"
      using k by (simp_all add: word_less_nat_alt not_less)
    then show ?thesis
      using Cons.IH [of "k + 1" "snd (fn p s)"] Cons.prems False k by (simp add: counting_def)
  qed
qed simp

context element_table
begin

lemma iterate_count:
  assumes "list_all element es" "unat lim = length (concat es)"
  shows "\<exists>j k. iterate (advance (pre @ concat es @ post)) (counting n fn) (length pre) lim 0 (0, s) =
    Some (fst (run_until fn (drop (unat n) (positions (length pre) es)) s), j, k,
      snd (run_until fn (drop (unat n) (positions (length pre) es)) s))"
proof -
  have "length (positions (length pre) es) < 4294967296"
    using element_count [OF assms(1)] assms(2) unat_u32_less [of lim] by (simp add: length_positions)
  then show ?thesis
    using iterate_table [OF assms, of pre post "counting n fn" "(0, s)"] run_until_count [of 0 "positions (length pre) es" n fn s]
    by (auto simp: prod_eq_iff)
qed

end

section \<open>Properties\<close>

text \<open>
  C16: Iterating over a table of IPv4, IPv6 or ARP rules calls the function on every entry in order, from the
  \<open>n\<close>-th on, until it returns something other than zero, and returns that; with the state the calls
  left. The table may lie anywhere in memory and its entries may have any lengths their
  16-bit field can hold.
\<close>

theorem xt_entry_iterate_visits:
  assumes "unat sz = length (concat es)"
  shows "(list_all (xt_element 112 90) es \<longrightarrow>
      IPT_ENTRY_ITERATE (pre @ concat es @ post) (length pre) sz fn s = Some (run_until fn (positions (length pre) es) s) \<and>
      XT_ENTRY_ITERATE_CONTINUE 90 (pre @ concat es @ post) (length pre) sz n fn s =
        Some (run_until fn (drop (unat n) (positions (length pre) es)) s)) \<and>
    (list_all (xt_element 168 142) es \<longrightarrow>
      IP6T_ENTRY_ITERATE (pre @ concat es @ post) (length pre) sz fn s = Some (run_until fn (positions (length pre) es) s)) \<and>
    (list_all (xt_element 192 166) es \<longrightarrow>
      ARPT_ENTRY_ITERATE (pre @ concat es @ post) (length pre) sz fn s = Some (run_until fn (positions (length pre) es) s))"
  using ipt.iterate_count [OF _ assms, of pre post 0 fn s] ipt.iterate_count [OF _ assms, of pre post n fn s]
    ip6t.iterate_count [OF _ assms, of pre post 0 fn s] arpt.iterate_count [OF _ assms, of pre post 0 fn s]
  by (auto simp: IPT_ENTRY_ITERATE_def IP6T_ENTRY_ITERATE_def ARPT_ENTRY_ITERATE_def XT_ENTRY_ITERATE_def
      XT_ENTRY_ITERATE_CONTINUE_def layouts)

text \<open>Two entries without matches: 112 bytes that hold their own length.\<close>

definition bare_entry :: "u8 list" where
  "bare_entry = replicate 90 0 @ bytes16 112 @ replicate 20 0"

lemma bare_entry: "length bare_entry = 112" "xt_element 112 90 bare_entry"
  using get16_bytes16 [of "replicate 90 0" 112 "replicate 20 0"]
  by (simp_all add: bare_entry_def xt_element_def)

theorem xt_entry_iterate_visits_witness:
  "IPT_ENTRY_ITERATE (concat [bare_entry, bare_entry]) 0 224 (\<lambda>p ps. (0, ps @ [p])) [] = Some (0, [0, 112])"
  using xt_entry_iterate_visits [of 224 "[bare_entry, bare_entry]" "[]" "[]" "\<lambda>p ps. (0, ps @ [p])" "[]"] bare_entry
  by simp



text \<open>
  C23: The bridge loop also checks its table. Over a table of entries and chain headers of the given size it calls the function on each
  in order until it returns something other than zero, and returns that; when the size ends inside the last
  element, it returns \<open>-EINVAL\<close> after all calls.
\<close>

theorem ebt_entry_iterate_checks:
  assumes "list_all ebt_element (es @ [e])" and "length (concat (es @ [e])) < 2 ^ 32"
  shows "(unat sz = length (concat (es @ [e])) \<longrightarrow>
      EBT_ENTRY_ITERATE (pre @ concat (es @ [e]) @ post) (length pre) sz fn s =
        Some (run_until fn (positions (length pre) (es @ [e])) s)) \<and>
    (length (concat es) < unat sz \<and> unat sz < length (concat (es @ [e])) \<and> (\<forall>p s. fst (fn p s) = 0) \<longrightarrow>
      (\<exists>s'. EBT_ENTRY_ITERATE (pre @ concat (es @ [e]) @ post) (length pre) sz fn s = Some (- 22, s')))"
  (is "(?fill \<longrightarrow> ?visits) \<and> (?cut \<longrightarrow> ?einval)")
proof (intro conjI impI)
  assume ?fill
  then show ?visits
    using ebt.iterate_table [OF assms(1), of sz pre post fn s]
    by (auto simp: EBT_ENTRY_ITERATE_def ebt_check_end_def prod_eq_iff simp del: concat_append)
next
  assume ?cut
  then show ?einval
    using ebt.iterate_cut [OF assms(1), of sz fn pre post s] assms(2)
    by (auto simp: EBT_ENTRY_ITERATE_def ebt_check_end_def simp del: concat_append)
qed

lemma chain_header: "ebt_element (replicate 48 0)"
  by (simp add: ebt_element_def get32_def get16_def be16_def)

theorem ebt_entry_iterate_checks_witness:
  "\<exists>s'. EBT_ENTRY_ITERATE (replicate 96 0) 0 50 (\<lambda>p s. (0, s)) () = Some (- 22, s')"
  using ebt_entry_iterate_checks [of "[replicate 48 0]" "replicate 48 0" 50 "[]" "[]" "\<lambda>p s. (0, s)" "()"] chain_header
  by (simp add: replicate_add [symmetric])

end
