(* ===== verification/BlockIo.thy ===== *)
theory BlockIo
  imports ByteOrder
begin

text \<open>
  Interfaces of storage drivers and file systems with code of their own: the request descriptors and buffer registration of
  the user-space block driver (\<open>linux-headers/include/linux/ublk_cmd.h\<close>), the allocation profiles of btrfs
  (\<open>btrfs_tree.h\<close>), the event counter of the RAID superblock (\<open>raid/md_p.h\<close>) and the
  mapping queries of file systems (\<open>fsmap.h\<close>).
\<close>

section \<open>User-space block driver\<close>

record ublksrv_io_desc =
  op_flags :: u32
  nr_sectors :: u32
  start_sector :: u64
  io_addr :: u64

abbreviation (input) UBLK_IO_F_FAILFAST_DEV :: u32 where "UBLK_IO_F_FAILFAST_DEV \<equiv> push_bit 8 1"
abbreviation (input) UBLK_IO_F_FAILFAST_TRANSPORT :: u32 where "UBLK_IO_F_FAILFAST_TRANSPORT \<equiv> push_bit 9 1"
abbreviation (input) UBLK_IO_F_FAILFAST_DRIVER :: u32 where "UBLK_IO_F_FAILFAST_DRIVER \<equiv> push_bit 10 1"
abbreviation (input) UBLK_IO_F_META :: u32 where "UBLK_IO_F_META \<equiv> push_bit 11 1"
abbreviation (input) UBLK_IO_F_FUA :: u32 where "UBLK_IO_F_FUA \<equiv> push_bit 13 1"
abbreviation (input) UBLK_IO_F_NOUNMAP :: u32 where "UBLK_IO_F_NOUNMAP \<equiv> push_bit 15 1"
abbreviation (input) UBLK_IO_F_SWAP :: u32 where "UBLK_IO_F_SWAP \<equiv> push_bit 16 1"
abbreviation (input) UBLK_IO_F_NEED_REG_BUF :: u32 where "UBLK_IO_F_NEED_REG_BUF \<equiv> push_bit 17 1"

definition ublksrv_get_op :: "ublksrv_io_desc \<Rightarrow> u8" where
  "ublksrv_get_op iod = ucast (op_flags iod AND 0xff)"

definition ublksrv_get_flags :: "ublksrv_io_desc \<Rightarrow> u32" where
  "ublksrv_get_flags iod = drop_bit 8 (op_flags iod)"

record ublk_auto_buf_reg =
  reg_index :: u16
  reg_flags :: u8
  reserved0 :: u8
  reserved1 :: u32

definition ublk_sqe_addr_to_auto_buf_reg :: "u64 \<Rightarrow> ublk_auto_buf_reg" where
  "ublk_sqe_addr_to_auto_buf_reg sqe_addr =
     \<lparr>reg_index = ucast sqe_addr, reg_flags = ucast (drop_bit 16 sqe_addr), reserved0 = ucast (drop_bit 24 sqe_addr),
      reserved1 = ucast (drop_bit 32 sqe_addr)\<rparr>"

definition ublk_auto_buf_reg_to_sqe_addr :: "ublk_auto_buf_reg \<Rightarrow> u64" where
  "ublk_auto_buf_reg_to_sqe_addr buf = ucast (reg_index buf) OR push_bit 16 (ucast (reg_flags buf)) OR
     push_bit 24 (ucast (reserved0 buf)) OR push_bit 32 (ucast (reserved1 buf))"

section \<open>Allocation profiles\<close>

abbreviation (input) BTRFS_BLOCK_GROUP_RAID0 :: u64 where "BTRFS_BLOCK_GROUP_RAID0 \<equiv> push_bit 3 1"
abbreviation (input) BTRFS_BLOCK_GROUP_RAID1 :: u64 where "BTRFS_BLOCK_GROUP_RAID1 \<equiv> push_bit 4 1"
abbreviation (input) BTRFS_BLOCK_GROUP_DUP :: u64 where "BTRFS_BLOCK_GROUP_DUP \<equiv> push_bit 5 1"
abbreviation (input) BTRFS_BLOCK_GROUP_RAID10 :: u64 where "BTRFS_BLOCK_GROUP_RAID10 \<equiv> push_bit 6 1"
abbreviation (input) BTRFS_BLOCK_GROUP_RAID5 :: u64 where "BTRFS_BLOCK_GROUP_RAID5 \<equiv> push_bit 7 1"
abbreviation (input) BTRFS_BLOCK_GROUP_RAID6 :: u64 where "BTRFS_BLOCK_GROUP_RAID6 \<equiv> push_bit 8 1"
abbreviation (input) BTRFS_BLOCK_GROUP_RAID1C3 :: u64 where "BTRFS_BLOCK_GROUP_RAID1C3 \<equiv> push_bit 9 1"
abbreviation (input) BTRFS_BLOCK_GROUP_RAID1C4 :: u64 where "BTRFS_BLOCK_GROUP_RAID1C4 \<equiv> push_bit 10 1"

definition BTRFS_BLOCK_GROUP_PROFILE_MASK :: u64 where
  "BTRFS_BLOCK_GROUP_PROFILE_MASK = BTRFS_BLOCK_GROUP_RAID0 OR BTRFS_BLOCK_GROUP_RAID1 OR BTRFS_BLOCK_GROUP_RAID1C3 OR
     BTRFS_BLOCK_GROUP_RAID1C4 OR BTRFS_BLOCK_GROUP_RAID5 OR BTRFS_BLOCK_GROUP_RAID6 OR BTRFS_BLOCK_GROUP_DUP OR
     BTRFS_BLOCK_GROUP_RAID10"

definition BTRFS_AVAIL_ALLOC_BIT_SINGLE :: u64 where
  "BTRFS_AVAIL_ALLOC_BIT_SINGLE = push_bit 48 1"

definition BTRFS_EXTENDED_PROFILE_MASK :: u64 where
  "BTRFS_EXTENDED_PROFILE_MASK = BTRFS_BLOCK_GROUP_PROFILE_MASK OR BTRFS_AVAIL_ALLOC_BIT_SINGLE"

definition chunk_to_extended :: "u64 \<Rightarrow> u64" where
  "chunk_to_extended flags =
     (if flags AND BTRFS_BLOCK_GROUP_PROFILE_MASK = 0 then flags OR BTRFS_AVAIL_ALLOC_BIT_SINGLE else flags)"

definition extended_to_chunk :: "u64 \<Rightarrow> u64" where
  "extended_to_chunk flags = flags AND NOT BTRFS_AVAIL_ALLOC_BIT_SINGLE"

abbreviation (input) BTRFS_FT_ENCRYPTED :: u8 where "BTRFS_FT_ENCRYPTED \<equiv> 0x80"

definition btrfs_dir_flags_to_ftype :: "u8 \<Rightarrow> u8" where
  "btrfs_dir_flags_to_ftype flags = flags AND NOT BTRFS_FT_ENCRYPTED"

abbreviation (input) BTRFS_QGROUP_LEVEL_SHIFT :: nat where "BTRFS_QGROUP_LEVEL_SHIFT \<equiv> 48"

definition btrfs_qgroup_level :: "u64 \<Rightarrow> u16" where
  "btrfs_qgroup_level qgroupid = ucast (drop_bit BTRFS_QGROUP_LEVEL_SHIFT qgroupid)"

section \<open>Mapping queries\<close>

record fsmap =
  fmr_device :: u32
  fmr_flags :: u32
  fmr_physical :: u64
  fmr_owner :: u64
  fmr_offset :: u64
  fmr_length :: u64
  fmr_reserved :: "u64 list"

record fsmap_head =
  fmh_iflags :: u32
  fmh_oflags :: u32
  fmh_count :: u32
  fmh_entries :: u32
  fmh_reserved :: "u64 list"
  fmh_keys :: "fsmap list"
  fmh_recs :: "fsmap list"

text \<open>The head has 64 bytes and two keys, a record 64 bytes.\<close>

definition fsmap_sizeof :: "u32 \<Rightarrow> u64" where
  "fsmap_sizeof nr = (64 + 2 * 64) + ucast nr * 64"

definition fsmap_advance :: "fsmap_head \<Rightarrow> fsmap_head option" where
  "fsmap_advance head = do {
     r \<leftarrow> rd (fmh_recs head) (unat (fmh_entries head - 1));
     ks \<leftarrow> wr (fmh_keys head) 0 r;
     Some (head\<lparr>fmh_keys := ks\<rparr>) }"

section \<open>RAID event counter\<close>

text \<open>The two halves of the counter, in the order a little-endian machine has them.\<close>

record mdp_super_t =
  events_lo :: u32
  events_hi :: u32

definition md_event :: "mdp_super_t \<Rightarrow> u64" where
  "md_event sb = (let ev = ucast (events_hi sb) in push_bit 32 ev OR ucast (events_lo sb))"

section \<open>Properties\<close>

text \<open>
  C35: The registration data of a buffer and the 64-bit address field that carries it determine each other: packing and
  unpacking are inverse in both directions, so no bit of the structure is lost and every address
  is the packing of one structure.
\<close>

theorem ublk_auto_buf_reg_bijection:
  "ublk_sqe_addr_to_auto_buf_reg (ublk_auto_buf_reg_to_sqe_addr buf) = buf \<and>
   ublk_auto_buf_reg_to_sqe_addr (ublk_sqe_addr_to_auto_buf_reg sqe_addr) = sqe_addr"
proof
  show "ublk_auto_buf_reg_to_sqe_addr (ublk_sqe_addr_to_auto_buf_reg sqe_addr) = sqe_addr"
  proof (rule bit_word_eqI)
    fix n assume "n < LENGTH(64)"
    then consider "n < 16" | "16 \<le> n" "n < 24" | "24 \<le> n" "n < 32" | "32 \<le> n" "n < 64"
      by fastforce
    then show "bit (ublk_auto_buf_reg_to_sqe_addr (ublk_sqe_addr_to_auto_buf_reg sqe_addr)) n = bit sqe_addr n"
      by cases (auto simp: ublk_auto_buf_reg_to_sqe_addr_def ublk_sqe_addr_to_auto_buf_reg_def bit_simps)
  qed
  show "ublk_sqe_addr_to_auto_buf_reg (ublk_auto_buf_reg_to_sqe_addr buf) = buf"
    by (cases buf, auto intro!: bit_word_eqI simp: ublk_auto_buf_reg_to_sqe_addr_def ublk_sqe_addr_to_auto_buf_reg_def bit_simps)
      (drule bit_imp_le_length, simp)+
qed

lemma and_flag: "w AND push_bit k 1 \<noteq> 0 \<longleftrightarrow> bit w k" for w :: "'a::len word"
  by (simp add: and_exp_eq_0_iff_not_bit)

text \<open>
  The flag constants are positions in the whole descriptor word, but \<open>ublksrv_get_flags\<close> shifts the operation out, so testing its result
  with them reads flags eight positions higher: the test for the first fail-fast flag is
  the one for swap and the second the one for a buffer to be registered. Only a constant shifted by the same
  eight positions tests the flag it names.
\<close>

theorem ublk_flags_shifted:
  "(ublksrv_get_flags iod AND UBLK_IO_F_FAILFAST_DEV \<noteq> 0) = (op_flags iod AND UBLK_IO_F_SWAP \<noteq> 0) \<and>
   (ublksrv_get_flags iod AND UBLK_IO_F_FAILFAST_TRANSPORT \<noteq> 0) = (op_flags iod AND UBLK_IO_F_NEED_REG_BUF \<noteq> 0) \<and>
   (ublksrv_get_flags iod AND drop_bit 8 UBLK_IO_F_FUA \<noteq> 0) = (op_flags iod AND UBLK_IO_F_FUA \<noteq> 0)"
proof -
  have shift: "(drop_bit 8 w AND push_bit k 1 \<noteq> 0) = (w AND push_bit (k + 8) 1 \<noteq> 0)" for w :: u32 and k
    unfolding and_flag by (simp add: bit_drop_bit_eq add.commute)
  show ?thesis
    using shift [of "op_flags iod" 8] shift [of "op_flags iod" 9] shift [of "op_flags iod" 5]
    by (simp add: ublksrv_get_flags_def)
qed

lemma bit_single: "bit BTRFS_AVAIL_ALLOC_BIT_SINGLE n \<longleftrightarrow> n = 48"
  using bit_push_bit_iff [of 48 "1 :: u64" n] unfolding BTRFS_AVAIL_ALLOC_BIT_SINGLE_def by (auto simp: bit_simps)

lemma bit_profile: "\<not> bit BTRFS_BLOCK_GROUP_PROFILE_MASK 48"
  by (simp add: BTRFS_BLOCK_GROUP_PROFILE_MASK_def)

lemma and_single: "w AND BTRFS_AVAIL_ALLOC_BIT_SINGLE \<noteq> 0 \<longleftrightarrow> bit w 48"
  unfolding BTRFS_AVAIL_ALLOC_BIT_SINGLE_def by (rule and_flag)

lemma profile_without_single:
  "(w AND NOT BTRFS_AVAIL_ALLOC_BIT_SINGLE) AND BTRFS_BLOCK_GROUP_PROFILE_MASK = w AND BTRFS_BLOCK_GROUP_PROFILE_MASK"
  using bit_profile by (intro bit_word_eqI) (auto simp: bit_and_iff bit_not_iff bit_single)

text \<open>
  C36: The two formats of allocation profiles. Chunk flags, in which the bit for single is reserved, survive the way to the extended
  format and back; an extended value always names a profile; and extended flags survive the way to chunk
  flags and back exactly when the bit for single is set for the values without another profile and
  for no others.
\<close>

theorem btrfs_profile_formats:
  "(flags AND BTRFS_AVAIL_ALLOC_BIT_SINGLE = 0 \<longrightarrow> extended_to_chunk (chunk_to_extended flags) = flags) \<and>
   chunk_to_extended flags AND BTRFS_EXTENDED_PROFILE_MASK \<noteq> 0 \<and>
   (chunk_to_extended (extended_to_chunk ext) = ext \<longleftrightarrow>
     (ext AND BTRFS_AVAIL_ALLOC_BIT_SINGLE \<noteq> 0) = (ext AND BTRFS_BLOCK_GROUP_PROFILE_MASK = 0))"
proof (intro conjI impI)
  assume "flags AND BTRFS_AVAIL_ALLOC_BIT_SINGLE = 0"
  then have "\<not> bit flags 48"
    using and_single by blast
  then show "extended_to_chunk (chunk_to_extended flags) = flags"
    by (intro bit_word_eqI) (auto simp: extended_to_chunk_def chunk_to_extended_def bit_and_iff bit_or_iff bit_not_iff bit_single)
next
  show "chunk_to_extended flags AND BTRFS_EXTENDED_PROFILE_MASK \<noteq> 0"
  proof (cases "flags AND BTRFS_BLOCK_GROUP_PROFILE_MASK = 0")
    case True
    then have "bit (chunk_to_extended flags AND BTRFS_EXTENDED_PROFILE_MASK) 48"
      by (simp add: chunk_to_extended_def BTRFS_EXTENDED_PROFILE_MASK_def bit_and_iff bit_or_iff bit_single)
    then show ?thesis
      by auto
  next
    case False
    then show ?thesis
      by (simp add: chunk_to_extended_def BTRFS_EXTENDED_PROFILE_MASK_def bit.conj_disj_distrib or_eq_0_iff)
  qed
next
  have single: "bit (w AND NOT BTRFS_AVAIL_ALLOC_BIT_SINGLE OR BTRFS_AVAIL_ALLOC_BIT_SINGLE) n = (bit w n \<or> n = 48)"
    "bit (w AND NOT BTRFS_AVAIL_ALLOC_BIT_SINGLE) n = (bit w n \<and> n \<noteq> 48)" for w n
    by (auto simp: bit_and_iff bit_or_iff bit_not_iff bit_single dest: bit_imp_le_length)
  have "w AND NOT BTRFS_AVAIL_ALLOC_BIT_SINGLE OR BTRFS_AVAIL_ALLOC_BIT_SINGLE = w \<longleftrightarrow> bit w 48"
    "w AND NOT BTRFS_AVAIL_ALLOC_BIT_SINGLE = w \<longleftrightarrow> \<not> bit w 48" for w
    using single [of w 48] by (metis single bit_word_eqI)+
  then show "chunk_to_extended (extended_to_chunk ext) = ext \<longleftrightarrow>
      (ext AND BTRFS_AVAIL_ALLOC_BIT_SINGLE \<noteq> 0) = (ext AND BTRFS_BLOCK_GROUP_PROFILE_MASK = 0)"
    unfolding and_single by (auto simp: chunk_to_extended_def extended_to_chunk_def profile_without_single)
qed

theorem btrfs_profile_formats_witness:
  "extended_to_chunk (chunk_to_extended 1) = 1"
  using btrfs_profile_formats [of 1 0] by (simp add: BTRFS_AVAIL_ALLOC_BIT_SINGLE_def)

text \<open>
  A query is continued from the last record that was returned, not from the last one there is room for, and
  not at all when nothing was returned.
\<close>

lemma fsmap_advance_next:
  assumes "0 < unat (fmh_entries head)" "unat (fmh_entries head) \<le> length (fmh_recs head)" "fmh_keys head = [low, high]"
  shows "fsmap_advance head = Some (head\<lparr>fmh_keys := [last (take (unat (fmh_entries head)) (fmh_recs head)), high]\<rparr>)"
proof -
  have "unat (fmh_entries head - 1) = unat (fmh_entries head) - 1"
    using assms(1) by (simp add: unat_sub word_le_nat_alt)
  moreover have "last (take (unat (fmh_entries head)) (fmh_recs head)) = fmh_recs head ! (unat (fmh_entries head) - 1)"
    using assms(1,2) by (subst last_conv_nth) auto
  ultimately show ?thesis
    using assms by (simp add: fsmap_advance_def)
qed

end
