(* ===== verification/DrmFourcc.thy ===== *)
theory DrmFourcc
  imports CPrelude
begin

text \<open>
  Pixel formats and buffer layout modifiers of the graphics interface, from
  \<open>linux-headers/include/drm/drm_fourcc.h\<close>: the four-character format codes, the 64-bit modifiers with the vendor in their
  top byte, the parameter fields of the AMD, NVIDIA, Broadcom and Arm modifiers and the
  normalisation of old NVIDIA modifiers.
\<close>

section \<open>Format codes\<close>

definition fourcc_code :: "char \<Rightarrow> char \<Rightarrow> char \<Rightarrow> char \<Rightarrow> u32" where
  "fourcc_code a b c d = of_char a OR push_bit 8 (of_char b) OR push_bit 16 (of_char c) OR push_bit 24 (of_char d)"

definition DRM_FORMAT_BIG_ENDIAN :: u32 where
  "DRM_FORMAT_BIG_ENDIAN = push_bit 31 1"

definition DRM_FORMAT_INVALID :: u32 where
  "DRM_FORMAT_INVALID = 0"

definition DRM_FORMAT_C1 :: u32 where "DRM_FORMAT_C1 = fourcc_code CHR ''C'' CHR ''1'' CHR '' '' CHR '' ''"
definition DRM_FORMAT_C2 :: u32 where "DRM_FORMAT_C2 = fourcc_code CHR ''C'' CHR ''2'' CHR '' '' CHR '' ''"
definition DRM_FORMAT_C4 :: u32 where "DRM_FORMAT_C4 = fourcc_code CHR ''C'' CHR ''4'' CHR '' '' CHR '' ''"
definition DRM_FORMAT_C8 :: u32 where "DRM_FORMAT_C8 = fourcc_code CHR ''C'' CHR ''8'' CHR '' '' CHR '' ''"
definition DRM_FORMAT_D1 :: u32 where "DRM_FORMAT_D1 = fourcc_code CHR ''D'' CHR ''1'' CHR '' '' CHR '' ''"
definition DRM_FORMAT_D2 :: u32 where "DRM_FORMAT_D2 = fourcc_code CHR ''D'' CHR ''2'' CHR '' '' CHR '' ''"
definition DRM_FORMAT_D4 :: u32 where "DRM_FORMAT_D4 = fourcc_code CHR ''D'' CHR ''4'' CHR '' '' CHR '' ''"
definition DRM_FORMAT_D8 :: u32 where "DRM_FORMAT_D8 = fourcc_code CHR ''D'' CHR ''8'' CHR '' '' CHR '' ''"
definition DRM_FORMAT_R1 :: u32 where "DRM_FORMAT_R1 = fourcc_code CHR ''R'' CHR ''1'' CHR '' '' CHR '' ''"
definition DRM_FORMAT_R2 :: u32 where "DRM_FORMAT_R2 = fourcc_code CHR ''R'' CHR ''2'' CHR '' '' CHR '' ''"
definition DRM_FORMAT_R4 :: u32 where "DRM_FORMAT_R4 = fourcc_code CHR ''R'' CHR ''4'' CHR '' '' CHR '' ''"
definition DRM_FORMAT_R8 :: u32 where "DRM_FORMAT_R8 = fourcc_code CHR ''R'' CHR ''8'' CHR '' '' CHR '' ''"
definition DRM_FORMAT_R10 :: u32 where "DRM_FORMAT_R10 = fourcc_code CHR ''R'' CHR ''1'' CHR ''0'' CHR '' ''"
definition DRM_FORMAT_R12 :: u32 where "DRM_FORMAT_R12 = fourcc_code CHR ''R'' CHR ''1'' CHR ''2'' CHR '' ''"
definition DRM_FORMAT_R16 :: u32 where "DRM_FORMAT_R16 = fourcc_code CHR ''R'' CHR ''1'' CHR ''6'' CHR '' ''"
definition DRM_FORMAT_RG88 :: u32 where "DRM_FORMAT_RG88 = fourcc_code CHR ''R'' CHR ''G'' CHR ''8'' CHR ''8''"
definition DRM_FORMAT_GR88 :: u32 where "DRM_FORMAT_GR88 = fourcc_code CHR ''G'' CHR ''R'' CHR ''8'' CHR ''8''"
definition DRM_FORMAT_RG1616 :: u32 where "DRM_FORMAT_RG1616 = fourcc_code CHR ''R'' CHR ''G'' CHR ''3'' CHR ''2''"
definition DRM_FORMAT_GR1616 :: u32 where "DRM_FORMAT_GR1616 = fourcc_code CHR ''G'' CHR ''R'' CHR ''3'' CHR ''2''"
definition DRM_FORMAT_RGB332 :: u32 where "DRM_FORMAT_RGB332 = fourcc_code CHR ''R'' CHR ''G'' CHR ''B'' CHR ''8''"
definition DRM_FORMAT_BGR233 :: u32 where "DRM_FORMAT_BGR233 = fourcc_code CHR ''B'' CHR ''G'' CHR ''R'' CHR ''8''"
definition DRM_FORMAT_XRGB4444 :: u32 where "DRM_FORMAT_XRGB4444 = fourcc_code CHR ''X'' CHR ''R'' CHR ''1'' CHR ''2''"
definition DRM_FORMAT_XBGR4444 :: u32 where "DRM_FORMAT_XBGR4444 = fourcc_code CHR ''X'' CHR ''B'' CHR ''1'' CHR ''2''"
definition DRM_FORMAT_RGBX4444 :: u32 where "DRM_FORMAT_RGBX4444 = fourcc_code CHR ''R'' CHR ''X'' CHR ''1'' CHR ''2''"
definition DRM_FORMAT_BGRX4444 :: u32 where "DRM_FORMAT_BGRX4444 = fourcc_code CHR ''B'' CHR ''X'' CHR ''1'' CHR ''2''"
definition DRM_FORMAT_ARGB4444 :: u32 where "DRM_FORMAT_ARGB4444 = fourcc_code CHR ''A'' CHR ''R'' CHR ''1'' CHR ''2''"
definition DRM_FORMAT_ABGR4444 :: u32 where "DRM_FORMAT_ABGR4444 = fourcc_code CHR ''A'' CHR ''B'' CHR ''1'' CHR ''2''"
definition DRM_FORMAT_RGBA4444 :: u32 where "DRM_FORMAT_RGBA4444 = fourcc_code CHR ''R'' CHR ''A'' CHR ''1'' CHR ''2''"
definition DRM_FORMAT_BGRA4444 :: u32 where "DRM_FORMAT_BGRA4444 = fourcc_code CHR ''B'' CHR ''A'' CHR ''1'' CHR ''2''"
definition DRM_FORMAT_XRGB1555 :: u32 where "DRM_FORMAT_XRGB1555 = fourcc_code CHR ''X'' CHR ''R'' CHR ''1'' CHR ''5''"
definition DRM_FORMAT_XBGR1555 :: u32 where "DRM_FORMAT_XBGR1555 = fourcc_code CHR ''X'' CHR ''B'' CHR ''1'' CHR ''5''"
definition DRM_FORMAT_RGBX5551 :: u32 where "DRM_FORMAT_RGBX5551 = fourcc_code CHR ''R'' CHR ''X'' CHR ''1'' CHR ''5''"
definition DRM_FORMAT_BGRX5551 :: u32 where "DRM_FORMAT_BGRX5551 = fourcc_code CHR ''B'' CHR ''X'' CHR ''1'' CHR ''5''"
definition DRM_FORMAT_ARGB1555 :: u32 where "DRM_FORMAT_ARGB1555 = fourcc_code CHR ''A'' CHR ''R'' CHR ''1'' CHR ''5''"
definition DRM_FORMAT_ABGR1555 :: u32 where "DRM_FORMAT_ABGR1555 = fourcc_code CHR ''A'' CHR ''B'' CHR ''1'' CHR ''5''"
definition DRM_FORMAT_RGBA5551 :: u32 where "DRM_FORMAT_RGBA5551 = fourcc_code CHR ''R'' CHR ''A'' CHR ''1'' CHR ''5''"
definition DRM_FORMAT_BGRA5551 :: u32 where "DRM_FORMAT_BGRA5551 = fourcc_code CHR ''B'' CHR ''A'' CHR ''1'' CHR ''5''"
definition DRM_FORMAT_RGB565 :: u32 where "DRM_FORMAT_RGB565 = fourcc_code CHR ''R'' CHR ''G'' CHR ''1'' CHR ''6''"
definition DRM_FORMAT_BGR565 :: u32 where "DRM_FORMAT_BGR565 = fourcc_code CHR ''B'' CHR ''G'' CHR ''1'' CHR ''6''"
definition DRM_FORMAT_RGB888 :: u32 where "DRM_FORMAT_RGB888 = fourcc_code CHR ''R'' CHR ''G'' CHR ''2'' CHR ''4''"
definition DRM_FORMAT_BGR888 :: u32 where "DRM_FORMAT_BGR888 = fourcc_code CHR ''B'' CHR ''G'' CHR ''2'' CHR ''4''"
definition DRM_FORMAT_XRGB8888 :: u32 where "DRM_FORMAT_XRGB8888 = fourcc_code CHR ''X'' CHR ''R'' CHR ''2'' CHR ''4''"
definition DRM_FORMAT_XBGR8888 :: u32 where "DRM_FORMAT_XBGR8888 = fourcc_code CHR ''X'' CHR ''B'' CHR ''2'' CHR ''4''"
definition DRM_FORMAT_RGBX8888 :: u32 where "DRM_FORMAT_RGBX8888 = fourcc_code CHR ''R'' CHR ''X'' CHR ''2'' CHR ''4''"
definition DRM_FORMAT_BGRX8888 :: u32 where "DRM_FORMAT_BGRX8888 = fourcc_code CHR ''B'' CHR ''X'' CHR ''2'' CHR ''4''"
definition DRM_FORMAT_ARGB8888 :: u32 where "DRM_FORMAT_ARGB8888 = fourcc_code CHR ''A'' CHR ''R'' CHR ''2'' CHR ''4''"
definition DRM_FORMAT_ABGR8888 :: u32 where "DRM_FORMAT_ABGR8888 = fourcc_code CHR ''A'' CHR ''B'' CHR ''2'' CHR ''4''"
definition DRM_FORMAT_RGBA8888 :: u32 where "DRM_FORMAT_RGBA8888 = fourcc_code CHR ''R'' CHR ''A'' CHR ''2'' CHR ''4''"
definition DRM_FORMAT_BGRA8888 :: u32 where "DRM_FORMAT_BGRA8888 = fourcc_code CHR ''B'' CHR ''A'' CHR ''2'' CHR ''4''"
definition DRM_FORMAT_XRGB2101010 :: u32 where "DRM_FORMAT_XRGB2101010 = fourcc_code CHR ''X'' CHR ''R'' CHR ''3'' CHR ''0''"
definition DRM_FORMAT_XBGR2101010 :: u32 where "DRM_FORMAT_XBGR2101010 = fourcc_code CHR ''X'' CHR ''B'' CHR ''3'' CHR ''0''"
definition DRM_FORMAT_RGBX1010102 :: u32 where "DRM_FORMAT_RGBX1010102 = fourcc_code CHR ''R'' CHR ''X'' CHR ''3'' CHR ''0''"
definition DRM_FORMAT_BGRX1010102 :: u32 where "DRM_FORMAT_BGRX1010102 = fourcc_code CHR ''B'' CHR ''X'' CHR ''3'' CHR ''0''"
definition DRM_FORMAT_ARGB2101010 :: u32 where "DRM_FORMAT_ARGB2101010 = fourcc_code CHR ''A'' CHR ''R'' CHR ''3'' CHR ''0''"
definition DRM_FORMAT_ABGR2101010 :: u32 where "DRM_FORMAT_ABGR2101010 = fourcc_code CHR ''A'' CHR ''B'' CHR ''3'' CHR ''0''"
definition DRM_FORMAT_RGBA1010102 :: u32 where "DRM_FORMAT_RGBA1010102 = fourcc_code CHR ''R'' CHR ''A'' CHR ''3'' CHR ''0''"
definition DRM_FORMAT_BGRA1010102 :: u32 where "DRM_FORMAT_BGRA1010102 = fourcc_code CHR ''B'' CHR ''A'' CHR ''3'' CHR ''0''"
definition DRM_FORMAT_XRGB16161616 :: u32 where "DRM_FORMAT_XRGB16161616 = fourcc_code CHR ''X'' CHR ''R'' CHR ''4'' CHR ''8''"
definition DRM_FORMAT_XBGR16161616 :: u32 where "DRM_FORMAT_XBGR16161616 = fourcc_code CHR ''X'' CHR ''B'' CHR ''4'' CHR ''8''"
definition DRM_FORMAT_ARGB16161616 :: u32 where "DRM_FORMAT_ARGB16161616 = fourcc_code CHR ''A'' CHR ''R'' CHR ''4'' CHR ''8''"
definition DRM_FORMAT_ABGR16161616 :: u32 where "DRM_FORMAT_ABGR16161616 = fourcc_code CHR ''A'' CHR ''B'' CHR ''4'' CHR ''8''"
definition DRM_FORMAT_XRGB16161616F :: u32 where "DRM_FORMAT_XRGB16161616F = fourcc_code CHR ''X'' CHR ''R'' CHR ''4'' CHR ''H''"
definition DRM_FORMAT_XBGR16161616F :: u32 where "DRM_FORMAT_XBGR16161616F = fourcc_code CHR ''X'' CHR ''B'' CHR ''4'' CHR ''H''"
definition DRM_FORMAT_ARGB16161616F :: u32 where "DRM_FORMAT_ARGB16161616F = fourcc_code CHR ''A'' CHR ''R'' CHR ''4'' CHR ''H''"
definition DRM_FORMAT_ABGR16161616F :: u32 where "DRM_FORMAT_ABGR16161616F = fourcc_code CHR ''A'' CHR ''B'' CHR ''4'' CHR ''H''"
definition DRM_FORMAT_AXBXGXRX106106106106 :: u32 where "DRM_FORMAT_AXBXGXRX106106106106 = fourcc_code CHR ''A'' CHR ''B'' CHR ''1'' CHR ''0''"
definition DRM_FORMAT_YUYV :: u32 where "DRM_FORMAT_YUYV = fourcc_code CHR ''Y'' CHR ''U'' CHR ''Y'' CHR ''V''"
definition DRM_FORMAT_YVYU :: u32 where "DRM_FORMAT_YVYU = fourcc_code CHR ''Y'' CHR ''V'' CHR ''Y'' CHR ''U''"
definition DRM_FORMAT_UYVY :: u32 where "DRM_FORMAT_UYVY = fourcc_code CHR ''U'' CHR ''Y'' CHR ''V'' CHR ''Y''"
definition DRM_FORMAT_VYUY :: u32 where "DRM_FORMAT_VYUY = fourcc_code CHR ''V'' CHR ''Y'' CHR ''U'' CHR ''Y''"
definition DRM_FORMAT_AYUV :: u32 where "DRM_FORMAT_AYUV = fourcc_code CHR ''A'' CHR ''Y'' CHR ''U'' CHR ''V''"
definition DRM_FORMAT_AVUY8888 :: u32 where "DRM_FORMAT_AVUY8888 = fourcc_code CHR ''A'' CHR ''V'' CHR ''U'' CHR ''Y''"
definition DRM_FORMAT_XYUV8888 :: u32 where "DRM_FORMAT_XYUV8888 = fourcc_code CHR ''X'' CHR ''Y'' CHR ''U'' CHR ''V''"
definition DRM_FORMAT_XVUY8888 :: u32 where "DRM_FORMAT_XVUY8888 = fourcc_code CHR ''X'' CHR ''V'' CHR ''U'' CHR ''Y''"
definition DRM_FORMAT_VUY888 :: u32 where "DRM_FORMAT_VUY888 = fourcc_code CHR ''V'' CHR ''U'' CHR ''2'' CHR ''4''"
definition DRM_FORMAT_VUY101010 :: u32 where "DRM_FORMAT_VUY101010 = fourcc_code CHR ''V'' CHR ''U'' CHR ''3'' CHR ''0''"
definition DRM_FORMAT_Y210 :: u32 where "DRM_FORMAT_Y210 = fourcc_code CHR ''Y'' CHR ''2'' CHR ''1'' CHR ''0''"
definition DRM_FORMAT_Y212 :: u32 where "DRM_FORMAT_Y212 = fourcc_code CHR ''Y'' CHR ''2'' CHR ''1'' CHR ''2''"
definition DRM_FORMAT_Y216 :: u32 where "DRM_FORMAT_Y216 = fourcc_code CHR ''Y'' CHR ''2'' CHR ''1'' CHR ''6''"
definition DRM_FORMAT_Y410 :: u32 where "DRM_FORMAT_Y410 = fourcc_code CHR ''Y'' CHR ''4'' CHR ''1'' CHR ''0''"
definition DRM_FORMAT_Y412 :: u32 where "DRM_FORMAT_Y412 = fourcc_code CHR ''Y'' CHR ''4'' CHR ''1'' CHR ''2''"
definition DRM_FORMAT_Y416 :: u32 where "DRM_FORMAT_Y416 = fourcc_code CHR ''Y'' CHR ''4'' CHR ''1'' CHR ''6''"
definition DRM_FORMAT_XVYU2101010 :: u32 where "DRM_FORMAT_XVYU2101010 = fourcc_code CHR ''X'' CHR ''V'' CHR ''3'' CHR ''0''"
definition DRM_FORMAT_XVYU12_16161616 :: u32 where "DRM_FORMAT_XVYU12_16161616 = fourcc_code CHR ''X'' CHR ''V'' CHR ''3'' CHR ''6''"
definition DRM_FORMAT_XVYU16161616 :: u32 where "DRM_FORMAT_XVYU16161616 = fourcc_code CHR ''X'' CHR ''V'' CHR ''4'' CHR ''8''"
definition DRM_FORMAT_Y0L0 :: u32 where "DRM_FORMAT_Y0L0 = fourcc_code CHR ''Y'' CHR ''0'' CHR ''L'' CHR ''0''"
definition DRM_FORMAT_X0L0 :: u32 where "DRM_FORMAT_X0L0 = fourcc_code CHR ''X'' CHR ''0'' CHR ''L'' CHR ''0''"
definition DRM_FORMAT_Y0L2 :: u32 where "DRM_FORMAT_Y0L2 = fourcc_code CHR ''Y'' CHR ''0'' CHR ''L'' CHR ''2''"
definition DRM_FORMAT_X0L2 :: u32 where "DRM_FORMAT_X0L2 = fourcc_code CHR ''X'' CHR ''0'' CHR ''L'' CHR ''2''"
definition DRM_FORMAT_YUV420_8BIT :: u32 where "DRM_FORMAT_YUV420_8BIT = fourcc_code CHR ''Y'' CHR ''U'' CHR ''0'' CHR ''8''"
definition DRM_FORMAT_YUV420_10BIT :: u32 where "DRM_FORMAT_YUV420_10BIT = fourcc_code CHR ''Y'' CHR ''U'' CHR ''1'' CHR ''0''"
definition DRM_FORMAT_XRGB8888_A8 :: u32 where "DRM_FORMAT_XRGB8888_A8 = fourcc_code CHR ''X'' CHR ''R'' CHR ''A'' CHR ''8''"
definition DRM_FORMAT_XBGR8888_A8 :: u32 where "DRM_FORMAT_XBGR8888_A8 = fourcc_code CHR ''X'' CHR ''B'' CHR ''A'' CHR ''8''"
definition DRM_FORMAT_RGBX8888_A8 :: u32 where "DRM_FORMAT_RGBX8888_A8 = fourcc_code CHR ''R'' CHR ''X'' CHR ''A'' CHR ''8''"
definition DRM_FORMAT_BGRX8888_A8 :: u32 where "DRM_FORMAT_BGRX8888_A8 = fourcc_code CHR ''B'' CHR ''X'' CHR ''A'' CHR ''8''"
definition DRM_FORMAT_RGB888_A8 :: u32 where "DRM_FORMAT_RGB888_A8 = fourcc_code CHR ''R'' CHR ''8'' CHR ''A'' CHR ''8''"
definition DRM_FORMAT_BGR888_A8 :: u32 where "DRM_FORMAT_BGR888_A8 = fourcc_code CHR ''B'' CHR ''8'' CHR ''A'' CHR ''8''"
definition DRM_FORMAT_RGB565_A8 :: u32 where "DRM_FORMAT_RGB565_A8 = fourcc_code CHR ''R'' CHR ''5'' CHR ''A'' CHR ''8''"
definition DRM_FORMAT_BGR565_A8 :: u32 where "DRM_FORMAT_BGR565_A8 = fourcc_code CHR ''B'' CHR ''5'' CHR ''A'' CHR ''8''"
definition DRM_FORMAT_NV12 :: u32 where "DRM_FORMAT_NV12 = fourcc_code CHR ''N'' CHR ''V'' CHR ''1'' CHR ''2''"
definition DRM_FORMAT_NV21 :: u32 where "DRM_FORMAT_NV21 = fourcc_code CHR ''N'' CHR ''V'' CHR ''2'' CHR ''1''"
definition DRM_FORMAT_NV16 :: u32 where "DRM_FORMAT_NV16 = fourcc_code CHR ''N'' CHR ''V'' CHR ''1'' CHR ''6''"
definition DRM_FORMAT_NV61 :: u32 where "DRM_FORMAT_NV61 = fourcc_code CHR ''N'' CHR ''V'' CHR ''6'' CHR ''1''"
definition DRM_FORMAT_NV24 :: u32 where "DRM_FORMAT_NV24 = fourcc_code CHR ''N'' CHR ''V'' CHR ''2'' CHR ''4''"
definition DRM_FORMAT_NV42 :: u32 where "DRM_FORMAT_NV42 = fourcc_code CHR ''N'' CHR ''V'' CHR ''4'' CHR ''2''"
definition DRM_FORMAT_NV15 :: u32 where "DRM_FORMAT_NV15 = fourcc_code CHR ''N'' CHR ''V'' CHR ''1'' CHR ''5''"
definition DRM_FORMAT_NV20 :: u32 where "DRM_FORMAT_NV20 = fourcc_code CHR ''N'' CHR ''V'' CHR ''2'' CHR ''0''"
definition DRM_FORMAT_NV30 :: u32 where "DRM_FORMAT_NV30 = fourcc_code CHR ''N'' CHR ''V'' CHR ''3'' CHR ''0''"
definition DRM_FORMAT_P210 :: u32 where "DRM_FORMAT_P210 = fourcc_code CHR ''P'' CHR ''2'' CHR ''1'' CHR ''0''"
definition DRM_FORMAT_P010 :: u32 where "DRM_FORMAT_P010 = fourcc_code CHR ''P'' CHR ''0'' CHR ''1'' CHR ''0''"
definition DRM_FORMAT_P012 :: u32 where "DRM_FORMAT_P012 = fourcc_code CHR ''P'' CHR ''0'' CHR ''1'' CHR ''2''"
definition DRM_FORMAT_P016 :: u32 where "DRM_FORMAT_P016 = fourcc_code CHR ''P'' CHR ''0'' CHR ''1'' CHR ''6''"
definition DRM_FORMAT_P030 :: u32 where "DRM_FORMAT_P030 = fourcc_code CHR ''P'' CHR ''0'' CHR ''3'' CHR ''0''"
definition DRM_FORMAT_Q410 :: u32 where "DRM_FORMAT_Q410 = fourcc_code CHR ''Q'' CHR ''4'' CHR ''1'' CHR ''0''"
definition DRM_FORMAT_Q401 :: u32 where "DRM_FORMAT_Q401 = fourcc_code CHR ''Q'' CHR ''4'' CHR ''0'' CHR ''1''"
definition DRM_FORMAT_YUV410 :: u32 where "DRM_FORMAT_YUV410 = fourcc_code CHR ''Y'' CHR ''U'' CHR ''V'' CHR ''9''"
definition DRM_FORMAT_YVU410 :: u32 where "DRM_FORMAT_YVU410 = fourcc_code CHR ''Y'' CHR ''V'' CHR ''U'' CHR ''9''"
definition DRM_FORMAT_YUV411 :: u32 where "DRM_FORMAT_YUV411 = fourcc_code CHR ''Y'' CHR ''U'' CHR ''1'' CHR ''1''"
definition DRM_FORMAT_YVU411 :: u32 where "DRM_FORMAT_YVU411 = fourcc_code CHR ''Y'' CHR ''V'' CHR ''1'' CHR ''1''"
definition DRM_FORMAT_YUV420 :: u32 where "DRM_FORMAT_YUV420 = fourcc_code CHR ''Y'' CHR ''U'' CHR ''1'' CHR ''2''"
definition DRM_FORMAT_YVU420 :: u32 where "DRM_FORMAT_YVU420 = fourcc_code CHR ''Y'' CHR ''V'' CHR ''1'' CHR ''2''"
definition DRM_FORMAT_YUV422 :: u32 where "DRM_FORMAT_YUV422 = fourcc_code CHR ''Y'' CHR ''U'' CHR ''1'' CHR ''6''"
definition DRM_FORMAT_YVU422 :: u32 where "DRM_FORMAT_YVU422 = fourcc_code CHR ''Y'' CHR ''V'' CHR ''1'' CHR ''6''"
definition DRM_FORMAT_YUV444 :: u32 where "DRM_FORMAT_YUV444 = fourcc_code CHR ''Y'' CHR ''U'' CHR ''2'' CHR ''4''"
definition DRM_FORMAT_YVU444 :: u32 where "DRM_FORMAT_YVU444 = fourcc_code CHR ''Y'' CHR ''V'' CHR ''2'' CHR ''4''"

text \<open>All of them.\<close>

definition drm_formats :: "u32 list" where
  "drm_formats =
    [DRM_FORMAT_C1, DRM_FORMAT_C2, DRM_FORMAT_C4, DRM_FORMAT_C8, DRM_FORMAT_D1, DRM_FORMAT_D2, DRM_FORMAT_D4,
     DRM_FORMAT_D8, DRM_FORMAT_R1, DRM_FORMAT_R2, DRM_FORMAT_R4, DRM_FORMAT_R8, DRM_FORMAT_R10,
     DRM_FORMAT_R12, DRM_FORMAT_R16, DRM_FORMAT_RG88, DRM_FORMAT_GR88, DRM_FORMAT_RG1616, DRM_FORMAT_GR1616,
     DRM_FORMAT_RGB332, DRM_FORMAT_BGR233, DRM_FORMAT_XRGB4444, DRM_FORMAT_XBGR4444, DRM_FORMAT_RGBX4444,
     DRM_FORMAT_BGRX4444, DRM_FORMAT_ARGB4444, DRM_FORMAT_ABGR4444, DRM_FORMAT_RGBA4444, DRM_FORMAT_BGRA4444,
     DRM_FORMAT_XRGB1555, DRM_FORMAT_XBGR1555, DRM_FORMAT_RGBX5551, DRM_FORMAT_BGRX5551, DRM_FORMAT_ARGB1555,
     DRM_FORMAT_ABGR1555, DRM_FORMAT_RGBA5551, DRM_FORMAT_BGRA5551, DRM_FORMAT_RGB565, DRM_FORMAT_BGR565,
     DRM_FORMAT_RGB888, DRM_FORMAT_BGR888, DRM_FORMAT_XRGB8888, DRM_FORMAT_XBGR8888, DRM_FORMAT_RGBX8888,
     DRM_FORMAT_BGRX8888, DRM_FORMAT_ARGB8888, DRM_FORMAT_ABGR8888, DRM_FORMAT_RGBA8888, DRM_FORMAT_BGRA8888,
     DRM_FORMAT_XRGB2101010, DRM_FORMAT_XBGR2101010, DRM_FORMAT_RGBX1010102, DRM_FORMAT_BGRX1010102,
     DRM_FORMAT_ARGB2101010, DRM_FORMAT_ABGR2101010, DRM_FORMAT_RGBA1010102, DRM_FORMAT_BGRA1010102,
     DRM_FORMAT_XRGB16161616, DRM_FORMAT_XBGR16161616, DRM_FORMAT_ARGB16161616, DRM_FORMAT_ABGR16161616,
     DRM_FORMAT_XRGB16161616F, DRM_FORMAT_XBGR16161616F, DRM_FORMAT_ARGB16161616F, DRM_FORMAT_ABGR16161616F,
     DRM_FORMAT_AXBXGXRX106106106106, DRM_FORMAT_YUYV, DRM_FORMAT_YVYU, DRM_FORMAT_UYVY, DRM_FORMAT_VYUY,
     DRM_FORMAT_AYUV, DRM_FORMAT_AVUY8888, DRM_FORMAT_XYUV8888, DRM_FORMAT_XVUY8888, DRM_FORMAT_VUY888,
     DRM_FORMAT_VUY101010, DRM_FORMAT_Y210, DRM_FORMAT_Y212, DRM_FORMAT_Y216, DRM_FORMAT_Y410,
     DRM_FORMAT_Y412, DRM_FORMAT_Y416, DRM_FORMAT_XVYU2101010, DRM_FORMAT_XVYU12_16161616,
     DRM_FORMAT_XVYU16161616, DRM_FORMAT_Y0L0, DRM_FORMAT_X0L0, DRM_FORMAT_Y0L2, DRM_FORMAT_X0L2,
     DRM_FORMAT_YUV420_8BIT, DRM_FORMAT_YUV420_10BIT, DRM_FORMAT_XRGB8888_A8, DRM_FORMAT_XBGR8888_A8,
     DRM_FORMAT_RGBX8888_A8, DRM_FORMAT_BGRX8888_A8, DRM_FORMAT_RGB888_A8, DRM_FORMAT_BGR888_A8,
     DRM_FORMAT_RGB565_A8, DRM_FORMAT_BGR565_A8, DRM_FORMAT_NV12, DRM_FORMAT_NV21, DRM_FORMAT_NV16,
     DRM_FORMAT_NV61, DRM_FORMAT_NV24, DRM_FORMAT_NV42, DRM_FORMAT_NV15, DRM_FORMAT_NV20, DRM_FORMAT_NV30,
     DRM_FORMAT_P210, DRM_FORMAT_P010, DRM_FORMAT_P012, DRM_FORMAT_P016, DRM_FORMAT_P030, DRM_FORMAT_Q410,
     DRM_FORMAT_Q401, DRM_FORMAT_YUV410, DRM_FORMAT_YVU410, DRM_FORMAT_YUV411, DRM_FORMAT_YVU411,
     DRM_FORMAT_YUV420, DRM_FORMAT_YVU420, DRM_FORMAT_YUV422, DRM_FORMAT_YVU422, DRM_FORMAT_YUV444,
     DRM_FORMAT_YVU444]"

definition drm_format_chars :: "(char \<times> char \<times> char \<times> char) list" where
  "drm_format_chars =
    [(CHR ''C'', CHR ''1'', CHR '' '', CHR '' ''), (CHR ''C'', CHR ''2'', CHR '' '', CHR '' ''),
     (CHR ''C'', CHR ''4'', CHR '' '', CHR '' ''), (CHR ''C'', CHR ''8'', CHR '' '', CHR '' ''),
     (CHR ''D'', CHR ''1'', CHR '' '', CHR '' ''), (CHR ''D'', CHR ''2'', CHR '' '', CHR '' ''),
     (CHR ''D'', CHR ''4'', CHR '' '', CHR '' ''), (CHR ''D'', CHR ''8'', CHR '' '', CHR '' ''),
     (CHR ''R'', CHR ''1'', CHR '' '', CHR '' ''), (CHR ''R'', CHR ''2'', CHR '' '', CHR '' ''),
     (CHR ''R'', CHR ''4'', CHR '' '', CHR '' ''), (CHR ''R'', CHR ''8'', CHR '' '', CHR '' ''),
     (CHR ''R'', CHR ''1'', CHR ''0'', CHR '' ''), (CHR ''R'', CHR ''1'', CHR ''2'', CHR '' ''),
     (CHR ''R'', CHR ''1'', CHR ''6'', CHR '' ''), (CHR ''R'', CHR ''G'', CHR ''8'', CHR ''8''),
     (CHR ''G'', CHR ''R'', CHR ''8'', CHR ''8''), (CHR ''R'', CHR ''G'', CHR ''3'', CHR ''2''),
     (CHR ''G'', CHR ''R'', CHR ''3'', CHR ''2''), (CHR ''R'', CHR ''G'', CHR ''B'', CHR ''8''),
     (CHR ''B'', CHR ''G'', CHR ''R'', CHR ''8''), (CHR ''X'', CHR ''R'', CHR ''1'', CHR ''2''),
     (CHR ''X'', CHR ''B'', CHR ''1'', CHR ''2''), (CHR ''R'', CHR ''X'', CHR ''1'', CHR ''2''),
     (CHR ''B'', CHR ''X'', CHR ''1'', CHR ''2''), (CHR ''A'', CHR ''R'', CHR ''1'', CHR ''2''),
     (CHR ''A'', CHR ''B'', CHR ''1'', CHR ''2''), (CHR ''R'', CHR ''A'', CHR ''1'', CHR ''2''),
     (CHR ''B'', CHR ''A'', CHR ''1'', CHR ''2''), (CHR ''X'', CHR ''R'', CHR ''1'', CHR ''5''),
     (CHR ''X'', CHR ''B'', CHR ''1'', CHR ''5''), (CHR ''R'', CHR ''X'', CHR ''1'', CHR ''5''),
     (CHR ''B'', CHR ''X'', CHR ''1'', CHR ''5''), (CHR ''A'', CHR ''R'', CHR ''1'', CHR ''5''),
     (CHR ''A'', CHR ''B'', CHR ''1'', CHR ''5''), (CHR ''R'', CHR ''A'', CHR ''1'', CHR ''5''),
     (CHR ''B'', CHR ''A'', CHR ''1'', CHR ''5''), (CHR ''R'', CHR ''G'', CHR ''1'', CHR ''6''),
     (CHR ''B'', CHR ''G'', CHR ''1'', CHR ''6''), (CHR ''R'', CHR ''G'', CHR ''2'', CHR ''4''),
     (CHR ''B'', CHR ''G'', CHR ''2'', CHR ''4''), (CHR ''X'', CHR ''R'', CHR ''2'', CHR ''4''),
     (CHR ''X'', CHR ''B'', CHR ''2'', CHR ''4''), (CHR ''R'', CHR ''X'', CHR ''2'', CHR ''4''),
     (CHR ''B'', CHR ''X'', CHR ''2'', CHR ''4''), (CHR ''A'', CHR ''R'', CHR ''2'', CHR ''4''),
     (CHR ''A'', CHR ''B'', CHR ''2'', CHR ''4''), (CHR ''R'', CHR ''A'', CHR ''2'', CHR ''4''),
     (CHR ''B'', CHR ''A'', CHR ''2'', CHR ''4''), (CHR ''X'', CHR ''R'', CHR ''3'', CHR ''0''),
     (CHR ''X'', CHR ''B'', CHR ''3'', CHR ''0''), (CHR ''R'', CHR ''X'', CHR ''3'', CHR ''0''),
     (CHR ''B'', CHR ''X'', CHR ''3'', CHR ''0''), (CHR ''A'', CHR ''R'', CHR ''3'', CHR ''0''),
     (CHR ''A'', CHR ''B'', CHR ''3'', CHR ''0''), (CHR ''R'', CHR ''A'', CHR ''3'', CHR ''0''),
     (CHR ''B'', CHR ''A'', CHR ''3'', CHR ''0''), (CHR ''X'', CHR ''R'', CHR ''4'', CHR ''8''),
     (CHR ''X'', CHR ''B'', CHR ''4'', CHR ''8''), (CHR ''A'', CHR ''R'', CHR ''4'', CHR ''8''),
     (CHR ''A'', CHR ''B'', CHR ''4'', CHR ''8''), (CHR ''X'', CHR ''R'', CHR ''4'', CHR ''H''),
     (CHR ''X'', CHR ''B'', CHR ''4'', CHR ''H''), (CHR ''A'', CHR ''R'', CHR ''4'', CHR ''H''),
     (CHR ''A'', CHR ''B'', CHR ''4'', CHR ''H''), (CHR ''A'', CHR ''B'', CHR ''1'', CHR ''0''),
     (CHR ''Y'', CHR ''U'', CHR ''Y'', CHR ''V''), (CHR ''Y'', CHR ''V'', CHR ''Y'', CHR ''U''),
     (CHR ''U'', CHR ''Y'', CHR ''V'', CHR ''Y''), (CHR ''V'', CHR ''Y'', CHR ''U'', CHR ''Y''),
     (CHR ''A'', CHR ''Y'', CHR ''U'', CHR ''V''), (CHR ''A'', CHR ''V'', CHR ''U'', CHR ''Y''),
     (CHR ''X'', CHR ''Y'', CHR ''U'', CHR ''V''), (CHR ''X'', CHR ''V'', CHR ''U'', CHR ''Y''),
     (CHR ''V'', CHR ''U'', CHR ''2'', CHR ''4''), (CHR ''V'', CHR ''U'', CHR ''3'', CHR ''0''),
     (CHR ''Y'', CHR ''2'', CHR ''1'', CHR ''0''), (CHR ''Y'', CHR ''2'', CHR ''1'', CHR ''2''),
     (CHR ''Y'', CHR ''2'', CHR ''1'', CHR ''6''), (CHR ''Y'', CHR ''4'', CHR ''1'', CHR ''0''),
     (CHR ''Y'', CHR ''4'', CHR ''1'', CHR ''2''), (CHR ''Y'', CHR ''4'', CHR ''1'', CHR ''6''),
     (CHR ''X'', CHR ''V'', CHR ''3'', CHR ''0''), (CHR ''X'', CHR ''V'', CHR ''3'', CHR ''6''),
     (CHR ''X'', CHR ''V'', CHR ''4'', CHR ''8''), (CHR ''Y'', CHR ''0'', CHR ''L'', CHR ''0''),
     (CHR ''X'', CHR ''0'', CHR ''L'', CHR ''0''), (CHR ''Y'', CHR ''0'', CHR ''L'', CHR ''2''),
     (CHR ''X'', CHR ''0'', CHR ''L'', CHR ''2''), (CHR ''Y'', CHR ''U'', CHR ''0'', CHR ''8''),
     (CHR ''Y'', CHR ''U'', CHR ''1'', CHR ''0''), (CHR ''X'', CHR ''R'', CHR ''A'', CHR ''8''),
     (CHR ''X'', CHR ''B'', CHR ''A'', CHR ''8''), (CHR ''R'', CHR ''X'', CHR ''A'', CHR ''8''),
     (CHR ''B'', CHR ''X'', CHR ''A'', CHR ''8''), (CHR ''R'', CHR ''8'', CHR ''A'', CHR ''8''),
     (CHR ''B'', CHR ''8'', CHR ''A'', CHR ''8''), (CHR ''R'', CHR ''5'', CHR ''A'', CHR ''8''),
     (CHR ''B'', CHR ''5'', CHR ''A'', CHR ''8''), (CHR ''N'', CHR ''V'', CHR ''1'', CHR ''2''),
     (CHR ''N'', CHR ''V'', CHR ''2'', CHR ''1''), (CHR ''N'', CHR ''V'', CHR ''1'', CHR ''6''),
     (CHR ''N'', CHR ''V'', CHR ''6'', CHR ''1''), (CHR ''N'', CHR ''V'', CHR ''2'', CHR ''4''),
     (CHR ''N'', CHR ''V'', CHR ''4'', CHR ''2''), (CHR ''N'', CHR ''V'', CHR ''1'', CHR ''5''),
     (CHR ''N'', CHR ''V'', CHR ''2'', CHR ''0''), (CHR ''N'', CHR ''V'', CHR ''3'', CHR ''0''),
     (CHR ''P'', CHR ''2'', CHR ''1'', CHR ''0''), (CHR ''P'', CHR ''0'', CHR ''1'', CHR ''0''),
     (CHR ''P'', CHR ''0'', CHR ''1'', CHR ''2''), (CHR ''P'', CHR ''0'', CHR ''1'', CHR ''6''),
     (CHR ''P'', CHR ''0'', CHR ''3'', CHR ''0''), (CHR ''Q'', CHR ''4'', CHR ''1'', CHR ''0''),
     (CHR ''Q'', CHR ''4'', CHR ''0'', CHR ''1''), (CHR ''Y'', CHR ''U'', CHR ''V'', CHR ''9''),
     (CHR ''Y'', CHR ''V'', CHR ''U'', CHR ''9''), (CHR ''Y'', CHR ''U'', CHR ''1'', CHR ''1''),
     (CHR ''Y'', CHR ''V'', CHR ''1'', CHR ''1''), (CHR ''Y'', CHR ''U'', CHR ''1'', CHR ''2''),
     (CHR ''Y'', CHR ''V'', CHR ''1'', CHR ''2''), (CHR ''Y'', CHR ''U'', CHR ''1'', CHR ''6''),
     (CHR ''Y'', CHR ''V'', CHR ''1'', CHR ''6''), (CHR ''Y'', CHR ''U'', CHR ''2'', CHR ''4''),
     (CHR ''Y'', CHR ''V'', CHR ''2'', CHR ''4'')]"

lemmas drm_format_defs =
  DRM_FORMAT_C1_def DRM_FORMAT_C2_def DRM_FORMAT_C4_def DRM_FORMAT_C8_def DRM_FORMAT_D1_def
  DRM_FORMAT_D2_def DRM_FORMAT_D4_def DRM_FORMAT_D8_def DRM_FORMAT_R1_def DRM_FORMAT_R2_def
  DRM_FORMAT_R4_def DRM_FORMAT_R8_def DRM_FORMAT_R10_def DRM_FORMAT_R12_def DRM_FORMAT_R16_def
  DRM_FORMAT_RG88_def DRM_FORMAT_GR88_def DRM_FORMAT_RG1616_def DRM_FORMAT_GR1616_def
  DRM_FORMAT_RGB332_def DRM_FORMAT_BGR233_def DRM_FORMAT_XRGB4444_def DRM_FORMAT_XBGR4444_def
  DRM_FORMAT_RGBX4444_def DRM_FORMAT_BGRX4444_def DRM_FORMAT_ARGB4444_def DRM_FORMAT_ABGR4444_def
  DRM_FORMAT_RGBA4444_def DRM_FORMAT_BGRA4444_def DRM_FORMAT_XRGB1555_def DRM_FORMAT_XBGR1555_def
  DRM_FORMAT_RGBX5551_def DRM_FORMAT_BGRX5551_def DRM_FORMAT_ARGB1555_def DRM_FORMAT_ABGR1555_def
  DRM_FORMAT_RGBA5551_def DRM_FORMAT_BGRA5551_def DRM_FORMAT_RGB565_def DRM_FORMAT_BGR565_def
  DRM_FORMAT_RGB888_def DRM_FORMAT_BGR888_def DRM_FORMAT_XRGB8888_def DRM_FORMAT_XBGR8888_def
  DRM_FORMAT_RGBX8888_def DRM_FORMAT_BGRX8888_def DRM_FORMAT_ARGB8888_def DRM_FORMAT_ABGR8888_def
  DRM_FORMAT_RGBA8888_def DRM_FORMAT_BGRA8888_def DRM_FORMAT_XRGB2101010_def DRM_FORMAT_XBGR2101010_def
  DRM_FORMAT_RGBX1010102_def DRM_FORMAT_BGRX1010102_def DRM_FORMAT_ARGB2101010_def
  DRM_FORMAT_ABGR2101010_def DRM_FORMAT_RGBA1010102_def DRM_FORMAT_BGRA1010102_def
  DRM_FORMAT_XRGB16161616_def DRM_FORMAT_XBGR16161616_def DRM_FORMAT_ARGB16161616_def
  DRM_FORMAT_ABGR16161616_def DRM_FORMAT_XRGB16161616F_def DRM_FORMAT_XBGR16161616F_def
  DRM_FORMAT_ARGB16161616F_def DRM_FORMAT_ABGR16161616F_def DRM_FORMAT_AXBXGXRX106106106106_def
  DRM_FORMAT_YUYV_def DRM_FORMAT_YVYU_def DRM_FORMAT_UYVY_def DRM_FORMAT_VYUY_def DRM_FORMAT_AYUV_def
  DRM_FORMAT_AVUY8888_def DRM_FORMAT_XYUV8888_def DRM_FORMAT_XVUY8888_def DRM_FORMAT_VUY888_def
  DRM_FORMAT_VUY101010_def DRM_FORMAT_Y210_def DRM_FORMAT_Y212_def DRM_FORMAT_Y216_def DRM_FORMAT_Y410_def
  DRM_FORMAT_Y412_def DRM_FORMAT_Y416_def DRM_FORMAT_XVYU2101010_def DRM_FORMAT_XVYU12_16161616_def
  DRM_FORMAT_XVYU16161616_def DRM_FORMAT_Y0L0_def DRM_FORMAT_X0L0_def DRM_FORMAT_Y0L2_def
  DRM_FORMAT_X0L2_def DRM_FORMAT_YUV420_8BIT_def DRM_FORMAT_YUV420_10BIT_def DRM_FORMAT_XRGB8888_A8_def
  DRM_FORMAT_XBGR8888_A8_def DRM_FORMAT_RGBX8888_A8_def DRM_FORMAT_BGRX8888_A8_def
  DRM_FORMAT_RGB888_A8_def DRM_FORMAT_BGR888_A8_def DRM_FORMAT_RGB565_A8_def DRM_FORMAT_BGR565_A8_def
  DRM_FORMAT_NV12_def DRM_FORMAT_NV21_def DRM_FORMAT_NV16_def DRM_FORMAT_NV61_def DRM_FORMAT_NV24_def
  DRM_FORMAT_NV42_def DRM_FORMAT_NV15_def DRM_FORMAT_NV20_def DRM_FORMAT_NV30_def DRM_FORMAT_P210_def
  DRM_FORMAT_P010_def DRM_FORMAT_P012_def DRM_FORMAT_P016_def DRM_FORMAT_P030_def DRM_FORMAT_Q410_def
  DRM_FORMAT_Q401_def DRM_FORMAT_YUV410_def DRM_FORMAT_YVU410_def DRM_FORMAT_YUV411_def
  DRM_FORMAT_YVU411_def DRM_FORMAT_YUV420_def DRM_FORMAT_YVU420_def DRM_FORMAT_YUV422_def
  DRM_FORMAT_YVU422_def DRM_FORMAT_YUV444_def DRM_FORMAT_YVU444_def

section \<open>Modifiers\<close>

abbreviation (input) DRM_FORMAT_MOD_VENDOR_NONE :: u64 where "DRM_FORMAT_MOD_VENDOR_NONE \<equiv> 0"
abbreviation (input) DRM_FORMAT_MOD_VENDOR_INTEL :: u64 where "DRM_FORMAT_MOD_VENDOR_INTEL \<equiv> 0x01"
abbreviation (input) DRM_FORMAT_MOD_VENDOR_AMD :: u64 where "DRM_FORMAT_MOD_VENDOR_AMD \<equiv> 0x02"
abbreviation (input) DRM_FORMAT_MOD_VENDOR_NVIDIA :: u64 where "DRM_FORMAT_MOD_VENDOR_NVIDIA \<equiv> 0x03"
abbreviation (input) DRM_FORMAT_MOD_VENDOR_BROADCOM :: u64 where "DRM_FORMAT_MOD_VENDOR_BROADCOM \<equiv> 0x07"
abbreviation (input) DRM_FORMAT_MOD_VENDOR_ARM :: u64 where "DRM_FORMAT_MOD_VENDOR_ARM \<equiv> 0x08"

definition DRM_FORMAT_RESERVED :: u64 where
  "DRM_FORMAT_RESERVED = push_bit 56 1 - 1"

definition fourcc_mod_get_vendor :: "u64 \<Rightarrow> u64" where
  "fourcc_mod_get_vendor modifier = drop_bit 56 modifier AND 0xff"

definition fourcc_mod_is_vendor :: "u64 \<Rightarrow> u64 \<Rightarrow> bool" where
  "fourcc_mod_is_vendor modifier vendor \<longleftrightarrow> fourcc_mod_get_vendor modifier = vendor"

definition fourcc_mod_code :: "u64 \<Rightarrow> u64 \<Rightarrow> u64" where
  "fourcc_mod_code vendor val = push_bit 56 vendor OR (val AND 0x00ffffffffffffff)"

definition DRM_FORMAT_MOD_INVALID :: u64 where
  "DRM_FORMAT_MOD_INVALID = fourcc_mod_code DRM_FORMAT_MOD_VENDOR_NONE DRM_FORMAT_RESERVED"

definition DRM_FORMAT_MOD_LINEAR :: u64 where
  "DRM_FORMAT_MOD_LINEAR = fourcc_mod_code DRM_FORMAT_MOD_VENDOR_NONE 0"

text \<open>NVIDIA: the arguments are \<open>int\<close> expressions, masked before they are shifted.\<close>

definition DRM_FORMAT_MOD_NVIDIA_BLOCK_LINEAR_2D :: "cint \<Rightarrow> cint \<Rightarrow> cint \<Rightarrow> cint \<Rightarrow> cint \<Rightarrow> u64" where
  "DRM_FORMAT_MOD_NVIDIA_BLOCK_LINEAR_2D c s g k h = fourcc_mod_code DRM_FORMAT_MOD_VENDOR_NVIDIA
     (ucast ((0x10 :: cint) OR (h AND 0xf) OR push_bit 12 (k AND 0xff) OR push_bit 20 (g AND 0x3) OR
        push_bit 22 (s AND 0x1) OR push_bit 23 (c AND 0x7)))"

definition drm_fourcc_canonicalize_nvidia_format_mod :: "u64 \<Rightarrow> u64" where
  "drm_fourcc_canonicalize_nvidia_format_mod modifier =
     (if modifier AND 0x10 = 0 \<or> modifier AND push_bit 12 0xff \<noteq> 0 then modifier
      else modifier OR push_bit 12 0xfe)"

definition DRM_FORMAT_MOD_NVIDIA_16BX2_BLOCK :: "cint \<Rightarrow> u64" where
  "DRM_FORMAT_MOD_NVIDIA_16BX2_BLOCK v = DRM_FORMAT_MOD_NVIDIA_BLOCK_LINEAR_2D 0 0 0 0 v"

text \<open>Broadcom: the parameter is read back as an \<open>int\<close>.\<close>

abbreviation (input) fourcc_mod_broadcom_param_shift :: nat where "fourcc_mod_broadcom_param_shift \<equiv> 8"
abbreviation (input) fourcc_mod_broadcom_param_bits :: nat where "fourcc_mod_broadcom_param_bits \<equiv> 48"

definition fourcc_mod_broadcom_code :: "u64 \<Rightarrow> u64 \<Rightarrow> u64" where
  "fourcc_mod_broadcom_code val params =
     fourcc_mod_code DRM_FORMAT_MOD_VENDOR_BROADCOM (push_bit fourcc_mod_broadcom_param_shift params OR val)"

definition fourcc_mod_broadcom_param :: "u64 \<Rightarrow> cint" where
  "fourcc_mod_broadcom_param m = ucast (drop_bit fourcc_mod_broadcom_param_shift m AND
     (push_bit fourcc_mod_broadcom_param_bits 1 - 1))"

definition fourcc_mod_broadcom_mod :: "u64 \<Rightarrow> u64" where
  "fourcc_mod_broadcom_mod m = m AND
     NOT (push_bit fourcc_mod_broadcom_param_shift (push_bit fourcc_mod_broadcom_param_bits 1 - 1))"

definition DRM_FORMAT_MOD_BROADCOM_SAND32_COL_HEIGHT :: "u64 \<Rightarrow> u64" where
  "DRM_FORMAT_MOD_BROADCOM_SAND32_COL_HEIGHT v = fourcc_mod_broadcom_code 2 v"
definition DRM_FORMAT_MOD_BROADCOM_SAND64_COL_HEIGHT :: "u64 \<Rightarrow> u64" where
  "DRM_FORMAT_MOD_BROADCOM_SAND64_COL_HEIGHT v = fourcc_mod_broadcom_code 3 v"
definition DRM_FORMAT_MOD_BROADCOM_SAND128_COL_HEIGHT :: "u64 \<Rightarrow> u64" where
  "DRM_FORMAT_MOD_BROADCOM_SAND128_COL_HEIGHT v = fourcc_mod_broadcom_code 4 v"
definition DRM_FORMAT_MOD_BROADCOM_SAND256_COL_HEIGHT :: "u64 \<Rightarrow> u64" where
  "DRM_FORMAT_MOD_BROADCOM_SAND256_COL_HEIGHT v = fourcc_mod_broadcom_code 5 v"

text \<open>Arm.\<close>

definition DRM_FORMAT_MOD_ARM_CODE :: "u64 \<Rightarrow> u64 \<Rightarrow> u64" where
  "DRM_FORMAT_MOD_ARM_CODE type val =
     fourcc_mod_code DRM_FORMAT_MOD_VENDOR_ARM (push_bit 52 type OR (val AND 0x000fffffffffffff))"

definition DRM_FORMAT_MOD_ARM_AFBC :: "u64 \<Rightarrow> u64" where
  "DRM_FORMAT_MOD_ARM_AFBC afbc_mode = DRM_FORMAT_MOD_ARM_CODE 0x00 afbc_mode"

section \<open>AMD modifiers\<close>

text \<open>The parameters, each with its shift and its mask.\<close>

datatype amd_field = TILE_VERSION | TILE | DCC | DCC_RETILE | DCC_PIPE_ALIGN | DCC_INDEPENDENT_64B
  | DCC_INDEPENDENT_128B | DCC_MAX_COMPRESSED_BLOCK | DCC_CONSTANT_ENCODE | PIPE_XOR_BITS | BANK_XOR_BITS
  | PACKERS | RB | PIPE

fun AMD_FMT_MOD_SHIFT :: "amd_field \<Rightarrow> nat" where
  "AMD_FMT_MOD_SHIFT TILE_VERSION = 0"
| "AMD_FMT_MOD_SHIFT TILE = 8"
| "AMD_FMT_MOD_SHIFT DCC = 13"
| "AMD_FMT_MOD_SHIFT DCC_RETILE = 14"
| "AMD_FMT_MOD_SHIFT DCC_PIPE_ALIGN = 15"
| "AMD_FMT_MOD_SHIFT DCC_INDEPENDENT_64B = 16"
| "AMD_FMT_MOD_SHIFT DCC_INDEPENDENT_128B = 17"
| "AMD_FMT_MOD_SHIFT DCC_MAX_COMPRESSED_BLOCK = 18"
| "AMD_FMT_MOD_SHIFT DCC_CONSTANT_ENCODE = 20"
| "AMD_FMT_MOD_SHIFT PIPE_XOR_BITS = 21"
| "AMD_FMT_MOD_SHIFT BANK_XOR_BITS = 24"
| "AMD_FMT_MOD_SHIFT PACKERS = 27"
| "AMD_FMT_MOD_SHIFT RB = 30"
| "AMD_FMT_MOD_SHIFT PIPE = 33"

fun AMD_FMT_MOD_MASK :: "amd_field \<Rightarrow> u64" where
  "AMD_FMT_MOD_MASK TILE_VERSION = 0xff"
| "AMD_FMT_MOD_MASK TILE = 0x1f"
| "AMD_FMT_MOD_MASK DCC_MAX_COMPRESSED_BLOCK = 0x3"
| "AMD_FMT_MOD_MASK PIPE_XOR_BITS = 0x7"
| "AMD_FMT_MOD_MASK BANK_XOR_BITS = 0x7"
| "AMD_FMT_MOD_MASK PACKERS = 0x7"
| "AMD_FMT_MOD_MASK RB = 0x7"
| "AMD_FMT_MOD_MASK PIPE = 0x7"
| "AMD_FMT_MOD_MASK _ = 0x1"

definition AMD_FMT_MOD :: u64 where
  "AMD_FMT_MOD = fourcc_mod_code DRM_FORMAT_MOD_VENDOR_AMD 0"

definition IS_AMD_FMT_MOD :: "u64 \<Rightarrow> bool" where
  "IS_AMD_FMT_MOD val \<longleftrightarrow> drop_bit 56 val = DRM_FORMAT_MOD_VENDOR_AMD"

definition AMD_FMT_MOD_SET :: "amd_field \<Rightarrow> u64 \<Rightarrow> u64" where
  "AMD_FMT_MOD_SET field val = push_bit (AMD_FMT_MOD_SHIFT field) val"

definition AMD_FMT_MOD_GET :: "amd_field \<Rightarrow> u64 \<Rightarrow> u64" where
  "AMD_FMT_MOD_GET field val = drop_bit (AMD_FMT_MOD_SHIFT field) val AND AMD_FMT_MOD_MASK field"

definition AMD_FMT_MOD_CLEAR :: "amd_field \<Rightarrow> u64" where
  "AMD_FMT_MOD_CLEAR field = NOT (push_bit (AMD_FMT_MOD_SHIFT field) (AMD_FMT_MOD_MASK field))"


section \<open>Codes and characters\<close>

lemma bit_of_char: "bit (of_char c :: u32) n \<longleftrightarrow> n < 8 \<and> [digit0 c, digit1 c, digit2 c, digit3 c, digit4 c, digit5 c, digit6 c, digit7 c] ! n"
  unfolding of_char_def bit_horner_sum_bit_iff by auto

lemma bit_fourcc:
  "n < 8 \<Longrightarrow> bit (fourcc_code a b c d) n = bit (of_char a :: u32) n"
  "n < 8 \<Longrightarrow> bit (fourcc_code a b c d) (n + 8) = bit (of_char b :: u32) n"
  "n < 8 \<Longrightarrow> bit (fourcc_code a b c d) (n + 16) = bit (of_char c :: u32) n"
  "n < 8 \<Longrightarrow> bit (fourcc_code a b c d) (n + 24) = bit (of_char d :: u32) n"
  unfolding fourcc_code_def by (auto simp: bit_or_iff bit_push_bit_iff bit_of_char)

lemma char_bits_eq: "(\<And>n. n < 8 \<Longrightarrow> bit (of_char a :: u32) n = bit (of_char b :: u32) n) \<Longrightarrow> a = b"
proof -
  assume eq: "\<And>n. n < 8 \<Longrightarrow> bit (of_char a :: u32) n = bit (of_char b :: u32) n"
  show "a = b"
    using eq [of 0] eq [of 1] eq [of 2] eq [of 3] eq [of 4] eq [of 5] eq [of 6] eq [of 7]
    by (intro char.expand) (simp add: bit_of_char)
qed

lemma fourcc_inject: "fourcc_code a b c d = fourcc_code a' b' c' d' \<longleftrightarrow> a = a' \<and> b = b' \<and> c = c' \<and> d = d'"
  by (metis bit_fourcc char_bits_eq)

lemma drm_format_chars: "distinct drm_format_chars"
  by (simp add: drm_format_chars_def)

lemma drm_format_ascii: "list_all (\<lambda>(a, b, c, d). a \<noteq> CHR 0x00 \<and> \<not> digit7 d) drm_format_chars"
  by (simp add: drm_format_chars_def)

lemma drm_formats_chars: "drm_formats = map (\<lambda>(a, b, c, d). fourcc_code a b c d) drm_format_chars"
  by (simp add: drm_format_chars_def drm_formats_def drm_format_defs)

section \<open>Fields of AMD modifiers\<close>

fun amd_width :: "amd_field \<Rightarrow> nat" where
  "amd_width TILE_VERSION = 8"
| "amd_width TILE = 5"
| "amd_width DCC_MAX_COMPRESSED_BLOCK = 2"
| "amd_width PIPE_XOR_BITS = 3"
| "amd_width BANK_XOR_BITS = 3"
| "amd_width PACKERS = 3"
| "amd_width RB = 3"
| "amd_width PIPE = 3"
| "amd_width _ = 1"

definition amd_fields :: "amd_field list" where
  "amd_fields = [TILE_VERSION, TILE, DCC, DCC_RETILE, DCC_PIPE_ALIGN, DCC_INDEPENDENT_64B, DCC_INDEPENDENT_128B,
     DCC_MAX_COMPRESSED_BLOCK, DCC_CONSTANT_ENCODE, PIPE_XOR_BITS, BANK_XOR_BITS, PACKERS, RB, PIPE]"

text \<open>A modifier with all fields set, the way drivers combine them.\<close>

definition amd_modifier :: "(amd_field \<Rightarrow> u64) \<Rightarrow> u64" where
  "amd_modifier f = fold (\<lambda>x m. m OR AMD_FMT_MOD_SET x (f x)) amd_fields AMD_FMT_MOD"

lemma amd_fields_all: "x \<in> set amd_fields"
  by (cases x) (simp_all add: amd_fields_def)

lemma amd_mask: "AMD_FMT_MOD_MASK x = mask (amd_width x)"
  by (cases x) (simp_all add: mask_eq_exp_minus_1)

lemma amd_ranges:
  "AMD_FMT_MOD_SHIFT x + amd_width x \<le> 36"
  "x \<noteq> y \<Longrightarrow> AMD_FMT_MOD_SHIFT x + amd_width x \<le> AMD_FMT_MOD_SHIFT y \<or> AMD_FMT_MOD_SHIFT y + amd_width y \<le> AMD_FMT_MOD_SHIFT x"
  by (cases x; simp) (cases x; cases y; simp)

text \<open>The field a bit belongs to is unique.\<close>

lemma amd_field_unique:
  assumes "i < amd_width x" "j < amd_width y" "AMD_FMT_MOD_SHIFT x + i = AMD_FMT_MOD_SHIFT y + j"
  shows "x = y \<and> i = j"
  using amd_ranges(2) [of x y] assms by fastforce

lemma bit_AMD_FMT_MOD: "bit AMD_FMT_MOD n \<longleftrightarrow> n = 57"
proof -
  have "AMD_FMT_MOD = push_bit (56 + 1) 1"
    by (simp add: AMD_FMT_MOD_def fourcc_mod_code_def)
  then show ?thesis
    using bit_push_bit_iff [of "56 + 1" "1 :: u64" n] by (auto simp: bit_1_iff simp del: push_bit_of_1)
qed

lemma bit_fold_fields:
  "bit (fold (\<lambda>x m. m OR AMD_FMT_MOD_SET x (f x)) xs m) n \<longleftrightarrow>
   bit m n \<or> (\<exists>x \<in> set xs. AMD_FMT_MOD_SHIFT x \<le> n \<and> n < 64 \<and> bit (f x) (n - AMD_FMT_MOD_SHIFT x))"
  by (induction xs arbitrary: m) (auto simp: AMD_FMT_MOD_SET_def bit_or_iff bit_push_bit_iff)

lemma bit_amd_modifier:
  "bit (amd_modifier f) n \<longleftrightarrow> n = 57 \<or> (\<exists>x. AMD_FMT_MOD_SHIFT x \<le> n \<and> n < 64 \<and> bit (f x) (n - AMD_FMT_MOD_SHIFT x))"
  unfolding amd_modifier_def bit_fold_fields using amd_fields_all by (auto simp: bit_AMD_FMT_MOD)

lemma amd_in_field: "v AND AMD_FMT_MOD_MASK x = v \<Longrightarrow> bit v i \<Longrightarrow> i < amd_width x"
  by (metis amd_mask bit_and_iff bit_mask_iff)

lemma bit_get_field:
  "bit (AMD_FMT_MOD_GET x m) i \<longleftrightarrow> i < amd_width x \<and> bit m (AMD_FMT_MOD_SHIFT x + i)"
  using amd_ranges(1) [of x] by (auto simp: AMD_FMT_MOD_GET_def amd_mask bit_and_iff bit_mask_iff bit_drop_bit_eq)

lemma bit_clear_field:
  "bit (m AND AMD_FMT_MOD_CLEAR x) n \<longleftrightarrow> bit m n \<and> \<not> (AMD_FMT_MOD_SHIFT x \<le> n \<and> n - AMD_FMT_MOD_SHIFT x < amd_width x)"
  by (auto simp: AMD_FMT_MOD_CLEAR_def amd_mask bit_and_iff bit_not_iff bit_push_bit_iff bit_mask_iff dest: bit_imp_le_length)

lemma get_amd_modifier:
  assumes "\<And>x. f x AND AMD_FMT_MOD_MASK x = f x"
  shows "AMD_FMT_MOD_GET x (amd_modifier f) = f x"
proof (rule bit_word_eqI)
  fix i assume "i < LENGTH(64)"
  show "bit (AMD_FMT_MOD_GET x (amd_modifier f)) i = bit (f x) i"
  proof (cases "i < amd_width x")
    case True
    have "y = x \<and> AMD_FMT_MOD_SHIFT x + i - AMD_FMT_MOD_SHIFT y = i"
      if "AMD_FMT_MOD_SHIFT y \<le> AMD_FMT_MOD_SHIFT x + i" "bit (f y) (AMD_FMT_MOD_SHIFT x + i - AMD_FMT_MOD_SHIFT y)" for y
      using amd_field_unique [OF True amd_in_field [OF assms that(2)]] that(1) by auto
    then have "(\<exists>y. AMD_FMT_MOD_SHIFT y \<le> AMD_FMT_MOD_SHIFT x + i \<and>
        bit (f y) (AMD_FMT_MOD_SHIFT x + i - AMD_FMT_MOD_SHIFT y)) \<longleftrightarrow> bit (f x) i"
      by (metis add_diff_cancel_left' le_add1)
    then show ?thesis
      using True amd_ranges(1) [of x] unfolding bit_get_field bit_amd_modifier by auto
  next
    case False
    then show ?thesis
      using amd_in_field [OF assms] by (auto simp: bit_get_field)
  qed
qed

section \<open>Properties\<close>

text \<open>
  C34: No two pixel formats have the same code, none is the invalid format, and none has the bit that marks a
  big-endian variant set, so the code of such a variant is not the code of another format.
\<close>

theorem drm_formats_distinct:
  "distinct (drm_formats @ map (\<lambda>f. f OR DRM_FORMAT_BIG_ENDIAN) drm_formats) \<and> DRM_FORMAT_INVALID \<notin> set drm_formats"
proof -
  have bit31: "\<not> bit f 31" and nonzero: "f \<noteq> 0" if "f \<in> set drm_formats" for f
  proof -
    obtain a b c d where f: "f = fourcc_code a b c d" "a \<noteq> CHR 0x00" "\<not> digit7 d"
      using \<open>f \<in> set drm_formats\<close> drm_format_ascii by (auto simp: drm_formats_chars list_all_iff)
    then show "\<not> bit f 31"
      using bit_fourcc(4) [of 7 a b c d] by (simp add: bit_of_char)
    have "fourcc_code CHR 0x00 CHR 0x00 CHR 0x00 CHR 0x00 = 0"
      by (simp add: fourcc_code_def)
    then show "f \<noteq> 0"
      using f(1,2) fourcc_inject by metis
  qed
  have be: "bit (f OR DRM_FORMAT_BIG_ENDIAN) n = (bit f n \<or> n = 31)" for f n
    using bit_push_bit_iff [of 31 "1 :: u32" n] unfolding DRM_FORMAT_BIG_ENDIAN_def by (auto simp: bit_or_iff bit_1_iff)
  have "distinct drm_formats"
    using drm_format_chars unfolding drm_formats_chars by (auto simp: distinct_map inj_on_def fourcc_inject)
  moreover have "inj_on (\<lambda>f. f OR DRM_FORMAT_BIG_ENDIAN) (set drm_formats)"
    by (intro inj_onI bit_word_eqI) (metis be bit31)
  moreover have "f OR DRM_FORMAT_BIG_ENDIAN \<notin> set drm_formats" for f
    using be [of f 31] bit31 by blast
  ultimately show ?thesis
    using nonzero by (auto simp: distinct_map DRM_FORMAT_INVALID_def)
qed

text \<open>
  C32: An AMD modifier is a record of its fourteen fields. When every value fits its field, each field is read back from the combination of
  all of them, the modifier is recognised as one of AMD, and clearing a field sets it to zero and leaves the
  others as they are.
\<close>

theorem amd_modifier_fields:
  assumes "\<And>x. f x AND AMD_FMT_MOD_MASK x = f x"
  shows "AMD_FMT_MOD_GET x (amd_modifier f) = f x \<and> IS_AMD_FMT_MOD (amd_modifier f) \<and>
    AMD_FMT_MOD_GET y (amd_modifier f AND AMD_FMT_MOD_CLEAR x) = (if y = x then 0 else f y)"
proof -
  have "AMD_FMT_MOD_GET y (amd_modifier f AND AMD_FMT_MOD_CLEAR x) = (if y = x then 0 else AMD_FMT_MOD_GET y (amd_modifier f))"
  proof (rule bit_word_eqI)
    fix i assume "i < LENGTH(64)"
    show "bit (AMD_FMT_MOD_GET y (amd_modifier f AND AMD_FMT_MOD_CLEAR x)) i =
        bit (if y = x then 0 else AMD_FMT_MOD_GET y (amd_modifier f)) i"
      using amd_ranges(2) [of x y] unfolding bit_get_field bit_clear_field by (auto simp: bit_get_field)
  qed
  moreover have "IS_AMD_FMT_MOD (amd_modifier f)"
    unfolding IS_AMD_FMT_MOD_def
  proof (rule bit_word_eqI)
    fix i assume i: "i < LENGTH(64)"
    have "\<not> (AMD_FMT_MOD_SHIFT z \<le> 56 + i \<and> bit (f z) (56 + i - AMD_FMT_MOD_SHIFT z))" for z
      using amd_ranges(1) [of z] amd_in_field [OF assms, of z "56 + i - AMD_FMT_MOD_SHIFT z"] by auto
    then have "bit (drop_bit 56 (amd_modifier f)) i \<longleftrightarrow> i = 1"
      by (auto simp: bit_drop_bit_eq bit_amd_modifier)
    then show "bit (drop_bit 56 (amd_modifier f)) i = bit DRM_FORMAT_MOD_VENDOR_AMD i"
      using bit_push_bit_iff [of 1 "1 :: u64" i] i by (auto simp: bit_1_iff)
  qed
  ultimately show ?thesis
    using get_amd_modifier [OF assms] by simp
qed

theorem amd_modifier_fields_witness:
  "AMD_FMT_MOD_GET TILE (amd_modifier (\<lambda>x. if x = TILE then 27 else 1)) = 27"
proof -
  have "(\<lambda>x. if x = TILE then 27 else 1) x AND AMD_FMT_MOD_MASK x = (\<lambda>x. if x = TILE then 27 else 1) x" for x
    by (cases x) simp_all
  from amd_modifier_fields [OF this, of TILE TILE] show ?thesis
    by simp
qed

text \<open>Bits of a modifier: the value below, the vendor above.\<close>

lemma bit_fourcc_mod_code:
  "bit (fourcc_mod_code vendor val) n \<longleftrightarrow> (if n < 56 then bit val n else n < 64 \<and> bit vendor (n - 56))"
proof -
  have "val AND 0x00ffffffffffffff = take_bit 56 val"
    by (simp add: take_bit_eq_mask mask_eq_exp_minus_1)
  then show ?thesis
    by (auto simp: fourcc_mod_code_def bit_or_iff bit_push_bit_iff bit_take_bit_iff)
qed

lemma fourcc_mod_code_or:
  "fourcc_mod_code vendor (x OR y) = fourcc_mod_code vendor x OR (y AND 0x00ffffffffffffff)"
  unfolding fourcc_mod_code_def bit.conj_disj_distrib2 or.assoc ..

lemma vendor_of_code: "vendor < 256 \<Longrightarrow> fourcc_mod_get_vendor (fourcc_mod_code vendor val) = vendor"
  by (rule bit_word_eqI)
    (auto simp: fourcc_mod_get_vendor_def word_AND_mask_literals bit_take_bit_iff bit_drop_bit_eq bit_fourcc_mod_code
      dest: bit_below_literals)

text \<open>
  What a Broadcom modifier gives back. Of a type below 256 and a parameter the type is read back, under the vendor, when the parameter is cleared,
  and the parameter as its low 32 bits when it has at most 48 bits: parameters from \<open>2 ^ 31\<close> on are not returned
  as they were, although 48 bits are reserved for them.
\<close>

theorem broadcom_modifier_parts:
  assumes "val < 256" and "params < 2 ^ 48"
  shows "fourcc_mod_broadcom_mod (fourcc_mod_broadcom_code val params) = fourcc_mod_code DRM_FORMAT_MOD_VENDOR_BROADCOM val \<and>
    fourcc_mod_broadcom_param (fourcc_mod_broadcom_code val params) = ucast params \<and>
    fourcc_mod_is_vendor (fourcc_mod_broadcom_code val params) DRM_FORMAT_MOD_VENDOR_BROADCOM"
proof -
  have b: "bit val n \<Longrightarrow> n < 8" "bit params n \<Longrightarrow> n < 48" for n
    using bit_below [of val 8 n] bit_below [of params 48 n] assms by auto
  have code: "bit (fourcc_mod_broadcom_code val params) n \<longleftrightarrow>
      (if n < 8 then bit val n else if n < 56 then bit params (n - 8) else n < 64 \<and> bit (7 :: u64) (n - 56))" for n
    by (auto simp: fourcc_mod_broadcom_code_def bit_fourcc_mod_code bit_or_iff bit_push_bit_iff dest: b)
  have "push_bit 48 1 - 1 = (mask 48 :: u64)"
    by (simp add: mask_eq_exp_minus_1)
  then have "fourcc_mod_broadcom_param m = ucast (take_bit 48 (drop_bit 8 m))"
    "fourcc_mod_broadcom_mod m = m AND NOT (push_bit 8 (mask 48))" for m
    by (simp_all only: fourcc_mod_broadcom_param_def fourcc_mod_broadcom_mod_def take_bit_eq_mask)
  note parts = this
  have "fourcc_mod_broadcom_param (fourcc_mod_broadcom_code val params) = ucast params"
    unfolding parts by (rule bit_word_eqI) (auto simp: bit_simps code dest: b)
  moreover have "fourcc_mod_broadcom_mod (fourcc_mod_broadcom_code val params) = fourcc_mod_code DRM_FORMAT_MOD_VENDOR_BROADCOM val"
    unfolding parts
    by (rule bit_word_eqI) (auto simp: bit_and_iff bit_not_iff bit_push_bit_iff bit_mask_iff code bit_fourcc_mod_code dest: b)
  moreover have "fourcc_mod_get_vendor (fourcc_mod_broadcom_code val params) = 7"
    unfolding fourcc_mod_broadcom_code_def by (rule vendor_of_code) simp
  ultimately show ?thesis
    by (simp add: fourcc_mod_is_vendor_def)
qed

theorem broadcom_modifier_parts_witness:
  "fourcc_mod_broadcom_param (DRM_FORMAT_MOD_BROADCOM_SAND128_COL_HEIGHT 0x100000060) = 0x60"
  using broadcom_modifier_parts [of 4 "0x100000060"] by (simp add: DRM_FORMAT_MOD_BROADCOM_SAND128_COL_HEIGHT_def)

text \<open>
  C33: Normalising NVIDIA modifiers. It changes exactly the block-linear modifiers with page kind zero, gives them page kind \<open>0xfe\<close>,
  is idempotent, and makes the old way of writing a block of \<open>2 ^ v\<close> groups equal to the general one with the generic kind.
\<close>

theorem nvidia_canonical_form:
  "drm_fourcc_canonicalize_nvidia_format_mod (drm_fourcc_canonicalize_nvidia_format_mod m) =
     drm_fourcc_canonicalize_nvidia_format_mod m \<and>
   drm_fourcc_canonicalize_nvidia_format_mod (DRM_FORMAT_MOD_NVIDIA_16BX2_BLOCK v) =
     DRM_FORMAT_MOD_NVIDIA_BLOCK_LINEAR_2D 0 0 0 0xfe v \<and>
   (drm_fourcc_canonicalize_nvidia_format_mod m \<noteq> m \<longleftrightarrow> m AND 0x10 \<noteq> 0 \<and> m AND push_bit 12 0xff = 0)"
proof -
  have kind: "(m OR push_bit 12 0xfe) AND push_bit 12 0xff \<noteq> 0" for m :: u64
  proof
    assume "(m OR push_bit 12 0xfe) AND push_bit 12 0xff = 0"
    then have "bit ((m OR push_bit 12 0xfe) AND push_bit 12 0xff) 13 = bit (0 :: u64) 13"
      by simp
    then show False
      by (simp add: bit_and_iff bit_or_iff)
  qed
  have old: "DRM_FORMAT_MOD_NVIDIA_16BX2_BLOCK v = fourcc_mod_code 3 (ucast ((0x10 :: cint) OR take_bit 4 v))"
    by (simp add: DRM_FORMAT_MOD_NVIDIA_16BX2_BLOCK_def DRM_FORMAT_MOD_NVIDIA_BLOCK_LINEAR_2D_def word_AND_mask_literals)
  have "DRM_FORMAT_MOD_NVIDIA_BLOCK_LINEAR_2D 0 0 0 0xfe v =
      fourcc_mod_code 3 (ucast (((0x10 :: cint) OR take_bit 4 v) OR 0xfe000))"
    by (simp add: DRM_FORMAT_MOD_NVIDIA_BLOCK_LINEAR_2D_def word_AND_mask_literals(3) or.assoc)
  then have new: "DRM_FORMAT_MOD_NVIDIA_BLOCK_LINEAR_2D 0 0 0 0xfe v = DRM_FORMAT_MOD_NVIDIA_16BX2_BLOCK v OR push_bit 12 0xfe"
    unfolding old unsigned_or_eq fourcc_mod_code_or by (simp add: unsigned_or_eq)
  have b10: "bit (0x10 :: int) n \<longleftrightarrow> n = 4" for n
    using bit_push_bit_iff [of 4 "1 :: int" n] by (auto simp: bit_1_iff)
  have ff: "bit (push_bit 12 (0xff :: u64)) n \<longleftrightarrow> 12 \<le> n \<and> n < 20" for n
    unfolding mask_literals by (auto simp: bit_push_bit_iff bit_mask_iff)
  have bits: "bit (DRM_FORMAT_MOD_NVIDIA_16BX2_BLOCK v) n \<longleftrightarrow>
      n = 4 \<or> n < 4 \<and> bit v n \<or> 56 \<le> n \<and> n < 64 \<and> bit (3 :: u64) (n - 56)" for n
    unfolding old by (auto simp: bit_fourcc_mod_code bit_unsigned_iff bit_or_iff bit_take_bit_iff b10)
  have "DRM_FORMAT_MOD_NVIDIA_16BX2_BLOCK v AND push_bit 12 0xff = 0"
    by (rule bit_word_eqI) (simp only: bit_and_iff ff bits, auto)
  moreover have "DRM_FORMAT_MOD_NVIDIA_16BX2_BLOCK v AND 0x10 \<noteq> 0"
    using and_exp_eq_0_iff_not_bit [of "DRM_FORMAT_MOD_NVIDIA_16BX2_BLOCK v" 4] bits [of 4] by simp
  ultimately show ?thesis
    using kind [of m] new by (auto simp: drm_fourcc_canonicalize_nvidia_format_mod_def kind)
qed

end
