(* ===== verification/CInt.thy ===== *)
theory CInt
  imports CPrelude
begin

text \<open>
  Signed arithmetic of C. An \<open>int\<close> is an unbounded integer whose every result is checked against
  the 32-bit range: signed overflow is undefined and gives \<^term>\<open>None\<close>, as do division by zero and
  an array index outside its array. Used by the components whose source computes with \<open>int\<close>.
\<close>

section \<open>Operations\<close>

definition int_max :: int where
  "int_max = 2 ^ 31 - 1"

definition ck :: "int \<Rightarrow> int option" where
  "ck x = (if - int_max - 1 \<le> x \<and> x \<le> int_max then Some x else None)"

text \<open>Division of C truncates.\<close>

definition cdiv :: "int \<Rightarrow> int \<Rightarrow> int option" where
  "cdiv a b = (if b = 0 then None else ck (sgn a * sgn b * (\<bar>a\<bar> div \<bar>b\<bar>)))"

text \<open>A \<open>long\<close> has 64 bits.\<close>

definition lck :: "int \<Rightarrow> int option" where
  "lck x = (if - (2 ^ 63) \<le> x \<and> x < 2 ^ 63 then Some x else None)"

definition ldiv :: "int \<Rightarrow> int \<Rightarrow> int option" where
  "ldiv a b = (if b = 0 then None else lck (sgn a * sgn b * (\<bar>a\<bar> div \<bar>b\<bar>)))"

definition at :: "'a list \<Rightarrow> int \<Rightarrow> 'a option" where
  "at xs i = (if 0 \<le> i then rd xs (nat i) else None)"

definition set_at :: "'a list \<Rightarrow> int \<Rightarrow> 'a \<Rightarrow> 'a list option" where
  "set_at xs i v = (if 0 \<le> i then wr xs (nat i) v else None)"

definition ch :: "char \<Rightarrow> u8" where
  "ch c = of_char c"

definition lit :: "string \<Rightarrow> u8 list" where
  "lit s = map ch s"

section \<open>Operations that are defined\<close>

lemma ck_Some [simp]: "- int_max - 1 \<le> x \<Longrightarrow> x \<le> int_max \<Longrightarrow> ck x = Some x"
  by (simp add: ck_def)

lemma int_max_bounds [simp]: "int_max = 2147483647"
  by (simp add: int_max_def)

lemma at_Some [simp]: "0 \<le> i \<Longrightarrow> nat i < length xs \<Longrightarrow> at xs i = Some (xs ! nat i)"
  by (simp add: at_def)

lemma set_at_Some [simp]: "0 \<le> i \<Longrightarrow> nat i < length xs \<Longrightarrow> set_at xs i v = Some (xs[nat i := v])"
  by (simp add: set_at_def)

lemma ck_eq_Some [simp]: "ck x = Some y \<longleftrightarrow> x = y \<and> - int_max - 1 \<le> x \<and> x \<le> int_max"
  by (auto simp: ck_def)

lemma set_at_eq_Some: "set_at xs i v = Some ys \<longleftrightarrow> 0 \<le> i \<and> nat i < length xs \<and> ys = xs[nat i := v]"
  by (auto simp: set_at_def wr_def)

end
