(* ===== verification/SeqBuf.thy ===== *)
theory SeqBuf
  imports CInt
begin

text \<open>
  The buffered event interface of the OSS sequencer, from \<open>linux-headers/include/linux/soundcard.h\<close>: macros that
  append MIDI, timer and control events to a buffer and call \<open>seqbuf_dump\<close>, which a program
  provides, when the next event does not fit.

  The buffer, its length and its fill pointer are the three variables the macros name; the field
  \<open>device\<close> records the bytes that have been written to the sequencer. \<open>seqbuf_dump\<close> and \<open>write\<close>
  are parameters of the definitions, and the sample \<open>seqbuf_dump\<close> of the header is modelled too. Words are stored
  in the byte order of the target, little-endian.
\<close>

section \<open>State\<close>

record seq_state =
  seqbuf :: "u8 list"
  seqbuflen :: int
  seqbufptr :: int
  device :: "u8 list"

type_synonym seq_dump_fn = "seq_state \<Rightarrow> seq_state option"
type_synonym seq_write_fn = "seq_state \<Rightarrow> u8 list \<Rightarrow> int \<times> seq_state"

definition SEQ_DEFINEBUF :: "int \<Rightarrow> seq_state" where
  "SEQ_DEFINEBUF len = \<lparr>seqbuf = replicate (nat len) 0, seqbuflen = len, seqbufptr = 0, device = []\<rparr>"

definition SEQ_NEEDBUF :: "seq_dump_fn \<Rightarrow> int \<Rightarrow> seq_state \<Rightarrow> seq_state option" where
  "SEQ_NEEDBUF dump len s = do {
     e \<leftarrow> ck (seqbufptr s + len);
     if e > seqbuflen s then dump s else Some s }"

definition SEQ_ADVBUF :: "int \<Rightarrow> seq_state \<Rightarrow> seq_state option" where
  "SEQ_ADVBUF len s = do { p \<leftarrow> ck (seqbufptr s + len); Some (s\<lparr>seqbufptr := p\<rparr>) }"

text \<open>The assignments \<open>_seqbuf[_seqbufptr + k] = v\<close>, as a byte, a \<open>short\<close> and an \<open>unsigned int\<close>.\<close>

definition put_byte :: "int \<Rightarrow> int \<Rightarrow> seq_state \<Rightarrow> seq_state option" where
  "put_byte k v s = do {
     i \<leftarrow> ck (seqbufptr s + k);
     b \<leftarrow> set_at (seqbuf s) i (word_of_int v);
     Some (s\<lparr>seqbuf := b\<rparr>) }"

definition put_short :: "int \<Rightarrow> int \<Rightarrow> seq_state \<Rightarrow> seq_state option" where
  "put_short k v s = do { s \<leftarrow> put_byte k v s; put_byte (k + 1) (drop_bit 8 v) s }"

definition put_uint :: "int \<Rightarrow> int \<Rightarrow> seq_state \<Rightarrow> seq_state option" where
  "put_uint k v s = do { s \<leftarrow> put_short k v s; put_short (k + 2) (drop_bit 16 v) s }"

text \<open>The sample \<open>seqbuf_dump\<close>. A result of \<open>-1\<close> of \<open>write\<close> ends the program.\<close>

definition seqbuf_dump :: "seq_write_fn \<Rightarrow> seq_dump_fn" where
  "seqbuf_dump write_seq s = do {
     s \<leftarrow> (if seqbufptr s \<noteq> 0 then
            (case write_seq s (take (nat (seqbufptr s)) (seqbuf s)) of
               (r, s) \<Rightarrow> if r = - 1 then None else Some s)
          else Some s);
     Some (s\<lparr>seqbufptr := 0\<rparr>) }"

section \<open>Constants\<close>

abbreviation (input) SEQ_MIDIPUTC :: int where "SEQ_MIDIPUTC \<equiv> 5"
abbreviation (input) SEQ_CONTROLLER :: int where "SEQ_CONTROLLER \<equiv> 10"
abbreviation (input) SEQ_VOLMODE :: int where "SEQ_VOLMODE \<equiv> 12"
abbreviation (input) SEQ_EXTENDED :: int where "SEQ_EXTENDED \<equiv> 0xff"
abbreviation (input) CTL_MAIN_VOLUME :: int where "CTL_MAIN_VOLUME \<equiv> 0x07"
abbreviation (input) CTL_PAN :: int where "CTL_PAN \<equiv> 0x0a"
abbreviation (input) CTL_EXPRESSION :: int where "CTL_EXPRESSION \<equiv> 0x0b"
abbreviation (input) CTRL_PITCH_BENDER :: int where "CTRL_PITCH_BENDER \<equiv> 255"
abbreviation (input) CTRL_PITCH_BENDER_RANGE :: int where "CTRL_PITCH_BENDER_RANGE \<equiv> 254"
abbreviation (input) EV_SEQ_LOCAL :: int where "EV_SEQ_LOCAL \<equiv> 0x80"
abbreviation (input) EV_TIMING :: int where "EV_TIMING \<equiv> 0x81"
abbreviation (input) EV_CHN_COMMON :: int where "EV_CHN_COMMON \<equiv> 0x92"
abbreviation (input) EV_CHN_VOICE :: int where "EV_CHN_VOICE \<equiv> 0x93"
abbreviation (input) EV_SYSEX :: int where "EV_SYSEX \<equiv> 0x94"
abbreviation (input) MIDI_NOTEOFF :: int where "MIDI_NOTEOFF \<equiv> 0x80"
abbreviation (input) MIDI_NOTEON :: int where "MIDI_NOTEON \<equiv> 0x90"
abbreviation (input) MIDI_KEY_PRESSURE :: int where "MIDI_KEY_PRESSURE \<equiv> 0xA0"
abbreviation (input) MIDI_CTL_CHANGE :: int where "MIDI_CTL_CHANGE \<equiv> 0xB0"
abbreviation (input) MIDI_PGM_CHANGE :: int where "MIDI_PGM_CHANGE \<equiv> 0xC0"
abbreviation (input) MIDI_CHN_PRESSURE :: int where "MIDI_CHN_PRESSURE \<equiv> 0xD0"
abbreviation (input) MIDI_PITCH_BEND :: int where "MIDI_PITCH_BEND \<equiv> 0xE0"
abbreviation (input) TMR_WAIT_REL :: int where "TMR_WAIT_REL \<equiv> 1"
abbreviation (input) TMR_WAIT_ABS :: int where "TMR_WAIT_ABS \<equiv> 2"
abbreviation (input) TMR_STOP :: int where "TMR_STOP \<equiv> 3"
abbreviation (input) TMR_START :: int where "TMR_START \<equiv> 4"
abbreviation (input) TMR_CONTINUE :: int where "TMR_CONTINUE \<equiv> 5"
abbreviation (input) TMR_TEMPO :: int where "TMR_TEMPO \<equiv> 6"
abbreviation (input) TMR_ECHO :: int where "TMR_ECHO \<equiv> 8"
abbreviation (input) TMR_SPP :: int where "TMR_SPP \<equiv> 10"
abbreviation (input) TMR_TIMESIG :: int where "TMR_TIMESIG \<equiv> 11"
abbreviation (input) LOCL_STARTAUDIO :: int where "LOCL_STARTAUDIO \<equiv> 1"

section \<open>Event macros\<close>

definition SEQ_VOLUME_MODE :: "seq_dump_fn \<Rightarrow> int \<Rightarrow> int \<Rightarrow> seq_state \<Rightarrow> seq_state option" where
  "SEQ_VOLUME_MODE dump dev mode s = do {
     s \<leftarrow> SEQ_NEEDBUF dump 8 s;
     s \<leftarrow> put_byte 0 SEQ_EXTENDED s;
     s \<leftarrow> put_byte 1 SEQ_VOLMODE s;
     s \<leftarrow> put_byte 2 dev s;
     s \<leftarrow> put_byte 3 mode s;
     s \<leftarrow> put_byte 4 0 s;
     s \<leftarrow> put_byte 5 0 s;
     s \<leftarrow> put_byte 6 0 s;
     s \<leftarrow> put_byte 7 0 s;
     SEQ_ADVBUF 8 s }"

definition CHN_VOICE :: "seq_dump_fn \<Rightarrow> int \<Rightarrow> int \<Rightarrow> int \<Rightarrow> int \<Rightarrow> int \<Rightarrow> seq_state \<Rightarrow> seq_state option" where
  "CHN_VOICE dump dev event chn note parm s = do {
     s \<leftarrow> SEQ_NEEDBUF dump 8 s;
     s \<leftarrow> put_byte 0 EV_CHN_VOICE s;
     s \<leftarrow> put_byte 1 dev s;
     s \<leftarrow> put_byte 2 event s;
     s \<leftarrow> put_byte 3 chn s;
     s \<leftarrow> put_byte 4 note s;
     s \<leftarrow> put_byte 5 parm s;
     s \<leftarrow> put_byte 6 0 s;
     s \<leftarrow> put_byte 7 0 s;
     SEQ_ADVBUF 8 s }"

definition SEQ_START_NOTE :: "seq_dump_fn \<Rightarrow> int \<Rightarrow> int \<Rightarrow> int \<Rightarrow> int \<Rightarrow> seq_state \<Rightarrow> seq_state option" where
  "SEQ_START_NOTE dump dev chn note vol = CHN_VOICE dump dev MIDI_NOTEON chn note vol"

definition SEQ_STOP_NOTE :: "seq_dump_fn \<Rightarrow> int \<Rightarrow> int \<Rightarrow> int \<Rightarrow> int \<Rightarrow> seq_state \<Rightarrow> seq_state option" where
  "SEQ_STOP_NOTE dump dev chn note vol = CHN_VOICE dump dev MIDI_NOTEOFF chn note vol"

definition SEQ_KEY_PRESSURE :: "seq_dump_fn \<Rightarrow> int \<Rightarrow> int \<Rightarrow> int \<Rightarrow> int \<Rightarrow> seq_state \<Rightarrow> seq_state option" where
  "SEQ_KEY_PRESSURE dump dev chn note pressure = CHN_VOICE dump dev MIDI_KEY_PRESSURE chn note pressure"

definition CHN_COMMON ::
    "seq_dump_fn \<Rightarrow> int \<Rightarrow> int \<Rightarrow> int \<Rightarrow> int \<Rightarrow> int \<Rightarrow> int \<Rightarrow> seq_state \<Rightarrow> seq_state option" where
  "CHN_COMMON dump dev event chn p1 p2 w14 s = do {
     s \<leftarrow> SEQ_NEEDBUF dump 8 s;
     s \<leftarrow> put_byte 0 EV_CHN_COMMON s;
     s \<leftarrow> put_byte 1 dev s;
     s \<leftarrow> put_byte 2 event s;
     s \<leftarrow> put_byte 3 chn s;
     s \<leftarrow> put_byte 4 p1 s;
     s \<leftarrow> put_byte 5 p2 s;
     s \<leftarrow> put_short 6 w14 s;
     SEQ_ADVBUF 8 s }"

text \<open>The two loops of \<open>SEQ_SYSEX\<close>.\<close>

function sysex_copy :: "u8 list \<Rightarrow> int \<Rightarrow> int \<Rightarrow> seq_state \<Rightarrow> seq_state option" where
  "sysex_copy bufp ii ll s =
     (if ii < ll then do {
        b \<leftarrow> at bufp ii;
        s \<leftarrow> put_byte (ii + 2) (uint b) s;
        sysex_copy bufp (ii + 1) ll s }
      else Some s)"
  by auto
termination
  by (relation "measure (\<lambda>(bufp, ii, ll, s). nat (ll - ii))") auto

function sysex_fill :: "int \<Rightarrow> seq_state \<Rightarrow> seq_state option" where
  "sysex_fill ii s = (if ii < 6 then do { s \<leftarrow> put_byte (ii + 2) 0xff s; sysex_fill (ii + 1) s } else Some s)"
  by auto
termination
  by (relation "measure (\<lambda>(ii, s). nat (6 - ii))") auto

declare sysex_copy.simps [simp del] sysex_fill.simps [simp del]

definition SEQ_SYSEX :: "seq_dump_fn \<Rightarrow> int \<Rightarrow> u8 list \<Rightarrow> int \<Rightarrow> seq_state \<Rightarrow> seq_state option" where
  "SEQ_SYSEX dump dev buf len s = do {
     ll \<leftarrow> Some (if len > 6 then 6 else len);
     s \<leftarrow> SEQ_NEEDBUF dump 8 s;
     s \<leftarrow> put_byte 0 EV_SYSEX s;
     s \<leftarrow> put_byte 1 dev s;
     s \<leftarrow> sysex_copy buf 0 ll s;
     s \<leftarrow> sysex_fill ll s;
     SEQ_ADVBUF 8 s }"

definition SEQ_CHN_PRESSURE :: "seq_dump_fn \<Rightarrow> int \<Rightarrow> int \<Rightarrow> int \<Rightarrow> seq_state \<Rightarrow> seq_state option" where
  "SEQ_CHN_PRESSURE dump dev chn pressure = CHN_COMMON dump dev MIDI_CHN_PRESSURE chn pressure 0 0"

definition SEQ_PGM_CHANGE :: "seq_dump_fn \<Rightarrow> int \<Rightarrow> int \<Rightarrow> int \<Rightarrow> seq_state \<Rightarrow> seq_state option" where
  "SEQ_PGM_CHANGE dump dev chn patch = CHN_COMMON dump dev MIDI_PGM_CHANGE chn patch 0 0"

definition SEQ_CONTROL :: "seq_dump_fn \<Rightarrow> int \<Rightarrow> int \<Rightarrow> int \<Rightarrow> int \<Rightarrow> seq_state \<Rightarrow> seq_state option" where
  "SEQ_CONTROL dump dev chn controller value = CHN_COMMON dump dev MIDI_CTL_CHANGE chn controller 0 value"

definition SEQ_BENDER :: "seq_dump_fn \<Rightarrow> int \<Rightarrow> int \<Rightarrow> int \<Rightarrow> seq_state \<Rightarrow> seq_state option" where
  "SEQ_BENDER dump dev chn value = CHN_COMMON dump dev MIDI_PITCH_BEND chn 0 0 value"

definition SEQ_V2_X_CONTROL :: "seq_dump_fn \<Rightarrow> int \<Rightarrow> int \<Rightarrow> int \<Rightarrow> int \<Rightarrow> seq_state \<Rightarrow> seq_state option" where
  "SEQ_V2_X_CONTROL dump dev voice controller value s = do {
     s \<leftarrow> SEQ_NEEDBUF dump 8 s;
     s \<leftarrow> put_byte 0 SEQ_EXTENDED s;
     s \<leftarrow> put_byte 1 SEQ_CONTROLLER s;
     s \<leftarrow> put_byte 2 dev s;
     s \<leftarrow> put_byte 3 voice s;
     s \<leftarrow> put_byte 4 controller s;
     s \<leftarrow> put_byte 5 (value AND 0xff) s;
     s \<leftarrow> put_byte 6 (drop_bit 8 value AND 0xff) s;
     s \<leftarrow> put_byte 7 0 s;
     SEQ_ADVBUF 8 s }"

definition SEQ_PITCHBEND :: "seq_dump_fn \<Rightarrow> int \<Rightarrow> int \<Rightarrow> int \<Rightarrow> seq_state \<Rightarrow> seq_state option" where
  "SEQ_PITCHBEND dump dev voice value = SEQ_V2_X_CONTROL dump dev voice CTRL_PITCH_BENDER value"

definition SEQ_BENDER_RANGE :: "seq_dump_fn \<Rightarrow> int \<Rightarrow> int \<Rightarrow> int \<Rightarrow> seq_state \<Rightarrow> seq_state option" where
  "SEQ_BENDER_RANGE dump dev voice value = SEQ_V2_X_CONTROL dump dev voice CTRL_PITCH_BENDER_RANGE value"

definition SEQ_EXPRESSION :: "seq_dump_fn \<Rightarrow> int \<Rightarrow> int \<Rightarrow> int \<Rightarrow> seq_state \<Rightarrow> seq_state option" where
  "SEQ_EXPRESSION dump dev voice value s = do {
     v \<leftarrow> ck (value * 128);
     SEQ_CONTROL dump dev voice CTL_EXPRESSION v s }"

definition SEQ_MAIN_VOLUME :: "seq_dump_fn \<Rightarrow> int \<Rightarrow> int \<Rightarrow> int \<Rightarrow> seq_state \<Rightarrow> seq_state option" where
  "SEQ_MAIN_VOLUME dump dev voice value s = do {
     v \<leftarrow> ck (value * 16383);
     v \<leftarrow> cdiv v 100;
     SEQ_CONTROL dump dev voice CTL_MAIN_VOLUME v s }"

definition SEQ_PANNING :: "seq_dump_fn \<Rightarrow> int \<Rightarrow> int \<Rightarrow> int \<Rightarrow> seq_state \<Rightarrow> seq_state option" where
  "SEQ_PANNING dump dev voice pos s = do {
     v \<leftarrow> ck (pos + 128);
     v \<leftarrow> cdiv v 2;
     SEQ_CONTROL dump dev voice CTL_PAN v s }"

definition TIMER_EVENT :: "seq_dump_fn \<Rightarrow> int \<Rightarrow> int \<Rightarrow> seq_state \<Rightarrow> seq_state option" where
  "TIMER_EVENT dump ev parm s = do {
     s \<leftarrow> SEQ_NEEDBUF dump 8 s;
     s \<leftarrow> put_byte 0 EV_TIMING s;
     s \<leftarrow> put_byte 1 ev s;
     s \<leftarrow> put_byte 2 0 s;
     s \<leftarrow> put_byte 3 0 s;
     s \<leftarrow> put_uint 4 parm s;
     SEQ_ADVBUF 8 s }"

definition SEQ_START_TIMER :: "seq_dump_fn \<Rightarrow> seq_state \<Rightarrow> seq_state option" where
  "SEQ_START_TIMER dump = TIMER_EVENT dump TMR_START 0"
definition SEQ_STOP_TIMER :: "seq_dump_fn \<Rightarrow> seq_state \<Rightarrow> seq_state option" where
  "SEQ_STOP_TIMER dump = TIMER_EVENT dump TMR_STOP 0"
definition SEQ_CONTINUE_TIMER :: "seq_dump_fn \<Rightarrow> seq_state \<Rightarrow> seq_state option" where
  "SEQ_CONTINUE_TIMER dump = TIMER_EVENT dump TMR_CONTINUE 0"
definition SEQ_WAIT_TIME :: "seq_dump_fn \<Rightarrow> int \<Rightarrow> seq_state \<Rightarrow> seq_state option" where
  "SEQ_WAIT_TIME dump ticks = TIMER_EVENT dump TMR_WAIT_ABS ticks"
definition SEQ_DELTA_TIME :: "seq_dump_fn \<Rightarrow> int \<Rightarrow> seq_state \<Rightarrow> seq_state option" where
  "SEQ_DELTA_TIME dump ticks = TIMER_EVENT dump TMR_WAIT_REL ticks"
definition SEQ_ECHO_BACK :: "seq_dump_fn \<Rightarrow> int \<Rightarrow> seq_state \<Rightarrow> seq_state option" where
  "SEQ_ECHO_BACK dump key = TIMER_EVENT dump TMR_ECHO key"
definition SEQ_SET_TEMPO :: "seq_dump_fn \<Rightarrow> int \<Rightarrow> seq_state \<Rightarrow> seq_state option" where
  "SEQ_SET_TEMPO dump value = TIMER_EVENT dump TMR_TEMPO value"
definition SEQ_SONGPOS :: "seq_dump_fn \<Rightarrow> int \<Rightarrow> seq_state \<Rightarrow> seq_state option" where
  "SEQ_SONGPOS dump pos = TIMER_EVENT dump TMR_SPP pos"
definition SEQ_TIME_SIGNATURE :: "seq_dump_fn \<Rightarrow> int \<Rightarrow> seq_state \<Rightarrow> seq_state option" where
  "SEQ_TIME_SIGNATURE dump sig = TIMER_EVENT dump TMR_TIMESIG sig"

definition LOCAL_EVENT :: "seq_dump_fn \<Rightarrow> int \<Rightarrow> int \<Rightarrow> seq_state \<Rightarrow> seq_state option" where
  "LOCAL_EVENT dump ev parm s = do {
     s \<leftarrow> SEQ_NEEDBUF dump 8 s;
     s \<leftarrow> put_byte 0 EV_SEQ_LOCAL s;
     s \<leftarrow> put_byte 1 ev s;
     s \<leftarrow> put_byte 2 0 s;
     s \<leftarrow> put_byte 3 0 s;
     s \<leftarrow> put_uint 4 parm s;
     SEQ_ADVBUF 8 s }"

definition SEQ_PLAYAUDIO :: "seq_dump_fn \<Rightarrow> int \<Rightarrow> seq_state \<Rightarrow> seq_state option" where
  "SEQ_PLAYAUDIO dump devmask = LOCAL_EVENT dump LOCL_STARTAUDIO devmask"

definition SEQ_MIDIOUT :: "seq_dump_fn \<Rightarrow> int \<Rightarrow> int \<Rightarrow> seq_state \<Rightarrow> seq_state option" where
  "SEQ_MIDIOUT dump dev byte s = do {
     s \<leftarrow> SEQ_NEEDBUF dump 4 s;
     s \<leftarrow> put_byte 0 SEQ_MIDIPUTC s;
     s \<leftarrow> put_byte 1 byte s;
     s \<leftarrow> put_byte 2 dev s;
     s \<leftarrow> put_byte 3 0 s;
     SEQ_ADVBUF 4 s }"

text \<open>Patch loading writes behind the events that are still buffered. A failed write of the patch is reported and ignored.\<close>

definition SEQ_WRPATCH :: "seq_dump_fn \<Rightarrow> seq_write_fn \<Rightarrow> u8 list \<Rightarrow> seq_state \<Rightarrow> seq_state option" where
  "SEQ_WRPATCH dump write_seq patch s = do {
     s \<leftarrow> (if seqbufptr s \<noteq> 0 then dump s else Some s);
     Some (snd (write_seq s patch)) }"

definition SEQ_WRPATCH2 :: "seq_dump_fn \<Rightarrow> seq_write_fn \<Rightarrow> u8 list \<Rightarrow> seq_state \<Rightarrow> (int \<times> seq_state) option" where
  "SEQ_WRPATCH2 dump write_seq patch s = do { s \<leftarrow> dump s; Some (write_seq s patch) }"

section \<open>Events and actions\<close>

text \<open>Everything a program can do with the interface, one constructor per macro.\<close>

datatype seq_event =
    Volume_Mode int int
  | Start_Note int int int int
  | Stop_Note int int int int
  | Key_Pressure int int int int
  | Sysex int "u8 list" int
  | Chn_Pressure int int int
  | Pgm_Change int int int
  | Control int int int int
  | Bender int int int
  | V2_X_Control int int int int
  | Pitchbend int int int
  | Bender_Range int int int
  | Expression int int int
  | Main_Volume int int int
  | Panning int int int
  | Start_Timer
  | Stop_Timer
  | Continue_Timer
  | Wait_Time int
  | Delta_Time int
  | Echo_Back int
  | Set_Tempo int
  | Songpos int
  | Time_Signature int
  | Playaudio int
  | Midiout int int

fun seq_do :: "seq_dump_fn \<Rightarrow> seq_event \<Rightarrow> seq_state \<Rightarrow> seq_state option" where
  "seq_do dump (Volume_Mode dev mode) = SEQ_VOLUME_MODE dump dev mode"
| "seq_do dump (Start_Note dev chn note vol) = SEQ_START_NOTE dump dev chn note vol"
| "seq_do dump (Stop_Note dev chn note vol) = SEQ_STOP_NOTE dump dev chn note vol"
| "seq_do dump (Key_Pressure dev chn note p) = SEQ_KEY_PRESSURE dump dev chn note p"
| "seq_do dump (Sysex dev buf len) = SEQ_SYSEX dump dev buf len"
| "seq_do dump (Chn_Pressure dev chn p) = SEQ_CHN_PRESSURE dump dev chn p"
| "seq_do dump (Pgm_Change dev chn patch) = SEQ_PGM_CHANGE dump dev chn patch"
| "seq_do dump (Control dev chn c v) = SEQ_CONTROL dump dev chn c v"
| "seq_do dump (Bender dev chn v) = SEQ_BENDER dump dev chn v"
| "seq_do dump (V2_X_Control dev voice c v) = SEQ_V2_X_CONTROL dump dev voice c v"
| "seq_do dump (Pitchbend dev voice v) = SEQ_PITCHBEND dump dev voice v"
| "seq_do dump (Bender_Range dev voice v) = SEQ_BENDER_RANGE dump dev voice v"
| "seq_do dump (Expression dev voice v) = SEQ_EXPRESSION dump dev voice v"
| "seq_do dump (Main_Volume dev voice v) = SEQ_MAIN_VOLUME dump dev voice v"
| "seq_do dump (Panning dev voice pos) = SEQ_PANNING dump dev voice pos"
| "seq_do dump Start_Timer = SEQ_START_TIMER dump"
| "seq_do dump Stop_Timer = SEQ_STOP_TIMER dump"
| "seq_do dump Continue_Timer = SEQ_CONTINUE_TIMER dump"
| "seq_do dump (Wait_Time t) = SEQ_WAIT_TIME dump t"
| "seq_do dump (Delta_Time t) = SEQ_DELTA_TIME dump t"
| "seq_do dump (Echo_Back k) = SEQ_ECHO_BACK dump k"
| "seq_do dump (Set_Tempo v) = SEQ_SET_TEMPO dump v"
| "seq_do dump (Songpos v) = SEQ_SONGPOS dump v"
| "seq_do dump (Time_Signature v) = SEQ_TIME_SIGNATURE dump v"
| "seq_do dump (Playaudio m) = SEQ_PLAYAUDIO dump m"
| "seq_do dump (Midiout dev b) = SEQ_MIDIOUT dump dev b"

text \<open>The bytes an event is to have on the wire, and the arguments for which it is defined.\<close>

definition bytes_of :: "nat \<Rightarrow> int \<Rightarrow> u8 list" where
  "bytes_of n v = map (\<lambda>i. word_of_int (drop_bit (8 * i) v)) [0 ..< n]"

definition voice_bytes :: "int \<Rightarrow> int \<Rightarrow> int \<Rightarrow> int \<Rightarrow> int \<Rightarrow> u8 list" where
  "voice_bytes dev event chn note parm = map word_of_int [0x93, dev, event, chn, note, parm, 0, 0]"

definition channel_bytes :: "int \<Rightarrow> int \<Rightarrow> int \<Rightarrow> int \<Rightarrow> int \<Rightarrow> u8 list" where
  "channel_bytes dev event chn p w = map word_of_int [0x92, dev, event, chn, p, 0] @ bytes_of 2 w"

definition pseudo_bytes :: "int \<Rightarrow> int \<Rightarrow> int \<Rightarrow> int \<Rightarrow> u8 list" where
  "pseudo_bytes dev voice c v = map word_of_int [0xff, 10, dev, voice, c] @ bytes_of 2 v @ [0]"

definition timer_bytes :: "int \<Rightarrow> int \<Rightarrow> u8 list" where
  "timer_bytes ev v = map word_of_int [0x81, ev, 0, 0] @ bytes_of 4 v"

fun event_bytes :: "seq_event \<Rightarrow> u8 list" where
  "event_bytes (Volume_Mode dev mode) = map word_of_int [0xff, 12, dev, mode, 0, 0, 0, 0]"
| "event_bytes (Start_Note dev chn note vol) = voice_bytes dev 0x90 chn note vol"
| "event_bytes (Stop_Note dev chn note vol) = voice_bytes dev 0x80 chn note vol"
| "event_bytes (Key_Pressure dev chn note p) = voice_bytes dev 0xa0 chn note p"
| "event_bytes (Sysex dev buf len) = [0x94, word_of_int dev] @ take 6 (take (nat len) buf @ replicate 6 0xff)"
| "event_bytes (Chn_Pressure dev chn p) = channel_bytes dev 0xd0 chn p 0"
| "event_bytes (Pgm_Change dev chn patch) = channel_bytes dev 0xc0 chn patch 0"
| "event_bytes (Control dev chn c v) = channel_bytes dev 0xb0 chn c v"
| "event_bytes (Bender dev chn v) = channel_bytes dev 0xe0 chn 0 v"
| "event_bytes (V2_X_Control dev voice c v) = pseudo_bytes dev voice c v"
| "event_bytes (Pitchbend dev voice v) = pseudo_bytes dev voice 255 v"
| "event_bytes (Bender_Range dev voice v) = pseudo_bytes dev voice 254 v"
| "event_bytes (Expression dev voice v) = channel_bytes dev 0xb0 voice 11 (v * 128)"
| "event_bytes (Main_Volume dev voice v) = channel_bytes dev 0xb0 voice 7 (v * 16383 div 100)"
| "event_bytes (Panning dev voice pos) = channel_bytes dev 0xb0 voice 10 ((pos + 128) div 2)"
| "event_bytes Start_Timer = timer_bytes 4 0"
| "event_bytes Stop_Timer = timer_bytes 3 0"
| "event_bytes Continue_Timer = timer_bytes 5 0"
| "event_bytes (Wait_Time t) = timer_bytes 2 t"
| "event_bytes (Delta_Time t) = timer_bytes 1 t"
| "event_bytes (Echo_Back k) = timer_bytes 8 k"
| "event_bytes (Set_Tempo v) = timer_bytes 6 v"
| "event_bytes (Songpos v) = timer_bytes 10 v"
| "event_bytes (Time_Signature v) = timer_bytes 11 v"
| "event_bytes (Playaudio m) = map word_of_int [0x80, 1, 0, 0] @ bytes_of 4 m"
| "event_bytes (Midiout dev b) = map word_of_int [5, b, dev, 0]"

fun event_ok :: "seq_event \<Rightarrow> bool" where
  "event_ok (Sysex dev buf len) \<longleftrightarrow> 0 \<le> len \<and> min (nat len) 6 \<le> length buf"
| "event_ok (Expression dev voice v) \<longleftrightarrow> 0 \<le> v \<and> v \<le> 127"
| "event_ok (Main_Volume dev voice v) \<longleftrightarrow> 0 \<le> v \<and> v \<le> 100"
| "event_ok (Panning dev voice pos) \<longleftrightarrow> - 128 \<le> pos \<and> pos \<le> 127"
| "event_ok _ \<longleftrightarrow> True"

section \<open>Invariant and abstraction\<close>

text \<open>The stream a state stands for: what has been written and what is still buffered.\<close>

definition pending :: "seq_state \<Rightarrow> u8 list" where
  "pending s = take (nat (seqbufptr s)) (seqbuf s)"

definition seq_stream :: "seq_state \<Rightarrow> u8 list" where
  "seq_stream s = device s @ pending s"

definition seq_wf :: "seq_state \<Rightarrow> bool" where
  "seq_wf s \<longleftrightarrow> 0 \<le> seqbufptr s \<and> seqbufptr s \<le> seqbuflen s \<and> seqbuflen s = int (length (seqbuf s)) \<and>
     seqbuflen s + 8 \<le> int_max"

text \<open>A buffer in which the bytes from \<open>p\<close> on are being overwritten.\<close>

definition patched :: "nat \<Rightarrow> u8 list \<Rightarrow> u8 list \<Rightarrow> u8 list" where
  "patched p bs buf = take p buf @ bs @ drop (p + length bs) buf"

lemma patched_Nil [simp]: "patched p [] buf = buf"
  by (simp add: patched_def)

lemma patched_next:
  "p + length bs < length buf \<Longrightarrow> (patched p bs buf)[p + length bs := v] = patched p (bs @ [v]) buf"
  by (simp add: patched_def list_update_append min_def Cons_nth_drop_Suc [symmetric])

lemma length_patched: "p + length bs \<le> length buf \<Longrightarrow> length (patched p bs buf) = length buf"
  by (simp add: patched_def)

lemma take_patched: "p + length bs \<le> length buf \<Longrightarrow> take (p + length bs) (patched p bs buf) = take p buf @ bs"
  by (simp add: patched_def)

text \<open>The state in which \<open>bs\<close> has been stored behind the fill pointer.\<close>

definition storing :: "u8 list \<Rightarrow> seq_state \<Rightarrow> seq_state" where
  "storing bs s = s\<lparr>seqbuf := patched (nat (seqbufptr s)) bs (seqbuf s)\<rparr>"

definition room :: "nat \<Rightarrow> seq_state \<Rightarrow> bool" where
  "room n s \<longleftrightarrow> seq_wf s \<and> seqbufptr s + int n \<le> seqbuflen s"

lemma put_byte_first: "room n s \<Longrightarrow> 0 < n \<Longrightarrow> n \<le> 8 \<Longrightarrow> put_byte 0 v s = Some (storing [word_of_int v] s)"
  using patched_next [of "nat (seqbufptr s)" "[]" "seqbuf s"]
  by (auto simp: put_byte_def room_def seq_wf_def storing_def)

lemma put_byte_next:
  assumes "room n s" "k = int (length bs)" "length bs < n" "n \<le> 8"
  shows "put_byte k v (storing bs s) = Some (storing (bs @ [word_of_int v]) s)"
proof -
  have i: "nat (seqbufptr s + k) = nat (seqbufptr s) + length bs" "nat (seqbufptr s) + length bs < length (seqbuf s)"
    using assms by (auto simp: room_def seq_wf_def)
  have "set_at (seqbuf (storing bs s)) (seqbufptr s + k) (word_of_int v :: u8) =
      Some (patched (nat (seqbufptr s)) (bs @ [word_of_int v]) (seqbuf s))"
    using assms i by (simp add: storing_def room_def seq_wf_def length_patched patched_next)
  moreover have "ck (seqbufptr s + k) = Some (seqbufptr s + k)"
    using assms by (auto simp: room_def seq_wf_def)
  ultimately show ?thesis
    by (simp add: put_byte_def storing_def)
qed

lemma advbuf:
  assumes "room n s" "length bs = n" "k = int n" "n \<le> 8"
  shows "\<exists>s'. SEQ_ADVBUF k (storing bs s) = Some s' \<and> seq_wf s' \<and> seqbuflen s' = seqbuflen s \<and>
    seq_stream s' = seq_stream s @ bs"
proof -
  have p: "nat (seqbufptr s + k) = nat (seqbufptr s) + length bs" "nat (seqbufptr s) + length bs \<le> length (seqbuf s)"
    using assms by (auto simp: room_def seq_wf_def)
  then show ?thesis
    using assms by (auto simp: SEQ_ADVBUF_def storing_def room_def seq_wf_def seq_stream_def pending_def
        length_patched take_patched)
qed

lemmas storing_event = put_byte_first [where n = 8] put_byte_next [where n = 8] put_short_def put_uint_def

definition emits :: "(seq_state \<Rightarrow> seq_state option) \<Rightarrow> u8 list \<Rightarrow> seq_state \<Rightarrow> bool" where
  "emits f bs s \<longleftrightarrow> (\<exists>s'. f s = Some s' \<and> seq_wf s' \<and> seqbuflen s' = seqbuflen s \<and> seq_stream s' = seq_stream s @ bs)"

text \<open>The loops of \<open>SEQ_SYSEX\<close>.\<close>

lemma sysex_copy_storing:
  assumes "room 8 s" "0 \<le> ii" "nat ii + n \<le> length bufp" "nat ii + n \<le> 6" "length bs = nat ii + 2"
  shows "sysex_copy bufp ii (ii + int n) (storing bs s) = Some (storing (bs @ take n (drop (nat ii) bufp)) s)"
  using assms
proof (induction n arbitrary: ii bs)
  case 0
  then show ?case
    by (subst sysex_copy.simps) simp
next
  case (Suc n)
  have "take (Suc n) (drop (nat ii) bufp) = bufp ! nat ii # take n (drop (nat (ii + 1)) bufp)"
    using Suc.prems by (simp add: Cons_nth_drop_Suc [symmetric] nat_add_distrib)
  moreover have "sysex_copy bufp (ii + 1) (ii + 1 + int n) (storing (bs @ [bufp ! nat ii]) s) =
      Some (storing ((bs @ [bufp ! nat ii]) @ take n (drop (nat (ii + 1)) bufp)) s)"
    using Suc.prems by (intro Suc.IH) auto
  ultimately show ?case
    using Suc.prems put_byte_next [of 8 s "ii + 2" bs]
    by (subst sysex_copy.simps) (simp add: add.commute add.left_commute)
qed

lemma sysex_fill_storing:
  assumes "room 8 s" "0 \<le> ii" "nat ii + n = 6" "length bs = nat ii + 2"
  shows "sysex_fill ii (storing bs s) = Some (storing (bs @ replicate n 0xff) s)"
  using assms
proof (induction n arbitrary: ii bs)
  case 0
  then show ?case
    by (subst sysex_fill.simps) auto
next
  case (Suc n)
  have "sysex_fill (ii + 1) (storing (bs @ [0xff]) s) = Some (storing ((bs @ [0xff]) @ replicate n 0xff) s)"
    using Suc.prems by (intro Suc.IH) auto
  then show ?case
    using Suc.prems put_byte_next [of 8 s "ii + 2" bs] by (subst sysex_fill.simps) simp
qed

text \<open>A store that succeeds was inside the buffer.\<close>

lemma put_byte_fits:
  assumes "put_byte k v s = Some s'"
  shows "seqbufptr s + k < int (length (seqbuf s)) \<and> seqbufptr s' = seqbufptr s \<and>
    length (seqbuf s') = length (seqbuf s)"
  using assms by (auto simp: put_byte_def bind_eq_Some_conv set_at_eq_Some)

text \<open>A sequence of stores that reaches offset \<open>n - 1\<close>.\<close>

definition fits :: "nat \<Rightarrow> (seq_state \<Rightarrow> seq_state option) \<Rightarrow> bool" where
  "fits n f \<longleftrightarrow> (\<forall>s s'. f s = Some s' \<longrightarrow> seqbufptr s + int n \<le> int (length (seqbuf s)))"

lemma fits_next: "fits n f \<Longrightarrow> fits n (\<lambda>s. do { s \<leftarrow> put_byte k v s; f s })"
  by (fastforce simp: fits_def bind_eq_Some_conv dest: put_byte_fits)

lemma fits_last:
  "fits 8 (\<lambda>s. do { s \<leftarrow> put_byte 7 v s; f s })"
  "fits 4 (\<lambda>s. do { s \<leftarrow> put_byte 3 v s; f s })"
  "fits 8 (\<lambda>s. do { s \<leftarrow> put_short 6 v s; f s })"
  "fits 8 (\<lambda>s. do { s \<leftarrow> put_uint 4 v s; f s })"
  by (auto simp: fits_def bind_eq_Some_conv put_short_def put_uint_def dest!: put_byte_fits)

lemma sysex_copy_fits:
  assumes "sysex_copy bufp ii 6 s = Some s'" "ii < 6"
  shows "seqbufptr s + 7 < int (length (seqbuf s))"
  using assms
proof (induction bufp ii "6 :: int" s rule: sysex_copy.induct)
  case (1 bufp ii s)
  obtain b s1 where "at bufp ii = Some b" "put_byte (ii + 2) (uint b) s = Some s1" "sysex_copy bufp (ii + 1) 6 s1 = Some s'"
    using 1(2,3) by (subst (asm) sysex_copy.simps) (auto simp: bind_eq_Some_conv)
  then show ?case
    using 1(1) [of b s1] 1(3) put_byte_fits [of "ii + 2" "uint b" s s1] by (cases "ii = 5") auto
qed

lemma sysex_copy_keeps:
  assumes "sysex_copy bufp ii ll s = Some s'"
  shows "seqbufptr s' = seqbufptr s \<and> length (seqbuf s') = length (seqbuf s)"
  using assms
proof (induction bufp ii ll s rule: sysex_copy.induct)
  case (1 bufp ii ll s)
  show ?case
  proof (cases "ii < ll")
    case True
    then obtain b s1 where "at bufp ii = Some b" "put_byte (ii + 2) (uint b) s = Some s1" "sysex_copy bufp (ii + 1) ll s1 = Some s'"
      using 1(2) by (subst (asm) sysex_copy.simps) (auto simp: bind_eq_Some_conv)
    then show ?thesis
      using 1(1) [of b s1] True put_byte_fits [of "ii + 2" "uint b" s s1] by simp
  next
    case False
    then show ?thesis
      using 1(2) by (subst (asm) sysex_copy.simps) simp
  qed
qed

lemma sysex_fill_fits:
  assumes "sysex_fill ii s = Some s'" "ii < 6"
  shows "seqbufptr s + 7 < int (length (seqbuf s))"
  using assms
proof (induction ii s rule: sysex_fill.induct)
  case (1 ii s)
  obtain s1 where "put_byte (ii + 2) 0xff s = Some s1" "sysex_fill (ii + 1) s1 = Some s'"
    using 1(2,3) by (subst (asm) sysex_fill.simps) (auto simp: bind_eq_Some_conv)
  then show ?case
    using 1(1) [of s1] 1(3) put_byte_fits [of "ii + 2" "0xff" s s1] by (cases "ii = 5") auto
qed

lemma length_images [simp]:
  "length (bytes_of n v) = n" "length (voice_bytes dev event chn note parm) = 8"
  "length (channel_bytes dev event chn p w) = 8" "length (pseudo_bytes dev voice c v) = 8"
  "length (timer_bytes ev v) = 8"
  by (simp_all add: bytes_of_def voice_bytes_def channel_bytes_def pseudo_bytes_def timer_bytes_def)

lemma length_event_bytes: "length (event_bytes e) = (case e of Midiout _ _ \<Rightarrow> 4 | _ \<Rightarrow> 8)"
  by (cases e) simp_all

section \<open>Programs with a dump function\<close>

text \<open>What the header expects of \<open>seqbuf_dump\<close>: it passes the buffered bytes on and empties the buffer.\<close>

locale seq_dump =
  fixes dump :: seq_dump_fn
  assumes dump_ok: "seq_wf s \<Longrightarrow> \<exists>s'. dump s = Some s' \<and> seq_wf s' \<and> seqbufptr s' = 0 \<and>
    seqbuflen s' = seqbuflen s \<and> device s' = device s @ pending s"
begin

lemma dump_stream:
  assumes "seq_wf s"
  shows "\<exists>s'. dump s = Some s' \<and> seq_wf s' \<and> seqbufptr s' = 0 \<and> seqbuflen s' = seqbuflen s \<and>
    seq_stream s' = seq_stream s"
  using dump_ok [OF assms] by (auto simp: seq_stream_def pending_def)

lemma needbuf:
  assumes "seq_wf s" "k = int n" "n \<le> 8"
  shows "\<exists>s'. SEQ_NEEDBUF dump k s = Some s' \<and> seq_wf s' \<and> seqbuflen s' = seqbuflen s \<and>
    seq_stream s' = seq_stream s \<and> (k \<le> seqbuflen s \<longrightarrow> room n s')"
proof -
  have "ck (seqbufptr s + k) = Some (seqbufptr s + k)"
    using assms by (simp add: seq_wf_def)
  then show ?thesis
    using assms dump_stream [of s] by (auto simp: SEQ_NEEDBUF_def room_def)
qed

text \<open>An event macro makes room, stores its bytes and advances.\<close>

lemma emitsI:
  assumes "seq_wf s" "int n \<le> seqbuflen s" "n \<le> 8" "length bs = n"
    and "\<And>s'. room n s' \<Longrightarrow> SEQ_NEEDBUF dump (int n) s = Some s' \<Longrightarrow> f s = SEQ_ADVBUF (int n) (storing bs s')"
  shows "emits f bs s"
proof -
  obtain s' where s': "SEQ_NEEDBUF dump (int n) s = Some s'" "room n s'" "seqbuflen s' = seqbuflen s" "seq_stream s' = seq_stream s"
    using needbuf [of s "int n" n] assms by blast
  then show ?thesis
    using advbuf [of n s' bs "int n"] assms by (auto simp: emits_def)
qed

lemma voice_emits:
  "seq_wf s \<Longrightarrow> 8 \<le> seqbuflen s \<Longrightarrow> emits (CHN_VOICE dump dev event chn note parm) (voice_bytes dev event chn note parm) s"
  by (rule emitsI [where n = 8]) (auto simp: CHN_VOICE_def voice_bytes_def storing_event)

lemma channel_emits:
  "seq_wf s \<Longrightarrow> 8 \<le> seqbuflen s \<Longrightarrow> emits (CHN_COMMON dump dev event chn p 0 w) (channel_bytes dev event chn p w) s"
  by (rule emitsI [where n = 8])
    (auto simp: CHN_COMMON_def channel_bytes_def bytes_of_def upt_rec storing_event)

lemma timer_emits:
  "seq_wf s \<Longrightarrow> 8 \<le> seqbuflen s \<Longrightarrow> emits (TIMER_EVENT dump ev v) (timer_bytes ev v) s"
  by (rule emitsI [where n = 8])
    (auto simp: TIMER_EVENT_def timer_bytes_def bytes_of_def upt_rec storing_event)

lemma local_emits:
  "seq_wf s \<Longrightarrow> 8 \<le> seqbuflen s \<Longrightarrow> emits (LOCAL_EVENT dump ev v) (map word_of_int [0x80, ev, 0, 0] @ bytes_of 4 v) s"
  by (rule emitsI [where n = 8])
    (auto simp: LOCAL_EVENT_def bytes_of_def upt_rec storing_event)

lemma volume_emits:
  "seq_wf s \<Longrightarrow> 8 \<le> seqbuflen s \<Longrightarrow>
   emits (SEQ_VOLUME_MODE dump dev mode) (map word_of_int [0xff, 12, dev, mode, 0, 0, 0, 0]) s"
  by (rule emitsI [where n = 8]) (auto simp: SEQ_VOLUME_MODE_def storing_event)

lemma word_of_int_low_byte: "(word_of_int (v AND 0xff) :: u8) = word_of_int v"
proof -
  have "v AND 0xff = take_bit 8 v"
    by (simp add: take_bit_eq_mask mask_eq_exp_minus_1)
  then show ?thesis
    by (simp add: word_of_int_eq_iff)
qed

lemma pseudo_emits:
  "seq_wf s \<Longrightarrow> 8 \<le> seqbuflen s \<Longrightarrow> emits (SEQ_V2_X_CONTROL dump dev voice c v) (pseudo_bytes dev voice c v) s"
  by (rule emitsI [where n = 8])
    (auto simp: SEQ_V2_X_CONTROL_def pseudo_bytes_def bytes_of_def upt_rec word_of_int_low_byte storing_event)

lemma midiout_emits:
  "seq_wf s \<Longrightarrow> 4 \<le> seqbuflen s \<Longrightarrow> emits (SEQ_MIDIOUT dump dev b) (map word_of_int [5, b, dev, 0]) s"
  by (rule emitsI [where n = 4]) (auto simp: SEQ_MIDIOUT_def put_byte_first [where n = 4] put_byte_next [where n = 4])

lemma sysex_emits:
  assumes "seq_wf s" "8 \<le> seqbuflen s" "event_ok (Sysex dev buf len)"
  shows "emits (SEQ_SYSEX dump dev buf len) (event_bytes (Sysex dev buf len)) s"
proof (rule emitsI [where n = 8])
  fix s' assume s': "room 8 s'" "SEQ_NEEDBUF dump (int 8) s = Some s'"
  define n where "n = min (nat len) 6"
  have n: "(if len > 6 then 6 else len) = int n" "n \<le> 6" "n \<le> length buf"
    using assms(3) by (auto simp: n_def)
  have img: "event_bytes (Sysex dev buf len) = [0x94, word_of_int dev] @ take n buf @ replicate (6 - n) 0xff"
    using assms(3) by (auto simp: n_def min_def)
  have "sysex_copy buf 0 (int n) (storing [0x94, word_of_int dev] s') = Some (storing ([0x94, word_of_int dev] @ take n buf) s')"
    using sysex_copy_storing [of s' 0 n buf "[0x94, word_of_int dev]"] s' n by simp
  moreover have "sysex_fill (int n) (storing ([0x94, word_of_int dev] @ take n buf) s') =
      Some (storing (([0x94, word_of_int dev] @ take n buf) @ replicate (6 - n) 0xff) s')"
    using sysex_fill_storing [of s' "int n" "6 - n" "[0x94, word_of_int dev] @ take n buf"] s' n by simp
  ultimately show "SEQ_SYSEX dump dev buf len s = SEQ_ADVBUF (int 8) (storing (event_bytes (Sysex dev buf len)) s')"
    using s' by (simp add: SEQ_SYSEX_def n img storing_event del: event_bytes.simps)
qed (use assms in \<open>simp_all add: length_event_bytes del: event_bytes.simps\<close>)

lemmas macro_defs = SEQ_START_NOTE_def SEQ_STOP_NOTE_def SEQ_KEY_PRESSURE_def SEQ_CHN_PRESSURE_def SEQ_PGM_CHANGE_def
  SEQ_CONTROL_def SEQ_BENDER_def SEQ_PITCHBEND_def SEQ_BENDER_RANGE_def SEQ_EXPRESSION_def SEQ_MAIN_VOLUME_def
  SEQ_PANNING_def SEQ_START_TIMER_def SEQ_STOP_TIMER_def SEQ_CONTINUE_TIMER_def SEQ_WAIT_TIME_def SEQ_DELTA_TIME_def
  SEQ_ECHO_BACK_def SEQ_SET_TEMPO_def SEQ_SONGPOS_def SEQ_TIME_SIGNATURE_def SEQ_PLAYAUDIO_def

lemmas macro_emits = voice_emits channel_emits timer_emits local_emits [of _ 1, simplified] volume_emits [simplified]
  pseudo_emits midiout_emits [simplified]

lemma control_emits:
  assumes "seq_wf s" "8 \<le> seqbuflen s" "\<And>s. f s = SEQ_CONTROL dump dev voice c v s"
  shows "emits f (channel_bytes dev 0xb0 voice c v) s"
  using channel_emits [OF assms(1,2)] assms(3) by (simp add: emits_def SEQ_CONTROL_def)

text \<open>Every event with defined arguments appends its bytes to the stream.\<close>

lemma event_emits:
  assumes "seq_wf s" "event_ok e" "int (length (event_bytes e)) \<le> seqbuflen s"
  shows "emits (seq_do dump e) (event_bytes e) s"
proof (cases e)
  case (Sysex dev buf len)
  then show ?thesis
    using assms sysex_emits [of s dev buf len] by (simp add: length_event_bytes del: event_bytes.simps)
next
  case (Expression dev voice v)
  then show ?thesis
    using assms by (auto simp: length_event_bytes SEQ_EXPRESSION_def intro!: control_emits)
next
  case (Main_Volume dev voice v)
  then show ?thesis
    using assms by (auto simp: length_event_bytes SEQ_MAIN_VOLUME_def cdiv_def sgn_if intro!: control_emits)
next
  case (Panning dev voice pos)
  then show ?thesis
    using assms by (auto simp: length_event_bytes SEQ_PANNING_def cdiv_def sgn_if intro!: control_emits)
qed (use assms in \<open>auto simp: length_event_bytes macro_defs intro!: macro_emits\<close>)

text \<open>An event that does not fit the whole buffer is stored past its end.\<close>

lemma stores_fit:
  assumes "seq_wf s" "SEQ_NEEDBUF dump k s = Some s1" "k = int n" "n \<le> 8"
    "seqbufptr s1 + i < int (length (seqbuf s1))"
  shows "i < seqbuflen s"
  using needbuf [OF assms(1,3,4)] assms(2,5) by (auto simp: seq_wf_def)

lemma body_fits:
  assumes "do { s \<leftarrow> SEQ_NEEDBUF dump k s; body s } = Some s'" "seq_wf s" "k = int n" "n \<le> 8" "fits n body"
  shows "k \<le> seqbuflen s"
  using assms stores_fit [of s k _ n "k - 1"] by (fastforce simp: bind_eq_Some_conv fits_def)

lemma macro_fits:
  assumes "seq_wf s"
  shows "CHN_VOICE dump dev event chn note parm s = Some s' \<Longrightarrow> 8 \<le> seqbuflen s"
    "CHN_COMMON dump dev event chn p p2 w s = Some s' \<Longrightarrow> 8 \<le> seqbuflen s"
    "TIMER_EVENT dump ev v s = Some s' \<Longrightarrow> 8 \<le> seqbuflen s"
    "LOCAL_EVENT dump ev v s = Some s' \<Longrightarrow> 8 \<le> seqbuflen s"
    "SEQ_VOLUME_MODE dump dev mode s = Some s' \<Longrightarrow> 8 \<le> seqbuflen s"
    "SEQ_V2_X_CONTROL dump dev voice c v s = Some s' \<Longrightarrow> 8 \<le> seqbuflen s"
    "SEQ_MIDIOUT dump dev b s = Some s' \<Longrightarrow> 4 \<le> seqbuflen s"
  unfolding CHN_VOICE_def CHN_COMMON_def TIMER_EVENT_def LOCAL_EVENT_def SEQ_VOLUME_MODE_def SEQ_V2_X_CONTROL_def
    SEQ_MIDIOUT_def
  by (erule body_fits [where n = 8] body_fits [where n = 4], rule assms, simp, simp, (rule fits_last | rule fits_next)+)+

lemma sysex_fits:
  assumes "seq_wf s" "SEQ_SYSEX dump dev buf len s = Some s'"
  shows "8 \<le> seqbuflen s"
proof -
  obtain s1 s2 s3 s4 s5 where s1: "SEQ_NEEDBUF dump 8 s = Some s1"
    and s2: "put_byte 0 EV_SYSEX s1 = Some s2" and s3: "put_byte 1 dev s2 = Some s3"
    and s4: "sysex_copy buf 0 (if len > 6 then 6 else len) s3 = Some s4"
    and s5: "sysex_fill (if len > 6 then 6 else len) s4 = Some s5"
    using assms(2) by (auto simp: SEQ_SYSEX_def bind_eq_Some_conv)
  have "seqbufptr s3 + 7 < int (length (seqbuf s3))"
  proof (cases "6 \<le> len")
    case True
    then have "sysex_copy buf 0 6 s3 = Some s4"
      using s4 by (cases "len = 6") auto
    then show ?thesis
      using sysex_copy_fits by simp
  next
    case False
    then show ?thesis
      using s5 sysex_fill_fits [of len s4 s5] sysex_copy_keeps [OF s4] by auto
  qed
  then show ?thesis
    using put_byte_fits [OF s2] put_byte_fits [OF s3] stores_fit [OF assms(1) s1, of 8 7] by simp
qed

lemma event_fits:
  assumes "seq_wf s" "seq_do dump e s = Some s'"
  shows "int (length (event_bytes e)) \<le> seqbuflen s"
proof (cases e)
  case (Sysex dev buf len)
  then show ?thesis
    using assms sysex_fits by (simp add: length_event_bytes del: event_bytes.simps)
qed (use assms macro_fits [OF assms(1)] in \<open>auto simp: macro_defs bind_eq_Some_conv\<close>)

end

text \<open>With a \<open>write\<close> that writes everything, the sample \<open>seqbuf_dump\<close> of the header is such a function.\<close>

locale seq_write =
  fixes write_seq :: seq_write_fn
  assumes write_ok: "write_seq s bs = (int (length bs), s\<lparr>device := device s @ bs\<rparr>)"
begin

lemma seqbuf_dump_ok:
  "seq_wf s \<Longrightarrow> seqbuf_dump write_seq s = Some (s\<lparr>seqbufptr := 0, device := device s @ pending s\<rparr>)"
  by (auto simp: seqbuf_dump_def write_ok pending_def)

end

locale seq_device = seq_dump dump + seq_write write_seq for dump :: seq_dump_fn and write_seq :: seq_write_fn

sublocale seq_write \<subseteq> sample: seq_device "seqbuf_dump write_seq" write_seq
  by unfold_locales (auto simp: seqbuf_dump_ok seq_wf_def)

section \<open>Runs of a program\<close>

datatype seq_action = Event seq_event | Flush | Patch "u8 list" | Patch2 "u8 list"

fun seq_act :: "seq_dump_fn \<Rightarrow> seq_write_fn \<Rightarrow> seq_action \<Rightarrow> seq_state \<Rightarrow> seq_state option" where
  "seq_act dump write_seq (Event e) s = seq_do dump e s"
| "seq_act dump write_seq Flush s = dump s"
| "seq_act dump write_seq (Patch bs) s = SEQ_WRPATCH dump write_seq bs s"
| "seq_act dump write_seq (Patch2 bs) s = map_option snd (SEQ_WRPATCH2 dump write_seq bs s)"

fun action_ok :: "seq_action \<Rightarrow> bool" where
  "action_ok (Event e) = event_ok e"
| "action_ok _ = True"

fun action_bytes :: "seq_action \<Rightarrow> u8 list" where
  "action_bytes (Event e) = event_bytes e"
| "action_bytes Flush = []"
| "action_bytes (Patch bs) = bs"
| "action_bytes (Patch2 bs) = bs"

inductive seq_run :: "seq_dump_fn \<Rightarrow> seq_write_fn \<Rightarrow> int \<Rightarrow> seq_action list \<Rightarrow> seq_state \<Rightarrow> bool"
  for dump write_seq n where
  start: "seq_run dump write_seq n [] (SEQ_DEFINEBUF n)"
| step: "seq_run dump write_seq n as s \<Longrightarrow> action_ok a \<Longrightarrow> seq_act dump write_seq a s = Some s' \<Longrightarrow>
    seq_run dump write_seq n (as @ [a]) s'"

context seq_device
begin

text \<open>One action keeps the invariant and appends its bytes to the stream.\<close>

lemma act_stream:
  assumes "seq_wf s" "8 \<le> seqbuflen s" "action_ok a"
  shows "\<exists>s'. seq_act dump write_seq a s = Some s' \<and> seq_wf s' \<and> seqbuflen s' = seqbuflen s \<and>
    seq_stream s' = seq_stream s @ action_bytes a"
proof (cases a)
  case (Event e)
  then show ?thesis
    using assms event_emits [of s e] by (cases e) (auto simp: emits_def length_event_bytes simp del: event_bytes.simps seq_do.simps)
next
  case Flush
  then show ?thesis
    using dump_stream [OF assms(1)] by auto
next
  case (Patch bs)
  then show ?thesis
    using assms dump_stream [OF assms(1)]
    by (auto simp: SEQ_WRPATCH_def write_ok seq_wf_def seq_stream_def pending_def)
next
  case (Patch2 bs)
  then show ?thesis
    using dump_stream [OF assms(1)] by (auto simp: SEQ_WRPATCH2_def write_ok seq_wf_def seq_stream_def pending_def)
qed

lemma run_stream:
  assumes "seq_run dump write_seq n as s" "8 \<le> n" "n + 8 \<le> int_max"
  shows "seq_wf s \<and> seqbuflen s = n \<and> seq_stream s = concat (map action_bytes as)"
  using assms
proof (induction rule: seq_run.induct)
  case start
  then show ?case
    by (simp add: SEQ_DEFINEBUF_def seq_wf_def seq_stream_def pending_def)
next
  case (step as s a s')
  then show ?case
    using act_stream [of s a] by auto
qed

end

section \<open>A device that takes everything\<close>

definition write_full :: seq_write_fn where
  "write_full s bs = (int (length bs), s\<lparr>device := device s @ bs\<rparr>)"

interpretation full: seq_write write_full
  by unfold_locales (simp add: write_full_def)

section \<open>Properties\<close>


lemma seq_run_example:
  "seq_run (seqbuf_dump write_full) write_full 8 [Event (Midiout 0 7), Event Start_Timer]
     \<lparr>seqbuf = [0x81, 4, 0, 0, 0, 0, 0, 0], seqbuflen = 8, seqbufptr = 8, device = [5, 7, 0, 0]\<rparr>"
proof -
  have "seq_run (seqbuf_dump write_full) write_full 8 ([] @ [Event (Midiout 0 7)])
     \<lparr>seqbuf = [5, 7, 0, 0, 0, 0, 0, 0], seqbuflen = 8, seqbufptr = 4, device = []\<rparr>"
    by (rule seq_run.step [OF seq_run.start]) (simp, code_simp)
  then have "seq_run (seqbuf_dump write_full) write_full 8 (([] @ [Event (Midiout 0 7)]) @ [Event Start_Timer])
     \<lparr>seqbuf = [0x81, 4, 0, 0, 0, 0, 0, 0], seqbuflen = 8, seqbufptr = 8, device = [5, 7, 0, 0]\<rparr>"
    by (rule seq_run.step) (simp, code_simp)
  then show ?thesis
    by simp
qed


text \<open>
  C15: The macros do not check that an event fits an empty buffer. An event with defined arguments is stored inside the
  buffer exactly when the whole buffer is at least as long as the event; in a shorter one it is
  written past the end.
\<close>

theorem seq_event_fits_iff:
  assumes "\<And>s. seq_wf s \<Longrightarrow> \<exists>s'. dump s = Some s' \<and> seq_wf s' \<and> seqbufptr s' = 0 \<and>
      seqbuflen s' = seqbuflen s \<and> device s' = device s @ pending s"
    and "seq_wf s" and "event_ok e"
  shows "(\<exists>s'. seq_do dump e s = Some s') \<longleftrightarrow> (case e of Midiout _ _ \<Rightarrow> 4 | _ \<Rightarrow> 8) \<le> seqbuflen s"
proof -
  have dev: "seq_dump dump"
    using assms(1) by unfold_locales
  have "(\<exists>s'. seq_do dump e s = Some s') \<longleftrightarrow> int (length (event_bytes e)) \<le> seqbuflen s"
    using seq_dump.event_fits [OF dev assms(2)] seq_dump.event_emits [OF dev assms(2,3)] unfolding emits_def by blast
  then show ?thesis
    by (cases e) (simp_all add: length_event_bytes del: event_bytes.simps)
qed

theorem seq_event_fits_iff_witness:
  "seq_do (seqbuf_dump write_full) Start_Timer (SEQ_DEFINEBUF 6) = None"
proof -
  have "seq_wf (SEQ_DEFINEBUF 6)"
    by (simp add: seq_wf_def SEQ_DEFINEBUF_def)
  from seq_event_fits_iff [OF full.sample.dump_ok this, of Start_Timer] show ?thesis
    by (auto simp: SEQ_DEFINEBUF_def)
qed

end
