(* ===== verification/Dhrystone.thy ===== *)
theory Dhrystone
  imports CInt
begin

text \<open>
  The Dhrystone benchmark of the repository's test suite, \<open>test/benchmarks/dhrystone\<close>: the procedures and functions of
  \<open>dhrystone.c\<close> and \<open>dhrystone_main.c\<close> and the measuring loop of \<open>main\<close>.

  A result \<open>None\<close> is behaviour that C leaves undefined (an \<open>int\<close> that overflows, an index outside
  an array, a null pointer, a variable read before it is set) or a loop that does not end.
  \<open>int\<close> is an unbounded integer checked against 32 bits at every operation; a pointer to a record
  is an address in a heap or null; a reference parameter of a scalar type is the value it gets.
  Characters are bytes. Of the union in a record only the variant \<open>var_1\<close> is used by the program,
  so the record has its members. Printing is left out; the final values are those it prints.
\<close>

section \<open>Types and checked operations\<close>

datatype Enumeration = Ident_1 | Ident_2 | Ident_3 | Ident_4 | Ident_5

type_synonym Rec_Pointer = "nat option"
type_synonym Str_30 = "u8 list"

record Rec_Type =
  Ptr_Comp :: Rec_Pointer
  Discr :: Enumeration
  Enum_Comp :: Enumeration
  Int_Comp :: int
  Str_Comp :: Str_30

record globals =
  heap :: "nat \<Rightarrow> Rec_Type option"
  Ptr_Glob :: Rec_Pointer
  Next_Ptr_Glob :: Rec_Pointer
  Int_Glob :: int
  Bool_Glob :: int
  Ch_1_Glob :: u8
  Ch_2_Glob :: u8
  Arr_1_Glob :: "int list"
  Arr_2_Glob :: "int list list"

record locals =
  Int_1_Loc :: "int option"
  Int_2_Loc :: "int option"
  Int_3_Loc :: "int option"
  Enum_Loc :: "Enumeration option"
  Str_1_Loc :: Str_30
  Str_2_Loc :: Str_30

definition strcpy :: "u8 list \<Rightarrow> u8 list \<Rightarrow> u8 list option" where
  "strcpy dst src = memcpy dst 0 (src @ [0]) 0 (length src + 1)"

fun strcmp :: "u8 list \<Rightarrow> u8 list \<Rightarrow> int option" where
  "strcmp (a # as) (b # bs) =
     (if a = b then if a = 0 then Some 0 else strcmp as bs else Some (uint a - uint b))"
| "strcmp _ _ = None"

text \<open>A record through a pointer.\<close>

definition load :: "globals \<Rightarrow> Rec_Pointer \<Rightarrow> Rec_Type option" where
  "load g p = do { a \<leftarrow> p; heap g a }"

definition store :: "Rec_Pointer \<Rightarrow> Rec_Type \<Rightarrow> globals \<Rightarrow> globals option" where
  "store p r g = do { a \<leftarrow> p; _ \<leftarrow> heap g a; Some (g\<lparr>heap := (heap g)(a \<mapsto> r)\<rparr>) }"

section \<open>Functions\<close>

definition Func_1 :: "u8 \<Rightarrow> u8 \<Rightarrow> globals \<Rightarrow> Enumeration \<times> globals" where
  "Func_1 Ch_1_Par_Val Ch_2_Par_Val g =
     (let Ch_1_Loc = Ch_1_Par_Val; Ch_2_Loc = Ch_1_Loc in
      if Ch_2_Loc \<noteq> Ch_2_Par_Val then (Ident_1, g)
      else (Ident_2, g\<lparr>Ch_1_Glob := Ch_1_Loc\<rparr>))"

partial_function (option) Func_2_loop ::
    "Str_30 \<Rightarrow> Str_30 \<Rightarrow> int \<Rightarrow> u8 option \<Rightarrow> globals \<Rightarrow> (int \<times> u8 option \<times> globals) option" where
  "Func_2_loop s1 s2 Int_Loc Ch_Loc g =
     (if Int_Loc \<le> 2 then do {
        a \<leftarrow> at s1 Int_Loc;
        j \<leftarrow> ck (Int_Loc + 1);
        b \<leftarrow> at s2 j;
        case Func_1 a b g of (e, g) \<Rightarrow>
          if e = Ident_1 then do { i \<leftarrow> ck (Int_Loc + 1); Func_2_loop s1 s2 i (Some (ch CHR ''A'')) g }
          else Func_2_loop s1 s2 Int_Loc Ch_Loc g }
      else Some (Int_Loc, Ch_Loc, g))"

definition Func_2 :: "Str_30 \<Rightarrow> Str_30 \<Rightarrow> globals \<Rightarrow> (int \<times> globals) option" where
  "Func_2 Str_1_Par_Ref Str_2_Par_Ref g = do {
     (Int_Loc, c, g) \<leftarrow> Func_2_loop Str_1_Par_Ref Str_2_Par_Ref 2 None g;
     Ch_Loc \<leftarrow> c;
     let Int_Loc = (if Ch_Loc \<ge> ch CHR ''W'' \<and> Ch_Loc < ch CHR ''Z'' then 7 else Int_Loc) in
     if Ch_Loc = ch CHR ''R'' then Some (1, g)
     else do {
       r \<leftarrow> strcmp Str_1_Par_Ref Str_2_Par_Ref;
       if r > 0 then do { i \<leftarrow> ck (Int_Loc + 7); Some (1, g\<lparr>Int_Glob := i\<rparr>) }
       else Some (0, g) } }"

definition Func_3 :: "Enumeration \<Rightarrow> int" where
  "Func_3 Enum_Par_Val = (let Enum_Loc = Enum_Par_Val in if Enum_Loc = Ident_3 then 1 else 0)"

section \<open>Procedures\<close>

definition Proc_7 :: "int \<Rightarrow> int \<Rightarrow> int option" where
  "Proc_7 Int_1_Par_Val Int_2_Par_Val = do {
     Int_Loc \<leftarrow> ck (Int_1_Par_Val + 2);
     ck (Int_2_Par_Val + Int_Loc) }"

definition Proc_6 :: "Enumeration \<Rightarrow> globals \<Rightarrow> Enumeration" where
  "Proc_6 Enum_Val_Par g =
     (let r = Enum_Val_Par;
          r = (if Func_3 Enum_Val_Par = 0 then Ident_4 else r) in
      case Enum_Val_Par of
        Ident_1 \<Rightarrow> Ident_1
      | Ident_2 \<Rightarrow> (if Int_Glob g > 100 then Ident_1 else Ident_4)
      | Ident_3 \<Rightarrow> Ident_2
      | Ident_4 \<Rightarrow> r
      | Ident_5 \<Rightarrow> Ident_3)"

text \<open>The reference parameter of \<open>Proc_3\<close> is the member \<open>Ptr_Comp\<close> of the record at \<open>p\<close>.\<close>

definition Proc_3 :: "Rec_Pointer \<Rightarrow> globals \<Rightarrow> globals option" where
  "Proc_3 p g = do {
     g \<leftarrow> (if Ptr_Glob g \<noteq> None then do {
             q \<leftarrow> load g (Ptr_Glob g); r \<leftarrow> load g p; store p (r\<lparr>Ptr_Comp := Ptr_Comp q\<rparr>) g }
           else Some g);
     v \<leftarrow> Proc_7 10 (Int_Glob g);
     q \<leftarrow> load g (Ptr_Glob g);
     store (Ptr_Glob g) (q\<lparr>Int_Comp := v\<rparr>) g }"

definition Proc_1 :: "Rec_Pointer \<Rightarrow> globals \<Rightarrow> globals option" where
  "Proc_1 Ptr_Val_Par g = do {
     r \<leftarrow> load g Ptr_Val_Par;
     Next_Record \<leftarrow> Some (Ptr_Comp r);
     q \<leftarrow> load g (Ptr_Glob g);
     g \<leftarrow> store (Ptr_Comp r) q g;
     r \<leftarrow> load g Ptr_Val_Par;
     g \<leftarrow> store Ptr_Val_Par (r\<lparr>Int_Comp := 5\<rparr>) g;
     r \<leftarrow> load g Ptr_Val_Par;
     n \<leftarrow> load g Next_Record;
     g \<leftarrow> store Next_Record (n\<lparr>Int_Comp := Int_Comp r\<rparr>) g;
     r \<leftarrow> load g Ptr_Val_Par;
     n \<leftarrow> load g Next_Record;
     g \<leftarrow> store Next_Record (n\<lparr>Ptr_Comp := Ptr_Comp r\<rparr>) g;
     g \<leftarrow> Proc_3 Next_Record g;
     n \<leftarrow> load g Next_Record;
     if Discr n = Ident_1 then do {
       g \<leftarrow> store Next_Record (n\<lparr>Int_Comp := 6\<rparr>) g;
       r \<leftarrow> load g Ptr_Val_Par;
       n \<leftarrow> load g Next_Record;
       g \<leftarrow> store Next_Record (n\<lparr>Enum_Comp := Proc_6 (Enum_Comp r) g\<rparr>) g;
       q \<leftarrow> load g (Ptr_Glob g);
       n \<leftarrow> load g Next_Record;
       g \<leftarrow> store Next_Record (n\<lparr>Ptr_Comp := Ptr_Comp q\<rparr>) g;
       n \<leftarrow> load g Next_Record;
       v \<leftarrow> Proc_7 (Int_Comp n) 10;
       store Next_Record (n\<lparr>Int_Comp := v\<rparr>) g }
     else do {
       r \<leftarrow> load g Ptr_Val_Par;
       n \<leftarrow> load g (Ptr_Comp r);
       store Ptr_Val_Par n g } }"

text \<open>\<open>Enum_Loc\<close> of \<open>Proc_2\<close> has no value until the branch is taken.\<close>

partial_function (option) Proc_2_loop :: "int \<Rightarrow> int \<Rightarrow> Enumeration option \<Rightarrow> globals \<Rightarrow> int option" where
  "Proc_2_loop Int_Loc r e g = do {
     (Int_Loc, r, e) \<leftarrow>
       (if Ch_1_Glob g = ch CHR ''A'' then do {
          l \<leftarrow> ck (Int_Loc - 1); r \<leftarrow> ck (l - Int_Glob g); Some (l, r, Some Ident_1) }
        else Some (Int_Loc, r, e));
     v \<leftarrow> e;
     if v \<noteq> Ident_1 then Proc_2_loop Int_Loc r e g else Some r }"

definition Proc_2 :: "int \<Rightarrow> globals \<Rightarrow> int option" where
  "Proc_2 Int_Par_Ref g = do { Int_Loc \<leftarrow> ck (Int_Par_Ref + 10); Proc_2_loop Int_Loc Int_Par_Ref None g }"

text \<open>Booleans are 0 and 1, so the bitwise disjunction of the source is that of the two numbers.\<close>

definition Proc_4 :: "globals \<Rightarrow> globals" where
  "Proc_4 g =
     (let Bool_Loc = (if Ch_1_Glob g = ch CHR ''A'' then 1 else 0);
          g = g\<lparr>Bool_Glob := Bool_Loc OR Bool_Glob g\<rparr> in
      g\<lparr>Ch_2_Glob := ch CHR ''B''\<rparr>)"

definition Proc_5 :: "globals \<Rightarrow> globals" where
  "Proc_5 g = (let g = g\<lparr>Ch_1_Glob := ch CHR ''A''\<rparr> in g\<lparr>Bool_Glob := 0\<rparr>)"

definition set_at2 :: "int list list \<Rightarrow> int \<Rightarrow> int \<Rightarrow> int \<Rightarrow> int list list option" where
  "set_at2 a i j v = do { row \<leftarrow> at a i; row \<leftarrow> set_at row j v; set_at a i row }"

definition at2 :: "int list list \<Rightarrow> int \<Rightarrow> int \<Rightarrow> int option" where
  "at2 a i j = do { row \<leftarrow> at a i; at row j }"

partial_function (option) Proc_8_loop :: "int \<Rightarrow> int \<Rightarrow> int list list \<Rightarrow> int list list option" where
  "Proc_8_loop Int_Index Int_Loc a = do {
     l \<leftarrow> ck (Int_Loc + 1);
     if Int_Index \<le> l then do {
       a \<leftarrow> set_at2 a Int_Loc Int_Index Int_Loc;
       i \<leftarrow> ck (Int_Index + 1);
       Proc_8_loop i Int_Loc a }
     else Some a }"

definition Proc_8 ::
    "int list \<Rightarrow> int list list \<Rightarrow> int \<Rightarrow> int \<Rightarrow> globals \<Rightarrow> (int list \<times> int list list \<times> globals) option" where
  "Proc_8 a1 a2 Int_1_Par_Val Int_2_Par_Val g = do {
     Int_Loc \<leftarrow> ck (Int_1_Par_Val + 5);
     a1 \<leftarrow> set_at a1 Int_Loc Int_2_Par_Val;
     v \<leftarrow> at a1 Int_Loc;
     i \<leftarrow> ck (Int_Loc + 1);
     a1 \<leftarrow> set_at a1 i v;
     i \<leftarrow> ck (Int_Loc + 30);
     a1 \<leftarrow> set_at a1 i Int_Loc;
     a2 \<leftarrow> Proc_8_loop Int_Loc Int_Loc a2;
     i \<leftarrow> ck (Int_Loc - 1);
     v \<leftarrow> at2 a2 Int_Loc i;
     v \<leftarrow> ck (v + 1);
     a2 \<leftarrow> set_at2 a2 Int_Loc i v;
     i \<leftarrow> ck (Int_Loc + 20);
     v \<leftarrow> at a1 Int_Loc;
     a2 \<leftarrow> set_at2 a2 i Int_Loc v;
     Some (a1, a2, g\<lparr>Int_Glob := 5\<rparr>) }"

section \<open>The main program\<close>

definition str_some :: Str_30 where "str_some = lit ''DHRYSTONE PROGRAM, SOME STRING''"
definition str_1st :: Str_30 where "str_1st = lit ''DHRYSTONE PROGRAM, 1'ST STRING''"
definition str_2nd :: Str_30 where "str_2nd = lit ''DHRYSTONE PROGRAM, 2'ND STRING''"
definition str_3rd :: Str_30 where "str_3rd = lit ''DHRYSTONE PROGRAM, 3'RD STRING''"

partial_function (option) while_7 :: "int \<Rightarrow> int \<Rightarrow> int option \<Rightarrow> (int \<times> int option) option" where
  "while_7 i1 i2 i3 =
     (if i1 < i2 then do {
        m \<leftarrow> ck (5 * i1);
        t \<leftarrow> ck (m - i2);
        i3 \<leftarrow> Proc_7 i1 i2;
        i1 \<leftarrow> ck (i1 + 1);
        while_7 i1 i2 (Some i3) }
      else Some (i1, i3))"

partial_function (option) for_ch :: "u8 \<Rightarrow> int \<Rightarrow> locals \<Rightarrow> globals \<Rightarrow> (locals \<times> globals) option" where
  "for_ch Ch_Index Run_Index l g =
     (if Ch_Index \<le> Ch_2_Glob g then do {
        e \<leftarrow> Enum_Loc l;
        (l, g) \<leftarrow>
          (case Func_1 Ch_Index (ch CHR ''C'') g of (f, g) \<Rightarrow>
             if e = f then do {
               l \<leftarrow> Some (l\<lparr>Enum_Loc := Some (Proc_6 Ident_1 g)\<rparr>);
               s \<leftarrow> strcpy (Str_2_Loc l) str_3rd;
               Some (l\<lparr>Str_2_Loc := s, Int_2_Loc := Some Run_Index\<rparr>, g\<lparr>Int_Glob := Run_Index\<rparr>) }
             else Some (l, g));
        for_ch (Ch_Index + 1) Run_Index l g }
      else Some (l, g))"

text \<open>The body of the loop over \<open>Run_Index\<close>.\<close>

definition one_run :: "int \<Rightarrow> locals \<Rightarrow> globals \<Rightarrow> (locals \<times> globals) option" where
  "one_run Run_Index l g = do {
     g \<leftarrow> Some (Proc_4 (Proc_5 g));
     l \<leftarrow> Some (l\<lparr>Int_1_Loc := Some 2, Int_2_Loc := Some 3\<rparr>);
     s \<leftarrow> strcpy (Str_2_Loc l) str_2nd;
     l \<leftarrow> Some (l\<lparr>Str_2_Loc := s, Enum_Loc := Some Ident_2\<rparr>);
     (b, g) \<leftarrow> Func_2 (Str_1_Loc l) (Str_2_Loc l) g;
     g \<leftarrow> Some (g\<lparr>Bool_Glob := (if b = 0 then 1 else 0)\<rparr>);
     i1 \<leftarrow> Int_1_Loc l;
     i2 \<leftarrow> Int_2_Loc l;
     (i1, i3) \<leftarrow> while_7 i1 i2 (Int_3_Loc l);
     l \<leftarrow> Some (l\<lparr>Int_1_Loc := Some i1, Int_3_Loc := i3\<rparr>);
     i3 \<leftarrow> i3;
     (a1, a2, g) \<leftarrow> Proc_8 (Arr_1_Glob g) (Arr_2_Glob g) i1 i3 g;
     g \<leftarrow> Some (g\<lparr>Arr_1_Glob := a1, Arr_2_Glob := a2\<rparr>);
     g \<leftarrow> Proc_1 (Ptr_Glob g) g;
     (l, g) \<leftarrow> for_ch (ch CHR ''A'') Run_Index l g;
     i1 \<leftarrow> Int_1_Loc l;
     i2 \<leftarrow> Int_2_Loc l;
     i3 \<leftarrow> Int_3_Loc l;
     i2 \<leftarrow> ck (i2 * i1);
     i1 \<leftarrow> cdiv i2 i3;
     d \<leftarrow> ck (i2 - i3);
     m \<leftarrow> ck (7 * d);
     i2 \<leftarrow> ck (m - i1);
     i1 \<leftarrow> Proc_2 i1 g;
     Some (l\<lparr>Int_1_Loc := Some i1, Int_2_Loc := Some i2\<rparr>, g) }"

partial_function (option) runs :: "int \<Rightarrow> int \<Rightarrow> locals \<Rightarrow> globals \<Rightarrow> (locals \<times> globals) option" where
  "runs Run_Index Number_Of_Runs l g =
     (if Run_Index \<le> Number_Of_Runs then do {
        (l, g) \<leftarrow> one_run Run_Index l g;
        i \<leftarrow> ck (Run_Index + 1);
        runs i Number_Of_Runs l g }
      else Some (l, g))"

text \<open>
  The measuring loop. \<open>elapsed k\<close> is what the clock, which is not part of the repository, gives
  as \<open>End_Time - Begin_Time\<close> for the \<open>k\<close>-th attempt, \<open>hz\<close> the ticks per second of the C library.
\<close>

partial_function (option) measure_loop ::
    "(nat \<Rightarrow> int) \<Rightarrow> int \<Rightarrow> nat \<Rightarrow> int \<Rightarrow> locals \<Rightarrow> globals \<Rightarrow> (nat \<times> int \<times> locals \<times> globals) option" where
  "measure_loop elapsed hz k Number_Of_Runs l g = do {
     (l, g) \<leftarrow> runs 1 Number_Of_Runs l g;
     too_small \<leftarrow> ck (2 * hz);
     if elapsed k < too_small then do {
       n \<leftarrow> ck (Number_Of_Runs * 10);
       measure_loop elapsed hz (k + 1) n l g }
     else Some (k, Number_Of_Runs, l, g) }"

abbreviation (input) NUMBER_OF_RUNS :: int where "NUMBER_OF_RUNS \<equiv> 1000"

text \<open>
  The initialisations: two records that \<open>alloca\<close> provides (their old contents are \<open>junk\<close>), at
  addresses \<open>0\<close> and \<open>1\<close>; global variables that are not initialised are zero.
\<close>

definition init_globals :: "Rec_Type \<Rightarrow> globals option" where
  "init_globals junk = do {
     g \<leftarrow> Some \<lparr>heap = [0 \<mapsto> junk, 1 \<mapsto> junk], Ptr_Glob = None, Next_Ptr_Glob = None, Int_Glob = 0,
       Bool_Glob = 0, Ch_1_Glob = 0, Ch_2_Glob = 0, Arr_1_Glob = replicate 50 0,
       Arr_2_Glob = replicate 50 (replicate 50 0)\<rparr>;
     g \<leftarrow> Some (g\<lparr>Next_Ptr_Glob := Some 0\<rparr>);
     g \<leftarrow> Some (g\<lparr>Ptr_Glob := Some 1\<rparr>);
     r \<leftarrow> load g (Ptr_Glob g);
     s \<leftarrow> strcpy (Str_Comp r) str_some;
     g \<leftarrow> store (Ptr_Glob g) (r\<lparr>Ptr_Comp := Next_Ptr_Glob g, Discr := Ident_1, Enum_Comp := Ident_3,
        Int_Comp := 40, Str_Comp := s\<rparr>) g;
     a \<leftarrow> set_at2 (Arr_2_Glob g) 8 7 10;
     Some (g\<lparr>Arr_2_Glob := a\<rparr>) }"

definition init_locals :: "Str_30 \<Rightarrow> Str_30 \<Rightarrow> locals option" where
  "init_locals junk_1 junk_2 = do {
     s \<leftarrow> strcpy junk_1 str_1st;
     Some \<lparr>Int_1_Loc = None, Int_2_Loc = None, Int_3_Loc = None, Enum_Loc = None, Str_1_Loc = s,
       Str_2_Loc = junk_2\<rparr> }"

definition main :: "(nat \<Rightarrow> int) \<Rightarrow> int \<Rightarrow> Rec_Type \<Rightarrow> Str_30 \<Rightarrow> Str_30 \<Rightarrow>
    (int \<times> locals \<times> globals \<times> int \<times> int) option" where
  "main elapsed hz junk junk_1 junk_2 = do {
     g \<leftarrow> init_globals junk;
     l \<leftarrow> init_locals junk_1 junk_2;
     (k, n, l, g) \<leftarrow> measure_loop elapsed hz 0 NUMBER_OF_RUNS l g;
     User_Time \<leftarrow> Some (elapsed k);
     q \<leftarrow> ldiv User_Time n;
     q \<leftarrow> lck (q * 1000000);
     Microseconds \<leftarrow> ldiv q hz;
     m \<leftarrow> ck (hz * n);
     Dhrystones_Per_Second \<leftarrow> ldiv m User_Time;
     Some (n, l, g, Microseconds, Dhrystones_Per_Second) }"

section \<open>What the parts compute\<close>

lemma strings:
  "length str_some = 30" "length str_1st = 30" "length str_2nd = 30" "length str_3rd = 30"
  by code_simp+

lemma strcpy_whole [simp]: "length dst = Suc (length src) \<Longrightarrow> strcpy dst src = Some (src @ [0])"
  by (simp add: strcpy_def)

lemma Func_2_strings: "Func_2 (str_1st @ [0]) (str_2nd @ [0]) g = Some (0, g)"
proof -
  have at: "at (str_1st @ [0]) 2 = Some (ch CHR ''R'')" "at (str_2nd @ [0]) 3 = Some (ch CHR ''Y'')"
    by code_simp+
  have ne: "ch CHR ''R'' \<noteq> ch CHR ''Y''" "ch CHR ''A'' \<noteq> ch CHR ''R''" "\<not> ch CHR ''A'' \<ge> ch CHR ''W''"
    by code_simp+
  have cmp: "strcmp (str_1st @ [0]) (str_2nd @ [0]) = Some (- 1)"
    by code_simp
  have "Func_2_loop (str_1st @ [0]) (str_2nd @ [0]) 3 (Some c) g = Some (3, Some c, g)" for c
    by (subst Func_2_loop.simps) simp
  then have "Func_2_loop (str_1st @ [0]) (str_2nd @ [0]) 2 None g = Some (3, Some (ch CHR ''A''), g)"
    using at ne(1) by (subst Func_2_loop.simps) (simp add: Func_1_def)
  then show ?thesis
    using ne cmp by (simp add: Func_2_def)
qed

lemma while_7_once: "while_7 2 3 i3 = Some (3, Some 7)"
proof -
  have "while_7 3 3 (Some 7) = Some (3, Some 7)"
    by (subst while_7.simps) simp
  then show ?thesis
    by (subst while_7.simps) (simp add: Proc_7_def)
qed

lemma Proc_2_one: "Ch_1_Glob g = ch CHR ''A'' \<Longrightarrow> Int_Glob g = 5 \<Longrightarrow> Proc_2 1 g = Some 5"
  unfolding Proc_2_def by (simp, subst Proc_2_loop.simps, simp)

text \<open>The loop over the letters runs twice and does nothing, because neither letter is a C.\<close>

lemma for_ch_idle:
  assumes "Ch_2_Glob g = ch CHR ''B''" and "Enum_Loc l = Some Ident_2"
  shows "for_ch (ch CHR ''A'') i l g = Some (l, g)"
proof -
  have ch: "ch CHR ''A'' + 1 = ch CHR ''B''" "ch CHR ''B'' + 1 = ch CHR ''C''" "ch CHR ''A'' \<le> ch CHR ''B''"
    "\<not> ch CHR ''C'' \<le> ch CHR ''B''" "ch CHR ''A'' \<noteq> ch CHR ''C''" "ch CHR ''B'' \<noteq> ch CHR ''C''"
    by code_simp+
  have c: "for_ch (ch CHR ''C'') i l g = Some (l, g)"
    using assms ch by (subst for_ch.simps) simp
  have b: "for_ch (ch CHR ''B'') i l g = Some (l, g)"
    using assms ch c by (subst for_ch.simps) (simp add: Func_1_def)
  show ?thesis
    using assms ch b by (subst for_ch.simps) (simp add: Func_1_def)
qed

text \<open>The arrays after \<open>Proc_8\<close> with the values it is called with.\<close>

lemma Proc_8_arrays:
  assumes "length a1 = 50" and "length a2 = 50" and "length (a2 ! 8) = 50" and "length (a2 ! 28) = 50"
    and "a2 ! 8 ! 7 < int_max" and "- int_max \<le> a2 ! 8 ! 7"
  shows "Proc_8 a1 a2 3 7 g =
    Some (a1[8 := 7, 9 := 7, 38 := 8],
      a2[8 := (a2 ! 8)[8 := 8, 9 := 8, 7 := a2 ! 8 ! 7 + 1], 28 := (a2 ! 28)[8 := 7]], g\<lparr>Int_Glob := 5\<rparr>)"
proof -
  have loop10: "Proc_8_loop 10 8 a = Some a" for a
    by (subst Proc_8_loop.simps) simp
  have loop9: "Proc_8_loop 9 8 a = Some (a[8 := (a ! 8)[9 := 8]])"
    if "length a = 50" "length (a ! 8) = 50" for a
    using that by (subst Proc_8_loop.simps) (simp add: set_at2_def loop10)
  have "Proc_8_loop 8 8 a2 = Some (a2[8 := (a2 ! 8)[8 := 8, 9 := 8]])"
    using assms by (subst Proc_8_loop.simps) (simp add: set_at2_def loop9)
  then show ?thesis
    using assms by (simp add: Proc_8_def set_at2_def at2_def)
qed

text \<open>\<open>Proc_1\<close> on two different records, the first of which is the one \<open>Ptr_Glob\<close> points to.\<close>

lemma Proc_1_records:
  assumes "Ptr_Glob g = Some p" and "p \<noteq> q" and "heap g p = Some r" and "heap g q = Some n"
    and "Ptr_Comp r = Some q" and "Discr r = Ident_1" and "Enum_Comp r = Ident_3" and "Int_Glob g = 5"
  shows "Proc_1 (Some p) g = Some (g\<lparr>heap := (heap g)(p \<mapsto> r\<lparr>Int_Comp := 17\<rparr>,
    q \<mapsto> r\<lparr>Enum_Comp := Ident_2, Ptr_Comp := Some q, Int_Comp := 18\<rparr>)\<rparr>)"
  using assms
  by (simp add: Proc_1_def Proc_3_def load_def store_def Proc_7_def Proc_6_def fun_upd_twist)

section \<open>The loop invariant\<close>

text \<open>
  What holds before every run: the two records, the array sizes, the first string, and the
  element of \<open>Arr_2_Glob\<close> that counts the runs.
\<close>

definition dhry_inv :: "int \<Rightarrow> locals \<Rightarrow> globals \<Rightarrow> bool" where
  "dhry_inv count l g \<longleftrightarrow>
     Ptr_Glob g = Some 1 \<and> Next_Ptr_Glob g = Some 0 \<and> heap g 0 \<noteq> None \<and>
     (case heap g 1 of None \<Rightarrow> False
      | Some r \<Rightarrow> Ptr_Comp r = Some 0 \<and> Discr r = Ident_1 \<and> Enum_Comp r = Ident_3 \<and> Str_Comp r = str_some @ [0]) \<and>
     length (Arr_1_Glob g) = 50 \<and> length (Arr_2_Glob g) = 50 \<and> length (Arr_2_Glob g ! 8) = 50 \<and>
     length (Arr_2_Glob g ! 28) = 50 \<and> Arr_2_Glob g ! 8 ! 7 = count \<and>
     Str_1_Loc l = str_1st @ [0] \<and> length (Str_2_Loc l) = 31"

text \<open>The values that the end of \<open>main\<close> prints next to what they should be.\<close>

definition should_be :: "locals \<Rightarrow> globals \<Rightarrow> bool" where
  "should_be l g \<longleftrightarrow>
     Int_Glob g = 5 \<and> Bool_Glob g = 1 \<and> Ch_1_Glob g = ch CHR ''A'' \<and> Ch_2_Glob g = ch CHR ''B'' \<and>
     at (Arr_1_Glob g) 8 = Some 7 \<and>
     load g (Ptr_Glob g) = Some \<lparr>Ptr_Comp = Next_Ptr_Glob g, Discr = Ident_1, Enum_Comp = Ident_3,
       Int_Comp = 17, Str_Comp = str_some @ [0]\<rparr> \<and>
     load g (Next_Ptr_Glob g) = Some \<lparr>Ptr_Comp = Next_Ptr_Glob g, Discr = Ident_1, Enum_Comp = Ident_2,
       Int_Comp = 18, Str_Comp = str_some @ [0]\<rparr> \<and>
     Int_1_Loc l = Some 5 \<and> Int_2_Loc l = Some 13 \<and> Int_3_Loc l = Some 7 \<and> Enum_Loc l = Some Ident_2 \<and>
     Str_1_Loc l = str_1st @ [0] \<and> Str_2_Loc l = str_2nd @ [0]"

lemma one_run_inv:
  assumes "dhry_inv count l g" and "- int_max \<le> count" and "count < int_max"
  shows "\<exists>l' g'. one_run i l g = Some (l', g') \<and> dhry_inv (count + 1) l' g' \<and> should_be l' g'"
proof -
  obtain r n where r: "heap g 1 = Some r" "Ptr_Comp r = Some 0" "Discr r = Ident_1" "Enum_Comp r = Ident_3"
      "Str_Comp r = str_some @ [0]" and n: "heap g 0 = Some n"
    using assms(1) by (auto simp: dhry_inv_def split: option.splits)
  have inv: "Ptr_Glob g = Some 1" "Next_Ptr_Glob g = Some 0" "length (Arr_1_Glob g) = 50"
    "length (Arr_2_Glob g) = 50" "length (Arr_2_Glob g ! 8) = 50" "length (Arr_2_Glob g ! 28) = 50"
    "Arr_2_Glob g ! 8 ! 7 = count" "Str_1_Loc l = str_1st @ [0]" "length (Str_2_Loc l) = 31"
    using assms(1) by (auto simp: dhry_inv_def)
  define g1 where "g1 = (Proc_4 (Proc_5 g))\<lparr>Bool_Glob := 1\<rparr>"
  define a1 where "a1 = (Arr_1_Glob g)[8 := 7, 9 := 7, 38 := 8]"
  define a2 where "a2 = (Arr_2_Glob g)[8 := (Arr_2_Glob g ! 8)[8 := 8, 9 := 8, 7 := count + 1],
    28 := (Arr_2_Glob g ! 28)[8 := 7]]"
  define g2 where "g2 = g1\<lparr>Int_Glob := 5, Arr_1_Glob := a1, Arr_2_Glob := a2\<rparr>"
  define g3 where "g3 = g2\<lparr>heap := (heap g)(1 \<mapsto> r\<lparr>Int_Comp := 17\<rparr>,
    0 \<mapsto> r\<lparr>Enum_Comp := Ident_2, Ptr_Comp := Some 0, Int_Comp := 18\<rparr>)\<rparr>"
  have p8: "Proc_8 (Arr_1_Glob (Proc_4 (Proc_5 g))) (Arr_2_Glob (Proc_4 (Proc_5 g))) 3 7 g1 = Some (a1, a2, g1\<lparr>Int_Glob := 5\<rparr>)"
    using Proc_8_arrays [of "Arr_1_Glob g" "Arr_2_Glob g" g1] inv assms(2,3)
    by (simp add: g1_def Proc_4_def Proc_5_def a1_def a2_def)
  have p1: "Proc_1 (Some 1) g2 = Some g3"
    using Proc_1_records [of g2 1 0 r n] r n inv(1)
    by (simp add: g3_def g2_def g1_def Proc_4_def Proc_5_def)
  have chars: "Ch_1_Glob g3 = ch CHR ''A''" "Ch_2_Glob g3 = ch CHR ''B''" "Int_Glob g3 = 5"
    by (simp_all add: g3_def g2_def g1_def Proc_4_def Proc_5_def)
  define l' where "l' = l\<lparr>Int_1_Loc := Some 5, Int_2_Loc := Some 13, Int_3_Loc := Some 7,
    Enum_Loc := Some Ident_2, Str_2_Loc := str_2nd @ [0]\<rparr>"
  have g2: "g1\<lparr>Int_Glob := 5, Arr_1_Glob := a1, Arr_2_Glob := a2\<rparr> = g2" "Ptr_Glob g1 = Some 1"
    using inv(1) by (simp_all add: g2_def g1_def Proc_4_def Proc_5_def)
  have idle: "for_ch (ch CHR ''A'') i (l\<lparr>Int_2_Loc := Some 3, Str_2_Loc := str_2nd @ [0],
      Enum_Loc := Some Ident_2, Int_1_Loc := Some 3, Int_3_Loc := Some 7\<rparr>) g3 =
    Some (l\<lparr>Int_2_Loc := Some 3, Str_2_Loc := str_2nd @ [0], Enum_Loc := Some Ident_2,
      Int_1_Loc := Some 3, Int_3_Loc := Some 7\<rparr>, g3)"
    using chars(2) by (intro for_ch_idle) simp_all
  have "one_run i l g = Some (l', g3)"
    using inv(8,9) p8 p1 g2 idle Proc_2_one [OF chars(1,3)]
    by (simp add: one_run_def strings Func_2_strings while_7_once g1_def [symmetric] cdiv_def l'_def)
  moreover have "dhry_inv (count + 1) l' g3"
    using inv r by (simp add: dhry_inv_def l'_def g3_def g2_def g1_def Proc_4_def Proc_5_def a1_def a2_def strings)
  moreover have "should_be l' g3"
    using inv r by (simp add: should_be_def l'_def g3_def g2_def g1_def Proc_4_def Proc_5_def a1_def a2_def load_def)
  ultimately show ?thesis
    by blast
qed

lemma runs_inv:
  "dhry_inv c l g \<Longrightarrow> 0 \<le> c \<Longrightarrow> n < int_max \<Longrightarrow> c + (n + 1 - i) \<le> int_max \<Longrightarrow> 1 \<le> i \<Longrightarrow> i \<le> n + 1 \<Longrightarrow>
   \<exists>l' g'. runs i n l g = Some (l', g') \<and> dhry_inv (c + (n + 1 - i)) l' g' \<and> (i \<le> n \<longrightarrow> should_be l' g')"
proof (induction "nat (n + 1 - i)" arbitrary: i c l g)
  case 0
  then have "i = n + 1"
    by simp
  with 0 show ?case
    by (subst runs.simps) simp
next
  case (Suc d)
  then have i: "i \<le> n"
    by simp
  then obtain l1 g1 where run: "one_run i l g = Some (l1, g1)" and inv: "dhry_inv (c + 1) l1 g1"
    and sb: "should_be l1 g1"
    using one_run_inv [of c l g i] Suc.prems by auto
  have "\<exists>l' g'. runs (i + 1) n l1 g1 = Some (l', g') \<and> dhry_inv (c + 1 + (n + 1 - (i + 1))) l' g' \<and>
      (i + 1 \<le> n \<longrightarrow> should_be l' g')"
    using Suc.hyps(2) Suc.prems i inv by (intro Suc.hyps(1)) auto
  then obtain l' g' where rest: "runs (i + 1) n l1 g1 = Some (l', g')"
    and inv': "dhry_inv (c + (n + 1 - i)) l' g'" and sb': "i + 1 \<le> n \<Longrightarrow> should_be l' g'"
    by (auto simp: algebra_simps)
  have "runs i n l g = Some (l', g')"
    using i run rest Suc.prems(3,5) by (subst runs.simps) simp
  moreover have "should_be l' g'"
  proof (cases "i + 1 \<le> n")
    case False
    then have "runs (i + 1) n l1 g1 = Some (l1, g1)"
      by (subst runs.simps) simp
    with rest sb show ?thesis
      by simp
  qed (rule sb')
  ultimately show ?case
    using inv' by blast
qed

section \<open>The measuring loop\<close>

text \<open>The number of runs of the \<open>k\<close>-th attempt, and of all attempts before it.\<close>

definition runs_of :: "nat \<Rightarrow> int" where
  "runs_of k = NUMBER_OF_RUNS * 10 ^ k"

definition runs_before :: "nat \<Rightarrow> int" where
  "runs_before k = (\<Sum>j < k. runs_of j)"

lemma runs_before_Suc: "runs_before (Suc k) = runs_before k + runs_of k"
  by (simp add: runs_before_def)

lemma runs_before_closed: "9 * runs_before k = 1000 * 10 ^ k - 1000"
  by (induction k) (simp_all add: runs_before_def runs_of_def algebra_simps)

lemma runs_bounds:
  assumes "k \<le> 6"
  shows "1000 \<le> runs_of k" "runs_of k \<le> 1000000000" "0 \<le> runs_before k"
    "10 + runs_before (Suc k) \<le> int_max"
proof -
  have "(10 :: int) ^ k \<le> 10 ^ 6"
    using assms by (rule power_increasing) simp
  then have p: "(10 :: int) ^ k \<le> 1000000" "1 \<le> (10 :: int) ^ k"
    by simp_all
  then show "1000 \<le> runs_of k" "runs_of k \<le> 1000000000"
    by (simp_all add: runs_of_def)
  show "0 \<le> runs_before k"
    using runs_before_closed [of k] p by linarith
  show "10 + runs_before (Suc k) \<le> int_max"
    using runs_before_closed [of "Suc k"] p by simp
qed

lemma one_attempt:
  assumes "k \<le> 6" and "dhry_inv (10 + runs_before k) l g"
  shows "\<exists>l' g'. runs 1 (runs_of k) l g = Some (l', g') \<and> dhry_inv (10 + runs_before (Suc k)) l' g' \<and> should_be l' g'"
  using runs_inv [OF assms(2), of "runs_of k" 1] runs_bounds [OF assms(1)]
  by (auto simp: runs_before_Suc algebra_simps)

lemma measure_loop_result:
  assumes "k \<le> m" and "m \<le> 6" and "dhry_inv (10 + runs_before k) l g" and "0 < hz" and "2 * hz \<le> int_max"
    and "\<And>j. k \<le> j \<Longrightarrow> j < m \<Longrightarrow> elapsed j < 2 * hz" and "2 * hz \<le> elapsed m"
  shows "\<exists>l' g'. measure_loop elapsed hz k (runs_of k) l g = Some (m, runs_of m, l', g') \<and>
    dhry_inv (10 + runs_before (Suc m)) l' g' \<and> should_be l' g'"
  using assms
proof (induction "m - k" arbitrary: k l g)
  case 0
  then have "k = m"
    by simp
  then obtain l' g' where "runs 1 (runs_of k) l g = Some (l', g')" "dhry_inv (10 + runs_before (Suc k)) l' g'"
    "should_be l' g'"
    using one_attempt [of k l g] 0 by auto
  then show ?case
    using 0 \<open>k = m\<close> by (subst measure_loop.simps) simp
next
  case (Suc d)
  then have k: "k < m" "k \<le> 6"
    by auto
  then obtain l1 g1 where run: "runs 1 (runs_of k) l g = Some (l1, g1)"
    and inv: "dhry_inv (10 + runs_before (Suc k)) l1 g1"
    using one_attempt [of k l g] Suc.prems by auto
  have ten: "runs_of k * 10 = runs_of (Suc k)" "runs_of (Suc k) \<le> 1000000000"
    using k Suc.prems(2) runs_bounds(2) [of "Suc k"] by (simp_all add: runs_of_def)
  have "\<exists>l' g'. measure_loop elapsed hz (Suc k) (runs_of (Suc k)) l1 g1 = Some (m, runs_of m, l', g') \<and>
      dhry_inv (10 + runs_before (Suc m)) l' g' \<and> should_be l' g'"
    using Suc.hyps(2) Suc.prems k inv by (intro Suc.hyps(1)) auto
  then show ?case
    using run ten Suc.prems k runs_bounds(1) [OF k(2)] by (subst measure_loop.simps) simp
qed

text \<open>Seven attempts that are all too short end in an overflow of \<open>Number_Of_Runs\<close>.\<close>

lemma measure_loop_overflow:
  assumes "k \<le> 6" and "dhry_inv (10 + runs_before k) l g" and "0 < hz" and "2 * hz \<le> int_max"
    and "\<And>j. k \<le> j \<Longrightarrow> j \<le> 6 \<Longrightarrow> elapsed j < 2 * hz"
  shows "measure_loop elapsed hz k (runs_of k) l g = None"
  using assms
proof (induction "6 - k" arbitrary: k l g)
  case 0
  then have "k = 6"
    by simp
  obtain l1 g1 where "runs 1 (runs_of k) l g = Some (l1, g1)"
    using one_attempt [of k l g] 0 by auto
  then show ?case
    using 0 \<open>k = 6\<close> by (subst measure_loop.simps) (simp add: runs_of_def ck_def)
next
  case (Suc d)
  then have k: "k < 6"
    by auto
  then obtain l1 g1 where run: "runs 1 (runs_of k) l g = Some (l1, g1)"
    and inv: "dhry_inv (10 + runs_before (Suc k)) l1 g1"
    using one_attempt [of k l g] Suc.prems by auto
  have ten: "runs_of k * 10 = runs_of (Suc k)" "runs_of (Suc k) \<le> 1000000000"
    using k runs_bounds(2) [of "Suc k"] by (simp_all add: runs_of_def)
  have "measure_loop elapsed hz (Suc k) (runs_of (Suc k)) l1 g1 = None"
    using Suc.hyps(2) Suc.prems k inv by (intro Suc.hyps(1)) auto
  then show ?case
    using run ten Suc.prems k runs_bounds(1) [of k] by (subst measure_loop.simps) simp
qed

lemma init_inv:
  assumes "length (Str_Comp junk) = 31" and "length junk_1 = 31" and "length junk_2 = 31"
  shows "\<exists>g l. init_globals junk = Some g \<and> init_locals junk_1 junk_2 = Some l \<and>
    dhry_inv (10 + runs_before 0) l g"
  using assms by (simp add: init_globals_def init_locals_def load_def store_def set_at2_def dhry_inv_def
      runs_before_def strings)

lemma ldiv_pos: "0 \<le> a \<Longrightarrow> 0 < b \<Longrightarrow> a div b < 2 ^ 63 \<Longrightarrow> ldiv a b = Some (a div b)"
  by (cases "a = 0") (simp_all add: ldiv_def lck_def pos_imp_zdiv_nonneg_iff order_trans [of _ 0])

section \<open>Properties\<close>



text \<open>The attempt that ends the loop.\<close>

lemma first_long_attempt:
  assumes "\<exists>m \<le> (6 :: nat). 2 * hz \<le> (elapsed m :: int)"
  shows "\<exists>m \<le> 6. 2 * hz \<le> elapsed m \<and> (\<forall>j < m. elapsed j < 2 * hz)"
proof -
  obtain m where m: "m \<le> 6" "2 * hz \<le> elapsed m"
    using assms by blast
  let ?m = "LEAST m. 2 * hz \<le> elapsed m"
  have "?m \<le> 6"
    using Least_le [of "\<lambda>m. 2 * hz \<le> elapsed m" m] m by simp
  moreover have "2 * hz \<le> elapsed ?m"
    using m(2) by (rule LeastI)
  moreover have "elapsed j < 2 * hz" if "j < ?m" for j
    using not_less_Least [OF that] by simp
  ultimately show ?thesis
    by blast
qed

text \<open>
  C13: The measuring loop ends, in defined behaviour, exactly when one of the first seven attempts takes the
  two seconds it asks for; otherwise the number of runs overflows.
\<close>

theorem dhrystone_terminates_iff:
  assumes "length (Str_Comp junk) = 31" and "length junk_1 = 31" and "length junk_2 = 31"
    and "0 < hz" and "2 * hz \<le> int_max"
  shows "(\<exists>r. do { g \<leftarrow> init_globals junk; l \<leftarrow> init_locals junk_1 junk_2;
      measure_loop elapsed hz 0 NUMBER_OF_RUNS l g } = Some r) \<longleftrightarrow> (\<exists>m \<le> 6. 2 * hz \<le> elapsed m)"
proof -
  obtain g0 l0 where init: "init_globals junk = Some g0" "init_locals junk_1 junk_2 = Some l0"
      and inv0: "dhry_inv (10 + runs_before 0) l0 g0"
    using init_inv [OF assms(1-3)] by blast
  have "(\<exists>r. measure_loop elapsed hz 0 (runs_of 0) l0 g0 = Some r) \<longleftrightarrow> (\<exists>m \<le> 6. 2 * hz \<le> elapsed m)"
  proof
    assume "\<exists>r. measure_loop elapsed hz 0 (runs_of 0) l0 g0 = Some r"
    then show "\<exists>m \<le> 6. 2 * hz \<le> elapsed m"
      using measure_loop_overflow [of 0 l0 g0 hz elapsed] inv0 assms(4,5) by (force simp: not_le)
  next
    assume "\<exists>m \<le> 6. 2 * hz \<le> elapsed m"
    from first_long_attempt [OF this] obtain m
      where "m \<le> 6" "2 * hz \<le> elapsed m" "\<And>j. j < m \<Longrightarrow> elapsed j < 2 * hz"
      by blast
    then show "\<exists>r. measure_loop elapsed hz 0 (runs_of 0) l0 g0 = Some r"
      using measure_loop_result [of 0 m l0 g0 hz elapsed] inv0 assms(4,5) by blast
  qed
  then show ?thesis
    using init by (simp add: runs_of_def)
qed

theorem dhrystone_terminates_iff_witness:
  "\<not> (\<exists>r. do { g \<leftarrow> init_globals \<lparr>Ptr_Comp = None, Discr = Ident_5, Enum_Comp = Ident_4, Int_Comp = 99,
       Str_Comp = replicate 31 7\<rparr>; l \<leftarrow> init_locals (replicate 31 8) (replicate 31 9);
      measure_loop (\<lambda>k. 1) 100 0 NUMBER_OF_RUNS l g } = Some r)"
  using dhrystone_terminates_iff [of "\<lparr>Ptr_Comp = None, Discr = Ident_5, Enum_Comp = Ident_4, Int_Comp = 99,
       Str_Comp = replicate 31 7\<rparr>" "replicate 31 8" "replicate 31 9" 100 "\<lambda>k. 1"]
  by simp

text \<open>
  The element that is printed next to \<open>Number_Of_Runs + 10\<close> has that value exactly when the first
  measurement was long enough: a repeated measurement goes on counting from the attempts before
  it.
\<close>

theorem dhrystone_run_count:
  assumes "length (Str_Comp junk) = 31" and "length junk_1 = 31" and "length junk_2 = 31"
    and "0 < hz" and "2 * hz \<le> int_max" and "main elapsed hz junk junk_1 junk_2 = Some (n, l, g, us, dps)"
  shows "at2 (Arr_2_Glob g) 8 7 = Some (n + 10) \<longleftrightarrow> 2 * hz \<le> elapsed 0"
proof -
  obtain g0 l0 where init: "init_globals junk = Some g0" "init_locals junk_1 junk_2 = Some l0"
      and inv0: "dhry_inv (10 + runs_before 0) l0 g0"
    using init_inv [OF assms(1-3)] by blast
  obtain k where k: "measure_loop elapsed hz 0 (runs_of 0) l0 g0 = Some (k, n, l, g)"
    using assms(6) init by (auto simp: main_def runs_of_def bind_eq_Some_conv)
  then have "\<exists>m \<le> 6. 2 * hz \<le> elapsed m"
    using measure_loop_overflow [of 0 l0 g0 hz elapsed] inv0 assms(4,5) by (force simp: not_le)
  from first_long_attempt [OF this] obtain m
    where m: "m \<le> 6" "2 * hz \<le> elapsed m" "\<And>j. j < m \<Longrightarrow> elapsed j < 2 * hz"
    by blast
  then have res: "n = runs_of m" "dhry_inv (10 + runs_before (Suc m)) l g"
    using measure_loop_result [of 0 m l0 g0 hz elapsed] inv0 assms(4,5) k by auto
  have "at2 (Arr_2_Glob g) 8 7 = Some (10 + runs_before m + n)"
    using res by (simp add: dhry_inv_def at2_def runs_before_Suc)
  moreover have "runs_before m = 0 \<longleftrightarrow> m = 0"
  proof
    assume "runs_before m = 0"
    then have "(10 :: int) ^ m = 1"
      using runs_before_closed [of m] by simp
    then show "m = 0"
      using one_less_power [of "10 :: int" m] by (cases "m = 0") auto
  qed (simp add: runs_before_def)
  moreover have "m = 0 \<longleftrightarrow> 2 * hz \<le> elapsed 0"
    using m(2,3) by (cases m) (auto simp: not_le)
  ultimately show ?thesis
    by auto
qed

theorem dhrystone_run_count_witness:
  "\<exists>n l g us dps. main (\<lambda>k. if k = 0 then 20 else 210) 100 \<lparr>Ptr_Comp = None, Discr = Ident_5,
       Enum_Comp = Ident_4, Int_Comp = 99, Str_Comp = replicate 31 7\<rparr> (replicate 31 8) (replicate 31 9) =
       Some (n, l, g, us, dps) \<and> at2 (Arr_2_Glob g) 8 7 \<noteq> Some (n + 10)"
proof -
  let ?junk = "\<lparr>Ptr_Comp = None, Discr = Ident_5, Enum_Comp = Ident_4, Int_Comp = 99, Str_Comp = replicate 31 7\<rparr>"
  let ?e = "\<lambda>k :: nat. if k = 0 then 20 else 210 :: int"
  obtain g0 l0 where init: "init_globals ?junk = Some g0"
      "init_locals (replicate 31 8) (replicate 31 9) = Some l0" and inv0: "dhry_inv (10 + runs_before 0) l0 g0"
    using init_inv [of ?junk "replicate 31 8" "replicate 31 9"] by auto
  obtain l g where loop: "measure_loop ?e 100 0 (runs_of 0) l0 g0 = Some (1, runs_of 1, l, g)"
    using measure_loop_result [of 0 1 l0 g0 100 ?e] inv0 by auto
  have "main ?e 100 ?junk (replicate 31 8) (replicate 31 9) = Some (10000, l, g, 0, 4761)"
    using init loop by (simp add: main_def runs_of_def ldiv_def lck_def)
  then show ?thesis
    using dhrystone_run_count [of ?junk "replicate 31 8" "replicate 31 9" 100 ?e 10000 l g 0 4761] by simp
qed

end
