(* ===== verification/Spec2Isabelle.thy ===== *)
theory Spec2Isabelle
  imports CecTheorems CecOperands Swab ByteOrder Ioctl Netlink TipcTlv BitFields Phonet Tcmu Nilfs
    VirtioRing UsbAudio UsbCh9 DvTimings XtSctp XtWalk BlockIo DrmFourcc SeqBuf Dhrystone
begin

text \<open>
  \<^bold>\<open>Verification of the C code of the RISC-V toolchain repository.\<close>

  The repository builds a cross toolchain. What it holds in C is the set of kernel headers a program
  for the target is compiled against (\<open>src/linux-headers/include\<close>) and the benchmark the toolchain is
  tried with (\<open>src/test/benchmarks/dhrystone\<close>). Most headers are constants and structures. This
  development models the ones with code of their own: inline functions and macros that encode, decode,
  walk, lay out or test data. Every definition is executable and keeps the name it has in C, less leading
  underscores.

  \<^bold>\<open>The machine.\<close> \<open>CPrelude\<close> holds what all components share: words for the fixed-width types,
  arrays as lists with checked accesses (\<^term>\<open>None\<close> is an access outside, so a theorem that a function returns
  \<^term>\<open>Some x\<close> is a memory-safety theorem), 16-bit fields in byte buffers and the bit-mask lemmas of all
  masking proofs. \<open>CInt\<close> is signed arithmetic whose overflow is undefined (\<^term>\<open>None\<close>), used by the code that
  computes with \<open>int\<close>. \<open>BitFields\<close> is the contract of a field with a getter and a setter, and of two of
  them in one object under interleaved updates.

  \<^bold>\<open>Consumer electronics control\<close> (\<open>linux/cec.h\<close>, \<open>linux/cec-funcs.h\<close>).
  \<^item> \<open>CecMsg\<close>: the structure \<open>cec_msg\<close> as a record, its accessors and status test, the logical address
    structure and masks; \<open>CecConst\<close>: opcodes and operand values.
  \<^item> \<open>CecCodec\<close>: the locale \<open>cec_codec\<close>, the contract of a family of encoders \<open>cec_msg_x\<close> and decoders
    \<open>cec_ops_x\<close>, with what a client may conclude (round trip, frame injectivity, sessions).
  \<^item> \<open>CecRouting\<close>, \<open>CecService\<close>, \<open>CecRecord\<close>, \<open>CecTimer\<close>, \<open>CecSystem\<close>, \<open>CecVendor\<close>, \<open>CecAudio\<close>,
    \<open>CecCdc\<close>: all functions of \<open>cec-funcs.h\<close> by feature, and an interpretation of the locale for each.
  \<^item> \<open>CecProtocol\<close>: the features put together as one codec; \<open>CecTheorems\<close> and \<open>CecOperands\<close>: the properties.
    Encoders stay inside the 16 bytes, set opcode, addresses, length and expected reply and are inverted by the
    decoders; decoders stay inside payload and buffers on arbitrary input; and four places where the
    library loses or mixes up information are described exactly.

  \<^bold>\<open>Message and table formats.\<close>
  \<^item> \<open>Netlink\<close> (\<open>linux/netlink.h\<close>, \<open>linux/rtnetlink.h\<close>): the macros and the loops made of them. The locale
    \<open>tlv_stream\<close> says what a test and a step have to promise for a loop to end and stay inside its
    buffer, \<open>tlv_writer\<close> what a layout has to promise to be read back.
  \<^item> \<open>TipcTlv\<close> (\<open>linux/tipc_config.h\<close>, \<open>linux/tipc.h\<close>): TLV construction and traversal, configuration
    messages, addresses. It uses the byte order of the two theories below.
  \<^item> \<open>XtWalk\<close> (\<open>linux/netfilter/x_tables.h\<close>, \<open>ip_tables.h\<close>, \<open>ip6_tables.h\<close>, \<open>arp_tables.h\<close>,
    \<open>ebtables.h\<close>): the iteration macros of the packet filters as one loop over bytes with a callback on an explicit
    state; the locale \<open>element_table\<close>, interpreted for the four kinds of table; when the loops return and what
    they visit. The callback does not write the table.
  \<^item> \<open>XtSctp\<close> (\<open>linux/netfilter/xt_sctp.h\<close>): the chunk map as a set of chunk types.
  \<^item> \<open>SeqBuf\<close> (\<open>linux/soundcard.h\<close>): the sequencer macros over a buffer that is dumped when full. The locales
    \<open>seq_dump\<close>, \<open>seq_write\<close> and \<open>seq_device\<close> are the contracts of the two functions the program supplies;
    the sample \<open>seqbuf_dump\<close> of the header satisfies them. Runs are an inductive relation, and
    what reaches the device refines the concatenation of the events.

  \<^bold>\<open>Words and layouts.\<close>
  \<^item> \<open>Swab\<close> and \<open>ByteOrder\<close> (\<open>linux/swab.h\<close>, \<open>linux/byteorder/\<close>): swapping, and conversions on a host of either
    kind, as interpretations of one locale about memory images.
  \<^item> \<open>Ioctl\<close> (\<open>asm-generic/ioctl.h\<close>): ioctl numbers, structure sizes, and the numbers of the CEC ioctls.
  \<^item> \<open>Phonet\<close> (\<open>linux/phonet.h\<close>) and \<open>Tcmu\<close> (\<open>linux/target_core_user.h\<close>): packed fields, as instances of \<open>BitFields\<close>.
  \<^item> \<open>Nilfs\<close> (\<open>linux/nilfs2_ondisk.h\<close>): flag words as sets of flags, record sizes, block positions.
  \<^item> \<open>VirtioRing\<close> (\<open>linux/virtio_ring.h\<close>): ring layout, and the event test as a notification that is given exactly once.
  \<^item> \<open>UsbAudio\<close> and \<open>UsbCh9\<close> (\<open>linux/usb/audio.h\<close>, \<open>linux/usb/ch9.h\<close>): descriptor accessors on raw bytes and records.
  \<^item> \<open>BlockIo\<close> (\<open>linux/ublk_cmd.h\<close>, \<open>linux/btrfs_tree.h\<close>, \<open>linux/fsmap.h\<close>, \<open>linux/raid/md_p.h\<close>): conversions of
    flags, registrations, profiles and counters.
  \<^item> \<open>DvTimings\<close> (\<open>linux/v4l2-dv-timings.h\<close>): all video timings, each compared with what its name says.
  \<^item> \<open>DrmFourcc\<close> (\<open>drm/drm_fourcc.h\<close>): format codes and layout modifiers.

  \<^bold>\<open>Dhrystone\<close> (\<open>dhrystone.h\<close>, \<open>dhrystone.c\<close>, \<open>dhrystone_main.c\<close>): the whole program, with a heap of two records,
  uninitialised variables as \<^term>\<open>None\<close> and the clock as a parameter. It ends with the values it prints as
  expected, and it ends exactly when one of its first seven measurements is long enough.

  \<^bold>\<open>Loops.\<close> A loop bounded by its data is a function with a termination proof. A loop that may run for ever
  (\<open>walk\<close> of \<open>Netlink\<close>, \<open>tlv_loop\<close> of \<open>TipcTlv\<close>, \<open>iterate\<close> of \<open>XtWalk\<close>, the loops of \<open>Dhrystone\<close>) is a
  partial function into an option, where \<^term>\<open>None\<close> is also not returning, and the theorems say when it
  returns. No definition uses fuel.

  \<^bold>\<open>Parameters.\<close> Code outside the repository is an argument: the clock of \<open>Dhrystone\<close>, \<open>write\<close> and the
  program's own \<open>seqbuf_dump\<close> of \<open>SeqBuf\<close>, the callbacks of \<open>XtWalk\<close>, the choice between compiler builtins and open
  code in \<open>Swab\<close>. Hypotheses on them state their documented behaviour and have instances.

  \<^bold>\<open>Not modelled.\<close> Headers that only define constants, structures and ioctl numbers (\<open>nl80211.h\<close>, \<open>bpf.h\<close>,
  \<open>i915_drm.h\<close> and most others) have no operation to be correct. The build scripts run external programs.
  The patches change sources that are not in the repository. Output of \<open>Dhrystone\<close> is modelled as the values
  printed, without their text.
\<close>

end
